(* ===== verification/Rust_Prelude.thy ===== *)
theory Rust_Prelude
  imports Main "HOL-Library.Word" "HOL-Library.Char_ord" "HOL-Library.List_Lexorder"
    "HOL-Library.Sublist" "HOL-Library.Code_Target_Nat"
begin

text \<open>The part of the Rust language and of its standard library that the sources use, and the
generic facts the component theories share.  A Rust \<open>String\<close> is the list of its bytes, a
\<open>Result\<close> is a sum with the error on the left, an \<open>i32\<close> is an integer, and a \<open>DateTime<Utc>\<close> is
the number of nanoseconds since the Unix epoch.  A \<open>Uuid\<close> is its 128-bit value.\<close>

named_theorems rust_str \<open>facts about the string functions of the standard library\<close>
named_theorems as_str_inj \<open>the textual names of the enumerations are pairwise distinct\<close>

type_synonym Uuid = "128 word"
type_synonym DateTime = int

section \<open>Strings\<close>

text \<open>\<open>char::is_whitespace\<close> on the ASCII range; the sources only trim command output and
configuration text.\<close>

definition is_whitespace :: "char \<Rightarrow> bool" where
  "is_whitespace c \<longleftrightarrow> of_char c \<in> {9, 10, 11, 12, 13, 32 :: nat}"

definition trim_start :: "string \<Rightarrow> string" where
  "trim_start s = dropWhile is_whitespace s"

definition trim_end :: "string \<Rightarrow> string" where
  "trim_end s = rev (dropWhile is_whitespace (rev s))"

definition trim :: "string \<Rightarrow> string" where
  "trim s = trim_end (trim_start s)"

definition starts_with :: "string \<Rightarrow> string \<Rightarrow> bool" where
  "starts_with s p \<longleftrightarrow> prefix p s"

definition strip_prefix :: "string \<Rightarrow> string \<Rightarrow> string option" where
  "strip_prefix p s = (if prefix p s then Some (drop (length p) s) else None)"

definition strip_suffix :: "string \<Rightarrow> string \<Rightarrow> string option" where
  "strip_suffix p s = (if suffix p s then Some (take (length s - length p) s) else None)"

fun contains_str :: "string \<Rightarrow> string \<Rightarrow> bool" where
  "contains_str [] p \<longleftrightarrow> p = []"
| "contains_str (c # cs) p \<longleftrightarrow> prefix p (c # cs) \<or> contains_str cs p"

text \<open>\<open>str::split\<close> on a character: always at least one piece.\<close>

fun split_on :: "char \<Rightarrow> string \<Rightarrow> string list" where
  "split_on d [] = [[]]"
| "split_on d (c # cs) =
    (if c = d then [] # split_on d cs
     else case split_on d cs of [] \<Rightarrow> [[c]] | w # ws \<Rightarrow> (c # w) # ws)"

text \<open>\<open>str::lines\<close>: the pieces between line feeds, a final empty piece dropped, one carriage
return removed from the end of each line.\<close>

definition chop_cr :: "string \<Rightarrow> string" where
  "chop_cr l = (if l \<noteq> [] \<and> last l = CHR 0x0D then butlast l else l)"

definition lines :: "string \<Rightarrow> string list" where
  "lines s = (let ps = split_on (CHR 0x0A) s
              in map chop_cr (if last ps = [] then butlast ps else ps))"

text \<open>\<open>str::split_whitespace\<close>.\<close>

definition split_whitespace :: "string \<Rightarrow> string list" where
  "split_whitespace s =
     filter (\<lambda>w. w \<noteq> [])
       (split_on (CHR '' '') (map (\<lambda>c. if is_whitespace c then CHR '' '' else c) s))"

fun join :: "string \<Rightarrow> string list \<Rightarrow> string" where
  "join sep [] = []"
| "join sep [x] = x"
| "join sep (x # y # xs) = x @ sep @ join sep (y # xs)"

text \<open>\<open>str::find(c)\<close>: the position of the first occurrence.\<close>

fun find_char :: "char \<Rightarrow> string \<Rightarrow> nat option" where
  "find_char d [] = None"
| "find_char d (c # cs) = (if c = d then Some 0 else map_option Suc (find_char d cs))"

definition remove_char :: "char \<Rightarrow> string \<Rightarrow> string" where
  "remove_char d s = filter (\<lambda>c. c \<noteq> d) s"

text \<open>ASCII lower case, as in \<open>to_lowercase\<close> on the names of enumeration variants and host
names.\<close>

definition to_lower :: "char \<Rightarrow> char" where
  "to_lower c = (if 65 \<le> (of_char c :: nat) \<and> (of_char c :: nat) \<le> 90
                 then char_of ((of_char c :: nat) + 32) else c)"

definition to_lowercase :: "string \<Rightarrow> string" where
  "to_lowercase s = map to_lower s"

text \<open>The bytes of the em dash, which several messages of the sources contain.\<close>

definition em_dash :: string where
  "em_dash = map char_of [226 :: nat, 128, 148]"

section \<open>Decimal numbers\<close>

definition digit :: "nat \<Rightarrow> char" where
  "digit d = char_of (48 + d)"

fun show_nat :: "nat \<Rightarrow> string" where
  "show_nat n = (if n < 10 then [digit n] else show_nat (n div 10) @ [digit (n mod 10)])"

definition show_int :: "int \<Rightarrow> string" where
  "show_int i = (if i < 0 then CHR ''-'' # show_nat (nat (- i)) else show_nat (nat i))"

declare show_nat.simps [simp del]

text \<open>\<open>char::to_digit\<close> for a radix of at most 16.\<close>

definition to_digit :: "nat \<Rightarrow> char \<Rightarrow> nat option" where
  "to_digit radix c =
     (let n = of_char c :: nat;
          d = (if 48 \<le> n \<and> n \<le> 57 then n - 48
               else if 97 \<le> n \<and> n \<le> 102 then n - 87
               else if 65 \<le> n \<and> n \<le> 70 then n - 55 else 16)
      in if d < radix then Some d else None)"

definition digits_value :: "nat \<Rightarrow> string \<Rightarrow> nat" where
  "digits_value radix ds = foldl (\<lambda>n c. n * radix + the (to_digit radix c)) 0 ds"

section \<open>Integers of fixed width\<close>

text \<open>The cast \<open>as u32\<close> of an \<open>i32\<close>, and \<open>to_le_bytes\<close> of an \<open>i32\<close>.\<close>

definition as_u32 :: "int \<Rightarrow> int" where
  "as_u32 i = i mod 2 ^ 32"

text \<open>The cast of a length to an \<open>i32\<close>.\<close>

definition as_i32 :: "nat \<Rightarrow> int" where
  "as_i32 n = (int n + 2 ^ 31) mod 2 ^ 32 - 2 ^ 31"

definition le_bytes :: "int \<Rightarrow> string" where
  "le_bytes i = map (\<lambda>k. char_of (nat ((i div 256 ^ k) mod 256))) [0, 1, 2, 3]"

definition i32_range :: "int \<Rightarrow> bool" where
  "i32_range i \<longleftrightarrow> - (2 ^ 31) \<le> i \<and> i < 2 ^ 31"

text \<open>\<open>Uuid::as_bytes\<close>: the sixteen bytes, most significant first.\<close>

definition uuid_bytes :: "Uuid \<Rightarrow> string" where
  "uuid_bytes u = map (\<lambda>k. char_of (unat (drop_bit (8 * (15 - k)) u) mod 256)) [0..<16]"

section \<open>Options and results\<close>

definition is_ok :: "'e + 'a \<Rightarrow> bool" where
  "is_ok r = (case r of Inl _ \<Rightarrow> False | Inr _ \<Rightarrow> True)"

definition ok_or :: "'e \<Rightarrow> 'a option \<Rightarrow> 'e + 'a" where
  "ok_or e x = (case x of None \<Rightarrow> Inl e | Some a \<Rightarrow> Inr a)"

definition unwrap_or :: "'a \<Rightarrow> 'a option \<Rightarrow> 'a" where
  "unwrap_or d x = (case x of None \<Rightarrow> d | Some a \<Rightarrow> a)"

lemma is_ok_simps [simp]: "is_ok (Inr a)" "\<not> is_ok (Inl e)"
  by (simp_all add: is_ok_def)

lemma ok_or_simps [simp]: "ok_or e (Some a) = Inr a" "ok_or e None = Inl e"
  by (simp_all add: ok_or_def)

lemma unwrap_or_simps [simp]: "unwrap_or d (Some a) = a" "unwrap_or d None = d"
  by (simp_all add: unwrap_or_def)

section \<open>Facts\<close>

lemma of_char_char_of_small [simp]: "n < 256 \<Longrightarrow> of_char (char_of n :: char) = (n :: nat)"
  by simp

lemma digit_not_ws [simp]: "d < 10 \<Longrightarrow> \<not> is_whitespace (digit d)"
  by (auto simp: is_whitespace_def digit_def)

lemma to_digit_digit [simp]: "d < 10 \<Longrightarrow> 10 \<le> radix \<Longrightarrow> to_digit radix (digit d) = Some d"
  by (simp add: to_digit_def digit_def)

lemma digit_eq_zero_iff: "d < 10 \<Longrightarrow> digit d = CHR ''0'' \<longleftrightarrow> d = 0"
proof -
  assume "d < 10"
  then have "digit d = CHR ''0'' \<longleftrightarrow> of_char (digit d) = (of_char (CHR ''0'') :: nat)"
    by (simp only: of_char_eq_iff)
  also have "\<dots> \<longleftrightarrow> d = 0" using \<open>d < 10\<close> by (simp add: digit_def)
  finally show ?thesis .
qed

lemma show_nat_nonempty [simp, rust_str]: "show_nat n \<noteq> []"
  by (subst show_nat.simps) simp

lemma show_nat_digits [rust_str]: "c \<in> set (show_nat n) \<Longrightarrow> \<exists>d < 10. c = digit d"
proof (induction n rule: show_nat.induct)
  case (1 n)
  then show ?case
    by (cases "n < 10") (auto simp: show_nat.simps [of n] intro: exI [of _ "n mod 10"])
qed

lemma digits_value_append:
  "digits_value r (xs @ [c]) = digits_value r xs * r + the (to_digit r c)"
  by (simp add: digits_value_def)

lemma digits_value_show_nat [simp, rust_str]: "digits_value 10 (show_nat n) = n"
proof (induction n rule: show_nat.induct)
  case (1 n)
  show ?case
  proof (cases "n < 10")
    case True
    then show ?thesis by (simp add: show_nat.simps [of n] digits_value_def)
  next
    case False
    then show ?thesis using 1 by (simp add: show_nat.simps [of n] digits_value_append)
  qed
qed

lemma show_nat_length_le: "n < 10 ^ Suc k \<Longrightarrow> length (show_nat n) \<le> Suc k"
proof (induction k arbitrary: n)
  case 0
  then show ?case by (simp add: show_nat.simps [of n])
next
  case (Suc k)
  then have "n div 10 < 10 ^ Suc k" by (simp add: less_mult_imp_div_less mult.commute)
  then show ?case using Suc.IH by (simp add: show_nat.simps [of n])
qed

lemma show_nat_length_byte: "n < 256 \<Longrightarrow> length (show_nat n) \<le> 3"
  using show_nat_length_le [of n 2] by simp

lemma show_nat_hd_zero [rust_str]: "hd (show_nat n) = CHR ''0'' \<Longrightarrow> n = 0"
proof (induction n rule: show_nat.induct)
  case (1 n)
  then show ?case
    by (cases "n < 10") (auto simp: show_nat.simps [of n] digit_eq_zero_iff)
qed

lemma trim_nil [simp]: "trim [] = []"
  by (simp add: trim_def trim_start_def trim_end_def)

lemma trim_id [rust_str]:
  assumes "\<forall>c \<in> set s. \<not> is_whitespace c"
  shows "trim s = s"
proof -
  have drop_id: "dropWhile is_whitespace t = t" if "set t \<subseteq> set s" for t
    using that assms by (cases t) auto
  show ?thesis by (simp add: trim_def trim_start_def trim_end_def drop_id)
qed

lemma split_on_not_Nil [simp]: "split_on d s \<noteq> []"
  by (induction s) (auto split: list.splits)

lemma split_on_free [rust_str]: "d \<notin> set s \<Longrightarrow> split_on d s = [s]"
  by (induction s) auto

lemma split_on_append_sep [rust_str]:
  "split_on d (s @ d # t) = split_on d s @ split_on d t"
  by (induction s) (auto split: list.splits)

lemma last_split_on_sep: "last (split_on d (s @ [d])) = []"
  by (simp add: split_on_append_sep)

lemma lines_nil [simp]: "lines [] = []"
  by (simp add: lines_def)

lemma lines_append_line [rust_str]:
  assumes "CHR 0x0A \<notin> set l"
  shows "lines (s @ CHR 0x0A # l @ [CHR 0x0A]) = lines (s @ [CHR 0x0A]) @ [chop_cr l]"
  using assms
  by (simp add: lines_def split_on_append_sep split_on_free butlast_append)

lemma lines_one [rust_str]: "CHR 0x0A \<notin> set l \<Longrightarrow> lines (l @ [CHR 0x0A]) = [chop_cr l]"
  by (simp add: lines_def split_on_append_sep split_on_free)

lemma remove_char_notin [simp, rust_str]: "d \<notin> set (remove_char d s)"
  by (simp add: remove_char_def)

lemma le_bytes_length [simp]: "length (le_bytes i) = 4"
  by (simp add: le_bytes_def)

lemma uuid_bytes_length [simp]: "length (uuid_bytes u) = 16"
  by (simp add: uuid_bytes_def)

lemma as_u32_id: "0 \<le> i \<Longrightarrow> i32_range i \<Longrightarrow> as_u32 i = i"
  by (simp add: as_u32_def i32_range_def)

lemma as_u32_range: "0 \<le> as_u32 i \<and> as_u32 i < 2 ^ 32"
  by (simp add: as_u32_def)

end
