(* ===== verification/Fw_Models.thy ===== *)
theory Fw_Models
  imports Rust_Prelude
begin

text \<open>The shared data model, \<open>fw-core/src/models.rs\<close>: the enumerations with their textual names,
the firewall rule, the canonical parts of a rule that enter the drift hash, and the messages the
agent and the manager exchange (\<open>fw-agent/src/pull_client.rs\<close>,
\<open>fw-web/src/routes/agent_api.rs\<close>).  SHA-256 with hexadecimal output is a parameter.\<close>

section \<open>Enumerations\<close>

datatype FirewallAction = Allow | Deny | Reject | Limit | Masquerade

fun FirewallAction_as_str :: "FirewallAction \<Rightarrow> string" where
  "FirewallAction_as_str Allow = ''allow''"
| "FirewallAction_as_str Deny = ''deny''"
| "FirewallAction_as_str Reject = ''reject''"
| "FirewallAction_as_str Limit = ''limit''"
| "FirewallAction_as_str Masquerade = ''masquerade''"

datatype FirewallDefaultPolicy = DefaultAllow | DefaultDeny | DefaultReject

fun FirewallDefaultPolicy_as_str :: "FirewallDefaultPolicy \<Rightarrow> string" where
  "FirewallDefaultPolicy_as_str DefaultAllow = ''allow''"
| "FirewallDefaultPolicy_as_str DefaultDeny = ''deny''"
| "FirewallDefaultPolicy_as_str DefaultReject = ''reject''"

datatype FirewallDirection = In | Out | Forward

fun FirewallDirection_as_str :: "FirewallDirection \<Rightarrow> string" where
  "FirewallDirection_as_str In = ''in''"
| "FirewallDirection_as_str Out = ''out''"
| "FirewallDirection_as_str Forward = ''forward''"

datatype FirewallProtocol = Any | Tcp | Udp | Icmp | Icmpv6 | Gre | Esp | Ah | Sctp

fun FirewallProtocol_as_str :: "FirewallProtocol \<Rightarrow> string" where
  "FirewallProtocol_as_str Any = ''any''"
| "FirewallProtocol_as_str Tcp = ''tcp''"
| "FirewallProtocol_as_str Udp = ''udp''"
| "FirewallProtocol_as_str Icmp = ''icmp''"
| "FirewallProtocol_as_str Icmpv6 = ''icmpv6''"
| "FirewallProtocol_as_str Gre = ''gre''"
| "FirewallProtocol_as_str Esp = ''esp''"
| "FirewallProtocol_as_str Ah = ''ah''"
| "FirewallProtocol_as_str Sctp = ''sctp''"

datatype UserRole = Admin | Operator | Reporter | BreakGlassOperator

fun UserRole_as_str :: "UserRole \<Rightarrow> string" where
  "UserRole_as_str Admin = ''admin''"
| "UserRole_as_str Operator = ''operator''"
| "UserRole_as_str Reporter = ''reporter''"
| "UserRole_as_str BreakGlassOperator = ''break_glass_operator''"

datatype HostHealthStatus = Pending | Healthy | Degraded | Unreachable

datatype CertStatus = CertActive | CertRevoked | CertExpired

datatype AuthProvider = Local | AzureSso | Keycloak | Oidc

datatype PendingActionType =
  ApplyRules | Rollback | SafeModeOn | SafeModeOff | ReloadConfig | AgentUpgrade

fun PendingActionType_text :: "PendingActionType \<Rightarrow> string" where
  "PendingActionType_text ApplyRules = ''apply_rules''"
| "PendingActionType_text Rollback = ''rollback''"
| "PendingActionType_text SafeModeOn = ''safe_mode_on''"
| "PendingActionType_text SafeModeOff = ''safe_mode_off''"
| "PendingActionType_text ReloadConfig = ''reload_config''"
| "PendingActionType_text AgentUpgrade = ''agent_upgrade''"

datatype PendingActionStatus = Queued | Pushing | Delivered | Executed | Failed | Expired

section \<open>Rules and the drift hash\<close>

record FirewallRule =
  fr_id :: Uuid
  fr_name :: string
  fr_description :: string
  fr_action :: FirewallAction
  fr_direction :: FirewallDirection
  fr_protocol :: FirewallProtocol
  fr_src_cidr :: "string option"
  fr_src_port_start :: "int option"
  fr_src_port_end :: "int option"
  fr_dst_cidr :: "string option"
  fr_dst_port_start :: "int option"
  fr_dst_port_end :: "int option"
  fr_interface_in :: "string option"
  fr_interface_out :: "string option"
  fr_comment :: string
  fr_log :: bool
  fr_priority :: int
  fr_created_by :: "Uuid option"
  fr_created_at :: DateTime
  fr_updated_at :: DateTime

record RuleHashParts =
  hp_id :: Uuid
  hp_action :: string
  hp_direction :: string
  hp_protocol :: string
  hp_src_cidr :: "string option"
  hp_dst_cidr :: "string option"
  hp_dst_port_start :: "int option"

text \<open>The bytes one rule feeds to the hasher, and the hash of a list of rules.\<close>

definition opt_bytes :: "('a \<Rightarrow> string) \<Rightarrow> 'a option \<Rightarrow> string" where
  "opt_bytes f x = (case x of None \<Rightarrow> [] | Some a \<Rightarrow> f a)"

definition hash_input :: "RuleHashParts \<Rightarrow> string" where
  "hash_input r = uuid_bytes (hp_id r) @ hp_action r @ hp_direction r @ hp_protocol r
     @ opt_bytes (\<lambda>c. c) (hp_src_cidr r) @ opt_bytes (\<lambda>c. c) (hp_dst_cidr r)
     @ opt_bytes le_bytes (hp_dst_port_start r)"

definition compute_rules_hash :: "(string \<Rightarrow> string) \<Rightarrow> RuleHashParts list \<Rightarrow> string" where
  "compute_rules_hash sha256 rules = sha256 (concat (map hash_input rules))"

section \<open>Messages between agent and manager\<close>

record RuleDto =
  dto_id :: Uuid
  dto_name :: string
  dto_action :: string
  dto_direction :: string
  dto_protocol :: string
  dto_src_cidr :: "string option"
  dto_src_port_start :: "int option"
  dto_src_port_end :: "int option"
  dto_dst_cidr :: "string option"
  dto_dst_port_start :: "int option"
  dto_dst_port_end :: "int option"
  dto_interface_in :: "string option"
  dto_interface_out :: "string option"
  dto_priority :: int
  dto_log :: bool

text \<open>The manager sends one more field, \<open>push_enabled\<close>, which the agent does not read.\<close>

record ConfigUpdate =
  cu_check_in_interval_secs :: int
  cu_push_enabled :: bool
  cu_safe_mode_enabled :: bool
  cu_backend_override :: "string option"
  cu_config_version :: int

record PendingActionDto =
  pad_id :: Uuid
  pad_action_type :: string
  pad_payload :: string
  pad_reason :: string

text \<open>The fields of a check-in the manager decodes; the agent also sends its own \<open>host_id\<close> and the
hash of its binary, which the manager does not read.  A JSON object is a list of its members.\<close>

record CheckInRequest =
  ci_rules_hash :: string
  ci_agent_version :: string
  ci_backend_type :: string
  ci_os_info :: "(string \<times> string) list"
  ci_uptime_seconds :: int
  ci_config_version :: int
  ci_local_drift :: bool

record CheckInResponse =
  cr_rules_changed :: bool
  cr_rules :: "RuleDto list"
  cr_config :: "ConfigUpdate option"
  cr_pending_actions :: "PendingActionDto list"
  cr_default_input_policy :: "string option"
  cr_default_output_policy :: "string option"

record CheckInResultRequest =
  rr_action_id :: "Uuid option"
  rr_success :: bool
  rr_error_message :: "string option"
  rr_new_rules_hash :: string

section \<open>Facts\<close>

lemma FirewallAction_as_str_inj [as_str_inj]:
  "FirewallAction_as_str a = FirewallAction_as_str b \<longleftrightarrow> a = b"
  by (cases a; cases b) simp_all

lemma FirewallDefaultPolicy_as_str_inj [as_str_inj]:
  "FirewallDefaultPolicy_as_str a = FirewallDefaultPolicy_as_str b \<longleftrightarrow> a = b"
  by (cases a; cases b) simp_all

lemma FirewallDirection_as_str_inj [as_str_inj]:
  "FirewallDirection_as_str a = FirewallDirection_as_str b \<longleftrightarrow> a = b"
  by (cases a; cases b) simp_all

lemma FirewallProtocol_as_str_inj [as_str_inj]:
  "FirewallProtocol_as_str a = FirewallProtocol_as_str b \<longleftrightarrow> a = b"
  by (cases a; cases b) simp_all

lemma UserRole_as_str_inj [as_str_inj]: "UserRole_as_str a = UserRole_as_str b \<longleftrightarrow> a = b"
  by (cases a; cases b) simp_all

lemma opt_bytes_simps [simp]: "opt_bytes f None = []" "opt_bytes f (Some a) = f a"
  by (simp_all add: opt_bytes_def)

text \<open>A rule without restrictions, from which concrete instances are built.\<close>

definition plain_rule :: "Uuid \<Rightarrow> FirewallAction \<Rightarrow> FirewallRule" where
  "plain_rule i a =
     \<lparr> fr_id = i, fr_name = ''r'', fr_description = [], fr_action = a, fr_direction = In,
       fr_protocol = Any, fr_src_cidr = None, fr_src_port_start = None, fr_src_port_end = None,
       fr_dst_cidr = None, fr_dst_port_start = None, fr_dst_port_end = None,
       fr_interface_in = None, fr_interface_out = None, fr_comment = [], fr_log = False,
       fr_priority = 0, fr_created_by = None, fr_created_at = 0, fr_updated_at = 0 \<rparr>"

end
