(* ===== verification/Agent_Host.thy ===== *)
theory Agent_Host
  imports Fw_Models
begin

text \<open>The machine the agent runs on, as the agent sees it.  Everything the agent does to it is an
event; the answers of the machine are functions of the events so far, so that every behaviour of
the operating system, of \<open>ufw\<close> and of \<open>firewall-cmd\<close> is some value of \<open>host_env\<close>.  The functions
of \<open>fw-agent/src/backend/mod.rs\<close> that start processes are at the end.\<close>

datatype host_event =
    Cmd string "string list"
  | RemoveFile string
  | WriteFile string
  | TakeLock

type_synonym trace = "host_event list"

text \<open>The outcome of writing to a file: all written, not touched (it could not be opened), or
interrupted after some bytes.\<close>

datatype write_outcome = Written | NotWritten | Partial nat

text \<open>\<open>he_output\<close> is \<open>Command::output\<close>: the error text of a failed start, or the success flag with
standard output and standard error.  \<open>he_shlex\<close> is \<open>shlex::split\<close>, \<open>he_sha256\<close> is SHA-256 with
hexadecimal output, \<open>he_uuid_str\<close> is \<open>Uuid::to_string\<close>, \<open>he_uptime\<close> is the integer part of the
first field of \<open>/proc/uptime\<close>, and \<open>he_os\<close> and \<open>he_arch\<close> are the constants of \<open>std::env\<close>.\<close>

record host_env =
  he_output :: "trace \<Rightarrow> string \<Rightarrow> string list \<Rightarrow> string + bool \<times> string \<times> string"
  he_remove :: "trace \<Rightarrow> string \<Rightarrow> bool"
  he_write :: "trace \<Rightarrow> string \<Rightarrow> write_outcome"
  he_lock :: "trace \<Rightarrow> string + unit"
  he_exists :: "trace \<Rightarrow> string \<Rightarrow> bool"
  he_env_var :: "string \<Rightarrow> bool"
  he_shlex :: "string \<Rightarrow> string list option"
  he_sha256 :: "string \<Rightarrow> string"
  he_uuid_str :: "Uuid \<Rightarrow> string"
  he_uptime :: "trace \<Rightarrow> int"
  he_os :: string
  he_arch :: string

type_synonym cmd_result = "bool \<times> string \<times> string"

definition run_cmd :: "host_env \<Rightarrow> string \<Rightarrow> string list \<Rightarrow> trace \<Rightarrow> cmd_result \<times> trace" where
  "run_cmd env cmd args tr =
     ((case he_output env tr cmd args of
         Inr (ok, out, err) \<Rightarrow> (ok, out, err)
       | Inl e \<Rightarrow> (False, [], e)),
      tr @ [Cmd cmd args])"

definition which :: "host_env \<Rightarrow> string \<Rightarrow> trace \<Rightarrow> bool \<times> trace" where
  "which env cmd tr =
     ((case he_output env tr ''which'' [cmd] of Inr (ok, _, _) \<Rightarrow> ok | Inl _ \<Rightarrow> False),
      tr @ [Cmd ''which'' [cmd]])"

definition ufw_is_active :: "host_env \<Rightarrow> trace \<Rightarrow> bool \<times> trace" where
  "ufw_is_active env tr =
     ((case he_output env tr ''ufw'' [''status''] of
         Inr (_, out, _) \<Rightarrow> contains_str out ''Status: active'' | Inl _ \<Rightarrow> False),
      tr @ [Cmd ''ufw'' [''status'']])"

definition firewalld_is_active :: "host_env \<Rightarrow> trace \<Rightarrow> bool \<times> trace" where
  "firewalld_is_active env tr =
     ((case he_output env tr ''firewall-cmd'' [''--state''] of
         Inr (_, out, _) \<Rightarrow> trim out = ''running'' | Inl _ \<Rightarrow> False),
      tr @ [Cmd ''firewall-cmd'' [''--state'']])"

definition detect_container_runtime :: "host_env \<Rightarrow> trace \<Rightarrow> string option \<times> trace" where
  "detect_container_runtime env tr =
     (if he_exists env tr ''/var/run/docker.sock'' then (Some ''docker'', tr)
      else case which env ''podman'' tr of (podman, tr1) \<Rightarrow>
        if podman then (Some ''podman'', tr1)
        else if he_env_var env ''KUBERNETES_SERVICE_HOST'' then (Some ''kubernetes'', tr1)
        else if he_exists env tr1 ''/run/containerd/containerd.sock''
        then (Some ''containerd'', tr1)
        else (None, tr1))"

datatype backend_kind = UfwBackend | FirewalldBackend

definition detect :: "host_env \<Rightarrow> trace \<Rightarrow> backend_kind option \<times> trace" where
  "detect env tr =
     (case detect_container_runtime env tr of (_, tr0) \<Rightarrow>
      case which env ''ufw'' tr0 of (has_ufw, tr1) \<Rightarrow>
      case (if has_ufw then ufw_is_active env tr1 else (False, tr1)) of (ufw_on, tr2) \<Rightarrow>
      if ufw_on then (Some UfwBackend, tr2)
      else case which env ''firewall-cmd'' tr2 of (has_fwd, tr3) \<Rightarrow>
           case (if has_fwd then firewalld_is_active env tr3 else (False, tr3)) of (fwd_on, tr4) \<Rightarrow>
           if fwd_on then (Some FirewalldBackend, tr4) else (None, tr4))"

section \<open>Classes of events\<close>

text \<open>Commands that only read the state of the machine.\<close>

definition read_only :: "host_event \<Rightarrow> bool" where
  "read_only e \<longleftrightarrow>
     e \<in> {Cmd ''ufw'' [''status''], Cmd ''ufw'' [''status'', ''numbered''],
          Cmd ''ufw'' [''status'', ''verbose''], Cmd ''firewall-cmd'' [''--state''],
          Cmd ''firewall-cmd'' [''--list-all''], Cmd ''firewall-cmd'' [''--get-default-zone''],
          Cmd ''hostname'' []}
     \<or> (\<exists>c. e = Cmd ''which'' [c])"

text \<open>Events of the firewall tools: no file of the agent is written and no lock is taken.\<close>

fun is_tool_event :: "host_event \<Rightarrow> bool" where
  "is_tool_event (Cmd _ _) = True"
| "is_tool_event (RemoveFile _) = True"
| "is_tool_event (WriteFile _) = False"
| "is_tool_event TakeLock = False"

text \<open>\<open>extends P tr tr'\<close>: the trace grew, by events of the given kind.\<close>

definition extends :: "(host_event \<Rightarrow> bool) \<Rightarrow> trace \<Rightarrow> trace \<Rightarrow> bool" where
  "extends P tr tr' \<longleftrightarrow> (\<exists>es. tr' = tr @ es \<and> list_all P es)"

named_theorems extends_intros \<open>how the trace grows along the operations of the host\<close>

lemma extends_refl [extends_intros, simp]: "extends P tr tr"
  by (auto simp: extends_def)

lemma extends_snoc [extends_intros]: "P e \<Longrightarrow> extends P tr (tr @ [e])"
  by (auto simp: extends_def)

lemma extends_trans: "extends P tr tr' \<Longrightarrow> extends P tr' tr'' \<Longrightarrow> extends P tr tr''"
  by (auto simp: extends_def)

lemma extends_append_trans: "extends P (tr @ [e]) tr' \<Longrightarrow> P e \<Longrightarrow> extends P tr tr'"
  by (auto simp: extends_def)

lemma extends_mono: "extends P tr tr' \<Longrightarrow> (\<And>e. P e \<Longrightarrow> Q e) \<Longrightarrow> extends Q tr tr'"
  by (auto simp: extends_def list_all_iff)

lemma extends_prefix: "extends P tr tr' \<Longrightarrow> prefix tr tr'"
  by (auto simp: extends_def)

lemma read_only_tool: "read_only e \<Longrightarrow> is_tool_event e"
  by (auto simp: read_only_def)

lemma run_cmd_trace [simp]: "snd (run_cmd env c as tr) = tr @ [Cmd c as]"
  by (simp add: run_cmd_def)

lemma which_trace [simp]: "snd (which env c tr) = tr @ [Cmd ''which'' [c]]"
  by (simp add: which_def)

lemma detect_container_runtime_extends [extends_intros]:
  "extends read_only tr (snd (detect_container_runtime env tr))"
  by (auto simp: detect_container_runtime_def which_def read_only_def intro!: extends_intros)

lemma detect_extends [extends_intros]: "extends read_only tr (snd (detect env tr))"
proof -
  have ro: "read_only (Cmd ''which'' [c])" "read_only (Cmd ''ufw'' [''status''])"
    "read_only (Cmd ''firewall-cmd'' [''--state''])" for c
    by (auto simp: read_only_def)
  obtain r tr0 where d: "detect_container_runtime env tr = (r, tr0)" by fastforce
  have "extends read_only tr tr0" using detect_container_runtime_extends [of tr env] d by simp
  moreover have "extends read_only tr0 (snd (detect env tr))"
    using ro by (auto simp: detect_def d which_def ufw_is_active_def firewalld_is_active_def
        extends_def split: prod.split)
  ultimately show ?thesis by (rule extends_trans)
qed

section \<open>A concrete machine\<close>

text \<open>A machine on which every command succeeds with empty output, for the concrete instances of the
theorems.  Its splitter knows blanks and single quotes; its digest is the identity.\<close>

fun split_quoted :: "bool \<Rightarrow> string option \<Rightarrow> string \<Rightarrow> string list option" where
  "split_quoted q w [] =
     (if q then None else Some (case w of None \<Rightarrow> [] | Some x \<Rightarrow> [x]))"
| "split_quoted q w (c # cs) =
     (if c = CHR 0x27 then split_quoted (\<not> q) (Some (unwrap_or [] w)) cs
      else if c = CHR '' '' \<and> \<not> q
      then map_option ((@) (case w of None \<Rightarrow> [] | Some x \<Rightarrow> [x])) (split_quoted False None cs)
      else split_quoted q (Some (unwrap_or [] w @ [c])) cs)"

definition calm_env :: host_env where
  "calm_env =
     \<lparr> he_output = (\<lambda>_ _ _. Inr (True, [], [])), he_remove = (\<lambda>_ _. True),
       he_write = (\<lambda>_ _. Written), he_lock = (\<lambda>_. Inr ()), he_exists = (\<lambda>_ _. True),
       he_env_var = (\<lambda>_. False), he_shlex = split_quoted False None, he_sha256 = (\<lambda>s. s),
       he_uuid_str = (\<lambda>u. show_nat (unat u)), he_uptime = (\<lambda>_. 0), he_os = ''linux'',
       he_arch = ''x86_64'' \<rparr>"

end
