(* ===== verification/Agent_Backend.thy ===== *)
theory Agent_Backend
  imports Agent_Host "HOL-Library.Multiset"
begin

text \<open>The firewall backends, \<open>fw-agent/src/backend/mod.rs\<close>: compilation of rules to commands, the
reset with its bounded retry, apply, snapshot, reset and status for UFW and for firewalld.  The
trait \<open>FirewallBackend\<close> is the record \<open>backend\<close>; its contract is the locale \<open>firewall_backend\<close>,
interpreted for both implementations.\<close>

section \<open>Data\<close>

datatype BackendError = CommandFailed string

record ApplyContext =
  ac_manager_ip :: string
  ac_manager_port :: nat
  ac_default_input_policy :: "string option"
  ac_default_output_policy :: "string option"

record ApplyResult =
  ar_applied :: nat
  ar_failed :: nat
  ar_snapshot_hash :: string
  ar_error :: "string option"

record NormalizedSnapshot =
  ns_rules :: "string list"
  ns_hash :: string

record BackendStatus =
  bs_active :: bool
  bs_default_policy_in :: string
  bs_default_policy_out :: string

type_synonym CompiledRules = "string list"

record backend =
  be_name :: string
  be_compile :: "FirewallRule list \<Rightarrow> ApplyContext \<Rightarrow> BackendError + CompiledRules"
  be_apply :: "CompiledRules \<Rightarrow> trace \<Rightarrow> (BackendError + ApplyResult) \<times> trace"
  be_snapshot :: "trace \<Rightarrow> (BackendError + NormalizedSnapshot) \<times> trace"
  be_reset :: "trace \<Rightarrow> (BackendError + unit) \<times> trace"
  be_status :: "trace \<Rightarrow> (BackendError + BackendStatus) \<times> trace"

section \<open>The UFW reset\<close>

definition backup_of_line :: "string \<Rightarrow> string option" where
  "backup_of_line l =
     (case strip_prefix (''ERROR: '' @ [CHR 0x27]) (trim l) of
        None \<Rightarrow> None
      | Some s \<Rightarrow> strip_suffix (CHR 0x27 # '' already exists. Aborting'') s)"

fun find_map :: "('a \<Rightarrow> 'b option) \<Rightarrow> 'a list \<Rightarrow> 'b option" where
  "find_map f [] = None"
| "find_map f (x # xs) = (case f x of None \<Rightarrow> find_map f xs | Some y \<Rightarrow> Some y)"

definition collided_ufw_backup :: "string \<Rightarrow> string option" where
  "collided_ufw_backup stderr = find_map backup_of_line (lines stderr)"

abbreviation reset_args :: "string list" where
  "reset_args \<equiv> [''--force'', ''reset'']"

text \<open>The retry loop; the first argument is the number of iterations left.\<close>

fun reset_retry :: "host_env \<Rightarrow> nat \<Rightarrow> cmd_result \<Rightarrow> trace \<Rightarrow> cmd_result \<times> trace" where
  "reset_retry env 0 r tr = (r, tr)"
| "reset_retry env (Suc k) r tr =
     (case r of (ok, out, err) \<Rightarrow>
      if ok then ((ok, out, err), tr)
      else case collided_ufw_backup err of
             None \<Rightarrow> ((ok, out, err), tr)
           | Some backup \<Rightarrow>
               if \<not> he_remove env tr backup
               then ((ok, out, err), tr @ [RemoveFile backup])
               else case run_cmd env ''ufw'' reset_args (tr @ [RemoveFile backup]) of
                      (r, tr') \<Rightarrow> reset_retry env k r tr')"

definition ufw_force_reset :: "host_env \<Rightarrow> trace \<Rightarrow> cmd_result \<times> trace" where
  "ufw_force_reset env tr =
     (case run_cmd env ''ufw'' reset_args tr of (r, tr') \<Rightarrow> reset_retry env 8 r tr')"

section \<open>Compilation of a rule\<close>

fun FirewallProtocol_debug :: "FirewallProtocol \<Rightarrow> string" where
  "FirewallProtocol_debug Any = ''Any''"
| "FirewallProtocol_debug Tcp = ''Tcp''"
| "FirewallProtocol_debug Udp = ''Udp''"
| "FirewallProtocol_debug Icmp = ''Icmp''"
| "FirewallProtocol_debug Icmpv6 = ''Icmpv6''"
| "FirewallProtocol_debug Gre = ''Gre''"
| "FirewallProtocol_debug Esp = ''Esp''"
| "FirewallProtocol_debug Ah = ''Ah''"
| "FirewallProtocol_debug Sctp = ''Sctp''"

fun port_range :: "int option \<Rightarrow> int option \<Rightarrow> string option" where
  "port_range (Some s) (Some e) =
     (if s = e then Some (show_int s) else Some (show_int s @ '':'' @ show_int e))"
| "port_range (Some s) None = Some (show_int s)"
| "port_range None _ = None"

definition clause :: "string \<Rightarrow> string option \<Rightarrow> string" where
  "clause kw v = (case v of None \<Rightarrow> [] | Some x \<Rightarrow> '' '' @ kw @ '' '' @ x)"

fun ufw_action_word :: "FirewallAction \<Rightarrow> string" where
  "ufw_action_word Allow = '' allow''"
| "ufw_action_word Deny = '' deny''"
| "ufw_action_word Reject = '' reject''"
| "ufw_action_word Limit = '' limit''"
| "ufw_action_word Masquerade = '' masquerade''"

definition compile_ufw_rule :: "FirewallRule \<Rightarrow> string" where
  "compile_ufw_rule rule =
     ''ufw'' @ ufw_action_word (fr_action rule)
     @ (if fr_direction rule = Out then '' out'' else [])
     @ (if fr_log rule then '' log'' else [])
     @ clause ''on'' (if fr_direction rule = Out then fr_interface_out rule
                      else fr_interface_in rule)
     @ (if fr_protocol rule \<noteq> Any
        then '' proto '' @ to_lowercase (FirewallProtocol_debug (fr_protocol rule)) else [])
     @ '' from '' @ unwrap_or ''any'' (fr_src_cidr rule)
     @ clause ''port'' (port_range (fr_src_port_start rule) (fr_src_port_end rule))
     @ '' to '' @ unwrap_or ''any'' (fr_dst_cidr rule)
     @ clause ''port'' (port_range (fr_dst_port_start rule) (fr_dst_port_end rule))
     @ (if fr_comment rule \<noteq> []
        then '' comment '' @ [CHR 0x27] @ remove_char (CHR 0x27) (fr_comment rule) @ [CHR 0x27]
        else [])"

fun firewalld_action_word :: "FirewallAction \<Rightarrow> string" where
  "firewalld_action_word Allow = ''accept''"
| "firewalld_action_word Deny = ''drop''"
| "firewalld_action_word Reject = ''reject''"
| "firewalld_action_word Limit = ''accept''"
| "firewalld_action_word Masquerade = ''masquerade''"

definition compile_firewalld_rule :: "FirewallRule \<Rightarrow> string" where
  "compile_firewalld_rule rule =
     (let action = firewalld_action_word (fr_action rule);
          proto = (if fr_protocol rule = Any then ''all''
                   else to_lowercase (FirewallProtocol_debug (fr_protocol rule)));
          src = unwrap_or ''0.0.0.0/0'' (fr_src_cidr rule);
          port = unwrap_or [] (map_option show_int (fr_dst_port_start rule));
          q = [CHR 0x22];
          head = ''firewall-cmd --permanent --add-rich-rule='' @ [CHR 0x27]
                 @ ''rule family=ipv4 source address='' @ q @ src @ q
      in if port = [] then head @ '' '' @ action @ [CHR 0x27]
         else head @ '' port port='' @ q @ port @ q @ '' protocol='' @ q @ proto @ q @ '' ''
              @ action @ [CHR 0x27])"

section \<open>Running the compiled commands\<close>

text \<open>The loop both backends share: the numbers of commands that succeeded and failed, and the
error messages in order.\<close>

fun run_commands ::
  "host_env \<Rightarrow> string list \<Rightarrow> nat \<times> nat \<times> string list \<Rightarrow> trace \<Rightarrow> (nat \<times> nat \<times> string list) \<times> trace"
  where
  "run_commands env [] acc tr = (acc, tr)"
| "run_commands env (cmd # cmds) (applied, failed, errors) tr =
     (case he_shlex env cmd of
        Some (p # args) \<Rightarrow>
          (case run_cmd env p args tr of ((ok, _, err), tr') \<Rightarrow>
             if ok then run_commands env cmds (applied + 1, failed, errors) tr'
             else run_commands env cmds (applied, failed + 1, errors @ [cmd @ '': '' @ err]) tr')
      | _ \<Rightarrow>
          run_commands env cmds (applied, failed + 1, errors @ [cmd @ '': malformed command'']) tr)"

definition lines_hash :: "host_env \<Rightarrow> string list \<Rightarrow> string" where
  "lines_hash env ls = he_sha256 env (concat (map (\<lambda>l. l @ [CHR 0x0A]) ls))"

section \<open>The UFW backend\<close>

definition umbilical :: "ApplyContext \<Rightarrow> string" where
  "umbilical ctx =
     ''ufw allow out from any to '' @ ac_manager_ip ctx @ '' port ''
     @ show_nat (ac_manager_port ctx) @ '' proto tcp comment ''
     @ [CHR 0x27] @ ''fw-mgr-umbilical'' @ [CHR 0x27]"

definition ufw_compile :: "FirewallRule list \<Rightarrow> ApplyContext \<Rightarrow> BackendError + CompiledRules" where
  "ufw_compile rules ctx =
     Inr ([umbilical ctx]
          @ (case ac_default_input_policy ctx of
               None \<Rightarrow> [] | Some p \<Rightarrow> [''ufw default '' @ p @ '' incoming''])
          @ (case ac_default_output_policy ctx of
               None \<Rightarrow> [] | Some p \<Rightarrow> [''ufw default '' @ p @ '' outgoing''])
          @ map compile_ufw_rule rules)"

definition strip_number :: "string \<Rightarrow> string" where
  "strip_number l =
     (let trimmed = trim l
      in case find_char (CHR '']'') trimmed of
           Some idx \<Rightarrow> trim (drop (idx + 1) trimmed)
         | None \<Rightarrow> trimmed)"

definition ufw_normalize :: "string \<Rightarrow> string list" where
  "ufw_normalize stdout = sort (filter (\<lambda>l. l \<noteq> []) (map strip_number (drop 2 (lines stdout))))"

definition ufw_snapshot :: "host_env \<Rightarrow> trace \<Rightarrow> (BackendError + NormalizedSnapshot) \<times> trace" where
  "ufw_snapshot env tr =
     (case run_cmd env ''ufw'' [''status'', ''numbered''] tr of ((ok, stdout, _), tr') \<Rightarrow>
        if \<not> ok then (Inr \<lparr> ns_rules = [], ns_hash = [] \<rparr>, tr')
        else (Inr \<lparr> ns_rules = ufw_normalize stdout,
                    ns_hash = lines_hash env (ufw_normalize stdout) \<rparr>, tr'))"

definition ufw_apply :: "host_env \<Rightarrow> CompiledRules \<Rightarrow> trace \<Rightarrow> (BackendError + ApplyResult) \<times> trace"
  where
  "ufw_apply env cmds tr =
     (case detect_container_runtime env tr of (_, tr0) \<Rightarrow>
      case ufw_force_reset env tr0 of ((ok1, _, err1), tr1) \<Rightarrow>
      if \<not> ok1
      then (Inr \<lparr> ar_applied = 0, ar_failed = 0, ar_snapshot_hash = [],
                  ar_error = Some (''ufw reset failed: '' @ err1) \<rparr>, tr1)
      else case run_cmd env ''ufw'' [''--force'', ''enable''] tr1 of ((ok2, _, err2), tr2) \<Rightarrow>
      if \<not> ok2
      then (Inr \<lparr> ar_applied = 0, ar_failed = 0, ar_snapshot_hash = [],
                  ar_error = Some (''ufw enable failed: '' @ err2) \<rparr>, tr2)
      else case run_commands env cmds (0, 0, []) tr2 of ((applied, failed, errors), tr3) \<Rightarrow>
           case run_cmd env ''ufw'' [''reload''] tr3 of (_, tr4) \<Rightarrow>
           case ufw_snapshot env tr4 of (s, tr5) \<Rightarrow>
           (case s of
              Inl e \<Rightarrow> (Inl e, tr5)
            | Inr snap \<Rightarrow>
                (Inr \<lparr> ar_applied = applied, ar_failed = failed,
                       ar_snapshot_hash = ns_hash snap,
                       ar_error = (if errors = [] then None else Some (join ''; '' errors)) \<rparr>,
                 tr5)))"

definition ufw_reset :: "host_env \<Rightarrow> trace \<Rightarrow> (BackendError + unit) \<times> trace" where
  "ufw_reset env tr =
     (case ufw_force_reset env tr of ((ok, _, err), tr') \<Rightarrow>
        if \<not> ok then (Inl (CommandFailed err), tr') else (Inr (), tr'))"

definition ufw_status :: "host_env \<Rightarrow> trace \<Rightarrow> (BackendError + BackendStatus) \<times> trace" where
  "ufw_status env tr =
     (case run_cmd env ''ufw'' [''status'', ''verbose''] tr of ((ok, stdout, _), tr') \<Rightarrow>
        (Inr \<lparr> bs_active = (ok \<and> contains_str stdout ''Status: active''),
               bs_default_policy_in =
                 (if contains_str stdout ''deny (incoming)'' then ''deny'' else ''allow''),
               bs_default_policy_out =
                 (if contains_str stdout ''allow (outgoing)'' then ''allow'' else ''deny'') \<rparr>,
         tr'))"

definition ufw_backend :: "host_env \<Rightarrow> backend" where
  "ufw_backend env =
     \<lparr> be_name = ''ufw'', be_compile = ufw_compile, be_apply = ufw_apply env,
       be_snapshot = ufw_snapshot env, be_reset = ufw_reset env, be_status = ufw_status env \<rparr>"

section \<open>The firewalld backend\<close>

definition firewalld_compile ::
  "FirewallRule list \<Rightarrow> ApplyContext \<Rightarrow> BackendError + CompiledRules" where
  "firewalld_compile rules ctx = Inr (map compile_firewalld_rule rules)"

definition firewalld_normalize :: "string \<Rightarrow> string list" where
  "firewalld_normalize stdout = sort (filter (\<lambda>l. l \<noteq> []) (map trim (lines stdout)))"

definition firewalld_snapshot ::
  "host_env \<Rightarrow> trace \<Rightarrow> (BackendError + NormalizedSnapshot) \<times> trace" where
  "firewalld_snapshot env tr =
     (case run_cmd env ''firewall-cmd'' [''--list-all''] tr of ((ok, stdout, _), tr') \<Rightarrow>
        if \<not> ok then (Inr \<lparr> ns_rules = [], ns_hash = [] \<rparr>, tr')
        else (Inr \<lparr> ns_rules = firewalld_normalize stdout,
                    ns_hash = lines_hash env (firewalld_normalize stdout) \<rparr>, tr'))"

definition firewalld_apply ::
  "host_env \<Rightarrow> CompiledRules \<Rightarrow> trace \<Rightarrow> (BackendError + ApplyResult) \<times> trace" where
  "firewalld_apply env cmds tr =
     (case run_commands env cmds (0, 0, []) tr of ((applied, failed, errors), tr1) \<Rightarrow>
      case run_cmd env ''firewall-cmd'' [''--reload''] tr1 of (_, tr2) \<Rightarrow>
      case firewalld_snapshot env tr2 of (s, tr3) \<Rightarrow>
      (case s of
         Inl e \<Rightarrow> (Inl e, tr3)
       | Inr snap \<Rightarrow>
           (Inr \<lparr> ar_applied = applied, ar_failed = failed, ar_snapshot_hash = ns_hash snap,
                  ar_error = (if errors = [] then None else Some (join ''; '' errors)) \<rparr>,
            tr3)))"

definition firewalld_reset :: "host_env \<Rightarrow> trace \<Rightarrow> (BackendError + unit) \<times> trace" where
  "firewalld_reset env tr =
     (case run_cmd env ''firewall-cmd'' [''--permanent'', ''--load-zone-defaults=public''] tr of
        ((ok, _, err), tr1) \<Rightarrow>
        if \<not> ok \<and> \<not> contains_str err ''NO_DEFAULTS'' then (Inl (CommandFailed err), tr1)
        else case run_cmd env ''firewall-cmd'' [''--reload''] tr1 of (_, tr2) \<Rightarrow> (Inr (), tr2))"

definition firewalld_status :: "host_env \<Rightarrow> trace \<Rightarrow> (BackendError + BackendStatus) \<times> trace" where
  "firewalld_status env tr =
     (case run_cmd env ''firewall-cmd'' [''--state''] tr of ((ok, stdout, _), tr1) \<Rightarrow>
      case run_cmd env ''firewall-cmd'' [''--get-default-zone''] tr1 of
        ((default_ok, default_out, _), tr2) \<Rightarrow>
        let default_zone = (if default_ok then trim default_out else ''public'')
        in (Inr \<lparr> bs_active = (ok \<and> trim stdout = ''running''),
                  bs_default_policy_in = default_zone,
                  bs_default_policy_out = default_zone \<rparr>, tr2))"

definition firewalld_backend :: "host_env \<Rightarrow> backend" where
  "firewalld_backend env =
     \<lparr> be_name = ''firewalld'', be_compile = firewalld_compile, be_apply = firewalld_apply env,
       be_snapshot = firewalld_snapshot env, be_reset = firewalld_reset env,
       be_status = firewalld_status env \<rparr>"

text \<open>The backend object \<open>detect\<close> returns.\<close>

fun backend_of :: "host_env \<Rightarrow> backend_kind \<Rightarrow> backend" where
  "backend_of env UfwBackend = ufw_backend env"
| "backend_of env FirewalldBackend = firewalld_backend env"

section \<open>The contract of a backend\<close>

text \<open>What the pull loop relies on: compilation yields at least one command per rule; the operations
touch the machine only through the firewall tools, and a snapshot or a status query changes
nothing; apply accounts for the commands it was given.\<close>

locale firewall_backend =
  fixes B :: backend
  assumes compile_total: "\<exists>cs. be_compile B rules ctx = Inr cs \<and> length rules \<le> length cs"
    and apply_total: "\<exists>r. fst (be_apply B cs tr) = Inr r"
    and apply_trace: "extends is_tool_event tr (snd (be_apply B cs tr))"
    and apply_counts: "fst (be_apply B cs tr) = Inr r \<Longrightarrow> ar_applied r + ar_failed r \<le> length cs"
    and apply_no_error:
      "fst (be_apply B cs tr) = Inr r \<Longrightarrow> ar_error r = None \<Longrightarrow>
         ar_failed r = 0 \<and> ar_applied r = length cs"
    and snapshot_total: "\<exists>s. fst (be_snapshot B tr) = Inr s"
    and snapshot_trace: "extends read_only tr (snd (be_snapshot B tr))"
    and reset_trace: "extends is_tool_event tr (snd (be_reset B tr))"
    and status_total: "\<exists>s. fst (be_status B tr) = Inr s"
    and status_trace: "extends read_only tr (snd (be_status B tr))"
begin

lemma apply_failed_error:
  "fst (be_apply B cs tr) = Inr r \<Longrightarrow> 0 < ar_failed r \<Longrightarrow> ar_error r \<noteq> None"
  using apply_no_error by fastforce

end

section \<open>Facts about the shared parts\<close>

lemma protocol_debug_as_str:
  "to_lowercase (FirewallProtocol_debug p) = FirewallProtocol_as_str p"
  by (cases p) (simp_all, code_simp+)

lemma run_commands_counts:
  assumes "run_commands env cmds (a, f, es) tr = ((a', f', es'), tr')"
  shows "a' + f' = a + f + length cmds \<and> length es' + f = length es + f'"
  using assms
proof (induction cmds arbitrary: a f es tr)
  case Nil
  then show ?case by simp
next
  case (Cons c cs)
  then show ?case
    by (fastforce split: option.splits list.splits prod.splits if_splits)
qed

lemma run_commands_trace [extends_intros]:
  "extends is_tool_event tr (snd (run_commands env cmds acc tr))"
proof (induction cmds arbitrary: acc tr)
  case Nil
  then show ?case by (cases acc) simp
next
  case (Cons c cs)
  obtain a f es where acc: "acc = (a, f, es)" by (cases acc)
  show ?case
  proof (cases "he_shlex env c")
    case None
    then show ?thesis using Cons.IH by (simp add: acc)
  next
    case (Some ps)
    show ?thesis
    proof (cases ps)
      case Nil
      then show ?thesis using Some Cons.IH by (simp add: acc)
    next
      case (Cons p args)
      obtain ok out err where r: "run_cmd env p args tr = ((ok, out, err), tr @ [Cmd p args])"
        by (metis prod.exhaust run_cmd_trace snd_conv)
      have "extends is_tool_event tr (snd (run_commands env cs acc' (tr @ [Cmd p args])))" for acc'
        by (rule extends_append_trans [OF Cons.IH]) simp
      then show ?thesis by (simp add: acc Some \<open>ps = p # args\<close> r)
    qed
  qed
qed

lemma run_commands_first:
  assumes "he_shlex env c = Some (p # args)"
  shows "\<exists>acc'. run_commands env (c # cs) acc tr = run_commands env cs acc' (tr @ [Cmd p args])"
proof -
  obtain a f es where acc: "acc = (a, f, es)" by (cases acc)
  obtain ok out err where r: "run_cmd env p args tr = ((ok, out, err), tr @ [Cmd p args])"
    by (metis prod.exhaust run_cmd_trace snd_conv)
  show ?thesis by (cases ok) (use assms in \<open>auto simp: acc r\<close>)
qed

text \<open>The reset only resets and removes files; how often, and which files.\<close>

definition is_reset_event :: "host_event \<Rightarrow> bool" where
  "is_reset_event e \<longleftrightarrow> e = Cmd ''ufw'' reset_args \<or> (\<exists>b. e = RemoveFile b)"

lemma is_reset_event_simps [simp]:
  "is_reset_event (RemoveFile b)" "is_reset_event (Cmd ''ufw'' reset_args)"
  by (simp_all add: is_reset_event_def)

definition num_resets :: "trace \<Rightarrow> nat" where
  "num_resets es = length (filter (\<lambda>e. e = Cmd ''ufw'' reset_args) es)"

text \<open>\<open>named_by_ufw env b\<close>: some failed reset of this host reported \<open>b\<close> as an existing backup.\<close>

definition named_by_ufw :: "host_env \<Rightarrow> string \<Rightarrow> bool" where
  "named_by_ufw env b \<longleftrightarrow>
     (\<exists>tr out err. fst (run_cmd env ''ufw'' reset_args tr) = (False, out, err)
                   \<and> collided_ufw_backup err = Some b)"

text \<open>A run of the reset whose events are \<open>es\<close> and whose result is the one of its last reset.\<close>

definition reset_run :: "host_env \<Rightarrow> cmd_result \<Rightarrow> trace \<Rightarrow> bool" where
  "reset_run env r tr \<longleftrightarrow>
     (\<exists>tr'. tr = tr' @ [Cmd ''ufw'' reset_args] \<and> fst (run_cmd env ''ufw'' reset_args tr') = r)"

lemma reset_run_run_cmd:
  "reset_run env (fst (run_cmd env ''ufw'' reset_args tr)) (tr @ [Cmd ''ufw'' reset_args])"
  by (auto simp: reset_run_def)

lemma reset_retry_events:
  assumes "reset_run env r tr"
  shows "\<exists>es. snd (reset_retry env k r tr) = tr @ es \<and> list_all is_reset_event es
      \<and> num_resets es \<le> k \<and> (\<forall>b. RemoveFile b \<in> set es \<longrightarrow> named_by_ufw env b)
      \<and> (fst (fst (reset_retry env k r tr)) \<longrightarrow>
            reset_run env (fst (reset_retry env k r tr)) (tr @ es))"
  using assms
proof (induction k arbitrary: r tr)
  case 0
  then show ?case by (simp add: num_resets_def)
next
  case (Suc k)
  obtain ok out err where r: "r = (ok, out, err)" by (cases r)
  show ?case
  proof (cases "ok \<or> collided_ufw_backup err = None")
    case True
    then show ?thesis using Suc.prems by (auto simp: r num_resets_def intro!: exI [of _ "[]"])
  next
    case False
    then obtain b where ok: "\<not> ok" and b: "collided_ufw_backup err = Some b" by auto
    have named: "named_by_ufw env b"
      using Suc.prems ok b by (auto simp: r reset_run_def named_by_ufw_def)
    show ?thesis
    proof (cases "he_remove env tr b")
      case False
      then show ?thesis
        using ok b named
        by (auto simp: r num_resets_def intro!: exI [of _ "[RemoveFile b]"])
    next
      case True
      let ?t = "tr @ [RemoveFile b]" and ?c = "Cmd ''ufw'' reset_args"
      obtain r' where c: "run_cmd env ''ufw'' reset_args ?t = (r', ?t @ [?c])"
        by (metis prod.exhaust run_cmd_trace snd_conv)
      have "reset_run env r' (?t @ [?c])" using reset_run_run_cmd [of env ?t] c by simp
      from Suc.IH [OF this] obtain es where es:
        "snd (reset_retry env k r' (?t @ [?c])) = (?t @ [?c]) @ es" "list_all is_reset_event es"
        "num_resets es \<le> k" "\<forall>b. RemoveFile b \<in> set es \<longrightarrow> named_by_ufw env b"
        "fst (fst (reset_retry env k r' (?t @ [?c]))) \<longrightarrow>
            reset_run env (fst (reset_retry env k r' (?t @ [?c]))) ((?t @ [?c]) @ es)"
        by blast
      have step: "reset_retry env (Suc k) r tr = reset_retry env k r' (?t @ [?c])"
        using ok b True c by (simp add: r)
      show ?thesis
        unfolding step
        using es named
        by (auto simp: num_resets_def intro!: exI [of _ "RemoveFile b # ?c # es"])
    qed
  qed
qed

lemma ufw_force_reset_events:
  "\<exists>es. snd (ufw_force_reset env tr) = tr @ es \<and> list_all is_reset_event es
      \<and> num_resets es \<le> 9 \<and> (\<forall>b. RemoveFile b \<in> set es \<longrightarrow> named_by_ufw env b)
      \<and> (fst (fst (ufw_force_reset env tr)) \<longrightarrow>
            reset_run env (fst (ufw_force_reset env tr)) (tr @ es))"
proof -
  let ?c = "Cmd ''ufw'' reset_args"
  obtain r where c: "run_cmd env ''ufw'' reset_args tr = (r, tr @ [?c])"
    by (metis prod.exhaust run_cmd_trace snd_conv)
  have "reset_run env r (tr @ [?c])" using reset_run_run_cmd [of env tr] c by simp
  from reset_retry_events [OF this, of 8] obtain es where
    "snd (reset_retry env 8 r (tr @ [?c])) = (tr @ [?c]) @ es" "list_all is_reset_event es"
    "num_resets es \<le> 8" "\<forall>b. RemoveFile b \<in> set es \<longrightarrow> named_by_ufw env b"
    "fst (fst (reset_retry env 8 r (tr @ [?c]))) \<longrightarrow>
        reset_run env (fst (reset_retry env 8 r (tr @ [?c]))) ((tr @ [?c]) @ es)"
    by blast
  then show ?thesis
    by (auto simp: ufw_force_reset_def c num_resets_def
        intro!: exI [of _ "?c # es"])
qed

lemma ufw_force_reset_resets: "extends is_reset_event tr (snd (ufw_force_reset env tr))"
  using ufw_force_reset_events [of env tr] by (auto simp: extends_def)

lemma reset_event_tool: "is_reset_event e \<Longrightarrow> is_tool_event e"
  by (auto simp: is_reset_event_def)

lemma ufw_force_reset_trace [extends_intros]:
  "extends is_tool_event tr (snd (ufw_force_reset env tr))"
  by (rule extends_mono [OF ufw_force_reset_resets reset_event_tool])

section \<open>Both backends meet the contract\<close>

lemma ufw_snapshot_facts:
  "\<exists>s. fst (ufw_snapshot env tr) = Inr s"
  "snd (ufw_snapshot env tr) = tr @ [Cmd ''ufw'' [''status'', ''numbered'']]"
  by (auto simp: ufw_snapshot_def run_cmd_def split: prod.split)

lemma firewalld_snapshot_facts:
  "\<exists>s. fst (firewalld_snapshot env tr) = Inr s"
  "snd (firewalld_snapshot env tr) = tr @ [Cmd ''firewall-cmd'' [''--list-all'']]"
  by (auto simp: firewalld_snapshot_def run_cmd_def split: prod.split)

text \<open>The three outcomes of an apply with UFW.\<close>

lemma ufw_apply_cases:
  obtains (reset_failed) e tr1 where
      "ufw_apply env cmds tr = (Inr \<lparr> ar_applied = 0, ar_failed = 0, ar_snapshot_hash = [],
         ar_error = Some e \<rparr>, tr1)"
      "\<not> fst (fst (ufw_force_reset env (snd (detect_container_runtime env tr))))"
      "tr1 = snd (ufw_force_reset env (snd (detect_container_runtime env tr)))"
  | (enable_failed) e tr1 where
      "ufw_apply env cmds tr = (Inr \<lparr> ar_applied = 0, ar_failed = 0, ar_snapshot_hash = [],
         ar_error = Some e \<rparr>, tr1 @ [Cmd ''ufw'' [''--force'', ''enable'']])"
      "tr1 = snd (ufw_force_reset env (snd (detect_container_runtime env tr)))"
  | (ran) tr1 a f es tr3 h where
      "ufw_apply env cmds tr = (Inr \<lparr> ar_applied = a, ar_failed = f, ar_snapshot_hash = h,
         ar_error = (if es = [] then None else Some (join ''; '' es)) \<rparr>,
         tr3 @ [Cmd ''ufw'' [''reload''], Cmd ''ufw'' [''status'', ''numbered'']])"
      "tr1 = snd (ufw_force_reset env (snd (detect_container_runtime env tr)))"
      "run_commands env cmds (0, 0, []) (tr1 @ [Cmd ''ufw'' [''--force'', ''enable'']])
         = ((a, f, es), tr3)"
proof -
  obtain rt tr0 where d: "detect_container_runtime env tr = (rt, tr0)" by fastforce
  obtain ok1 o1 e1 tr1 where r: "ufw_force_reset env tr0 = ((ok1, o1, e1), tr1)"
    by (metis prod.exhaust)
  obtain ok2 o2 e2 where en: "run_cmd env ''ufw'' [''--force'', ''enable''] tr1
      = ((ok2, o2, e2), tr1 @ [Cmd ''ufw'' [''--force'', ''enable'']])"
    by (metis prod.exhaust run_cmd_trace snd_conv)
  obtain a f es tr3 where rc: "run_commands env cmds (0, 0, [])
      (tr1 @ [Cmd ''ufw'' [''--force'', ''enable'']]) = ((a, f, es), tr3)"
    by (metis prod.exhaust)
  obtain snap where sn: "ufw_snapshot env (tr3 @ [Cmd ''ufw'' [''reload'']])
      = (Inr snap, tr3 @ [Cmd ''ufw'' [''reload''], Cmd ''ufw'' [''status'', ''numbered'']])"
    using ufw_snapshot_facts [of env "tr3 @ [Cmd ''ufw'' [''reload'']]"]
    by (metis append.assoc append_Cons append_Nil prod.collapse)
  show thesis
  proof (cases ok1)
    case False
    then have "ufw_apply env cmds tr = (Inr \<lparr> ar_applied = 0, ar_failed = 0, ar_snapshot_hash = [],
        ar_error = Some (''ufw reset failed: '' @ e1) \<rparr>, tr1)"
      by (simp add: ufw_apply_def d r)
    then show thesis by (rule reset_failed) (simp_all add: d r False)
  next
    case ok1: True
    show thesis
    proof (cases ok2)
      case False
      then have "ufw_apply env cmds tr = (Inr \<lparr> ar_applied = 0, ar_failed = 0,
          ar_snapshot_hash = [], ar_error = Some (''ufw enable failed: '' @ e2) \<rparr>,
          tr1 @ [Cmd ''ufw'' [''--force'', ''enable'']])"
        using ok1 by (simp add: ufw_apply_def d r en)
      then show thesis by (rule enable_failed) (simp add: d r)
    next
      case True
      obtain z where "run_cmd env ''ufw'' [''reload''] tr3 = (z, tr3 @ [Cmd ''ufw'' [''reload'']])"
        by (metis prod.exhaust run_cmd_trace snd_conv)
      then have "ufw_apply env cmds tr = (Inr \<lparr> ar_applied = a, ar_failed = f,
          ar_snapshot_hash = ns_hash snap,
          ar_error = (if es = [] then None else Some (join ''; '' es)) \<rparr>,
          tr3 @ [Cmd ''ufw'' [''reload''], Cmd ''ufw'' [''status'', ''numbered'']])"
        using ok1 True by (simp add: ufw_apply_def d r en rc sn)
      then show thesis by (rule ran [OF _ _ rc]) (simp add: d r)
    qed
  qed
qed

lemma ufw_apply_reset_failed:
  assumes "\<not> fst (fst (ufw_force_reset env (snd (detect_container_runtime env tr))))"
  shows "\<exists>e tr'. ufw_apply env cmds tr
    = (Inr \<lparr> ar_applied = 0, ar_failed = 0, ar_snapshot_hash = [], ar_error = Some e \<rparr>, tr')"
proof -
  obtain rt tr0 where d: "detect_container_runtime env tr = (rt, tr0)" by fastforce
  obtain out err tr1 where "ufw_force_reset env tr0 = ((False, out, err), tr1)"
    using assms d by (metis (full_types) fst_conv prod.exhaust snd_conv)
  then show ?thesis by (simp add: ufw_apply_def d)
qed

lemma ufw_apply_trace [extends_intros]:
  "extends is_tool_event tr (snd (ufw_apply env cmds tr))"
proof -
  let ?tr1 = "snd (ufw_force_reset env (snd (detect_container_runtime env tr)))"
  have "extends is_tool_event tr (snd (detect_container_runtime env tr))"
    by (rule extends_mono [OF detect_container_runtime_extends read_only_tool])
  then have tr1: "extends is_tool_event tr ?tr1"
    by (rule extends_trans [OF _ ufw_force_reset_trace])
  show ?thesis
  proof (cases rule: ufw_apply_cases [of env cmds tr])
    case (reset_failed e tr1)
    then show ?thesis using tr1 by simp
  next
    case (enable_failed e tr1)
    then show ?thesis using tr1 by (auto simp: extends_def)
  next
    case (ran tr1 a f es tr3 h)
    have "extends is_tool_event (tr1 @ [Cmd ''ufw'' [''--force'', ''enable'']]) tr3"
      using run_commands_trace [of _ env cmds] ran(3) by (metis snd_conv)
    then have "extends is_tool_event tr1 tr3" by (rule extends_append_trans) simp
    with tr1 ran(2) have "extends is_tool_event tr tr3" by (auto intro: extends_trans)
    then show ?thesis using ran(1) by (auto simp: extends_def)
  qed
qed

interpretation ufw: firewall_backend "ufw_backend env" for env
proof
  fix rules ctx cs tr r
  let ?B = "ufw_backend env"
  show "\<exists>cs. be_compile ?B rules ctx = Inr cs \<and> length rules \<le> length cs"
    by (simp add: ufw_backend_def ufw_compile_def)
  show "\<exists>r. fst (be_apply ?B cs tr) = Inr r"
    by (cases rule: ufw_apply_cases [of env cs tr]) (simp_all add: ufw_backend_def)
  show "extends is_tool_event tr (snd (be_apply ?B cs tr))"
    by (simp add: ufw_backend_def ufw_apply_trace)
  show "fst (be_apply ?B cs tr) = Inr r \<Longrightarrow> ar_applied r + ar_failed r \<le> length cs"
    by (cases rule: ufw_apply_cases [of env cs tr])
      (auto simp: ufw_backend_def dest!: run_commands_counts)
  show "fst (be_apply ?B cs tr) = Inr r \<Longrightarrow> ar_error r = None \<Longrightarrow>
      ar_failed r = 0 \<and> ar_applied r = length cs"
    by (cases rule: ufw_apply_cases [of env cs tr])
      (auto simp: ufw_backend_def dest!: run_commands_counts split: if_splits)
  show "\<exists>s. fst (be_snapshot ?B tr) = Inr s"
    by (simp add: ufw_backend_def ufw_snapshot_facts)
  show "extends read_only tr (snd (be_snapshot ?B tr))"
    by (simp add: ufw_backend_def ufw_snapshot_facts extends_snoc read_only_def)
  show "extends is_tool_event tr (snd (be_reset ?B tr))"
    using ufw_force_reset_trace [of tr env]
    by (auto simp: ufw_backend_def ufw_reset_def split: prod.split)
  show "\<exists>s. fst (be_status ?B tr) = Inr s"
    by (simp add: ufw_backend_def ufw_status_def split: prod.split)
  show "extends read_only tr (snd (be_status ?B tr))"
    by (auto simp: ufw_backend_def ufw_status_def run_cmd_def read_only_def intro!: extends_snoc
        split: prod.split)
qed

text \<open>firewalld: an apply always runs its commands.\<close>

lemma firewalld_apply_ran:
  obtains a f es tr1 h where
    "firewalld_apply env cmds tr = (Inr \<lparr> ar_applied = a, ar_failed = f, ar_snapshot_hash = h,
       ar_error = (if es = [] then None else Some (join ''; '' es)) \<rparr>,
       tr1 @ [Cmd ''firewall-cmd'' [''--reload''], Cmd ''firewall-cmd'' [''--list-all'']])"
    "run_commands env cmds (0, 0, []) tr = ((a, f, es), tr1)"
proof -
  let ?rl = "Cmd ''firewall-cmd'' [''--reload'']"
  obtain a f es tr1 where rc: "run_commands env cmds (0, 0, []) tr = ((a, f, es), tr1)"
    by (metis prod.exhaust)
  obtain z where rl: "run_cmd env ''firewall-cmd'' [''--reload''] tr1 = (z, tr1 @ [?rl])"
    by (metis prod.exhaust run_cmd_trace snd_conv)
  obtain snap where sn: "firewalld_snapshot env (tr1 @ [?rl])
      = (Inr snap, tr1 @ [?rl, Cmd ''firewall-cmd'' [''--list-all'']])"
    using firewalld_snapshot_facts [of env "tr1 @ [?rl]"]
    by (metis append.assoc append_Cons append_Nil prod.collapse)
  have "firewalld_apply env cmds tr = (Inr \<lparr> ar_applied = a, ar_failed = f,
      ar_snapshot_hash = ns_hash snap,
      ar_error = (if es = [] then None else Some (join ''; '' es)) \<rparr>,
      tr1 @ [?rl, Cmd ''firewall-cmd'' [''--list-all'']])"
    by (simp add: firewalld_apply_def rc rl sn)
  then show thesis by (rule that [OF _ rc])
qed

interpretation firewalld: firewall_backend "firewalld_backend env" for env
proof
  fix rules ctx cs tr r
  let ?B = "firewalld_backend env"
  obtain a f es tr1 h where ap: "firewalld_apply env cs tr = (Inr \<lparr> ar_applied = a, ar_failed = f,
       ar_snapshot_hash = h, ar_error = (if es = [] then None else Some (join ''; '' es)) \<rparr>,
       tr1 @ [Cmd ''firewall-cmd'' [''--reload''], Cmd ''firewall-cmd'' [''--list-all'']])"
    and rc: "run_commands env cs (0, 0, []) tr = ((a, f, es), tr1)"
    by (rule firewalld_apply_ran)
  note counts = run_commands_counts [OF rc]
  show "\<exists>cs. be_compile ?B rules ctx = Inr cs \<and> length rules \<le> length cs"
    by (simp add: firewalld_backend_def firewalld_compile_def)
  show "\<exists>r. fst (be_apply ?B cs tr) = Inr r"
    by (simp add: firewalld_backend_def ap)
  show "extends is_tool_event tr (snd (be_apply ?B cs tr))"
    using run_commands_trace [of tr env cs "(0, 0, [])"]
    by (auto simp: firewalld_backend_def ap rc extends_def)
  show "fst (be_apply ?B cs tr) = Inr r \<Longrightarrow> ar_applied r + ar_failed r \<le> length cs"
    using counts by (auto simp: firewalld_backend_def ap)
  show "fst (be_apply ?B cs tr) = Inr r \<Longrightarrow> ar_error r = None \<Longrightarrow>
      ar_failed r = 0 \<and> ar_applied r = length cs"
    using counts by (auto simp: firewalld_backend_def ap split: if_splits)
  show "\<exists>s. fst (be_snapshot ?B tr) = Inr s"
    by (simp add: firewalld_backend_def firewalld_snapshot_facts)
  show "extends read_only tr (snd (be_snapshot ?B tr))"
    by (simp add: firewalld_backend_def firewalld_snapshot_facts extends_snoc read_only_def)
  show "extends is_tool_event tr (snd (be_reset ?B tr))"
    by (auto simp: firewalld_backend_def firewalld_reset_def run_cmd_def extends_def
        split: prod.split)
  show "\<exists>s. fst (be_status ?B tr) = Inr s"
    by (simp add: firewalld_backend_def firewalld_status_def Let_def split: prod.split)
  show "extends read_only tr (snd (be_status ?B tr))"
    by (auto simp: firewalld_backend_def firewalld_status_def run_cmd_def read_only_def extends_def
        Let_def split: prod.split)
qed

lemma backend_of_contract: "firewall_backend (backend_of env k)"
  by (cases k) (simp_all add: ufw.firewall_backend_axioms firewalld.firewall_backend_axioms)

section \<open>Properties\<close>

text \<open>C1. The umbilical comes first.  Whenever an apply with UFW gets past the reset and runs any
of the commands compiled for a policy, the first command it runs after enabling the firewall is the
outbound allow towards the manager; before it there are only the container probe, resets and the
removal of backup files.\<close>

theorem ufw_umbilical_first:
  assumes "ufw_compile rules ctx = Inr cmds"
    and "he_shlex env (umbilical ctx) = Some (''ufw'' # args)"
    and "fst (ufw_apply env cmds tr) = Inr r" and "0 < ar_applied r + ar_failed r"
  shows "\<exists>pre post. snd (ufw_apply env cmds tr)
           = tr @ pre @ [Cmd ''ufw'' [''--force'', ''enable''], Cmd ''ufw'' args] @ post
         \<and> (\<forall>e \<in> set pre. read_only e \<or> is_reset_event e)"
proof -
  obtain cs where cmds: "cmds = umbilical ctx # cs"
    using assms(1) by (auto simp: ufw_compile_def)
  let ?tr0 = "snd (detect_container_runtime env tr)"
  obtain es0 where e0: "?tr0 = tr @ es0" "list_all read_only es0"
    using detect_container_runtime_extends [of tr env] by (auto simp: extends_def)
  obtain es1 where e1: "snd (ufw_force_reset env ?tr0) = ?tr0 @ es1" "list_all is_reset_event es1"
    using ufw_force_reset_resets [of ?tr0 env] by (auto simp: extends_def)
  show ?thesis
  proof (cases rule: ufw_apply_cases [of env cmds tr])
    case (ran tr1 a f es tr3 h)
    let ?en = "Cmd ''ufw'' [''--force'', ''enable'']"
    obtain acc' where "run_commands env cmds (0, 0, []) (tr1 @ [?en])
        = run_commands env cs acc' (tr1 @ [?en, Cmd ''ufw'' args])"
      using run_commands_first [OF assms(2), of cs "(0, 0, [])" "tr1 @ [?en]"] by (auto simp: cmds)
    then have "extends is_tool_event (tr1 @ [?en, Cmd ''ufw'' args]) tr3"
      using run_commands_trace [of "tr1 @ [?en, Cmd ''ufw'' args]" env cs acc'] ran(3)
      by (metis snd_conv)
    then obtain es3 where "tr3 = tr1 @ [?en, Cmd ''ufw'' args] @ es3"
      by (auto simp: extends_def)
    then show ?thesis
      using ran(1,2) e0 e1
      by (intro exI [of _ "es0 @ es1"]
          exI [of _ "es3 @ [Cmd ''ufw'' [''reload''], Cmd ''ufw'' [''status'', ''numbered'']]"])
        (auto simp: list_all_iff)
  qed (use assms(3,4) in auto)
qed

definition sample_ctx :: ApplyContext where
  "sample_ctx = \<lparr> ac_manager_ip = ''10.0.0.5'', ac_manager_port = 8443,
     ac_default_input_policy = None, ac_default_output_policy = Some ''deny'' \<rparr>"

theorem ufw_umbilical_first_witness:
  "\<exists>pre post. snd (ufw_apply calm_env
        [umbilical sample_ctx, ''ufw default deny outgoing'', compile_ufw_rule (plain_rule 1 Deny)] [])
      = [] @ pre @ [Cmd ''ufw'' [''--force'', ''enable''],
          Cmd ''ufw'' [''allow'', ''out'', ''from'', ''any'', ''to'', ''10.0.0.5'', ''port'', ''8443'',
            ''proto'', ''tcp'', ''comment'', ''fw-mgr-umbilical'']] @ post
    \<and> (\<forall>e \<in> set pre. read_only e \<or> is_reset_event e)"
proof (rule ufw_umbilical_first)
  show "ufw_compile [plain_rule 1 Deny] sample_ctx = Inr [umbilical sample_ctx,
      ''ufw default deny outgoing'', compile_ufw_rule (plain_rule 1 Deny)]"
    by (simp add: ufw_compile_def sample_ctx_def)
  show "he_shlex calm_env (umbilical sample_ctx) = Some (''ufw'' # [''allow'', ''out'', ''from'',
      ''any'', ''to'', ''10.0.0.5'', ''port'', ''8443'', ''proto'', ''tcp'', ''comment'',
      ''fw-mgr-umbilical''])"
    by code_simp
  show "fst (ufw_apply calm_env [umbilical sample_ctx, ''ufw default deny outgoing'',
      compile_ufw_rule (plain_rule 1 Deny)] []) = Inr \<lparr> ar_applied = 3, ar_failed = 0,
      ar_snapshot_hash = [], ar_error = None \<rparr>"
    by code_simp
qed simp

text \<open>An apply accounts for its commands, with either backend: it always returns a result, the
commands it counts are at most those it was given, and if it reports no error then none failed and
every one of them was run with success.\<close>

theorem apply_accounting:
  "\<exists>r. fst (be_apply (backend_of env k) cmds tr) = Inr r
     \<and> ar_applied r + ar_failed r \<le> length cmds
     \<and> (ar_error r = None \<longrightarrow> ar_failed r = 0 \<and> ar_applied r = length cmds)"
proof -
  obtain r where r: "fst (be_apply (backend_of env k) cmds tr) = Inr r"
    using firewall_backend.apply_total [OF backend_of_contract] by blast
  then show ?thesis
    using firewall_backend.apply_counts [OF backend_of_contract r]
      firewall_backend.apply_no_error [OF backend_of_contract r] by auto
qed

theorem apply_accounting_witness:
  "\<exists>r. fst (be_apply (backend_of calm_env FirewalldBackend) [''firewall-cmd x''] []) = Inr r
     \<and> ar_applied r + ar_failed r \<le> length [''firewall-cmd x'']
     \<and> (ar_error r = None \<longrightarrow> ar_failed r = 0 \<and> ar_applied r = length [''firewall-cmd x''])"
  by (rule apply_accounting)

text \<open>C35. The UFW reset is bounded and careful.  It resets at most nine times and does nothing else
but remove files; it only removes files that a failed reset of this host named as its existing
backup; and when it reports success, the last thing it did was a reset that succeeded.\<close>

theorem ufw_force_reset_safe:
  "\<exists>es. snd (ufw_force_reset env tr) = tr @ es \<and> list_all is_reset_event es
      \<and> num_resets es \<le> 9 \<and> (\<forall>b. RemoveFile b \<in> set es \<longrightarrow> named_by_ufw env b)
      \<and> (fst (fst (ufw_force_reset env tr)) \<longrightarrow>
            reset_run env (fst (ufw_force_reset env tr)) (tr @ es))"
  by (rule ufw_force_reset_events)

text \<open>A machine whose first reset collides with an existing backup.\<close>

definition colliding_env :: host_env where
  "colliding_env = calm_env \<lparr> he_output := (\<lambda>tr _ _.
     if tr = [] then Inr (False, [], ''ERROR: '' @ [CHR 0x27] @ ''/etc/ufw/b'' @ [CHR 0x27]
                                     @ '' already exists. Aborting'')
     else Inr (True, [], [])) \<rparr>"

theorem ufw_force_reset_safe_witness:
  "snd (ufw_force_reset colliding_env [])
     = [Cmd ''ufw'' reset_args, RemoveFile ''/etc/ufw/b'', Cmd ''ufw'' reset_args]
   \<and> named_by_ufw colliding_env ''/etc/ufw/b''"
proof -
  have tr: "snd (ufw_force_reset colliding_env [])
      = [Cmd ''ufw'' reset_args, RemoveFile ''/etc/ufw/b'', Cmd ''ufw'' reset_args]"
    by code_simp
  from ufw_force_reset_safe [of colliding_env "[]"] tr show ?thesis by auto
qed

text \<open>The drift hash of the UFW backend does not depend on the order of the rules: two listings
whose normalised lines are the same up to order give the same snapshot.  A change of the order of
the live rules, which changes what UFW admits, is therefore not seen as drift.\<close>

theorem ufw_snapshot_ignores_order:
  assumes "mset (map strip_number (drop 2 (lines out1))) = mset (map strip_number (drop 2 (lines out2)))"
    and "he_output env tr ''ufw'' [''status'', ''numbered''] = Inr (True, out1, err1)"
    and "he_output env' tr' ''ufw'' [''status'', ''numbered''] = Inr (True, out2, err2)"
    and "he_sha256 env = he_sha256 env'"
  shows "fst (ufw_snapshot env tr) = fst (ufw_snapshot env' tr')"
proof -
  have "mset (filter (\<lambda>l. l \<noteq> []) (map strip_number (drop 2 (lines out1))))
      = mset (filter (\<lambda>l. l \<noteq> []) (map strip_number (drop 2 (lines out2))))"
    using assms(1) by (simp add: mset_filter)
  then have "ufw_normalize out1 = ufw_normalize out2"
    unfolding ufw_normalize_def by (metis properties_for_sort mset_sort sorted_sort)
  then show ?thesis
    using assms(2-) by (simp add: ufw_snapshot_def run_cmd_def lines_hash_def)
qed

definition listing :: "string list \<Rightarrow> string" where
  "listing ls = concat (map (\<lambda>l. l @ [CHR 0x0A]) ([''Status: active'', []] @ ls))"

theorem ufw_snapshot_ignores_order_witness:
  "fst (ufw_snapshot (calm_env \<lparr> he_output := (\<lambda>_ _ _.
       Inr (True, listing [''[ 1] 22 ALLOW IN'', ''[ 2] 22 DENY IN''], [])) \<rparr>) [])
   = fst (ufw_snapshot (calm_env \<lparr> he_output := (\<lambda>_ _ _.
       Inr (True, listing [''[ 1] 22 DENY IN'', ''[ 2] 22 ALLOW IN''], [])) \<rparr>) [])"
proof (rule ufw_snapshot_ignores_order)
  have "map strip_number (drop 2 (lines (listing [''[ 1] 22 ALLOW IN'', ''[ 2] 22 DENY IN''])))
      = [''22 ALLOW IN'', ''22 DENY IN'']" by code_simp
  moreover have "map strip_number (drop 2 (lines (listing [''[ 1] 22 DENY IN'', ''[ 2] 22 ALLOW IN''])))
      = [''22 DENY IN'', ''22 ALLOW IN'']" by code_simp
  ultimately show "mset (map strip_number (drop 2 (lines (listing [''[ 1] 22 ALLOW IN'',
        ''[ 2] 22 DENY IN'']))))
      = mset (map strip_number (drop 2 (lines (listing [''[ 1] 22 DENY IN'', ''[ 2] 22 ALLOW IN'']))))"
    by simp
qed simp_all

end
