(* ===== verification/Agent_State.thy ===== *)
theory Agent_State
  imports Agent_Backend
begin

text \<open>The state the agent keeps: its configuration (\<open>fw-agent/src/config.rs\<close>), safe mode with the
last-known-good ruleset and the last defaults (\<open>fw-agent/src/safe_mode.rs\<close>), the hash of the last
applied snapshot (\<open>fw-agent/src/drift.rs\<close>), and the log of executed actions
(\<open>fw-agent/src/replay_cache.rs\<close>).  Files that hold a serialised value are modelled by the value;
such a file reads back as written, and not at all when its writing was interrupted.\<close>

section \<open>Configuration\<close>

record PullConfig =
  pull_check_in_interval_secs :: int
  pull_manager_agent_url :: string
  pull_config_version :: int

record AgentConfig =
  cfg_manager_url :: string
  cfg_fqdn :: string
  cfg_host_id :: "string option"
  cfg_cert_dir :: string
  cfg_config_dir :: string
  cfg_log_dir :: string
  cfg_safe_mode_enabled :: bool
  cfg_safe_mode_timeout_secs :: int
  cfg_protected_cidrs :: "string list"
  cfg_pull :: PullConfig

definition default_agent_config :: AgentConfig where
  "default_agent_config =
     \<lparr> cfg_manager_url = [], cfg_fqdn = [], cfg_host_id = None,
       cfg_cert_dir = ''/etc/firewall-agent/certs'', cfg_config_dir = ''/etc/firewall-agent'',
       cfg_log_dir = ''/var/log/firewall-agent'', cfg_safe_mode_enabled = False,
       cfg_safe_mode_timeout_secs = 1800, cfg_protected_cidrs = [],
       cfg_pull = \<lparr> pull_check_in_interval_secs = 900, pull_manager_agent_url = [],
                    pull_config_version = 0 \<rparr> \<rparr>"

abbreviation config_path :: string where
  "config_path \<equiv> ''/etc/firewall-agent/config.toml''"

abbreviation last_good_path :: string where
  "last_good_path \<equiv> ''/var/lib/firewall-agent/last_good.rules.json''"

abbreviation last_defaults_path :: string where
  "last_defaults_path \<equiv> ''/var/lib/firewall-agent/last_defaults.json''"

abbreviation expected_hash_path :: string where
  "expected_hash_path \<equiv> ''/var/lib/firewall-agent/expected_hash''"

abbreviation executed_actions_path :: string where
  "executed_actions_path \<equiv> ''/var/lib/firewall-agent/executed_actions.log''"

section \<open>Files and state\<close>

record LastDefaults =
  ld_default_input_policy :: "string option"
  ld_default_output_policy :: "string option"

record agent_files =
  af_config :: "AgentConfig option"
  af_last_good :: "FirewallRule list option"
  af_last_defaults :: "LastDefaults option"
  af_expected_hash :: "string option"
  af_executed :: "string option"

record SafeModeState =
  sm_last_manager_contact :: "int option"
  sm_safe_mode_active :: bool
  sm_timeout_secs :: int

text \<open>The whole agent: configuration in memory, files, safe mode, the interval and configuration
version the loop carries, the events on the machine, and the reports sent to the manager.\<close>

record agent =
  ag_config :: AgentConfig
  ag_files :: agent_files
  ag_safe_mode :: SafeModeState
  ag_interval_secs :: int
  ag_config_version :: int
  ag_trace :: trace
  ag_reports :: "CheckInResultRequest list"

text \<open>Writing a file: the new content of a whole file that was written, and what an interrupted
write leaves behind.\<close>

definition write_file ::
  "host_env \<Rightarrow> string \<Rightarrow> (agent_files \<Rightarrow> agent_files) \<Rightarrow> (nat \<Rightarrow> agent_files \<Rightarrow> agent_files)
     \<Rightarrow> agent \<Rightarrow> bool \<times> agent" where
  "write_file env path full part a =
     (let a' = a \<lparr> ag_trace := ag_trace a @ [WriteFile path] \<rparr>
      in case he_write env (ag_trace a) path of
           Written \<Rightarrow> (True, a' \<lparr> ag_files := full (ag_files a) \<rparr>)
         | NotWritten \<Rightarrow> (False, a')
         | Partial n \<Rightarrow> (False, a' \<lparr> ag_files := part n (ag_files a) \<rparr>))"

definition save_config_file :: "host_env \<Rightarrow> agent \<Rightarrow> bool \<times> agent" where
  "save_config_file env a =
     write_file env config_path (af_config_update (\<lambda>_. Some (ag_config a)))
       (\<lambda>_. af_config_update (\<lambda>_. None)) a"

section \<open>Safe mode\<close>

definition SafeModeState_new :: "int \<Rightarrow> int \<Rightarrow> SafeModeState" where
  "SafeModeState_new now timeout_secs =
     \<lparr> sm_last_manager_contact = Some now, sm_safe_mode_active = False,
       sm_timeout_secs = timeout_secs \<rparr>"

definition record_manager_contact :: "int \<Rightarrow> SafeModeState \<Rightarrow> SafeModeState" where
  "record_manager_contact now s =
     s \<lparr> sm_last_manager_contact := Some now, sm_safe_mode_active := False \<rparr>"

text \<open>Whole seconds since the last contact, as \<open>Instant::elapsed\<close> saturates at zero.\<close>

definition elapsed_secs :: "int \<Rightarrow> SafeModeState \<Rightarrow> int" where
  "elapsed_secs now s =
     (case sm_last_manager_contact s of
        Some t \<Rightarrow> max 0 (now - t) div 1000000000 | None \<Rightarrow> 0)"

definition safe_mode_check :: "int \<Rightarrow> SafeModeState \<Rightarrow> bool \<times> SafeModeState" where
  "safe_mode_check now s =
     (if elapsed_secs now s > sm_timeout_secs s
      then (True, if \<not> sm_safe_mode_active s then s \<lparr> sm_safe_mode_active := True \<rparr> else s)
      else (False, s))"

definition save_last_good :: "host_env \<Rightarrow> FirewallRule list \<Rightarrow> agent \<Rightarrow> bool \<times> agent" where
  "save_last_good env rules a =
     write_file env last_good_path (af_last_good_update (\<lambda>_. Some rules))
       (\<lambda>_. af_last_good_update (\<lambda>_. None)) a"

definition load_last_good :: "agent \<Rightarrow> FirewallRule list option" where
  "load_last_good a = af_last_good (ag_files a)"

definition save_last_defaults :: "host_env \<Rightarrow> LastDefaults \<Rightarrow> agent \<Rightarrow> bool \<times> agent" where
  "save_last_defaults env d a =
     write_file env last_defaults_path (af_last_defaults_update (\<lambda>_. Some d))
       (\<lambda>_. af_last_defaults_update (\<lambda>_. None)) a"

definition load_last_defaults :: "agent \<Rightarrow> LastDefaults option" where
  "load_last_defaults a = af_last_defaults (ag_files a)"

definition no_defaults :: LastDefaults where
  "no_defaults = \<lparr> ld_default_input_policy = None, ld_default_output_policy = None \<rparr>"

section \<open>Expected hash\<close>

definition load_expected_hash :: "agent \<Rightarrow> string option" where
  "load_expected_hash a =
     (case af_expected_hash (ag_files a) of
        None \<Rightarrow> None | Some s \<Rightarrow> (let t = trim s in if t = [] then None else Some t))"

definition save_expected_hash :: "host_env \<Rightarrow> string \<Rightarrow> agent \<Rightarrow> bool \<times> agent" where
  "save_expected_hash env h a =
     write_file env expected_hash_path (af_expected_hash_update (\<lambda>_. Some h))
       (\<lambda>n. af_expected_hash_update (\<lambda>_. Some (take n h))) a"

section \<open>Replay cache\<close>

definition already_executed :: "agent \<Rightarrow> string \<Rightarrow> bool" where
  "already_executed a action_id =
     (case af_executed (ag_files a) of
        None \<Rightarrow> False
      | Some content \<Rightarrow> list_ex (\<lambda>line. trim line = action_id) (lines content))"

definition record_executed :: "host_env \<Rightarrow> string \<Rightarrow> agent \<Rightarrow> bool \<times> agent" where
  "record_executed env action_id a =
     (let line = action_id @ [CHR 0x0A]; old = unwrap_or [] (af_executed (ag_files a))
      in write_file env executed_actions_path (af_executed_update (\<lambda>_. Some (old @ line)))
           (\<lambda>n. af_executed_update (\<lambda>_. Some (old @ take n line))) a)"

section \<open>Facts\<close>

lemma write_file_trace [simp]:
  "ag_trace (snd (write_file env p f g a)) = ag_trace a @ [WriteFile p]"
  by (simp add: write_file_def Let_def split: write_outcome.split)

lemma write_file_frame [simp]:
  "ag_config (snd (write_file env p f g a)) = ag_config a"
  "ag_safe_mode (snd (write_file env p f g a)) = ag_safe_mode a"
  "ag_interval_secs (snd (write_file env p f g a)) = ag_interval_secs a"
  "ag_config_version (snd (write_file env p f g a)) = ag_config_version a"
  "ag_reports (snd (write_file env p f g a)) = ag_reports a"
  by (simp_all add: write_file_def Let_def split: write_outcome.split)

lemma write_file_files:
  "ag_files (snd (write_file env p f g a)) \<in> {f (ag_files a), ag_files a} \<union> range (\<lambda>n. g n (ag_files a))"
  by (simp add: write_file_def Let_def split: write_outcome.split)

lemma safe_mode_check_iff [simp]:
  "fst (safe_mode_check now s) \<longleftrightarrow> sm_timeout_secs s < elapsed_secs now s"
  by (simp add: safe_mode_check_def)

text \<open>The log: appending a complete line to complete lines.\<close>

definition complete_lines :: "string \<Rightarrow> bool" where
  "complete_lines s \<longleftrightarrow> s = [] \<or> last s = CHR 0x0A"

lemma lines_append_complete:
  assumes "complete_lines s" and "CHR 0x0A \<notin> set l"
  shows "lines (s @ l @ [CHR 0x0A]) = lines s @ [chop_cr l]"
proof (cases "s = []")
  case True
  then show ?thesis using assms(2) by (simp add: lines_one)
next
  case False
  with assms(1) obtain t where "s = t @ [CHR 0x0A]"
    by (metis append_butlast_last_id complete_lines_def)
  then show ?thesis using lines_append_line [OF assms(2), of t] by simp
qed

definition plain_id :: "string \<Rightarrow> bool" where
  "plain_id s \<longleftrightarrow> (\<forall>c \<in> set s. \<not> is_whitespace c)"

lemma plain_id_trim: "plain_id s \<Longrightarrow> trim (chop_cr s) = s"
proof -
  assume p: "plain_id s"
  have "is_whitespace (CHR 0x0D)" by code_simp
  with p have "chop_cr s = s"
    by (auto simp: chop_cr_def plain_id_def dest: last_in_set)
  with p show ?thesis by (simp add: plain_id_def trim_id)
qed

lemma plain_id_no_newline: "plain_id s \<Longrightarrow> CHR 0x0A \<notin> set s"
proof -
  have "is_whitespace (CHR 0x0A)" by code_simp
  then show "plain_id s \<Longrightarrow> CHR 0x0A \<notin> set s" by (auto simp: plain_id_def)
qed

end
