(* ===== verification/Net_Addr.thy ===== *)
theory Net_Addr
  imports Rust_Prelude
begin

text \<open>\<open>std::net::IpAddr\<close> with its textual syntax (parser and printer of the standard library), and
the interface of the \<open>ipnet\<close> crate.  The crate is not part of the sources: its operations are the
fields of a record every client takes as an argument, and the documented meaning of CIDR blocks is
the locale \<open>ipnet_laws\<close>.  The main fact is that the overlap test the sources perform decides
whether two blocks have an address in common.\<close>

section \<open>Addresses\<close>

datatype IpAddr = V4 "32 word" | V6 "128 word"

fun is_ipv4 :: "IpAddr \<Rightarrow> bool" where
  "is_ipv4 (V4 _) = True"
| "is_ipv4 (V6 _) = False"

definition is_ipv6 :: "IpAddr \<Rightarrow> bool" where
  "is_ipv6 ip \<longleftrightarrow> \<not> is_ipv4 ip"

fun is_unspecified :: "IpAddr \<Rightarrow> bool" where
  "is_unspecified (V4 a) \<longleftrightarrow> a = 0"
| "is_unspecified (V6 a) \<longleftrightarrow> a = 0"

section \<open>The parser of the standard library\<close>

text \<open>\<open>Parser::read_number\<close>: a maximal run of digits, refused when it is empty, longer than
the limit, or written with a leading zero where that is not allowed.\<close>

definition read_number :: "nat \<Rightarrow> nat \<Rightarrow> bool \<Rightarrow> nat \<Rightarrow> string \<Rightarrow> (nat \<times> string) option" where
  "read_number radix max_digits allow_zero_prefix bound s =
     (let ds = takeWhile (\<lambda>c. to_digit radix c \<noteq> None) s;
          n = digits_value radix ds
      in if ds = [] \<or> length ds > max_digits
            \<or> (\<not> allow_zero_prefix \<and> hd ds = CHR ''0'' \<and> length ds > 1) \<or> n \<ge> bound
         then None else Some (n, drop (length ds) s))"

fun read_given_char :: "char \<Rightarrow> string \<Rightarrow> string option" where
  "read_given_char c [] = None"
| "read_given_char c (x # xs) = (if x = c then Some xs else None)"

text \<open>\<open>Parser::read_separator\<close>: the separator comes before every item but the first.\<close>

definition read_separator ::
  "char \<Rightarrow> nat \<Rightarrow> (string \<Rightarrow> ('a \<times> string) option) \<Rightarrow> string \<Rightarrow> ('a \<times> string) option" where
  "read_separator sep i inner s =
     (if i = 0 then inner s
      else case read_given_char sep s of None \<Rightarrow> None | Some t \<Rightarrow> inner t)"

fun read_octets :: "nat \<Rightarrow> string \<Rightarrow> (nat list \<times> string) option" where
  "read_octets 0 s = Some ([], s)"
| "read_octets (Suc k) s =
     (case read_separator (CHR ''.'') (3 - k) (read_number 10 3 False 256) s of
        None \<Rightarrow> None
      | Some (n, t) \<Rightarrow>
          (case read_octets k t of None \<Rightarrow> None | Some (ns, u) \<Rightarrow> Some (n # ns, u)))"

definition read_ipv4_addr :: "string \<Rightarrow> (nat list \<times> string) option" where
  "read_ipv4_addr s = read_octets 4 s"

text \<open>\<open>read_groups\<close>: at most \<open>limit\<close> groups of four hexadecimal digits, the last two of which may
be written as a dotted IPv4 address.  The result is the groups read, whether they end in an IPv4
part, and the rest of the input.\<close>

fun read_groups :: "nat \<Rightarrow> nat \<Rightarrow> string \<Rightarrow> nat list \<times> bool \<times> string" where
  "read_groups i 0 s = ([], False, s)"
| "read_groups i (Suc left) s =
     (case (if left = 0 then None else read_separator (CHR '':'') i read_ipv4_addr s) of
        Some (os, t) \<Rightarrow> ([os ! 0 * 256 + os ! 1, os ! 2 * 256 + os ! 3], True, t)
      | None \<Rightarrow>
          (case read_separator (CHR '':'') i (read_number 16 4 True 65536) s of
             None \<Rightarrow> ([], False, s)
           | Some (g, t) \<Rightarrow>
               (case read_groups (Suc i) left t of (gs, v4, u) \<Rightarrow> (g # gs, v4, u))))"

definition read_ipv6_addr :: "string \<Rightarrow> (nat list \<times> string) option" where
  "read_ipv6_addr s =
     (case read_groups 0 8 s of (hs, head_v4, t) \<Rightarrow>
        if length hs = 8 then Some (hs, t)
        else if head_v4 then None
        else (case read_given_char (CHR '':'') t of
                None \<Rightarrow> None
              | Some t1 \<Rightarrow>
                  (case read_given_char (CHR '':'') t1 of
                     None \<Rightarrow> None
                   | Some t2 \<Rightarrow>
                       (case read_groups 0 (8 - (length hs + 1)) t2 of (ts, _, u) \<Rightarrow>
                          Some (hs @ replicate (8 - length hs - length ts) 0 @ ts, u)))))"

definition of_digits :: "nat \<Rightarrow> nat list \<Rightarrow> nat" where
  "of_digits b ns = foldl (\<lambda>a n. a * b + n) 0 ns"

text \<open>\<open>str::parse::<IpAddr>()\<close>: an IPv4 address, or else an IPv6 address, and nothing after it.\<close>

definition parse_ip :: "string \<Rightarrow> IpAddr option" where
  "parse_ip s =
     (case read_ipv4_addr s of
        Some (os, r) \<Rightarrow> if r = [] then Some (V4 (of_nat (of_digits 256 os))) else None
      | None \<Rightarrow>
          (case read_ipv6_addr s of
             Some (gs, r) \<Rightarrow> if r = [] then Some (V6 (of_nat (of_digits 65536 gs))) else None
           | None \<Rightarrow> None))"

section \<open>The printer of the standard library\<close>

definition octets :: "32 word \<Rightarrow> nat list" where
  "octets a = map (\<lambda>k. unat (drop_bit k a) mod 256) [24, 16, 8, 0]"

definition segments :: "128 word \<Rightarrow> nat list" where
  "segments a = map (\<lambda>k. unat (drop_bit k a) mod 65536) [112, 96, 80, 64, 48, 32, 16, 0]"

definition hex_digit :: "nat \<Rightarrow> char" where
  "hex_digit d = char_of (if d < 10 then 48 + d else 87 + d)"

fun show_hex :: "nat \<Rightarrow> string" where
  "show_hex n = (if n < 16 then [hex_digit n] else show_hex (n div 16) @ [hex_digit (n mod 16)])"

declare show_hex.simps [simp del]

text \<open>The longest run of zero segments, the first one of that length: position and length.\<close>

fun longest_zeros :: "nat \<Rightarrow> nat \<times> nat \<Rightarrow> nat \<times> nat \<Rightarrow> nat list \<Rightarrow> nat \<times> nat" where
  "longest_zeros i cur best [] = best"
| "longest_zeros i cur best (g # gs) =
     (if g = 0
      then let cur' = (if snd cur = 0 then (i, 1) else (fst cur, snd cur + 1))
           in longest_zeros (Suc i) cur' (if snd cur' > snd best then cur' else best) gs
      else longest_zeros (Suc i) (0, 0) best gs)"

definition show_ipv4 :: "32 word \<Rightarrow> string" where
  "show_ipv4 a = join ''.'' (map show_nat (octets a))"

definition show_ipv6 :: "128 word \<Rightarrow> string" where
  "show_ipv6 a =
     (let gs = segments a; (start, len) = longest_zeros 0 (0, 0) (0, 0) gs
      in if take 6 gs = [0, 0, 0, 0, 0, 65535] then ''::ffff:'' @ show_ipv4 (ucast a)
         else if len > 1
         then join '':'' (map show_hex (take start gs)) @ ''::''
              @ join '':'' (map show_hex (drop (start + len) gs))
         else join '':'' (map show_hex gs))"

fun show_ip :: "IpAddr \<Rightarrow> string" where
  "show_ip (V4 a) = show_ipv4 a"
| "show_ip (V6 a) = show_ipv6 a"

section \<open>Printing and parsing an IPv4 address\<close>

lemma read_number_show_nat:
  assumes "n < 256" and "r = [] \<or> to_digit 10 (hd r) = None"
  shows "read_number 10 3 False 256 (show_nat n @ r) = Some (n, r)"
proof -
  have all: "\<forall>c \<in> set (show_nat n). to_digit 10 c \<noteq> None"
    using show_nat_digits [of _ n] by fastforce
  have tw: "takeWhile (\<lambda>c. to_digit 10 c \<noteq> None) (show_nat n @ r) = show_nat n"
    using assms(2) all by (cases r) (auto simp: takeWhile_append takeWhile_eq_all_conv)
  have lead: "\<not> (hd (show_nat n) = CHR ''0'' \<and> length (show_nat n) > 1)"
    using show_nat_hd_zero [of n] by (auto simp: show_nat.simps [of 0])
  show ?thesis
    unfolding read_number_def Let_def tw
    using assms(1) lead show_nat_length_byte [of n] by auto
qed

lemma octets_bound: "k < 4 \<Longrightarrow> octets a ! k < 256"
  by (cases k rule: nat.exhaust) (auto simp: octets_def nth_Cons split: nat.splits)

lemma to_digit_dot [simp]: "to_digit 10 (CHR ''.'') = None"
  by (simp add: to_digit_def)

lemma of_digits_octets: "of_nat (of_digits 256 (octets a)) = a"
proof -
  define n where "n = unat a"
  have "unat a < 2 ^ LENGTH(32)" by (rule unsigned_less)
  then have n: "n < 2 ^ 32" by (simp add: n_def)
  have parts: "n = ((n div 2 ^ 24 * 256 + n div 2 ^ 16 mod 256) * 256
      + n div 2 ^ 8 mod 256) * 256 + n mod 256"
  proof -
    have "n = n div 256 * 256 + n mod 256" by simp
    moreover have "n div 256 = n div 256 div 256 * 256 + n div 256 mod 256" by simp
    moreover have "n div 256 div 256 = n div 256 div 256 div 256 * 256 + n div 256 div 256 mod 256"
      by simp
    ultimately show ?thesis
      by (simp add: div_mult2_eq [symmetric])
  qed
  have "n div 2 ^ 24 mod 256 = n div 2 ^ 24" using n by (simp add: less_mult_imp_div_less)
  then have "of_digits 256 (octets a) = n"
    using parts by (simp add: of_digits_def octets_def n_def unat_drop_bit_eq drop_bit_nat_def)
  then show ?thesis by (simp add: n_def)
qed

lemma parse_show_ipv4: "parse_ip (show_ipv4 a) = Some (V4 a)"
proof -
  obtain w x y z where o: "octets a = [w, x, y, z]" by (simp add: octets_def)
  have b: "w < 256" "x < 256" "y < 256" "z < 256"
    using octets_bound [of 0 a] octets_bound [of 1 a] octets_bound [of 2 a] octets_bound [of 3 a]
    by (simp_all add: o)
  have four: "4 = Suc (Suc (Suc (Suc 0)))" by simp
  have "read_ipv4_addr (show_ipv4 a) = Some (octets a, [])"
    using b read_number_show_nat [of z "[]"]
    by (simp add: read_ipv4_addr_def show_ipv4_def o four read_separator_def
        read_number_show_nat)
  then show ?thesis by (simp add: parse_ip_def of_digits_octets)
qed

lemma read_number_none:
  "s = [] \<or> to_digit radix (hd s) = None \<Longrightarrow> read_number radix m z b s = None"
  by (cases s) (auto simp: read_number_def)

text \<open>A host in brackets, as URLs write IPv6 addresses, is not an address.\<close>

lemma parse_ip_bracket: "parse_ip (CHR ''['' # s) = None"
proof -
  have n: "read_number radix m z b (CHR ''['' # s) = None" if "radix \<le> 16" for radix m z b
    using that by (intro read_number_none) (simp add: to_digit_def)
  have "read_octets (Suc k) (CHR ''['' # s) = None" if "3 - k = 0" for k
    using that by (simp add: read_separator_def n)
  from this [of 3] have v4: "read_ipv4_addr (CHR ''['' # s) = None"
    by (simp add: read_ipv4_addr_def)
  have "read_groups 0 (Suc k) (CHR ''['' # s) = ([], False, CHR ''['' # s)" for k
    by (simp add: read_separator_def n v4)
  from this [of 7] have "read_ipv6_addr (CHR ''['' # s) = None"
    by (simp add: read_ipv6_addr_def)
  with v4 show ?thesis by (simp add: parse_ip_def)
qed

section \<open>The interface of the ipnet crate\<close>

text \<open>The operations of \<open>ipnet::IpNet\<close> the sources call: \<open>FromStr\<close>, \<open>network\<close>, \<open>contains\<close>, \<open>Display\<close>,
and the block of a single address.\<close>

record 'n ipnet_api =
  net_parse :: "string \<Rightarrow> 'n option"
  net_network :: "'n \<Rightarrow> IpAddr"
  net_contains :: "'n \<Rightarrow> IpAddr \<Rightarrow> bool"
  net_show :: "'n \<Rightarrow> string"
  net_host :: "IpAddr \<Rightarrow> 'n"

text \<open>The documented meaning of a block: an address and a prefix length; the network address is
the address with the host bits cleared; the block contains the addresses of its own family that
agree with it on the prefix.\<close>

fun ip_width :: "IpAddr \<Rightarrow> nat" where
  "ip_width (V4 _) = 32"
| "ip_width (V6 _) = 128"

fun clear_host_bits :: "nat \<Rightarrow> IpAddr \<Rightarrow> IpAddr" where
  "clear_host_bits k (V4 a) = V4 (push_bit (32 - k) (drop_bit (32 - k) a))"
| "clear_host_bits k (V6 a) = V6 (push_bit (128 - k) (drop_bit (128 - k) a))"

fun same_prefix :: "nat \<Rightarrow> IpAddr \<Rightarrow> IpAddr \<Rightarrow> bool" where
  "same_prefix k (V4 a) (V4 b) \<longleftrightarrow> drop_bit (32 - k) a = drop_bit (32 - k) b"
| "same_prefix k (V6 a) (V6 b) \<longleftrightarrow> drop_bit (128 - k) a = drop_bit (128 - k) b"
| "same_prefix k _ _ \<longleftrightarrow> False"

lemma drop_push_drop:
  fixes a :: "'a::len word"
  shows "m \<le> n \<Longrightarrow> drop_bit n (push_bit m (drop_bit m a)) = drop_bit n a"
  by (rule bit_word_eqI) (auto simp: bit_simps possible_bit_word dest: bit_imp_le_length)

lemma drop_bit_eq_mono:
  fixes a b :: "'a::len word"
  assumes "drop_bit m a = drop_bit m b" and "m \<le> n"
  shows "drop_bit n a = drop_bit n b"
proof -
  have "drop_bit n a = drop_bit (n - m) (drop_bit m a)" using assms(2) by simp
  also have "\<dots> = drop_bit (n - m) (drop_bit m b)" by (simp only: assms(1))
  finally show ?thesis using assms(2) by simp
qed

lemma same_prefix_equiv:
  "same_prefix k a a"
  "same_prefix k a b \<longleftrightarrow> same_prefix k b a"
  "same_prefix k a b \<Longrightarrow> same_prefix k b c \<Longrightarrow> same_prefix k a c"
  by (cases a; cases b; cases c; auto)+

lemma same_prefix_mono: "same_prefix l a b \<Longrightarrow> k \<le> l \<Longrightarrow> same_prefix k a b"
  by (cases a; cases b) (auto elim!: drop_bit_eq_mono)

lemma same_prefix_clear: "k \<le> l \<Longrightarrow> same_prefix k (clear_host_bits l a) a"
  by (cases a) (auto simp: drop_push_drop)

lemma is_ipv4_clear [simp]: "is_ipv4 (clear_host_bits k a) = is_ipv4 a"
  by (cases a) auto

lemma same_prefix_family: "same_prefix k a b \<Longrightarrow> is_ipv4 a = is_ipv4 b"
  by (cases a; cases b) auto

text \<open>The overlap test of the sources, used by the manager and by the agent.\<close>

definition nets_overlap :: "'n ipnet_api \<Rightarrow> 'n \<Rightarrow> 'n \<Rightarrow> bool" where
  "nets_overlap N a b \<longleftrightarrow>
     is_ipv4 (net_network N a) = is_ipv4 (net_network N b) \<and>
     (net_contains N a (net_network N b) \<or> net_contains N b (net_network N a))"

locale ipnet_laws =
  fixes N :: "'n ipnet_api"
    and net_addr :: "'n \<Rightarrow> IpAddr"
    and prefix_len :: "'n \<Rightarrow> nat"
  assumes prefix_len_le: "prefix_len n \<le> ip_width (net_addr n)"
    and network_clears: "net_network N n = clear_host_bits (prefix_len n) (net_addr n)"
    and contains_prefix: "net_contains N n ip \<longleftrightarrow> same_prefix (prefix_len n) (net_addr n) ip"
begin

lemma contains_own_network: "net_contains N n (net_network N n)"
  unfolding contains_prefix network_clears
  by (subst same_prefix_equiv(2)) (simp add: same_prefix_clear)

lemma contains_shorter:
  assumes "prefix_len a \<le> prefix_len b" and "net_contains N a ip" and "net_contains N b ip"
  shows "net_contains N a (net_network N b)"
proof -
  have "same_prefix (prefix_len a) (net_addr a) ip"
    and "same_prefix (prefix_len a) (net_addr b) ip"
    using assms same_prefix_mono by (auto simp: contains_prefix)
  moreover have "same_prefix (prefix_len a) (net_network N b) (net_addr b)"
    using assms(1) by (simp add: network_clears same_prefix_clear)
  ultimately show ?thesis
    unfolding contains_prefix by (meson same_prefix_equiv)
qed

lemma overlap_iff_common_address:
  "nets_overlap N a b \<longleftrightarrow> (\<exists>ip. net_contains N a ip \<and> net_contains N b ip)"
proof
  assume "nets_overlap N a b"
  then show "\<exists>ip. net_contains N a ip \<and> net_contains N b ip"
    unfolding nets_overlap_def using contains_own_network by blast
next
  assume "\<exists>ip. net_contains N a ip \<and> net_contains N b ip"
  then obtain ip where ip: "net_contains N a ip" "net_contains N b ip" by blast
  then have "is_ipv4 (net_addr a) = is_ipv4 (net_addr b)"
    by (auto simp: contains_prefix dest!: same_prefix_family)
  moreover have "net_contains N a (net_network N b) \<or> net_contains N b (net_network N a)"
    using ip contains_shorter nat_le_linear by blast
  ultimately show "nets_overlap N a b"
    by (simp add: nets_overlap_def network_clears)
qed

lemma overlap_sym: "nets_overlap N a b = nets_overlap N b a"
  by (auto simp: nets_overlap_def)

end

section \<open>CIDR blocks\<close>

text \<open>Blocks as pairs of an address and a prefix length, written \<open>address/length\<close>: an
implementation of the interface that satisfies the laws.\<close>

type_synonym cidr = "IpAddr \<times> nat"

definition cidr_len :: "cidr \<Rightarrow> nat" where
  "cidr_len n = min (snd n) (ip_width (fst n))"

definition cidr_parse :: "string \<Rightarrow> cidr option" where
  "cidr_parse s =
     (case split_on (CHR ''/'') s of
        [a, l] \<Rightarrow>
          (case (parse_ip a, read_number 10 3 False 256 l) of
             (Some ip, Some (k, r)) \<Rightarrow>
               if r = [] \<and> k \<le> ip_width ip then Some (ip, k) else None
           | _ \<Rightarrow> None)
      | _ \<Rightarrow> None)"

definition cidr_api :: "cidr ipnet_api" where
  "cidr_api =
     \<lparr> net_parse = cidr_parse,
       net_network = (\<lambda>n. clear_host_bits (cidr_len n) (fst n)),
       net_contains = (\<lambda>n ip. same_prefix (cidr_len n) (fst n) ip),
       net_show = (\<lambda>n. show_ip (fst n) @ ''/'' @ show_nat (snd n)),
       net_host = (\<lambda>ip. (ip, ip_width ip)) \<rparr>"

interpretation cidr: ipnet_laws cidr_api fst cidr_len
  by unfold_locales (auto simp: cidr_api_def cidr_len_def)

end
