(* ===== verification/Fw_Policy.thy ===== *)
theory Fw_Policy
  imports Fw_Models Net_Addr
begin

text \<open>The policy checks: \<open>fw-core/src/policy.rs\<close> (the manager's check of a single rule, the
flagged rules of a policy set, the protected-CIDR check) and
\<open>fw-agent/src/protected_cidrs.rs\<close> (the agent's check of a ruleset, and the normalisation of the
manager's address).  The \<open>ipnet\<close> and \<open>url\<close> crates and the resolver are parameters.\<close>

section \<open>The manager's checks\<close>

record PolicyCheckResult =
  pc_allowed :: bool
  pc_requires_approval :: bool
  pc_reason :: string

definition is_broad_src_mgr :: "FirewallRule \<Rightarrow> bool" where
  "is_broad_src_mgr rule =
     (case fr_src_cidr rule of None \<Rightarrow> True
      | Some c \<Rightarrow> c = ''0.0.0.0/0'' \<or> c = ''::/0'' \<or> c = ''any'')"

definition check_rule :: "FirewallRule \<Rightarrow> PolicyCheckResult" where
  "check_rule rule =
     (if fr_action rule = Allow \<and> is_broad_src_mgr rule
         \<and> fr_dst_port_start rule = None \<and> fr_dst_port_end rule = None
      then \<lparr> pc_allowed = True, pc_requires_approval = True,
             pc_reason = ''Broad allow rule (any source, any port) requires admin approval'' \<rparr>
      else \<lparr> pc_allowed = True, pc_requires_approval = False, pc_reason = ''Auto-approved'' \<rparr>)"

definition check_policy_set_for_flagged :: "FirewallRule list \<Rightarrow> Uuid list" where
  "check_policy_set_for_flagged rules =
     map fr_id (filter (\<lambda>r. pc_requires_approval (check_rule r)) rules)"

definition cidr_overlaps :: "'n ipnet_api \<Rightarrow> string \<Rightarrow> string \<Rightarrow> bool" where
  "cidr_overlaps N a b =
     (case net_parse N a of
        None \<Rightarrow> False
      | Some net_a \<Rightarrow>
          (case net_parse N b of None \<Rightarrow> False | Some net_b \<Rightarrow> nets_overlap N net_a net_b))"

definition check_against_protected_cidrs ::
  "'n ipnet_api \<Rightarrow> FirewallRule \<Rightarrow> string list \<Rightarrow> PolicyCheckResult" where
  "check_against_protected_cidrs N rule protected_cidrs =
     (let fine = \<lparr> pc_allowed = True, pc_requires_approval = False,
                   pc_reason = ''Does not block protected CIDRs'' \<rparr>
      in if fr_action rule = Deny \<or> fr_action rule = Reject
         then (case fr_src_cidr rule of
                 None \<Rightarrow> fine
               | Some src \<Rightarrow>
                   (case find (cidr_overlaps N src) protected_cidrs of
                      None \<Rightarrow> fine
                    | Some p \<Rightarrow>
                        \<lparr> pc_allowed = False, pc_requires_approval = False,
                          pc_reason = ''Rule blocks protected CIDR '' @ p
                            @ '' '' @ em_dash @ '' rejected'' \<rparr>))
         else fine)"

section \<open>The agent's check of a ruleset\<close>

fun overlaps_protected_in :: "'n ipnet_api \<Rightarrow> 'n \<Rightarrow> string list \<Rightarrow> string option" where
  "overlaps_protected_in N rule_net [] = None"
| "overlaps_protected_in N rule_net (p # ps) =
     (case net_parse N p of
        None \<Rightarrow> overlaps_protected_in N rule_net ps
      | Some protected_net \<Rightarrow>
          if nets_overlap N rule_net protected_net then Some p
          else overlaps_protected_in N rule_net ps)"

definition overlaps_protected :: "'n ipnet_api \<Rightarrow> string \<Rightarrow> string list \<Rightarrow> string option" where
  "overlaps_protected N c protected_cidrs =
     (case net_parse N c of
        None \<Rightarrow> None
      | Some rule_net \<Rightarrow> overlaps_protected_in N rule_net protected_cidrs)"

definition is_broad_src :: "string option \<Rightarrow> bool" where
  "is_broad_src src =
     (case src of
        None \<Rightarrow> True
      | Some s \<Rightarrow>
          (let t = trim s
           in t = [] \<or> t = ''0.0.0.0/0'' \<or> t = ''::/0'' \<or> t = ''0.0.0.0'' \<or> t = ''::''))"

text \<open>The messages one rule contributes: first the blocking check, then the exposure check.\<close>

definition block_violation :: "'n ipnet_api \<Rightarrow> string list \<Rightarrow> FirewallRule \<Rightarrow> string list" where
  "block_violation N protected_cidrs rule =
     (if fr_action rule = Deny \<or> fr_action rule = Reject
      then (case fr_src_cidr rule of
              None \<Rightarrow> []
            | Some src \<Rightarrow>
                (case overlaps_protected N src protected_cidrs of
                   None \<Rightarrow> []
                 | Some p \<Rightarrow>
                     [''Rule '' @ [CHR 0x27] @ fr_name rule @ [CHR 0x27]
                      @ '' would block protected CIDR '' @ p @ '' (''
                      @ FirewallAction_as_str (fr_action rule) @ '')'']))
      else [])"

definition exposure_violation :: "'n ipnet_api \<Rightarrow> string list \<Rightarrow> FirewallRule \<Rightarrow> string list" where
  "exposure_violation N protected_cidrs rule =
     (if fr_action rule = Allow \<and> is_broad_src (fr_src_cidr rule)
      then (case fr_dst_cidr rule of
              None \<Rightarrow> []
            | Some dst \<Rightarrow>
                (case overlaps_protected N dst protected_cidrs of
                   None \<Rightarrow> []
                 | Some p \<Rightarrow>
                     [''Rule '' @ [CHR 0x27] @ fr_name rule @ [CHR 0x27]
                      @ '' allows broad traffic to protected CIDR '' @ p]))
      else [])"

definition check_rules_against_protected ::
  "'n ipnet_api \<Rightarrow> FirewallRule list \<Rightarrow> string list \<Rightarrow> string list + unit" where
  "check_rules_against_protected N rules protected_cidrs =
     (if protected_cidrs = [] then Inr ()
      else let violations =
                 concat (map (\<lambda>r. block_violation N protected_cidrs r
                                  @ exposure_violation N protected_cidrs r) rules)
           in if violations = [] then Inr () else Inl violations)"

section \<open>The manager's address\<close>

text \<open>What the sources read of a parsed \<open>url::Url\<close>.  Parsing and name resolution
(\<open>host:port\<close> to addresses) return the text of their error on the left.\<close>

record url_parts =
  url_scheme :: string
  url_host :: "string option"
  url_port :: "nat option"

type_synonym url_parser = "string \<Rightarrow> string + url_parts"
type_synonym resolver = "string \<Rightarrow> string + IpAddr list"

text \<open>\<open>auto_detect_manager_cidr\<close>: the first address the host of the URL resolves to.\<close>

definition auto_detect_manager_cidr :: "url_parser \<Rightarrow> resolver \<Rightarrow> string \<Rightarrow> string option" where
  "auto_detect_manager_cidr url_parse resolve manager_url =
     (case url_parse manager_url of
        Inl _ \<Rightarrow> None
      | Inr u \<Rightarrow>
          (case url_host u of
             None \<Rightarrow> None
           | Some host \<Rightarrow>
               (case resolve (host @ '':443'') of
                  Inl _ \<Rightarrow> None
                | Inr [] \<Rightarrow> None
                | Inr (ip # _) \<Rightarrow> Some (show_ip ip))))"

text \<open>The choice of an address for the host, and the rewritten URL.\<close>

definition manager_host_ip :: "resolver \<Rightarrow> string \<Rightarrow> nat \<Rightarrow> string + IpAddr" where
  "manager_host_ip resolve host port =
     (case parse_ip host of
        Some ip \<Rightarrow> Inr ip
      | None \<Rightarrow>
          (case resolve (host @ '':'' @ show_nat port) of
             Inl e \<Rightarrow> Inl (''failed to resolve manager hostname '' @ host @ '': '' @ e)
           | Inr addrs \<Rightarrow>
               ok_or (''manager hostname '' @ host @ '' resolved to no usable IP'')
                 (find (\<lambda>ip. \<not> is_unspecified ip) addrs)))"

definition bracketed :: "IpAddr \<Rightarrow> string" where
  "bracketed ip = (if is_ipv6 ip then ''['' @ show_ip ip @ '']'' else show_ip ip)"

definition normalize_manager_url_to_ip :: "url_parser \<Rightarrow> resolver \<Rightarrow> string \<Rightarrow> string + string" where
  "normalize_manager_url_to_ip url_parse resolve raw =
     (case url_parse raw of
        Inl e \<Rightarrow> Inl (''invalid manager URL: '' @ e)
      | Inr u \<Rightarrow>
          if url_scheme u \<noteq> ''https'' \<and> url_scheme u \<noteq> ''http''
          then Inl (''unsupported manager URL scheme: '' @ url_scheme u)
          else (case url_host u of
                  None \<Rightarrow> Inl ''manager URL has no host''
                | Some host \<Rightarrow>
                    (case url_port u of
                       None \<Rightarrow> Inl ''manager URL has no port''
                     | Some port \<Rightarrow>
                         (case manager_host_ip resolve host port of
                            Inl e \<Rightarrow> Inl e
                          | Inr ip \<Rightarrow>
                              if is_unspecified ip
                              then Inl (''manager address must be a specific IP, got '' @ show_ip ip
                                   @ '' '' @ em_dash @ '' set the manager server.host to a real ''
                                   @ ''address, not a bind address'')
                              else Inr (url_scheme u @ ''://'' @ bracketed ip @ '':''
                                        @ show_nat port)))))"

text \<open>\<open>manager_endpoint\<close> of \<open>fw-agent/src/pull_loop.rs\<close>: the address and port of the umbilical.\<close>

definition manager_endpoint :: "url_parser \<Rightarrow> string \<Rightarrow> string + string \<times> nat" where
  "manager_endpoint url_parse manager_url =
     (case url_parse manager_url of
        Inl e \<Rightarrow> Inl (''invalid manager_agent_url: '' @ e)
      | Inr u \<Rightarrow>
          (case url_host u of
             None \<Rightarrow> Inl ''manager_agent_url has no host''
           | Some host \<Rightarrow>
               (case url_port u of
                  None \<Rightarrow> Inl ''manager_agent_url has no port''
                | Some port \<Rightarrow>
                    (case parse_ip host of
                       None \<Rightarrow> Inl (''manager_agent_url host is not an IP (got '' @ host
                                    @ ''); re-enroll with an IP manager address'')
                     | Some ip \<Rightarrow>
                         if is_unspecified ip
                         then Inl (''manager_agent_url is an unspecified address (''
                                   @ show_ip ip @ ''); re-enroll with a specific IP'')
                         else Inr (show_ip ip, port)))))"

section \<open>The protected-CIDR check\<close>

text \<open>What the check is meant to decide: two CIDR texts denote blocks with a common address.\<close>

definition share_address :: "'n ipnet_api \<Rightarrow> string \<Rightarrow> string \<Rightarrow> bool" where
  "share_address N c p \<longleftrightarrow>
     (\<exists>n m ip. net_parse N c = Some n \<and> net_parse N p = Some m
               \<and> net_contains N n ip \<and> net_contains N m ip)"

definition blocks_cidr :: "'n ipnet_api \<Rightarrow> FirewallRule \<Rightarrow> string \<Rightarrow> bool" where
  "blocks_cidr N r p \<longleftrightarrow>
     (fr_action r = Deny \<or> fr_action r = Reject) \<and>
     (\<exists>c. fr_src_cidr r = Some c \<and> share_address N c p)"

definition exposes_cidr :: "'n ipnet_api \<Rightarrow> FirewallRule \<Rightarrow> string \<Rightarrow> bool" where
  "exposes_cidr N r p \<longleftrightarrow>
     fr_action r = Allow \<and> is_broad_src (fr_src_cidr r) \<and>
     (\<exists>c. fr_dst_cidr r = Some c \<and> share_address N c p)"

lemma overlaps_protected_in_None:
  "overlaps_protected_in N n ps = None \<longleftrightarrow>
     (\<forall>p \<in> set ps. \<forall>m. net_parse N p = Some m \<longrightarrow> \<not> nets_overlap N n m)"
  by (induction ps) (auto split: option.splits)

lemma overlaps_protected_in_Some:
  "overlaps_protected_in N n ps = Some p \<Longrightarrow>
     p \<in> set ps \<and> (\<exists>m. net_parse N p = Some m \<and> nets_overlap N n m)"
  by (induction ps) (auto split: option.splits if_splits)

text \<open>The manager and the agent use the same test.\<close>

lemma overlaps_protected_iff_cidr_overlaps:
  "overlaps_protected N c ps = None \<longleftrightarrow> (\<forall>p \<in> set ps. \<not> cidr_overlaps N c p)"
  by (auto simp: overlaps_protected_def cidr_overlaps_def overlaps_protected_in_None
      split: option.splits)

context ipnet_laws
begin

lemma cidr_overlaps_iff_share: "cidr_overlaps N c p \<longleftrightarrow> share_address N c p"
  by (auto simp: cidr_overlaps_def share_address_def overlap_iff_common_address
      split: option.splits)

lemma block_violation_empty:
  "block_violation N ps r = [] \<longleftrightarrow> (\<forall>p \<in> set ps. \<not> blocks_cidr N r p)"
  by (auto simp: block_violation_def blocks_cidr_def overlaps_protected_iff_cidr_overlaps
      cidr_overlaps_iff_share split: option.splits)
    (metis cidr_overlaps_iff_share option.discI overlaps_protected_iff_cidr_overlaps)+

lemma exposure_violation_empty:
  "exposure_violation N ps r = [] \<longleftrightarrow> (\<forall>p \<in> set ps. \<not> exposes_cidr N r p)"
  by (auto simp: exposure_violation_def exposes_cidr_def overlaps_protected_iff_cidr_overlaps
      cidr_overlaps_iff_share split: option.splits)
    (metis cidr_overlaps_iff_share option.discI overlaps_protected_iff_cidr_overlaps)+

lemma check_rules_iff:
  "check_rules_against_protected N rules ps = Inr () \<longleftrightarrow>
     (\<forall>r \<in> set rules. \<forall>p \<in> set ps. \<not> blocks_cidr N r p \<and> \<not> exposes_cidr N r p)"
  by (auto simp: check_rules_against_protected_def Let_def block_violation_empty
      exposure_violation_empty)

end

text \<open>C11. The agent's protected-CIDR check decides exactly what it is for: with the documented
meaning of CIDR blocks, a ruleset passes if and only if no deny or reject rule has a source block
with an address in common with a protected block, and no allow rule from a broad source has a
destination block with an address in common with a protected block.\<close>

theorem check_rules_against_protected_correct:
  assumes "ipnet_laws N net_addr prefix_len"
  shows "check_rules_against_protected N rules ps = Inr () \<longleftrightarrow>
     (\<forall>r \<in> set rules. \<forall>p \<in> set ps. \<not> blocks_cidr N r p \<and> \<not> exposes_cidr N r p)"
  by (rule ipnet_laws.check_rules_iff [OF assms])

theorem check_rules_against_protected_correct_witness:
  "\<exists>r \<in> set [plain_rule 1 Allow, plain_rule 2 Deny \<lparr> fr_src_cidr := Some ''10.0.0.0/8'' \<rparr>].
   \<exists>p \<in> set [''10.1.2.3/32'']. blocks_cidr cidr_api r p \<or> exposes_cidr cidr_api r p"
proof -
  have "check_rules_against_protected cidr_api
      [plain_rule 1 Allow, plain_rule 2 Deny \<lparr> fr_src_cidr := Some ''10.0.0.0/8'' \<rparr>]
      [''10.1.2.3/32''] \<noteq> Inr ()"
    by code_simp
  then show ?thesis
    unfolding check_rules_against_protected_correct [OF cidr.ipnet_laws_axioms] by blast
qed


text \<open>A deny or reject rule without a source CIDR, which matches every source and therefore
every protected one, passes the agent's check whatever the protected CIDRs are.\<close>

theorem deny_from_any_passes_check:
  assumes "fr_action r = Deny \<or> fr_action r = Reject" and "fr_src_cidr r = None"
  shows "check_rules_against_protected N [r] ps = Inr ()"
  using assms
  by (auto simp: check_rules_against_protected_def block_violation_def exposure_violation_def)

theorem deny_from_any_passes_check_witness:
  "check_rules_against_protected cidr_api [plain_rule 1 Deny] [''10.1.2.3/32''] = Inr ()"
  by (rule deny_from_any_passes_check) (simp_all add: plain_rule_def)

section \<open>The manager's address\<close>

lemma manager_host_ip_specific_or_literal:
  assumes "manager_host_ip resolve host port = Inr ip"
  shows "parse_ip host = Some ip \<or> \<not> is_unspecified ip"
  using assms
  by (auto simp: manager_host_ip_def ok_or_def find_Some_iff split: option.splits sum.splits)

lemma normalize_ok:
  assumes "normalize_manager_url_to_ip url_parse resolve raw = Inr out"
  obtains scheme ip port where
    "scheme \<in> {''https'', ''http''}" "\<not> is_unspecified ip"
    "out = scheme @ ''://'' @ bracketed ip @ '':'' @ show_nat port"
  using assms
  by (auto simp: normalize_manager_url_to_ip_def split: sum.splits option.splits if_splits)

text \<open>Enrollment and apply agree on the manager's address, for IPv4 only.  A normalised URL
names a specific address and a port.  When the URL parser reads it back as written, the apply path
obtains that address and port for the umbilical if it is an IPv4 address, and an error if it is an
IPv6 address, because the host of the URL is then bracketed.\<close>

theorem normalized_url_endpoint:
  assumes "normalize_manager_url_to_ip url_parse resolve raw = Inr out"
  shows "\<exists>scheme ip port.
     out = scheme @ ''://'' @ bracketed ip @ '':'' @ show_nat port \<and> \<not> is_unspecified ip \<and>
     (url_parse out = Inr \<lparr> url_scheme = scheme, url_host = Some (bracketed ip),
                            url_port = Some port \<rparr> \<longrightarrow>
      (if is_ipv4 ip then manager_endpoint url_parse out = Inr (show_ip ip, port)
       else \<not> is_ok (manager_endpoint url_parse out)))"
proof -
  from assms obtain scheme ip port where ip: "\<not> is_unspecified ip"
    and out: "out = scheme @ ''://'' @ bracketed ip @ '':'' @ show_nat port"
    by (rule normalize_ok) blast
  have "(if is_ipv4 ip then manager_endpoint url_parse out = Inr (show_ip ip, port)
       else \<not> is_ok (manager_endpoint url_parse out))"
    if "url_parse out = Inr \<lparr> url_scheme = scheme, url_host = Some (bracketed ip),
                              url_port = Some port \<rparr>"
    using that ip
    by (cases ip) (simp_all add: manager_endpoint_def bracketed_def is_ipv6_def parse_show_ipv4
        parse_ip_bracket)
  with ip out show ?thesis by blast
qed

theorem normalized_url_endpoint_witness:
  "\<exists>scheme ip port.
     ''https://10.0.0.5:8443'' = scheme @ ''://'' @ bracketed ip @ '':'' @ show_nat port
     \<and> \<not> is_unspecified ip \<and>
     (Inr \<lparr> url_scheme = ''https'', url_host = Some ''10.0.0.5'', url_port = Some 8443 \<rparr>
        = (Inr \<lparr> url_scheme = scheme, url_host = Some (bracketed ip), url_port = Some port \<rparr>
            :: string + url_parts) \<longrightarrow>
      (if is_ipv4 ip
       then manager_endpoint (\<lambda>_. Inr \<lparr> url_scheme = ''https'', url_host = Some ''10.0.0.5'',
              url_port = Some 8443 \<rparr>) ''https://10.0.0.5:8443'' = Inr (show_ip ip, port)
       else \<not> is_ok (manager_endpoint (\<lambda>_. Inr \<lparr> url_scheme = ''https'',
              url_host = Some ''10.0.0.5'', url_port = Some 8443 \<rparr>) ''https://10.0.0.5:8443'')))"
proof -
  have "normalize_manager_url_to_ip
     (\<lambda>_. Inr \<lparr> url_scheme = ''https'', url_host = Some ''10.0.0.5'', url_port = Some 8443 \<rparr>)
     (\<lambda>_. Inl []) ''https://10.0.0.5:8443'' = Inr ''https://10.0.0.5:8443''"
    by code_simp
  from normalized_url_endpoint [OF this] show ?thesis .
qed

end
