(* ===== verification/Agent_Pull.thy ===== *)
theory Agent_Pull
  imports Agent_State Fw_Policy
begin

text \<open>The pull loop, \<open>fw-agent/src/pull_loop.rs\<close>: conversion of the received rules, apply with its
gates, pending actions, and one whole cycle.  The manager is a function from a check-in request to
an answer or an error; \<open>now\<close> is the time of the cycle.\<close>

section \<open>Received rules\<close>

definition action_of_str :: "string \<Rightarrow> FirewallAction" where
  "action_of_str s =
     (if s = ''allow'' then Allow else if s = ''deny'' then Deny
      else if s = ''reject'' then Reject else if s = ''limit'' then Limit
      else if s = ''masquerade'' then Masquerade else Allow)"

definition direction_of_str :: "string \<Rightarrow> FirewallDirection" where
  "direction_of_str s =
     (if s = ''in'' then In else if s = ''out'' then Out
      else if s = ''forward'' then Forward else In)"

definition protocol_of_str :: "string \<Rightarrow> FirewallProtocol" where
  "protocol_of_str s =
     (if s = ''any'' then Any else if s = ''tcp'' then Tcp else if s = ''udp'' then Udp
      else if s = ''icmp'' then Icmp else if s = ''icmpv6'' then Icmpv6
      else if s = ''gre'' then Gre else if s = ''esp'' then Esp else if s = ''ah'' then Ah
      else if s = ''sctp'' then Sctp else Any)"

definition dto_to_rule :: "DateTime \<Rightarrow> RuleDto \<Rightarrow> FirewallRule" where
  "dto_to_rule now dto =
     \<lparr> fr_id = dto_id dto, fr_name = dto_name dto, fr_description = [],
       fr_action = action_of_str (dto_action dto),
       fr_direction = direction_of_str (dto_direction dto),
       fr_protocol = protocol_of_str (dto_protocol dto),
       fr_src_cidr = dto_src_cidr dto, fr_src_port_start = dto_src_port_start dto,
       fr_src_port_end = dto_src_port_end dto, fr_dst_cidr = dto_dst_cidr dto,
       fr_dst_port_start = dto_dst_port_start dto, fr_dst_port_end = dto_dst_port_end dto,
       fr_interface_in = dto_interface_in dto, fr_interface_out = dto_interface_out dto,
       fr_comment = dto_name dto, fr_log = dto_log dto, fr_priority = dto_priority dto,
       fr_created_by = None, fr_created_at = now, fr_updated_at = now \<rparr>"

definition rule_hash_parts :: "FirewallRule \<Rightarrow> RuleHashParts" where
  "rule_hash_parts r =
     \<lparr> hp_id = fr_id r, hp_action = FirewallAction_as_str (fr_action r),
       hp_direction = FirewallDirection_as_str (fr_direction r),
       hp_protocol = FirewallProtocol_as_str (fr_protocol r),
       hp_src_cidr = fr_src_cidr r, hp_dst_cidr = fr_dst_cidr r,
       hp_dst_port_start = fr_dst_port_start r \<rparr>"

section \<open>Apply\<close>

fun BackendError_text :: "BackendError \<Rightarrow> string" where
  "BackendError_text (CommandFailed s) = ''command failed: '' @ s"

definition specific_ip :: "string \<Rightarrow> bool" where
  "specific_ip s = (case parse_ip s of None \<Rightarrow> False | Some ip \<Rightarrow> \<not> is_unspecified ip)"

definition apply_rules ::
  "host_env \<Rightarrow> 'n ipnet_api \<Rightarrow> backend \<Rightarrow> FirewallRule list \<Rightarrow> string list \<Rightarrow> ApplyContext
     \<Rightarrow> agent \<Rightarrow> (string + string) \<times> agent" where
  "apply_rules env N B rules protected_cidrs ctx a =
     (case check_rules_against_protected N rules protected_cidrs of
        Inl violations \<Rightarrow> (Inl (''protected CIDR violations: '' @ join ''; '' violations), a)
      | Inr _ \<Rightarrow>
          if \<not> specific_ip (ac_manager_ip ctx)
          then (Inl (''cannot establish manager umbilical: manager_ip is not a specific IP (got ''
                     @ [CHR 0x22] @ ac_manager_ip ctx @ [CHR 0x22] @ '') '' @ em_dash
                     @ '' refusing to apply; re-enroll with an IP manager address''), a)
          else
            let a1 = a \<lparr> ag_trace := ag_trace a @ [TakeLock] \<rparr>
            in case he_lock env (ag_trace a) of
                 Inl e \<Rightarrow> (Inl (''acquire apply lock: '' @ e), a1)
               | Inr _ \<Rightarrow>
                   (case be_compile B rules ctx of
                      Inl e \<Rightarrow> (Inl (''Compile failed: '' @ BackendError_text e), a1)
                    | Inr compiled \<Rightarrow>
                        (case be_apply B compiled (ag_trace a1) of
                           (Inl e, tr) \<Rightarrow>
                             (Inl (''Apply failed: '' @ BackendError_text e),
                              a1 \<lparr> ag_trace := tr \<rparr>)
                         | (Inr result, tr) \<Rightarrow>
                             if ar_failed result > 0
                             then (Inl (show_nat (ar_failed result) @ '' rules failed to apply''),
                                   a1 \<lparr> ag_trace := tr \<rparr>)
                             else (Inr (ar_snapshot_hash result),
                                   snd (save_last_good env rules (a1 \<lparr> ag_trace := tr \<rparr>))))))"

definition apply_rules_from_dto ::
  "host_env \<Rightarrow> 'n ipnet_api \<Rightarrow> backend \<Rightarrow> DateTime \<Rightarrow> RuleDto list \<Rightarrow> string list \<Rightarrow> ApplyContext
     \<Rightarrow> agent \<Rightarrow> (string + string) \<times> agent" where
  "apply_rules_from_dto env N B now dtos protected_cidrs ctx a =
     apply_rules env N B (map (dto_to_rule now) dtos) protected_cidrs ctx a"

section \<open>Pending actions\<close>

definition execute_pending_action ::
  "backend \<Rightarrow> PendingActionDto \<Rightarrow> trace \<Rightarrow> (bool \<times> string option) \<times> trace" where
  "execute_pending_action B action tr =
     (let t = pad_action_type action
      in if t = ''rollback''
         then (case be_reset B tr of
                 (Inr _, tr') \<Rightarrow> ((True, None), tr')
               | (Inl e, tr') \<Rightarrow> ((False, Some (BackendError_text e)), tr'))
         else if t \<in> {''safe_mode_on'', ''safe_mode_off'', ''reload_config'', ''agent_upgrade'',
                      ''apply_rules''}
         then ((True, None), tr)
         else ((False, Some (''Unknown action type: '' @ t)), tr))"

definition report_result :: "CheckInResultRequest \<Rightarrow> agent \<Rightarrow> agent" where
  "report_result req a = a \<lparr> ag_reports := ag_reports a @ [req] \<rparr>"

text \<open>One action: a replay is acknowledged without being executed.\<close>

definition run_action :: "host_env \<Rightarrow> backend \<Rightarrow> string \<Rightarrow> PendingActionDto \<Rightarrow> agent \<Rightarrow> agent" where
  "run_action env B live_hash action a =
     (let key = he_uuid_str env (pad_id action)
      in if already_executed a key
         then report_result \<lparr> rr_action_id = Some (pad_id action), rr_success = True,
                              rr_error_message = None, rr_new_rules_hash = live_hash \<rparr> a
         else case execute_pending_action B action (ag_trace a) of
                ((success, error_msg), tr) \<Rightarrow>
                  let a1 = a \<lparr> ag_trace := tr \<rparr>;
                      a2 = (if success then snd (record_executed env key a1) else a1)
                  in report_result \<lparr> rr_action_id = Some (pad_id action), rr_success = success,
                                     rr_error_message = error_msg,
                                     rr_new_rules_hash = live_hash \<rparr> a2)"

primrec run_actions ::
  "host_env \<Rightarrow> backend \<Rightarrow> string \<Rightarrow> PendingActionDto list \<Rightarrow> agent \<Rightarrow> agent" where
  "run_actions env B live_hash [] a = a"
| "run_actions env B live_hash (action # actions) a =
     run_actions env B live_hash actions (run_action env B live_hash action a)"

section \<open>The cycle\<close>

definition hostname :: "host_env \<Rightarrow> trace \<Rightarrow> string \<times> trace" where
  "hostname env tr =
     ((case he_output env tr ''hostname'' [] of
         Inr (_, out, _) \<Rightarrow> trim out | Inl _ \<Rightarrow> ''unknown''),
      tr @ [Cmd ''hostname'' []])"

definition gather_os_info :: "host_env \<Rightarrow> trace \<Rightarrow> (string \<times> string) list \<times> trace" where
  "gather_os_info env tr =
     (case detect_container_runtime env tr of (container_runtime, tr1) \<Rightarrow>
      case hostname env tr1 of (h, tr2) \<Rightarrow>
        ([(''hostname'', h), (''os'', he_os env), (''arch'', he_arch env)]
         @ (case container_runtime of None \<Rightarrow> [] | Some r \<Rightarrow> [(''container_runtime'', r)]), tr2))"

definition reported_rules_hash :: "host_env \<Rightarrow> agent \<Rightarrow> string" where
  "reported_rules_hash env a =
     (case load_last_good a of
        None \<Rightarrow> []
      | Some applied \<Rightarrow> compute_rules_hash (he_sha256 env) (map rule_hash_parts applied))"

definition local_drift :: "string \<Rightarrow> agent \<Rightarrow> bool" where
  "local_drift live_hash a =
     (case load_expected_hash a of None \<Rightarrow> False | Some expected \<Rightarrow> expected \<noteq> live_hash)"

text \<open>The manager did not answer: with safe mode enabled and its timeout elapsed, the last-known-good
ruleset is applied again.\<close>

definition safe_mode_revert ::
  "host_env \<Rightarrow> 'n ipnet_api \<Rightarrow> url_parser \<Rightarrow> backend \<Rightarrow> agent \<Rightarrow> agent" where
  "safe_mode_revert env N url_parse B a =
     (case load_last_good a of
        None \<Rightarrow> a
      | Some last_good \<Rightarrow>
          if last_good = [] then a
          else let cached = unwrap_or no_defaults (load_last_defaults a)
               in case manager_endpoint url_parse (pull_manager_agent_url (cfg_pull (ag_config a))) of
                    Inl _ \<Rightarrow> a
                  | Inr (ip, port) \<Rightarrow>
                      snd (apply_rules env N B last_good (cfg_protected_cidrs (ag_config a))
                        \<lparr> ac_manager_ip = ip, ac_manager_port = port,
                          ac_default_input_policy = ld_default_input_policy cached,
                          ac_default_output_policy = ld_default_output_policy cached \<rparr> a))"

definition manager_unreachable ::
  "host_env \<Rightarrow> 'n ipnet_api \<Rightarrow> url_parser \<Rightarrow> backend \<Rightarrow> int \<Rightarrow> agent \<Rightarrow> agent" where
  "manager_unreachable env N url_parse B now a =
     (if cfg_safe_mode_enabled (ag_config a)
      then case safe_mode_check now (ag_safe_mode a) of (active, sm) \<Rightarrow>
             let a1 = a \<lparr> ag_safe_mode := sm \<rparr>
             in if active then safe_mode_revert env N url_parse B a1 else a1
      else a)"

definition apply_config_update :: "host_env \<Rightarrow> ConfigUpdate option \<Rightarrow> agent \<Rightarrow> agent" where
  "apply_config_update env upd a =
     (case upd of
        None \<Rightarrow> a
      | Some u \<Rightarrow>
          let interval = as_u32 (cu_check_in_interval_secs u); version = cu_config_version u;
              cfg = ag_config a;
              pull = cfg_pull cfg \<lparr> pull_check_in_interval_secs := interval,
                                    pull_config_version := version \<rparr>
          in snd (save_config_file env
               (a \<lparr> ag_interval_secs := interval, ag_config_version := version,
                    ag_config := cfg \<lparr> cfg_pull := pull,
                                      cfg_safe_mode_enabled := cu_safe_mode_enabled u \<rparr> \<rparr>)))"

text \<open>The choice of what to apply: the outcome, the defaults that are then in effect, and the agent
afterwards.\<close>

definition apply_phase ::
  "host_env \<Rightarrow> 'n ipnet_api \<Rightarrow> url_parser \<Rightarrow> backend \<Rightarrow> DateTime \<Rightarrow> CheckInResponse \<Rightarrow> bool \<Rightarrow> agent
     \<Rightarrow> (string + string) option \<times> LastDefaults \<times> agent" where
  "apply_phase env N url_parse B now response drift a =
     (let cached = unwrap_or no_defaults (load_last_defaults a);
          defaults_changed =
            (ld_default_input_policy cached \<noteq> cr_default_input_policy response
             \<or> ld_default_output_policy cached \<noteq> cr_default_output_policy response);
          (ip, port) =
            (case manager_endpoint url_parse (pull_manager_agent_url (cfg_pull (ag_config a))) of
               Inr ep \<Rightarrow> ep | Inl _ \<Rightarrow> ([], 0));
          protected_cidrs = cfg_protected_cidrs (ag_config a)
      in if cr_rules response \<noteq> [] \<and> (cr_rules_changed response \<or> defaults_changed)
         then case apply_rules_from_dto env N B now (cr_rules response) protected_cidrs
                     \<lparr> ac_manager_ip = ip, ac_manager_port = port,
                       ac_default_input_policy = cr_default_input_policy response,
                       ac_default_output_policy = cr_default_output_policy response \<rparr> a of
                (r, a1) \<Rightarrow>
                  (Some r, \<lparr> ld_default_input_policy = cr_default_input_policy response,
                             ld_default_output_policy = cr_default_output_policy response \<rparr>, a1)
         else if drift
         then (case load_last_good a of
                 None \<Rightarrow> (None, cached, a)
               | Some last_good \<Rightarrow>
                   if last_good = [] then (None, cached, a)
                   else case apply_rules env N B last_good protected_cidrs
                               \<lparr> ac_manager_ip = ip, ac_manager_port = port,
                                 ac_default_input_policy = ld_default_input_policy cached,
                                 ac_default_output_policy = ld_default_output_policy cached \<rparr> a of
                          (r, a1) \<Rightarrow> (Some r, cached, a1))
         else (None, cached, a))"

definition finish_apply ::
  "host_env \<Rightarrow> string \<Rightarrow> (string + string) option \<times> LastDefaults \<times> agent \<Rightarrow> agent" where
  "finish_apply env live_hash outcome =
     (case outcome of
        (None, _, a) \<Rightarrow> a
      | (Some (Inr new_hash), applied_defaults, a) \<Rightarrow>
          (let a1 = snd (save_expected_hash env new_hash a);
               a2 = snd (save_last_defaults env applied_defaults a1)
           in report_result \<lparr> rr_action_id = None, rr_success = True, rr_error_message = None,
                              rr_new_rules_hash = new_hash \<rparr> a2)
      | (Some (Inl e), _, a) \<Rightarrow>
          report_result \<lparr> rr_action_id = None, rr_success = False, rr_error_message = Some e,
                          rr_new_rules_hash = live_hash \<rparr> a)"

definition check_in_request ::
  "host_env \<Rightarrow> backend \<Rightarrow> string \<Rightarrow> (string \<times> string) list \<Rightarrow> agent \<Rightarrow> CheckInRequest" where
  "check_in_request env B live_hash os_info a =
     \<lparr> ci_rules_hash = reported_rules_hash env a, ci_agent_version = ''0.3.6'',
       ci_backend_type = be_name B, ci_os_info = os_info,
       ci_uptime_seconds = he_uptime env (ag_trace a),
       ci_config_version = ag_config_version a, ci_local_drift = local_drift live_hash a \<rparr>"

definition run_pull_cycle ::
  "host_env \<Rightarrow> 'n ipnet_api \<Rightarrow> url_parser \<Rightarrow> backend
     \<Rightarrow> (CheckInRequest \<Rightarrow> string + CheckInResponse) \<Rightarrow> int \<Rightarrow> agent \<Rightarrow> (string + bool) \<times> agent" where
  "run_pull_cycle env N url_parse B check_in now a =
     (case be_snapshot B (ag_trace a) of
        (Inl e, tr1) \<Rightarrow> (Inl ''Failed to get backend snapshot'', a \<lparr> ag_trace := tr1 \<rparr>)
      | (Inr snapshot, tr1) \<Rightarrow>
          (case be_status B tr1 of
             (Inl e, tr2) \<Rightarrow> (Inl ''Failed to get backend status'', a \<lparr> ag_trace := tr2 \<rparr>)
           | (Inr _, tr2) \<Rightarrow>
               (case gather_os_info env tr2 of (os_info, tr3) \<Rightarrow>
                  let live_hash = ns_hash snapshot;
                      a1 = a \<lparr> ag_trace := tr3 \<rparr>;
                      drift = local_drift live_hash a1
                  in case check_in (check_in_request env B live_hash os_info a1) of
                       Inl e \<Rightarrow> (Inr False, manager_unreachable env N url_parse B now a1)
                     | Inr response \<Rightarrow>
                         let a2 = a1 \<lparr> ag_safe_mode := record_manager_contact now (ag_safe_mode a1) \<rparr>;
                             a3 = apply_config_update env (cr_config response) a2;
                             a4 = finish_apply env live_hash
                                    (apply_phase env N url_parse B now response drift a3);
                             a5 = run_actions env B live_hash (cr_pending_actions response) a4
                         in (Inr drift, a5))))"

text \<open>The pause after a cycle, and one turn of the loop: the cycle with its error swallowed, and the
number of seconds until the next one at the latest.\<close>

definition wait_secs :: "bool \<Rightarrow> int \<Rightarrow> int" where
  "wait_secs drift interval_secs = max (if drift then 30 else interval_secs) 60"

definition pull_loop_turn ::
  "host_env \<Rightarrow> 'n ipnet_api \<Rightarrow> url_parser \<Rightarrow> backend
     \<Rightarrow> (CheckInRequest \<Rightarrow> string + CheckInResponse) \<Rightarrow> int \<Rightarrow> agent \<Rightarrow> int \<times> agent" where
  "pull_loop_turn env N url_parse B check_in now a =
     (case run_pull_cycle env N url_parse B check_in now a of
        (Inr drift, a') \<Rightarrow> (wait_secs drift (ag_interval_secs a'), a')
      | (Inl _, a') \<Rightarrow> (wait_secs False (ag_interval_secs a'), a'))"

text \<open>The agent at the start of the loop.\<close>

definition pull_loop_start :: "int \<Rightarrow> AgentConfig \<Rightarrow> agent_files \<Rightarrow> trace \<Rightarrow> agent" where
  "pull_loop_start now cfg files tr =
     \<lparr> ag_config = cfg, ag_files = files,
       ag_safe_mode = SafeModeState_new now (cfg_safe_mode_timeout_secs cfg),
       ag_interval_secs = pull_check_in_interval_secs (cfg_pull cfg),
       ag_config_version = pull_config_version (cfg_pull cfg), ag_trace = tr, ag_reports = [] \<rparr>"

section \<open>Received names\<close>

lemma action_of_str_as_str [simp]: "action_of_str (FirewallAction_as_str x) = x"
  by (cases x) (simp_all add: action_of_str_def)

lemma direction_of_str_as_str [simp]: "direction_of_str (FirewallDirection_as_str d) = d"
  by (cases d) (simp_all add: direction_of_str_def)

lemma protocol_of_str_as_str [simp]: "protocol_of_str (FirewallProtocol_as_str p) = p"
  by (cases p) (simp_all add: protocol_of_str_def)

section \<open>Runs of the agent\<close>

text \<open>Any number of turns of the loop, against any manager, at any time.\<close>

inductive agent_run ::
  "host_env \<Rightarrow> 'n ipnet_api \<Rightarrow> url_parser \<Rightarrow> backend \<Rightarrow> agent \<Rightarrow> agent \<Rightarrow> bool"
  for env N url_parse B where
  start: "agent_run env N url_parse B a a"
| turn: "agent_run env N url_parse B a a' \<Longrightarrow>
    agent_run env N url_parse B a (snd (pull_loop_turn env N url_parse B check_in now a'))"

text \<open>What every step keeps: the protected CIDRs and the manager's address of the configuration, and
that a ruleset stored as last-known-good passed the protected-CIDR check.\<close>

definition safe_step :: "'n ipnet_api \<Rightarrow> agent \<Rightarrow> agent \<Rightarrow> bool" where
  "safe_step N a a' \<longleftrightarrow>
     cfg_protected_cidrs (ag_config a') = cfg_protected_cidrs (ag_config a)
     \<and> pull_manager_agent_url (cfg_pull (ag_config a')) = pull_manager_agent_url (cfg_pull (ag_config a))
     \<and> (load_last_good a' = load_last_good a \<or> load_last_good a' = None
        \<or> (\<exists>rs. load_last_good a' = Some rs
               \<and> check_rules_against_protected N rs (cfg_protected_cidrs (ag_config a)) = Inr ()))"

named_theorems safe_steps \<open>operations of the agent are safe steps\<close>

lemma safe_step_refl [safe_steps, simp]: "safe_step N a a"
  by (simp add: safe_step_def)

lemma safe_step_trans: "safe_step N a b \<Longrightarrow> safe_step N b c \<Longrightarrow> safe_step N a c"
  unfolding safe_step_def by metis

lemma safe_step_same:
  "ag_config a' = ag_config a \<Longrightarrow> load_last_good a' = load_last_good a \<Longrightarrow> safe_step N a a'"
  by (simp add: safe_step_def)

lemma load_last_good_simps [simp]:
  "load_last_good (a \<lparr> ag_trace := tr \<rparr>) = load_last_good a"
  "load_last_good (a \<lparr> ag_safe_mode := sm \<rparr>) = load_last_good a"
  "load_last_good (report_result req a) = load_last_good a"
  by (simp_all add: load_last_good_def report_result_def)

lemma report_result_frame [simp]:
  "ag_config (report_result req a) = ag_config a"
  "ag_files (report_result req a) = ag_files a"
  "ag_trace (report_result req a) = ag_trace a"
  "ag_safe_mode (report_result req a) = ag_safe_mode a"
  "ag_reports (report_result req a) = ag_reports a @ [req]"
  by (simp_all add: report_result_def)

text \<open>Each saved file leaves the last-known-good ruleset alone, except its own saving.\<close>

lemma save_frame [simp]:
  "load_last_good (snd (save_expected_hash env h a)) = load_last_good a"
  "load_last_good (snd (save_last_defaults env d a)) = load_last_good a"
  "load_last_good (snd (record_executed env k a)) = load_last_good a"
  "load_last_good (snd (save_config_file env a)) = load_last_good a"
  "ag_config (snd (save_expected_hash env h a)) = ag_config a"
  "ag_config (snd (save_last_defaults env d a)) = ag_config a"
  "ag_config (snd (record_executed env k a)) = ag_config a"
  "ag_config (snd (save_config_file env a)) = ag_config a"
  "ag_config (snd (save_last_good env rules a)) = ag_config a"
  by (simp_all add: save_expected_hash_def save_last_defaults_def record_executed_def
      save_config_file_def save_last_good_def load_last_good_def write_file_def Let_def
      split: write_outcome.split)

lemma save_last_good_result:
  "load_last_good (snd (save_last_good env rules a)) \<in> {Some rules, None, load_last_good a}"
  by (simp add: save_last_good_def load_last_good_def write_file_def Let_def
      split: write_outcome.split)

section \<open>Facts from the contract of the backend\<close>

context firewall_backend
begin

text \<open>The outcomes of an apply.\<close>

lemma apply_rules_cases:
  obtains (refused) e where
      "apply_rules env N B rules prot ctx a = (Inl e, a)"
      "check_rules_against_protected N rules prot \<noteq> Inr () \<or> \<not> specific_ip (ac_manager_ip ctx)"
  | (failed) e tr where
      "apply_rules env N B rules prot ctx a = (Inl e, a \<lparr> ag_trace := tr \<rparr>)"
      "check_rules_against_protected N rules prot = Inr ()" "specific_ip (ac_manager_ip ctx)"
      "extends is_tool_event (ag_trace a @ [TakeLock]) tr"
  | (applied) h tr where
      "apply_rules env N B rules prot ctx a
         = (Inr h, snd (save_last_good env rules (a \<lparr> ag_trace := tr \<rparr>)))"
      "check_rules_against_protected N rules prot = Inr ()" "specific_ip (ac_manager_ip ctx)"
      "extends is_tool_event (ag_trace a @ [TakeLock]) tr"
proof (cases "check_rules_against_protected N rules prot = Inr () \<and> specific_ip (ac_manager_ip ctx)")
  case False
  then have "\<exists>e. apply_rules env N B rules prot ctx a = (Inl e, a)"
    by (auto simp: apply_rules_def split: sum.split)
  with False show thesis using refused by blast
next
  case gates: True
  let ?tr = "ag_trace a @ [TakeLock]"
  obtain cs where cs: "be_compile B rules ctx = Inr cs" using compile_total by blast
  obtain r tr where ap: "be_apply B cs ?tr = (Inr r, tr)"
    using apply_total [of cs ?tr] by (metis prod.collapse)
  have ext: "extends is_tool_event ?tr tr" using apply_trace [of ?tr cs] ap by simp
  show thesis
  proof (cases "he_lock env (ag_trace a)")
    case (Inl e)
    with gates show thesis
      by (intro failed [of "''acquire apply lock: '' @ e" ?tr]) (simp_all add: apply_rules_def Let_def)
  next
    case (Inr u)
    show thesis
    proof (cases "ar_failed r > 0")
      case True
      with gates Inr ext show thesis
        by (intro failed [of "show_nat (ar_failed r) @ '' rules failed to apply''" tr])
          (simp_all add: apply_rules_def Let_def cs ap)
    next
      case False
      with gates Inr ext show thesis
        by (intro applied [of "ar_snapshot_hash r" tr]) (simp_all add: apply_rules_def Let_def cs ap)
    qed
  qed
qed

lemma apply_rules_safe [safe_steps]:
  "prot = cfg_protected_cidrs (ag_config a) \<Longrightarrow>
     safe_step N a (snd (apply_rules env N B rules prot ctx a))"
proof (cases rule: apply_rules_cases [of env N rules prot ctx a])
  case (applied h tr)
  assume "prot = cfg_protected_cidrs (ag_config a)"
  with applied show ?thesis
    using save_last_good_result [of env rules "a \<lparr> ag_trace := tr \<rparr>"]
    by (auto simp: safe_step_def)
qed (simp_all add: safe_step_def)

lemma execute_pending_action_trace:
  "extends is_tool_event tr (snd (execute_pending_action B act tr))"
  using reset_trace [of tr]
  by (auto simp: execute_pending_action_def Let_def split: prod.splits sum.splits)

lemma run_action_safe [safe_steps]: "safe_step N a (run_action env B live act a)"
  by (rule safe_step_same) (simp_all add: run_action_def Let_def split: prod.split)

lemma run_actions_safe [safe_steps]: "safe_step N a (run_actions env B live acts a)"
  by (induction acts arbitrary: a) (auto intro: safe_step_trans run_action_safe)

lemma safe_mode_revert_safe [safe_steps]: "safe_step N a (safe_mode_revert env N url_parse B a)"
  by (auto simp: safe_mode_revert_def Let_def intro: apply_rules_safe
      split: option.split sum.split)

lemma manager_unreachable_safe [safe_steps]:
  "safe_step N a (manager_unreachable env N url_parse B now a)"
proof -
  have s: "safe_step N a (a \<lparr> ag_safe_mode := sm \<rparr>)" for sm by (rule safe_step_same) simp_all
  then show ?thesis
    by (auto simp: manager_unreachable_def Let_def
        intro: safe_step_trans [OF s safe_mode_revert_safe] split: prod.split)
qed

lemma apply_phase_safe [safe_steps]:
  "safe_step N a (snd (snd (apply_phase env N url_parse B now response drift a)))"
proof -
  have "safe_step N a a'" if "apply_rules env N B rules (cfg_protected_cidrs (ag_config a)) ctx a = (r, a')"
    for rules ctx r a'
    using apply_rules_safe [of "cfg_protected_cidrs (ag_config a)" a N env rules ctx] that by simp
  then show ?thesis
    by (auto simp: apply_phase_def Let_def apply_rules_from_dto_def
        split: prod.splits option.splits sum.splits)
qed

end

lemma finish_apply_safe [safe_steps]:
  "safe_step N (snd (snd r)) (finish_apply env live r)"
  by (rule safe_step_same) (auto simp: finish_apply_def Let_def split: prod.split option.split sum.split)

lemma apply_config_update_safe [safe_steps]: "safe_step N a (apply_config_update env upd a)"
  by (auto simp: safe_step_def apply_config_update_def Let_def load_last_good_def save_config_file_def
      write_file_def split: option.split write_outcome.split)

lemma gather_os_info_trace: "extends read_only tr (snd (gather_os_info env tr))"
proof -
  obtain c tr1 where d: "detect_container_runtime env tr = (c, tr1)" by fastforce
  have "extends read_only tr tr1" using detect_container_runtime_extends [of tr env] d by simp
  moreover have "extends read_only tr1 (tr1 @ [Cmd ''hostname'' []])"
    by (rule extends_snoc) (simp add: read_only_def)
  ultimately show ?thesis
    by (auto simp: gather_os_info_def d hostname_def intro: extends_trans)
qed

context firewall_backend
begin

text \<open>A cycle reads the state of the machine and then either finds the manager unreachable or
processes its answer.\<close>

lemma run_pull_cycle_cases:
  obtains (unreachable) tr live os e where
      "run_pull_cycle env N url_parse B check_in now a
         = (Inr False, manager_unreachable env N url_parse B now (a \<lparr> ag_trace := tr \<rparr>))"
      "extends read_only (ag_trace a) tr"
      "check_in (check_in_request env B live os (a \<lparr> ag_trace := tr \<rparr>)) = Inl e"
  | (answered) tr live os snap response a2 where
      "run_pull_cycle env N url_parse B check_in now a
         = (Inr (local_drift live a),
            run_actions env B live (cr_pending_actions response)
              (finish_apply env live
                (apply_phase env N url_parse B now response (local_drift live a)
                  (apply_config_update env (cr_config response) a2))))"
      "extends read_only (ag_trace a) tr"
      "fst (be_snapshot B (ag_trace a)) = Inr snap" "live = ns_hash snap"
      "check_in (check_in_request env B live os (a \<lparr> ag_trace := tr \<rparr>)) = Inr response"
      "a2 = a \<lparr> ag_trace := tr, ag_safe_mode := record_manager_contact now (ag_safe_mode a) \<rparr>"
proof -
  obtain snap tr1 where sn: "be_snapshot B (ag_trace a) = (Inr snap, tr1)"
    using snapshot_total by (metis prod.collapse)
  obtain st tr2 where st: "be_status B tr1 = (Inr st, tr2)"
    using status_total by (metis prod.collapse)
  obtain os tr3 where os: "gather_os_info env tr2 = (os, tr3)" by fastforce
  have "extends read_only (ag_trace a) tr1" using snapshot_trace [of "ag_trace a"] sn by simp
  moreover have "extends read_only tr1 tr2" using status_trace [of tr1] st by simp
  moreover have "extends read_only tr2 tr3" using gather_os_info_trace [of tr2 env] os by simp
  ultimately have ext: "extends read_only (ag_trace a) tr3" by (blast intro: extends_trans)
  have drift: "local_drift live (a \<lparr> ag_trace := tr3 \<rparr>) = local_drift live a" for live
    by (simp add: local_drift_def load_expected_hash_def)
  show thesis
  proof (cases "check_in (check_in_request env B (ns_hash snap) os (a \<lparr> ag_trace := tr3 \<rparr>))")
    case (Inl e)
    have "run_pull_cycle env N url_parse B check_in now a
        = (Inr False, manager_unreachable env N url_parse B now (a \<lparr> ag_trace := tr3 \<rparr>))"
      by (simp add: run_pull_cycle_def sn st os Inl Let_def)
    then show thesis using ext Inl by (rule unreachable)
  next
    case (Inr response)
    show thesis
    proof (rule answered [OF _ ext _ refl Inr refl])
      show "fst (be_snapshot B (ag_trace a)) = Inr snap" by (simp add: sn)
    qed (simp add: run_pull_cycle_def sn st os Inr Let_def drift)
  qed
qed

lemma run_pull_cycle_safe [safe_steps]:
  "safe_step N a (snd (run_pull_cycle env N url_parse B check_in now a))"
proof (cases rule: run_pull_cycle_cases [of env N url_parse check_in now a])
  case (unreachable tr live os e)
  have "safe_step N a (a \<lparr> ag_trace := tr \<rparr>)" by (rule safe_step_same) simp_all
  then show ?thesis
    unfolding unreachable(1) snd_conv by (rule safe_step_trans [OF _ manager_unreachable_safe])
next
  case (answered tr live os snap response a2)
  let ?a3 = "apply_config_update env (cr_config response) a2"
  let ?p = "apply_phase env N url_parse B now response (local_drift live a) ?a3"
  have "safe_step N a a2" by (rule safe_step_same) (simp_all add: answered load_last_good_def)
  also note apply_config_update_safe
  finally (safe_step_trans) have "safe_step N a (snd (snd ?p))"
    by (rule safe_step_trans [OF _ apply_phase_safe])
  then have "safe_step N a (finish_apply env live ?p)"
    by (rule safe_step_trans [OF _ finish_apply_safe])
  then show ?thesis
    unfolding answered(1) snd_conv by (rule safe_step_trans [OF _ run_actions_safe])
qed

lemma agent_run_safe: "agent_run env N url_parse B a a' \<Longrightarrow> safe_step N a a'"
proof (induction rule: agent_run.induct)
  case (start a)
  then show ?case by simp
next
  case (turn a a' check_in now)
  have "snd (pull_loop_turn env N url_parse B check_in now a')
      = snd (run_pull_cycle env N url_parse B check_in now a')"
    by (simp add: pull_loop_turn_def split: prod.split sum.split)
  with turn.IH show ?case
    using run_pull_cycle_safe [of N a' env url_parse check_in now] safe_step_trans by metis
qed

end

section \<open>Properties\<close>

text \<open>C2. Nothing the manager sends and nothing the machine does makes the agent keep an unsafe
fallback.  If the stored last-known-good ruleset passes the protected-CIDR check, then after any
number of turns of the pull loop, against any manager, with either backend and with any outcome of
commands and file writes, it still does; and no turn changes the protected CIDRs or the manager's
address.\<close>

theorem last_good_always_protected:
  assumes "agent_run env N url_parse (backend_of env k) a a'"
    and "\<forall>rs. load_last_good a = Some rs \<longrightarrow>
           check_rules_against_protected N rs (cfg_protected_cidrs (ag_config a)) = Inr ()"
  shows "cfg_protected_cidrs (ag_config a') = cfg_protected_cidrs (ag_config a)
    \<and> pull_manager_agent_url (cfg_pull (ag_config a'))
        = pull_manager_agent_url (cfg_pull (ag_config a))
    \<and> (\<forall>rs. load_last_good a' = Some rs \<longrightarrow>
           check_rules_against_protected N rs (cfg_protected_cidrs (ag_config a')) = Inr ())"
  using firewall_backend.agent_run_safe [OF backend_of_contract assms(1)] assms(2)
  by (auto simp: safe_step_def)

text \<open>An agent without stored files, and an answer of the manager, for the concrete instances.\<close>

definition fresh_agent :: agent where
  "fresh_agent = pull_loop_start 0
     (default_agent_config \<lparr> cfg_protected_cidrs := [''10.0.0.5/32''],
        cfg_pull := \<lparr> pull_check_in_interval_secs = 900,
          pull_manager_agent_url = ''https://10.0.0.5:8443'', pull_config_version = 1 \<rparr> \<rparr>)
     \<lparr> af_config = None, af_last_good = None, af_last_defaults = None, af_expected_hash = None,
       af_executed = None \<rparr> []"

definition sample_url_parse :: url_parser where
  "sample_url_parse = (\<lambda>_. Inr \<lparr> url_scheme = ''https'', url_host = Some ''10.0.0.5'',
     url_port = Some 8443 \<rparr>)"

definition sample_dto :: RuleDto where
  "sample_dto =
     \<lparr> dto_id = 7, dto_name = ''web'', dto_action = ''allow'', dto_direction = ''in'',
       dto_protocol = ''tcp'', dto_src_cidr = Some ''10.0.0.0/8'', dto_src_port_start = None,
       dto_src_port_end = None, dto_dst_cidr = None, dto_dst_port_start = Some 443,
       dto_dst_port_end = Some 443, dto_interface_in = None, dto_interface_out = None,
       dto_priority = 1, dto_log = False \<rparr>"

definition quiet_response :: CheckInResponse where
  "quiet_response =
     \<lparr> cr_rules_changed = False, cr_rules = [sample_dto], cr_config = None,
       cr_pending_actions = [], cr_default_input_policy = None, cr_default_output_policy = None \<rparr>"

theorem last_good_always_protected_witness:
  "\<exists>rs. load_last_good (snd (pull_loop_turn calm_env cidr_api sample_url_parse
            (backend_of calm_env UfwBackend)
            (\<lambda>_. Inr (quiet_response \<lparr> cr_rules_changed := True \<rparr>)) 0 fresh_agent)) = Some rs
     \<and> map fr_id rs = [7] \<and> check_rules_against_protected cidr_api rs [''10.0.0.5/32''] = Inr ()"
proof -
  let ?turn = "snd (pull_loop_turn calm_env cidr_api sample_url_parse (backend_of calm_env UfwBackend)
    (\<lambda>_. Inr (quiet_response \<lparr> cr_rules_changed := True \<rparr>)) 0 fresh_agent)"
  have run: "agent_run calm_env cidr_api sample_url_parse (backend_of calm_env UfwBackend)
      fresh_agent ?turn"
    by (intro agent_run.intros)
  have none: "load_last_good fresh_agent = None"
    and prot: "cfg_protected_cidrs (ag_config fresh_agent) = [''10.0.0.5/32'']"
    by code_simp+
  have "map_option (map fr_id) (load_last_good ?turn) = Some [7]"
    by code_simp
  then obtain rs where "load_last_good ?turn = Some rs" "map fr_id rs = [7]" by auto
  then show ?thesis using last_good_always_protected [OF run] none prot by auto
qed

text \<open>C19. A refused apply changes nothing: if a rule violates the protected CIDRs, or the manager's
address is not a specific IP address, then apply reports an error, runs no command, takes no lock
and writes no file, whatever the backend is.\<close>

theorem apply_refused_changes_nothing:
  assumes "check_rules_against_protected N rules prot \<noteq> Inr () \<or> \<not> specific_ip (ac_manager_ip ctx)"
  shows "\<not> is_ok (fst (apply_rules env N B rules prot ctx a))
    \<and> snd (apply_rules env N B rules prot ctx a) = a"
  using assms by (auto simp: apply_rules_def split: sum.split)

theorem apply_refused_changes_nothing_witness:
  "snd (apply_rules calm_env cidr_api (ufw_backend calm_env)
      [plain_rule 2 Deny \<lparr> fr_src_cidr := Some ''10.0.0.0/8'' \<rparr>] [''10.0.0.5/32''] sample_ctx
      fresh_agent) = fresh_agent"
proof -
  have "check_rules_against_protected cidr_api
      [plain_rule 2 Deny \<lparr> fr_src_cidr := Some ''10.0.0.0/8'' \<rparr>] [''10.0.0.5/32''] \<noteq> Inr ()"
    by code_simp
  then show ?thesis using apply_refused_changes_nothing by blast
qed

text \<open>The events of a cycle that leave the firewall alone.\<close>

definition quiet_event :: "host_event \<Rightarrow> bool" where
  "quiet_event e \<longleftrightarrow> read_only e \<or> (\<exists>p. e = WriteFile p)"

lemma quiet_write [simp]: "quiet_event (WriteFile p)"
  by (simp add: quiet_event_def)

lemma save_traces [simp]:
  "ag_trace (snd (save_expected_hash env h a)) = ag_trace a @ [WriteFile expected_hash_path]"
  "ag_trace (snd (save_last_defaults env d a)) = ag_trace a @ [WriteFile last_defaults_path]"
  "ag_trace (snd (record_executed env k a)) = ag_trace a @ [WriteFile executed_actions_path]"
  "ag_trace (snd (save_config_file env a)) = ag_trace a @ [WriteFile config_path]"
  "ag_trace (snd (save_last_good env rules a)) = ag_trace a @ [WriteFile last_good_path]"
  by (simp_all add: save_expected_hash_def save_last_defaults_def record_executed_def
      save_config_file_def save_last_good_def Let_def)

lemma execute_no_rollback:
  "pad_action_type act \<noteq> ''rollback'' \<Longrightarrow> snd (execute_pending_action B act tr) = tr"
  by (simp add: execute_pending_action_def Let_def)

lemma run_action_quiet:
  assumes "pad_action_type act \<noteq> ''rollback''"
  shows "extends quiet_event (ag_trace a) (ag_trace (run_action env B live act a))"
  using execute_no_rollback [OF assms, of B "ag_trace a"]
  by (auto simp: run_action_def Let_def extends_snoc split: prod.split)

lemma run_actions_quiet:
  assumes "\<forall>act \<in> set acts. pad_action_type act \<noteq> ''rollback''"
  shows "extends quiet_event (ag_trace a) (ag_trace (run_actions env B live acts a))"
  using assms
proof (induction acts arbitrary: a)
  case Nil
  then show ?case by simp
next
  case (Cons act acts)
  then have "extends quiet_event (ag_trace a) (ag_trace (run_action env B live act a))"
    by (intro run_action_quiet) simp
  then show ?case using Cons by (auto intro: extends_trans)
qed

lemma finish_apply_quiet:
  "extends quiet_event (ag_trace (snd (snd r))) (ag_trace (finish_apply env live r))"
  by (auto simp: finish_apply_def Let_def extends_def split: prod.split option.split sum.split)

lemma apply_config_update_quiet:
  "extends quiet_event (ag_trace a) (ag_trace (apply_config_update env upd a))"
  by (auto simp: apply_config_update_def Let_def extends_def split: option.split)

lemma apply_config_update_url [simp]:
  "pull_manager_agent_url (cfg_pull (ag_config (apply_config_update env upd a)))
     = pull_manager_agent_url (cfg_pull (ag_config a))"
  using apply_config_update_safe by (auto simp: safe_step_def)

lemma not_specific_empty [simp]: "\<not> specific_ip []"
  by code_simp

lemma apply_phase_no_endpoint:
  assumes "manager_endpoint url_parse (pull_manager_agent_url (cfg_pull (ag_config a))) = Inl e"
  shows "snd (snd (apply_phase env N url_parse B now response drift a)) = a"
proof -
  have "apply_rules env N B rules prot \<lparr> ac_manager_ip = [], ac_manager_port = 0,
      ac_default_input_policy = di, ac_default_output_policy = do \<rparr> a = (r, a') \<Longrightarrow> a' = a"
    for rules prot di do r a'
    by (auto simp: apply_rules_def split: sum.splits)
  then show ?thesis
    using assms by (auto simp: apply_phase_def Let_def apply_rules_from_dto_def
        split: prod.splits option.splits)
qed

lemma safe_mode_revert_no_endpoint:
  assumes "manager_endpoint url_parse (pull_manager_agent_url (cfg_pull (ag_config a))) = Inl e"
  shows "safe_mode_revert env N url_parse B a = a"
  using assms by (auto simp: safe_mode_revert_def Let_def split: option.split)

context firewall_backend
begin

lemma no_endpoint_quiet:
  assumes "manager_endpoint url_parse (pull_manager_agent_url (cfg_pull (ag_config a))) = Inl e"
    and "\<forall>req r. check_in req = Inr r \<longrightarrow>
           (\<forall>act \<in> set (cr_pending_actions r). pad_action_type act \<noteq> ''rollback'')"
  shows "extends quiet_event (ag_trace a)
    (ag_trace (snd (run_pull_cycle env N url_parse B check_in now a)))"
proof -
  have ro: "extends quiet_event t t'" if "extends read_only t t'" for t t'
    by (rule extends_mono [OF that]) (simp add: quiet_event_def)
  show ?thesis
  proof (cases rule: run_pull_cycle_cases [of env N url_parse check_in now a])
    case (unreachable tr live os e')
    have "ag_trace (manager_unreachable env N url_parse B now (a \<lparr> ag_trace := tr \<rparr>)) = tr"
      using assms(1) by (simp add: manager_unreachable_def Let_def safe_mode_revert_no_endpoint
          split: prod.split)
    then show ?thesis using unreachable(1) ro [OF unreachable(2)] by simp
  next
    case (answered tr live os snap response a2)
    let ?a3 = "apply_config_update env (cr_config response) a2"
    let ?p = "apply_phase env N url_parse B now response (local_drift live a) ?a3"
    have "extends quiet_event (ag_trace a) (ag_trace a2)"
      using ro [OF answered(2)] by (simp add: answered(6))
    then have "extends quiet_event (ag_trace a) (ag_trace ?a3)"
      by (rule extends_trans [OF _ apply_config_update_quiet])
    moreover have "snd (snd ?p) = ?a3"
      using assms(1) by (intro apply_phase_no_endpoint) (simp add: answered(6))
    ultimately have "extends quiet_event (ag_trace a) (ag_trace (finish_apply env live ?p))"
      using extends_trans [OF _ finish_apply_quiet] by metis
    then have "extends quiet_event (ag_trace a)
        (ag_trace (run_actions env B live (cr_pending_actions response) (finish_apply env live ?p)))"
      using assms(2) answered(5) by (blast intro: extends_trans [OF _ run_actions_quiet])
    then show ?thesis by (simp add: answered(1))
  qed
qed

lemma steady_cycle:
  assumes "fst (be_snapshot B (ag_trace a)) = Inr snap"
    and "\<not> local_drift (ns_hash snap) a"
    and "\<forall>req. \<exists>r. check_in req = Inr r \<and> \<not> cr_rules_changed r \<and> cr_config r = None
           \<and> cr_pending_actions r = []
           \<and> unwrap_or no_defaults (load_last_defaults a)
               = \<lparr> ld_default_input_policy = cr_default_input_policy r,
                   ld_default_output_policy = cr_default_output_policy r \<rparr>"
  shows "let (res, a') = run_pull_cycle env N url_parse B check_in now a
    in res = Inr False \<and> extends read_only (ag_trace a) (ag_trace a')
       \<and> ag_files a' = ag_files a \<and> ag_reports a' = ag_reports a"
proof (cases rule: run_pull_cycle_cases [of env N url_parse check_in now a])
  case (unreachable tr live os e)
  then show ?thesis using assms(3) by (metis Inl_Inr_False)
next
  case (answered tr live os snap' response a2)
  have live: "live = ns_hash snap" using assms(1) answered(3,4) by simp
  from assms(3) answered(5) have r: "\<not> cr_rules_changed response" "cr_config response = None"
    "cr_pending_actions response = []"
    "unwrap_or no_defaults (load_last_defaults a)
       = \<lparr> ld_default_input_policy = cr_default_input_policy response,
           ld_default_output_policy = cr_default_output_policy response \<rparr>"
    by (metis sum.inject(2))+
  have same: "load_last_defaults a2 = load_last_defaults a"
    by (simp add: answered(6) load_last_defaults_def)
  have phase: "apply_phase env N url_parse B now response False a2
      = (None, unwrap_or no_defaults (load_last_defaults a), a2)"
    by (simp add: apply_phase_def Let_def same r split: prod.split)
  show ?thesis
    using assms(2) answered(2)
    by (simp add: answered(1,6) live r apply_config_update_def phase [unfolded answered(6)]
        finish_apply_def)
qed

end

context firewall_backend
begin

lemma unreachable_quiet:
  assumes "\<forall>req. \<exists>e. check_in req = Inl e"
    and "\<not> cfg_safe_mode_enabled (ag_config a)
         \<or> elapsed_secs now (ag_safe_mode a) \<le> sm_timeout_secs (ag_safe_mode a)"
  shows "let (res, a') = run_pull_cycle env N url_parse B check_in now a
    in res = Inr False \<and> extends read_only (ag_trace a) (ag_trace a')
       \<and> ag_files a' = ag_files a \<and> ag_reports a' = ag_reports a"
proof (cases rule: run_pull_cycle_cases [of env N url_parse check_in now a])
  case (unreachable tr live os e)
  have "manager_unreachable env N url_parse B now (a \<lparr> ag_trace := tr \<rparr>) = a \<lparr> ag_trace := tr \<rparr>"
    using assms(2) by (auto simp: manager_unreachable_def Let_def safe_mode_check_def)
  then show ?thesis using unreachable(1,2) by simp
next
  case (answered tr live os snap response a2)
  then show ?thesis using assms(1) by (metis Inl_Inr_False)
qed

end

text \<open>The replay log: what is recorded stays recorded, and every successful action is recorded.\<close>

lemma already_executed_cong:
  "af_executed (ag_files a) = af_executed (ag_files b) \<Longrightarrow> already_executed a k = already_executed b k"
  by (simp add: already_executed_def)

lemma record_executed_log:
  assumes "\<forall>tr. he_write env tr executed_actions_path = Written" and "plain_id key"
    and "complete_lines (unwrap_or [] (af_executed (ag_files a)))"
  shows "complete_lines (unwrap_or [] (af_executed (ag_files (snd (record_executed env key a)))))"
    and "already_executed (snd (record_executed env key a)) k \<longleftrightarrow> already_executed a k \<or> k = key"
proof -
  let ?old = "unwrap_or [] (af_executed (ag_files a))"
  have log: "af_executed (ag_files (snd (record_executed env key a))) = Some (?old @ key @ [CHR 0x0A])"
    using assms(1) by (simp add: record_executed_def write_file_def Let_def)
  show "complete_lines (unwrap_or [] (af_executed (ag_files (snd (record_executed env key a)))))"
    by (simp add: log complete_lines_def)
  have "lines (?old @ key @ [CHR 0x0A]) = lines ?old @ [chop_cr key]"
    by (rule lines_append_complete [OF assms(3) plain_id_no_newline [OF assms(2)]])
  then show "already_executed (snd (record_executed env key a)) k \<longleftrightarrow> already_executed a k \<or> k = key"
    by (auto simp: already_executed_def log plain_id_trim [OF assms(2)] split: option.split)
qed

lemma run_action_report:
  "\<exists>r. ag_reports (run_action env B live act a) = ag_reports a @ [r]"
  by (auto simp: run_action_def Let_def record_executed_def split: prod.split)

lemma run_action_log:
  assumes "\<forall>tr. he_write env tr executed_actions_path = Written"
    and "\<forall>u. plain_id (he_uuid_str env u)"
    and "complete_lines (unwrap_or [] (af_executed (ag_files a)))"
    and "rr_success (last (ag_reports (run_action env B live act a)))"
  shows "complete_lines (unwrap_or [] (af_executed (ag_files (run_action env B live act a))))"
    and "already_executed (run_action env B live act a) k \<longleftrightarrow>
           already_executed a k \<or> k = he_uuid_str env (pad_id act)"
proof -
  let ?key = "he_uuid_str env (pad_id act)"
  obtain ok e tr where x: "execute_pending_action B act (ag_trace a) = ((ok, e), tr)"
    by (metis prod.exhaust)
  let ?rec = "snd (record_executed env ?key (a \<lparr> ag_trace := tr \<rparr>))"
  have files: "af_executed (ag_files (run_action env B live act a))
      = (if already_executed a ?key then af_executed (ag_files a) else af_executed (ag_files ?rec))"
    using assms(4) x by (auto simp: run_action_def Let_def)
  note log = record_executed_log [OF assms(1), of ?key "a \<lparr> ag_trace := tr \<rparr>"]
  show "complete_lines (unwrap_or [] (af_executed (ag_files (run_action env B live act a))))"
    using log(1) assms(2,3) by (simp add: files)
  have cong: "already_executed (a \<lparr> ag_trace := tr \<rparr>) k = already_executed a k" for k
    by (rule already_executed_cong) simp
  show "already_executed (run_action env B live act a) k \<longleftrightarrow> already_executed a k \<or> k = ?key"
  proof (cases "already_executed a ?key")
    case True
    then have "already_executed (run_action env B live act a) k = already_executed a k"
      by (intro already_executed_cong) (simp add: files)
    with True show ?thesis by auto
  next
    case False
    then have "already_executed (run_action env B live act a) k = already_executed ?rec k"
      by (intro already_executed_cong) (simp add: files)
    then show ?thesis using log(2) [of k] assms(2,3) cong by simp
  qed
qed

lemma run_actions_reports_grow:
  "\<exists>rs. ag_reports (run_actions env B live acts a) = ag_reports a @ rs"
proof (induction acts arbitrary: a)
  case Nil
  then show ?case by simp
next
  case (Cons act acts)
  obtain r rs where "ag_reports (run_action env B live act a) = ag_reports a @ [r]"
    "ag_reports (run_actions env B live acts (run_action env B live act a))
       = ag_reports (run_action env B live act a) @ rs"
    using run_action_report [of env B live act a] Cons.IH by blast
  then show ?case by simp
qed

lemma run_actions_all_recorded:
  assumes "\<forall>tr. he_write env tr executed_actions_path = Written"
    and "\<forall>u. plain_id (he_uuid_str env u)"
    and "complete_lines (unwrap_or [] (af_executed (ag_files a)))"
    and "\<forall>r \<in> set (drop (length (ag_reports a)) (ag_reports (run_actions env B live acts a))).
           rr_success r"
  shows "(\<forall>k. already_executed a k \<longrightarrow> already_executed (run_actions env B live acts a) k)
    \<and> (\<forall>act \<in> set acts. already_executed (run_actions env B live acts a) (he_uuid_str env (pad_id act)))"
  using assms(3,4)
proof (induction acts arbitrary: a)
  case Nil
  then show ?case by simp
next
  case (Cons act acts)
  let ?a = "run_action env B live act a"
  obtain r where r: "ag_reports ?a = ag_reports a @ [r]" using run_action_report by blast
  obtain rs where rs: "ag_reports (run_actions env B live acts ?a) = ag_reports ?a @ rs"
    using run_actions_reports_grow by blast
  have ok: "rr_success (last (ag_reports ?a))" "\<forall>r \<in> set rs. rr_success r"
    using Cons.prems(2) by (simp_all add: r rs)
  note log = run_action_log [OF assms(1,2) Cons.prems(1) ok(1)]
  have "\<forall>r \<in> set (drop (length (ag_reports ?a)) (ag_reports (run_actions env B live acts ?a))).
      rr_success r"
    using ok(2) by (simp add: rs)
  from Cons.IH [OF log(1) this] log(2) show ?case by simp
qed

lemma replayed_actions_silent:
  assumes "\<forall>act \<in> set acts. already_executed a (he_uuid_str env (pad_id act))"
  shows "ag_trace (run_actions env B live acts a) = ag_trace a"
  using assms
proof (induction acts arbitrary: a)
  case Nil
  then show ?case by simp
next
  case (Cons act acts)
  have "already_executed (run_action env B live act a) k = already_executed a k" for k
    using Cons.prems by (intro already_executed_cong) (simp add: run_action_def Let_def)
  then show ?case using Cons by (simp add: run_action_def Let_def)
qed

text \<open>C17. Without a usable manager address the firewall is left alone.  If the configured URL gives
no endpoint for the umbilical, then a whole cycle, with either backend, against any manager that
does not order a rollback and also when safe mode reverts, only reads the state of the machine and
writes the agent's own files.\<close>

theorem no_endpoint_no_change:
  assumes "manager_endpoint url_parse (pull_manager_agent_url (cfg_pull (ag_config a))) = Inl e"
    and "\<forall>req r. check_in req = Inr r \<longrightarrow>
           (\<forall>act \<in> set (cr_pending_actions r). pad_action_type act \<noteq> ''rollback'')"
  shows "extends quiet_event (ag_trace a)
    (ag_trace (snd (run_pull_cycle env N url_parse (backend_of env k) check_in now a)))"
  by (rule firewall_backend.no_endpoint_quiet [OF backend_of_contract assms])

theorem no_endpoint_no_change_witness:
  "extends quiet_event [] (ag_trace (snd (run_pull_cycle calm_env cidr_api (\<lambda>_. Inl ''bad url'')
     (backend_of calm_env UfwBackend) (\<lambda>_. Inr (quiet_response \<lparr> cr_rules_changed := True \<rparr>)) 0
     fresh_agent)))"
proof -
  have "ag_trace fresh_agent = []" by code_simp
  then show ?thesis
    using no_endpoint_no_change [of "\<lambda>_. Inl ''bad url''" fresh_agent
        "''invalid manager_agent_url: bad url''"
        "\<lambda>_. Inr (quiet_response \<lparr> cr_rules_changed := True \<rparr>)" calm_env cidr_api UfwBackend 0]
    by (simp add: manager_endpoint_def quiet_response_def)
qed

text \<open>C36. The steady state is quiet.  If the live rules are those last applied, and the manager
answers that nothing changed (no new rules, the same defaults, no configuration, no actions), then a
cycle only reads the state of the machine, leaves every file as it is and reports nothing.\<close>

theorem steady_state_cycle:
  assumes "fst (be_snapshot (backend_of env k) (ag_trace a)) = Inr snap"
    and "\<not> local_drift (ns_hash snap) a"
    and "\<forall>req. \<exists>r. check_in req = Inr r \<and> \<not> cr_rules_changed r \<and> cr_config r = None
           \<and> cr_pending_actions r = []
           \<and> unwrap_or no_defaults (load_last_defaults a)
               = \<lparr> ld_default_input_policy = cr_default_input_policy r,
                   ld_default_output_policy = cr_default_output_policy r \<rparr>"
  shows "let (res, a') = run_pull_cycle env N url_parse (backend_of env k) check_in now a
    in res = Inr False \<and> extends read_only (ag_trace a) (ag_trace a')
       \<and> ag_files a' = ag_files a \<and> ag_reports a' = ag_reports a"
  by (rule firewall_backend.steady_cycle [OF backend_of_contract assms])

theorem steady_state_cycle_witness:
  "let (res, a') = run_pull_cycle calm_env cidr_api sample_url_parse (backend_of calm_env UfwBackend)
       (\<lambda>_. Inr quiet_response) 0 fresh_agent
   in res = Inr False \<and> extends read_only (ag_trace fresh_agent) (ag_trace a')
      \<and> ag_files a' = ag_files fresh_agent \<and> ag_reports a' = ag_reports fresh_agent"
proof (rule steady_state_cycle)
  show "fst (be_snapshot (backend_of calm_env UfwBackend) (ag_trace fresh_agent))
      = Inr \<lparr> ns_rules = [], ns_hash = [] \<rparr>"
    by code_simp
  show "\<not> local_drift (ns_hash \<lparr> ns_rules = [], ns_hash = [] \<rparr>) fresh_agent"
    by code_simp
  have "load_last_defaults fresh_agent = None" by code_simp
  then show "\<forall>req. \<exists>r. (Inr quiet_response :: string + CheckInResponse) = Inr r
      \<and> \<not> cr_rules_changed r \<and> cr_config r = None \<and> cr_pending_actions r = []
      \<and> unwrap_or no_defaults (load_last_defaults fresh_agent)
          = \<lparr> ld_default_input_policy = cr_default_input_policy r,
              ld_default_output_policy = cr_default_output_policy r \<rparr>"
    by (simp add: quiet_response_def no_defaults_def)
qed

text \<open>An unreachable manager does not disturb the host before its time: if every check-in fails,
and safe mode is disabled or its timeout has not elapsed, then a cycle only reads the state of the
machine, leaves every file as it is, reports nothing, and returns normally.\<close>

theorem unreachable_before_timeout:
  assumes "\<forall>req. \<exists>e. check_in req = Inl e"
    and "\<not> cfg_safe_mode_enabled (ag_config a)
         \<or> elapsed_secs now (ag_safe_mode a) \<le> sm_timeout_secs (ag_safe_mode a)"
  shows "let (res, a') = run_pull_cycle env N url_parse (backend_of env k) check_in now a
    in res = Inr False \<and> extends read_only (ag_trace a) (ag_trace a')
       \<and> ag_files a' = ag_files a \<and> ag_reports a' = ag_reports a"
  by (rule firewall_backend.unreachable_quiet [OF backend_of_contract assms])

theorem unreachable_before_timeout_witness:
  "let (res, a') = run_pull_cycle calm_env cidr_api sample_url_parse (backend_of calm_env UfwBackend)
       (\<lambda>_. Inl ''timeout'') 5000000000 fresh_agent
   in res = Inr False \<and> extends read_only (ag_trace fresh_agent) (ag_trace a')
      \<and> ag_files a' = ag_files fresh_agent \<and> ag_reports a' = ag_reports fresh_agent"
  by (rule unreachable_before_timeout) (simp, code_simp)

text \<open>C18. An action is executed once.  On a host whose log of executed actions can be written, and
whose action identifiers print without blanks, processing the same list of pending actions a second
time, after a first time in which each of them succeeded, adds nothing to what happened on the
machine: no rollback is repeated.\<close>

theorem actions_not_replayed:
  assumes "\<forall>tr. he_write env tr executed_actions_path = Written"
    and "\<forall>u. plain_id (he_uuid_str env u)"
    and "complete_lines (unwrap_or [] (af_executed (ag_files a)))"
    and "\<forall>r \<in> set (drop (length (ag_reports a)) (ag_reports (run_actions env B live acts a))).
           rr_success r"
  shows "ag_trace (run_actions env B live' acts (run_actions env B live acts a))
    = ag_trace (run_actions env B live acts a)"
  by (rule replayed_actions_silent) (use run_actions_all_recorded [OF assms] in blast)

definition rollback_action :: PendingActionDto where
  "rollback_action = \<lparr> pad_id = 5, pad_action_type = ''rollback'', pad_payload = [], pad_reason = [] \<rparr>"

lemma plain_id_show_nat: "plain_id (show_nat n)"
  unfolding plain_id_def using show_nat_digits [of _ n] by fastforce

theorem actions_not_replayed_witness:
  "ag_trace (run_actions calm_env (ufw_backend calm_env) [] [rollback_action]
      (run_actions calm_env (ufw_backend calm_env) [] [rollback_action] fresh_agent))
   = ag_trace (run_actions calm_env (ufw_backend calm_env) [] [rollback_action] fresh_agent)"
proof (rule actions_not_replayed)
  show "\<forall>tr. he_write calm_env tr executed_actions_path = Written"
    "\<forall>u. plain_id (he_uuid_str calm_env u)"
    by (simp_all add: calm_env_def plain_id_show_nat)
  show "complete_lines (unwrap_or [] (af_executed (ag_files fresh_agent)))"
    by code_simp
  have "drop (length (ag_reports fresh_agent)) (ag_reports (run_actions calm_env
      (ufw_backend calm_env) [] [rollback_action] fresh_agent))
      = [\<lparr> rr_action_id = Some 5, rr_success = True, rr_error_message = None,
           rr_new_rules_hash = [] \<rparr>]"
    by code_simp
  then show "\<forall>r \<in> set (drop (length (ag_reports fresh_agent)) (ag_reports (run_actions calm_env
      (ufw_backend calm_env) [] [rollback_action] fresh_agent))). rr_success r"
    by simp
qed

text \<open>C38. A failed UFW reset is taken for success.  When the reset fails, the apply result counts no
failed command, so the caller stores the ruleset as last-known-good and returns success with an
empty hash, although none of the rules was applied.\<close>

theorem failed_reset_reported_as_success:
  assumes "check_rules_against_protected N rules prot = Inr ()" and "specific_ip (ac_manager_ip ctx)"
    and "he_lock env (ag_trace a) = Inr ()"
    and "\<not> fst (fst (ufw_force_reset env
           (snd (detect_container_runtime env (ag_trace a @ [TakeLock])))))"
    and "\<forall>tr. he_write env tr last_good_path = Written"
  shows "fst (apply_rules env N (ufw_backend env) rules prot ctx a) = Inr []
    \<and> load_last_good (snd (apply_rules env N (ufw_backend env) rules prot ctx a)) = Some rules"
proof -
  obtain cs where cs: "ufw_compile rules ctx = Inr cs" by (simp add: ufw_compile_def)
  obtain e tr where "ufw_apply env cs (ag_trace a @ [TakeLock])
      = (Inr \<lparr> ar_applied = 0, ar_failed = 0, ar_snapshot_hash = [], ar_error = Some e \<rparr>, tr)"
    using ufw_apply_reset_failed [OF assms(4)] by blast
  then show ?thesis
    using assms by (simp add: apply_rules_def Let_def ufw_backend_def cs save_last_good_def
        write_file_def load_last_good_def)
qed

definition broken_reset_env :: host_env where
  "broken_reset_env = calm_env \<lparr> he_output := (\<lambda>_ _ args.
     if args = reset_args then Inr (False, [], ''ERROR: problem running'') else Inr (True, [], [])) \<rparr>"

theorem failed_reset_reported_as_success_witness:
  "fst (apply_rules broken_reset_env cidr_api (ufw_backend broken_reset_env) [plain_rule 1 Deny]
      [''10.0.0.5/32''] sample_ctx fresh_agent) = Inr []
   \<and> load_last_good (snd (apply_rules broken_reset_env cidr_api (ufw_backend broken_reset_env)
      [plain_rule 1 Deny] [''10.0.0.5/32''] sample_ctx fresh_agent)) = Some [plain_rule 1 Deny]"
proof (rule failed_reset_reported_as_success)
  show "check_rules_against_protected cidr_api [plain_rule 1 Deny] [''10.0.0.5/32''] = Inr ()"
    "specific_ip (ac_manager_ip sample_ctx)"
    "he_lock broken_reset_env (ag_trace fresh_agent) = Inr ()"
    "\<not> fst (fst (ufw_force_reset broken_reset_env
       (snd (detect_container_runtime broken_reset_env (ag_trace fresh_agent @ [TakeLock])))))"
    by code_simp+
  show "\<forall>tr. he_write broken_reset_env tr last_good_path = Written"
    by (simp add: broken_reset_env_def calm_env_def)
qed

text \<open>The pace of the loop: the pause after a turn is never shorter than sixty seconds, and
after a cycle that found local drift it is exactly sixty.\<close>

theorem pull_loop_pace:
  assumes "pull_loop_turn env N url_parse B check_in now a = (w, a')"
  shows "60 \<le> w
    \<and> (fst (run_pull_cycle env N url_parse B check_in now a) = Inr True \<longrightarrow> w = 60)"
  using assms by (auto simp: pull_loop_turn_def wait_secs_def split: prod.splits sum.splits)

theorem pull_loop_pace_witness:
  "60 \<le> fst (pull_loop_turn calm_env cidr_api sample_url_parse (ufw_backend calm_env)
      (\<lambda>_. Inr quiet_response) 0 fresh_agent)"
  using pull_loop_pace [of calm_env cidr_api sample_url_parse "ufw_backend calm_env"
      "\<lambda>_. Inr quiet_response" 0 fresh_agent] by (metis prod.collapse)

end
