(* ===== verification/Agent_Enroll.thy ===== *)
theory Agent_Enroll
  imports Agent_Pull
begin

text \<open>How a host joins: the enrollment client of the agent (\<open>fw-agent/src/enrollment.rs\<close>), the daemon
that waits for it and starts the pull loop (\<open>fw-agent/src/main.rs\<close>), the drift command
(\<open>fw-agent/src/drift.rs\<close>), and the reader of the manager's event stream
(\<open>fw-agent/src/pull_client.rs\<close>).  Key generation and signing requests (\<open>rcgen\<close>), the HTTP client
(\<open>reqwest\<close>), \<open>hostname\<close>, \<open>uuid\<close>, \<open>url\<close> and the resolver are parameters; a reply of the manager is its
status with the parsed body, if it parses.\<close>

section \<open>Messages\<close>

record BundlePullConfig =
  bp_check_in_interval_secs :: int
  bp_push_enabled :: bool
  bp_config_version :: int
  bp_manager_agent_url :: string

record BundlePki =
  bk_ca_chain :: "string list"
  bk_server_cert :: string
  bk_crl_pem :: "string option"
  bk_pull_config :: "BundlePullConfig option"

record StatusReply =
  sy_status :: string
  sy_pki_bundle :: "BundlePki option"
  sy_host_id :: "string option"

record SubmitBody =
  sb_token :: string
  sb_csr :: string
  sb_fqdn :: string
  sb_ip_address :: string
  sb_hostname :: string
  sb_os_details :: "(string \<times> string) list"

datatype 'a http_reply = NoReply string | HttpReply nat "string option" "'a option"

definition is_success :: "nat \<Rightarrow> bool" where
  "is_success status \<longleftrightarrow> 200 \<le> status \<and> status < 300"

section \<open>The machine\<close>

text \<open>What enrollment works on: the configuration and the other files of the agent, files by path, the
events on the machine, and the number of polls so far, each after a pause of sixty seconds.\<close>

record enroll_state =
  es_files :: agent_files
  es_disk :: "string \<Rightarrow> string option"
  es_trace :: trace
  es_polls :: nat

record enroll_env =
  en_host :: host_env
  en_mkdir :: "trace \<Rightarrow> string \<Rightarrow> bool"
  en_chmod :: "trace \<Rightarrow> string \<Rightarrow> bool"
  en_io_text :: string
  en_key :: "string option"
  en_params_ok :: "string \<Rightarrow> bool"
  en_request :: "string \<Rightarrow> string \<Rightarrow> string option"
  en_pem :: "string \<Rightarrow> string option"
  en_client :: "string + unit"
  en_hostname :: "string option"
  en_submit :: "string \<Rightarrow> SubmitBody \<Rightarrow> string http_reply"
  en_poll :: "nat \<Rightarrow> string \<Rightarrow> StatusReply http_reply"
  en_url_parse :: url_parser
  en_resolve :: resolver
  en_parse_uuid :: "string \<Rightarrow> Uuid option"
  en_pull_client :: "string \<Rightarrow> Uuid \<Rightarrow> string \<Rightarrow> string \<Rightarrow> string \<Rightarrow> string + unit"

type_synonym 'a enroll_op = "enroll_state \<Rightarrow> (string + 'a) \<times> enroll_state"

definition sbind :: "'a enroll_op \<Rightarrow> ('a \<Rightarrow> 'b enroll_op) \<Rightarrow> 'b enroll_op" where
  "sbind m k st = (case m st of (Inl e, st') \<Rightarrow> (Inl e, st') | (Inr x, st') \<Rightarrow> k x st')"

definition sret :: "'a \<Rightarrow> 'a enroll_op" where
  "sret x st = (Inr x, st)"

definition stry :: "string + 'a \<Rightarrow> 'a enroll_op" where
  "stry r st = (r, st)"

text \<open>Directories, files and permissions; an error gets the given text.\<close>

definition make_dir :: "enroll_env \<Rightarrow> string \<Rightarrow> string \<Rightarrow> unit enroll_op" where
  "make_dir E path msg st = (if en_mkdir E (es_trace st) path then Inr () else Inl msg, st)"

definition set_mode :: "enroll_env \<Rightarrow> string \<Rightarrow> string \<Rightarrow> unit enroll_op" where
  "set_mode E path msg st = (if en_chmod E (es_trace st) path then Inr () else Inl msg, st)"

definition put_file :: "enroll_env \<Rightarrow> string \<Rightarrow> string \<Rightarrow> string \<Rightarrow> unit enroll_op" where
  "put_file E path content msg st =
     (let st' = st \<lparr> es_trace := es_trace st @ [WriteFile path] \<rparr>
      in case he_write (en_host E) (es_trace st) path of
           Written \<Rightarrow> (Inr (), st' \<lparr> es_disk := (es_disk st) (path := Some content) \<rparr>)
         | NotWritten \<Rightarrow> (Inl msg, st')
         | Partial n \<Rightarrow> (Inl msg, st' \<lparr> es_disk := (es_disk st) (path := Some (take n content)) \<rparr>))"

definition put_config :: "enroll_env \<Rightarrow> AgentConfig \<Rightarrow> string \<Rightarrow> unit enroll_op" where
  "put_config E cfg msg st =
     (let st' = st \<lparr> es_trace := es_trace st @ [WriteFile config_path] \<rparr>
      in case he_write (en_host E) (es_trace st) config_path of
           Written \<Rightarrow> (Inr (), st' \<lparr> es_files := es_files st \<lparr> af_config := Some cfg \<rparr> \<rparr>)
         | NotWritten \<Rightarrow> (Inl msg, st')
         | Partial n \<Rightarrow> (Inl msg, st' \<lparr> es_files := es_files st \<lparr> af_config := None \<rparr> \<rparr>))"

section \<open>Facts about the host\<close>

definition detect_local_ip :: "enroll_env \<Rightarrow> enroll_state \<Rightarrow> string \<times> enroll_state" where
  "detect_local_ip E st =
     (let args = [''-4'', ''addr'', ''show'', ''scope'', ''global'']
      in (case he_output (en_host E) (es_trace st) ''ip'' args of
            Inl _ \<Rightarrow> ''127.0.0.1''
          | Inr (_, out, _) \<Rightarrow>
              (case List.map_filter (\<lambda>line. strip_prefix ''inet '' (trim line)) (lines out) of
                 [] \<Rightarrow> ''127.0.0.1''
               | addr # _ \<Rightarrow> hd (split_on (CHR ''/'') addr)),
          st \<lparr> es_trace := es_trace st @ [Cmd ''ip'' args] \<rparr>))"

definition trim_quotes :: "string \<Rightarrow> string" where
  "trim_quotes s =
     (let q = (\<lambda>c. c = CHR 0x22) in rev (dropWhile q (rev (dropWhile q s))))"

text \<open>The last line with the given key wins; without one the value is empty.\<close>

definition os_release_value :: "string \<Rightarrow> string \<Rightarrow> string" where
  "os_release_value key out =
     foldl (\<lambda>v line. case strip_prefix key line of Some x \<Rightarrow> trim_quotes x | None \<Rightarrow> v) [] (lines out)"

definition detect_os_details :: "enroll_env \<Rightarrow> enroll_state \<Rightarrow> (string \<times> string) list \<times> enroll_state" where
  "detect_os_details E st =
     (let tr0 = es_trace st; tr1 = tr0 @ [Cmd ''cat'' [''/etc/os-release'']];
          tr2 = tr1 @ [Cmd ''uname'' [''-m'']]; tr3 = tr2 @ [Cmd ''uname'' [''-r'']]
      in ((case he_output (en_host E) tr0 ''cat'' [''/etc/os-release''] of
             Inl _ \<Rightarrow> []
           | Inr (_, out, _) \<Rightarrow>
               [(''os_name'', os_release_value ''NAME='' out),
                (''os_version'', os_release_value ''VERSION='' out),
                (''os_id'', os_release_value ''ID='' out)])
          @ (case he_output (en_host E) tr1 ''uname'' [''-m''] of
               Inl _ \<Rightarrow> [] | Inr (_, out, _) \<Rightarrow> [(''arch'', trim out)])
          @ (case he_output (en_host E) tr2 ''uname'' [''-r''] of
               Inl _ \<Rightarrow> [] | Inr (_, out, _) \<Rightarrow> [(''kernel'', trim out)]),
          st \<lparr> es_trace := tr3 \<rparr>))"

section \<open>Storing what the manager hands out\<close>

abbreviation cert_dir :: string where
  "cert_dir \<equiv> ''/etc/firewall-agent/certs''"

definition write_pki_bundle :: "enroll_env \<Rightarrow> BundlePki \<Rightarrow> string \<Rightarrow> unit enroll_op" where
  "write_pki_bundle E b key =
     sbind (make_dir E cert_dir ''Failed to create cert directory'') (\<lambda>_.
     sbind (put_file E (cert_dir @ ''/ca.pem'') (join [CHR 0x0A] (bk_ca_chain b)) ''Failed to write ca.pem'') (\<lambda>_.
     sbind (put_file E (cert_dir @ ''/server.pem'') (bk_server_cert b) ''Failed to write server.pem'') (\<lambda>_.
     sbind (put_file E (cert_dir @ ''/server.key.pem'') key ''Failed to write server.key.pem'') (\<lambda>_.
     sbind (set_mode E (cert_dir @ ''/server.key.pem'') (en_io_text E)) (\<lambda>_.
     case bk_crl_pem b of
       None \<Rightarrow> sret ()
     | Some crl \<Rightarrow> put_file E (cert_dir @ ''/crl.pem'') crl ''Failed to write crl.pem'')))))"

definition seed_protected :: "enroll_env \<Rightarrow> string \<Rightarrow> string list \<Rightarrow> string list" where
  "seed_protected E manager_url cidrs =
     (case auto_detect_manager_cidr (en_url_parse E) (en_resolve E) manager_url of
        None \<Rightarrow> cidrs
      | Some ip \<Rightarrow> (let c = ip @ ''/32'' in if c \<in> set cidrs then cidrs else cidrs @ [c]))"

definition pull_settings ::
  "enroll_env \<Rightarrow> BundlePullConfig option \<Rightarrow> PullConfig \<Rightarrow> string + PullConfig" where
  "pull_settings E pull p =
     (case pull of
        None \<Rightarrow> Inr p
      | Some b \<Rightarrow>
          (case normalize_manager_url_to_ip (en_url_parse E) (en_resolve E) (bp_manager_agent_url b) of
             Inl e \<Rightarrow> Inl (''manager handed an unusable agent URL ('' @ bp_manager_agent_url b @ ''): '' @ e)
           | Inr url \<Rightarrow>
               Inr \<lparr> pull_check_in_interval_secs = bp_check_in_interval_secs b,
                     pull_manager_agent_url = url, pull_config_version = bp_config_version b \<rparr>))"

definition save_config ::
  "enroll_env \<Rightarrow> string \<Rightarrow> string \<Rightarrow> BundlePullConfig option \<Rightarrow> string option \<Rightarrow> unit enroll_op" where
  "save_config E manager_url fqdn pull host_id st =
     (let base = unwrap_or default_agent_config (af_config (es_files st));
          cfg = base \<lparr> cfg_manager_url := manager_url, cfg_fqdn := fqdn,
                       cfg_protected_cidrs := seed_protected E manager_url (cfg_protected_cidrs base) \<rparr>;
          msg = ''Failed to save agent config''
      in sbind (stry (pull_settings E pull (cfg_pull base))) (\<lambda>p.
         sbind (make_dir E ''/etc/firewall-agent'' msg) (\<lambda>_.
         sbind (put_config E (cfg \<lparr> cfg_pull := p,
                  cfg_host_id := (case host_id of Some i \<Rightarrow> Some i | None \<Rightarrow> cfg_host_id base) \<rparr>) msg) (\<lambda>_.
         set_mode E config_path msg))) st)"

section \<open>Enrollment\<close>

datatype poll_verdict = KeepPolling | PollFailed string | Approved BundlePki "string option"

definition poll_step :: "StatusReply http_reply \<Rightarrow> poll_verdict" where
  "poll_step r =
     (case r of
        NoReply _ \<Rightarrow> KeepPolling
      | HttpReply status _ body \<Rightarrow>
          if status = 202 then KeepPolling
          else if status = 403 then PollFailed ''Enrollment denied by administrator''
          else if status = 404 then PollFailed ''Enrollment expired or not found''
          else if is_success status
          then (case body of
                  None \<Rightarrow> PollFailed ''Failed to parse approval response''
                | Some s \<Rightarrow>
                    if sy_status s = ''approved''
                    then (case sy_pki_bundle s of Some b \<Rightarrow> Approved b (sy_host_id s) | None \<Rightarrow> KeepPolling)
                    else KeepPolling)
          else KeepPolling)"

abbreviation max_attempts :: nat where
  "max_attempts \<equiv> 1440"

definition complete :: "enroll_env \<Rightarrow> string \<Rightarrow> string \<Rightarrow> string \<Rightarrow> BundlePki \<Rightarrow> string option \<Rightarrow> unit enroll_op" where
  "complete E manager_url fqdn key b host_id =
     sbind (write_pki_bundle E b key) (\<lambda>_. save_config E manager_url fqdn (bk_pull_config b) host_id)"

definition one_poll :: "enroll_state \<Rightarrow> enroll_state" where
  "one_poll st = st \<lparr> es_polls := es_polls st + 1 \<rparr>"

function poll_loop :: "enroll_env \<Rightarrow> string \<Rightarrow> string \<Rightarrow> string \<Rightarrow> string \<Rightarrow> nat \<Rightarrow> unit enroll_op" where
  "poll_loop E manager_url fqdn key poll_url attempt st =
     (if max_attempts < attempt then (Inl ''Enrollment timed out after 24 hours'', st)
      else case poll_step (en_poll E attempt poll_url) of
             KeepPolling \<Rightarrow> poll_loop E manager_url fqdn key poll_url (Suc attempt) (one_poll st)
           | PollFailed e \<Rightarrow> (Inl e, one_poll st)
           | Approved b host_id \<Rightarrow> complete E manager_url fqdn key b host_id (one_poll st))"
  by pat_completeness auto
termination
  by (relation "measure (\<lambda>(E, manager_url, fqdn, key, poll_url, attempt, st). Suc max_attempts - attempt)") auto

declare poll_loop.simps [simp del]

definition make_request :: "enroll_env \<Rightarrow> string \<Rightarrow> string + string \<times> string" where
  "make_request E fqdn =
     (case en_key E of
        None \<Rightarrow> Inl ''Failed to generate Ed25519 keypair''
      | Some key \<Rightarrow>
          if \<not> en_params_ok E fqdn then Inl ''Failed to create CSR params''
          else (case en_request E fqdn key of
                  None \<Rightarrow> Inl ''Failed to generate CSR''
                | Some csr \<Rightarrow>
                    (case en_pem E csr of
                       None \<Rightarrow> Inl ''Failed to serialize CSR to PEM'' | Some pem \<Rightarrow> Inr (key, pem))))"

definition submit_body :: "enroll_env \<Rightarrow> string \<Rightarrow> string \<Rightarrow> string \<Rightarrow> enroll_state \<Rightarrow> SubmitBody \<times> enroll_state" where
  "submit_body E token csr fqdn st =
     (case detect_local_ip E st of (ip, st1) \<Rightarrow>
      case detect_os_details E st1 of (os, st2) \<Rightarrow>
        (\<lparr> sb_token = token, sb_csr = csr, sb_fqdn = fqdn, sb_ip_address = ip,
           sb_hostname = unwrap_or [] (en_hostname E), sb_os_details = os \<rparr>, st2))"

definition submit_result :: "string http_reply \<Rightarrow> string + string" where
  "submit_result r =
     (case r of
        NoReply _ \<Rightarrow> Inl ''Failed to submit enrollment request''
      | HttpReply status text body \<Rightarrow>
          if \<not> is_success status then Inl (''Enrollment submission failed: '' @ unwrap_or [] text)
          else ok_or ''Failed to parse enrollment response'' body)"

definition enroll :: "enroll_env \<Rightarrow> string \<Rightarrow> string \<Rightarrow> string \<Rightarrow> unit enroll_op" where
  "enroll E manager_url token fqdn =
     sbind (stry (make_request E fqdn)) (\<lambda>(key, csr).
     sbind (stry (en_client E)) (\<lambda>_.
     sbind (\<lambda>st. case submit_body E token csr fqdn st of (body, st') \<Rightarrow>
              (submit_result (en_submit E (manager_url @ ''/api/v1/enroll'') body), st')) (\<lambda>polling_token.
     poll_loop E manager_url fqdn key (manager_url @ ''/api/v1/enroll/status/'' @ polling_token) 1)))"

section \<open>The daemon\<close>

abbreviation enroll_token_path :: string where
  "enroll_token_path \<equiv> ''/etc/firewall-agent/enroll.token''"

definition is_enrolled :: "enroll_env \<Rightarrow> AgentConfig \<Rightarrow> enroll_state \<Rightarrow> bool" where
  "is_enrolled E cfg st \<longleftrightarrow>
     Option.bind (cfg_host_id cfg) (en_parse_uuid E) \<noteq> None
     \<and> (let d = cfg_cert_dir cfg; there = (\<lambda>name. es_disk st (d @ name) \<noteq> None)
        in (there ''/server.pem'' \<or> there ''/agent.pem'')
           \<and> (there ''/server.key.pem'' \<or> there ''/agent.key.pem'') \<and> there ''/ca.pem'')"

text \<open>One turn of the loop: the configuration of an enrolled agent, or the seconds to wait.\<close>

definition wait_turn :: "enroll_env \<Rightarrow> enroll_state \<Rightarrow> (nat + AgentConfig) \<times> enroll_state" where
  "wait_turn E st =
     (case af_config (es_files st) of
        None \<Rightarrow> (Inl 15, st)
      | Some cfg \<Rightarrow>
          if is_enrolled E cfg st then (Inr cfg, st)
          else (case es_disk st enroll_token_path of
                  None \<Rightarrow> (Inl 30, st)
                | Some token \<Rightarrow>
                    if trim token = [] then (Inl 30, st)
                    else if cfg_manager_url cfg = [] \<or> cfg_fqdn cfg = [] then (Inl 30, st)
                    else (case enroll E (cfg_manager_url cfg) (trim token) (cfg_fqdn cfg) st of
                            (Inr _, st') \<Rightarrow> (Inl 0, st')
                          | (Inl _, st') \<Rightarrow> (Inl 60, st'))))"

text \<open>The loop runs until the agent is enrolled.  The list says what the manager and the machine are
like in each turn and what others do to the files after it; the value is missing when the list ends
before the loop does.\<close>

fun wait_for_enrollment ::
  "(enroll_env \<times> (enroll_state \<Rightarrow> enroll_state)) list \<Rightarrow> enroll_state \<Rightarrow> AgentConfig option \<times> enroll_state" where
  "wait_for_enrollment [] st = (None, st)"
| "wait_for_enrollment ((E, others) # later) st =
     (case wait_turn E st of
        (Inr cfg, st') \<Rightarrow> (Some cfg, st')
      | (Inl _, st') \<Rightarrow> wait_for_enrollment later (others st'))"

definition first_file :: "string \<Rightarrow> string list \<Rightarrow> enroll_state \<Rightarrow> string + string" where
  "first_file msg paths st =
     (case List.map_filter (es_disk st) paths of [] \<Rightarrow> Inl msg | c # _ \<Rightarrow> Inr c)"

definition run_daemon :: "enroll_env \<Rightarrow> int \<Rightarrow> AgentConfig \<Rightarrow> enroll_state \<Rightarrow> (string + backend_kind \<times> agent)" where
  "run_daemon E now cfg st =
     (case Option.bind (cfg_host_id cfg) (en_parse_uuid E) of
        None \<Rightarrow> Inl (''No host_id in config '' @ em_dash @ '' re-enroll required'')
      | Some host_id \<Rightarrow>
          (let d = cfg_cert_dir cfg; url = pull_manager_agent_url (cfg_pull cfg) in
          case first_file ''Failed to read client certificate'' [d @ ''/server.pem'', d @ ''/agent.pem''] st of
            Inl e \<Rightarrow> Inl e
          | Inr cert \<Rightarrow>
          (case first_file ''Failed to read client key'' [d @ ''/server.key.pem'', d @ ''/agent.key.pem''] st of
            Inl e \<Rightarrow> Inl e
          | Inr key \<Rightarrow>
          (case first_file ''Failed to read CA certificate'' [d @ ''/ca.pem''] st of
            Inl e \<Rightarrow> Inl e
          | Inr ca \<Rightarrow>
          if url = [] then Inl (''manager_agent_url is not set in config '' @ em_dash
                                  @ '' run '' @ [CHR 0x27] @ ''fw-agent enroll'' @ [CHR 0x27] @ '' first'')
          else (case en_pull_client E url host_id cert key ca of
            Inl e \<Rightarrow> Inl e
          | Inr _ \<Rightarrow>
          (case detect (en_host E) (es_trace st) of
             (None, _) \<Rightarrow> Inl ''No firewall backend detected (ufw/firewalld/nftables required)''
           | (Some k, tr) \<Rightarrow> Inr (k, pull_loop_start now cfg (es_files st) tr)))))))"

text \<open>The drift command: what it prints.\<close>

definition drift_check :: "host_env \<Rightarrow> trace \<Rightarrow> (BackendError + string) \<times> trace" where
  "drift_check env tr =
     (case detect env tr of
        (None, tr1) \<Rightarrow> (Inr ''No firewall backend detected'', tr1)
      | (Some k, tr1) \<Rightarrow>
          (case be_snapshot (backend_of env k) tr1 of
             (Inl e, tr2) \<Rightarrow> (Inl e, tr2)
           | (Inr s, tr2) \<Rightarrow>
               (Inr (if ns_hash s = [] then ''No rules currently active (empty snapshot)''
                     else ''Current snapshot hash: '' @ ns_hash s @ '' ('' @ show_nat (length (ns_rules s))
                          @ '' rules)''), tr2)))"

section \<open>The event stream\<close>

definition parse_sse_event :: "string \<Rightarrow> string option" where
  "parse_sse_event frame =
     foldl (\<lambda>event line.
        if starts_with line '':'' then event
        else case strip_prefix ''event:'' line of Some rest \<Rightarrow> Some (trim rest) | None \<Rightarrow> event)
       None (lines frame)"

text \<open>\<open>buf.find("\n\n")\<close>: the text before the first empty line and the text after it.\<close>

fun next_frame :: "string \<Rightarrow> (string \<times> string) option" where
  "next_frame (a # b # s) =
     (if a = CHR 0x0A \<and> b = CHR 0x0A then Some ([], s)
      else map_option (\<lambda>(frame, rest). (a # frame, rest)) (next_frame (b # s)))"
| "next_frame _ = None"

lemma next_frame_length: "next_frame s = Some (frame, rest) \<Longrightarrow> length rest < length s"
  by (induction s arbitrary: frame rule: next_frame.induct) (auto split: if_splits)

text \<open>The inner loop: the notifications of every complete frame, and the rest of the buffer.\<close>

function drain_frames :: "string \<Rightarrow> nat \<times> string" where
  "drain_frames buf =
     (case next_frame buf of
        None \<Rightarrow> (0, buf)
      | Some (frame, rest) \<Rightarrow>
          (case drain_frames rest of (n, buf') \<Rightarrow>
             ((if parse_sse_event frame = Some ''check-in'' then n + 1 else n), buf')))"
  by pat_completeness auto
termination
  by (relation "measure length") (auto dest: next_frame_length)

declare drain_frames.simps [simp del]

text \<open>The chunks as they arrive, decoded; a failed read ends the stream with an error.\<close>

datatype sse_chunk = Chunk string | ReadFailed

fun read_events :: "sse_chunk list \<Rightarrow> string \<Rightarrow> (string + unit) \<times> nat" where
  "read_events [] buf = (Inr (), 1)"
| "read_events (ReadFailed # _) buf = (Inl ''Failed to read SSE chunk'', 0)"
| "read_events (Chunk c # cs) buf =
     (case drain_frames (buf @ c) of (n, buf') \<Rightarrow>
      case read_events cs buf' of (r, m) \<Rightarrow> (r, n + m))"

definition run_events_stream :: "string + (nat \<times> sse_chunk list) \<Rightarrow> (string + unit) \<times> nat" where
  "run_events_stream resp =
     (case resp of
        Inl _ \<Rightarrow> (Inl ''Failed to open SSE events stream'', 0)
      | Inr (status, chunks) \<Rightarrow>
          if 400 \<le> status \<and> status < 600 then (Inl ''SSE events stream rejected'', 0)
          else read_events chunks [])"

section \<open>Facts\<close>

lemma sbind_Inr:
  "sbind m k st = (Inr y, st'') \<longleftrightarrow> (\<exists>x st'. m st = (Inr x, st') \<and> k x st' = (Inr y, st''))"
  by (auto simp: sbind_def split: prod.split sum.split)

lemma stry_Inr: "stry r st = (Inr x, st') \<longleftrightarrow> r = Inr x \<and> st' = st"
  by (auto simp: stry_def)

lemma step_Inr:
  "sret x st = (Inr y, st') \<longleftrightarrow> y = x \<and> st' = st"
  "make_dir E d msg st = (Inr u, st') \<longleftrightarrow> en_mkdir E (es_trace st) d \<and> st' = st"
  "set_mode E d msg st = (Inr u, st') \<longleftrightarrow> en_chmod E (es_trace st) d \<and> st' = st"
  by (auto simp: sret_def make_dir_def set_mode_def)

lemma put_file_Inr:
  "put_file E path c msg st = (Inr u, st') \<Longrightarrow>
     es_disk st' = (es_disk st) (path := Some c) \<and> es_files st' = es_files st \<and> es_polls st' = es_polls st"
  by (auto simp: put_file_def Let_def split: write_outcome.split_asm)

lemma put_config_Inr:
  "put_config E cfg msg st = (Inr u, st') \<Longrightarrow>
     es_disk st' = es_disk st \<and> es_files st' = es_files st \<lparr> af_config := Some cfg \<rparr> \<and> es_polls st' = es_polls st"
  by (auto simp: put_config_def Let_def split: write_outcome.split_asm)

text \<open>The files of a bundle.\<close>

lemma write_pki_bundle_Inr:
  assumes "write_pki_bundle E b key st = (Inr (), st')"
  shows "es_files st' = es_files st \<and> es_polls st' = es_polls st
    \<and> es_disk st' (cert_dir @ ''/ca.pem'') = Some (join [CHR 0x0A] (bk_ca_chain b))
    \<and> es_disk st' (cert_dir @ ''/server.pem'') = Some (bk_server_cert b)
    \<and> es_disk st' (cert_dir @ ''/server.key.pem'') = Some key
    \<and> (\<forall>path. (\<forall>name. path \<noteq> cert_dir @ name) \<longrightarrow> es_disk st' path = es_disk st path)"
  using assms
  by (auto simp: write_pki_bundle_def sbind_Inr step_Inr dest!: put_file_Inr split: option.split_asm)

definition saved_config :: "enroll_env \<Rightarrow> string \<Rightarrow> string \<Rightarrow> string option \<Rightarrow> PullConfig \<Rightarrow> AgentConfig \<Rightarrow> AgentConfig" where
  "saved_config E manager_url fqdn host_id p base =
     base \<lparr> cfg_manager_url := manager_url, cfg_fqdn := fqdn,
            cfg_protected_cidrs := seed_protected E manager_url (cfg_protected_cidrs base), cfg_pull := p,
            cfg_host_id := (case host_id of Some i \<Rightarrow> Some i | None \<Rightarrow> cfg_host_id base) \<rparr>"

lemma save_config_Inr:
  assumes "save_config E manager_url fqdn pull host_id st = (Inr (), st')"
  shows "\<exists>p. pull_settings E pull (cfg_pull (unwrap_or default_agent_config (af_config (es_files st)))) = Inr p
    \<and> es_disk st' = es_disk st \<and> es_polls st' = es_polls st
    \<and> af_config (es_files st') = Some (saved_config E manager_url fqdn host_id p
        (unwrap_or default_agent_config (af_config (es_files st))))"
  using assms
  by (auto simp: save_config_def Let_def sbind_Inr stry_Inr step_Inr saved_config_def dest!: put_config_Inr)

text \<open>The polling loop: the first attempt that settles it.\<close>

definition settled :: "enroll_env \<Rightarrow> string \<Rightarrow> nat \<Rightarrow> bool" where
  "settled E poll_url k \<longleftrightarrow> poll_step (en_poll E k poll_url) \<noteq> KeepPolling"

definition poll_outcome :: "enroll_env \<Rightarrow> string \<Rightarrow> string \<Rightarrow> string \<Rightarrow> poll_verdict \<Rightarrow> unit enroll_op" where
  "poll_outcome E manager_url fqdn key r st =
     (case r of
        KeepPolling \<Rightarrow> (Inl ''Enrollment timed out after 24 hours'', st)
      | PollFailed e \<Rightarrow> (Inl e, st)
      | Approved b host_id \<Rightarrow> complete E manager_url fqdn key b host_id st)"

definition polled :: "nat \<Rightarrow> enroll_state \<Rightarrow> enroll_state" where
  "polled n st = st \<lparr> es_polls := es_polls st + n \<rparr>"

lemma polled_simps [simp]: "polled 0 st = st" "polled n (one_poll st) = polled (Suc n) st"
  "polled n (polled m st) = polled (m + n) st"
  by (simp_all add: polled_def one_poll_def)

lemma poll_loop_find:
  "poll_loop E manager_url fqdn key u a st =
     (case find (settled E u) [a..<1441] of
        None \<Rightarrow> poll_outcome E manager_url fqdn key KeepPolling (polled (1441 - a) st)
      | Some k \<Rightarrow> poll_outcome E manager_url fqdn key (poll_step (en_poll E k u)) (polled (Suc k - a) st))"
proof (induction E manager_url fqdn key u a st rule: poll_loop.induct)
  case (1 E manager_url fqdn key u a st)
  show ?case
  proof (cases "max_attempts < a")
    case True
    then show ?thesis by (simp add: poll_loop.simps [of E _ _ _ _ a] poll_outcome_def)
  next
    case False
    then have range: "[a..<1441] = a # [Suc a..<1441]" by (simp add: upt_conv_Cons)
    show ?thesis
    proof (cases "poll_step (en_poll E a u)")
      case KeepPolling
      have later: "Suc (Suc k - Suc a) = Suc k - a" if "find (settled E u) [Suc a..<1441] = Some k" for k
        using that by (auto simp: find_Some_iff)
      have ended: "Suc (1441 - Suc a) = 1441 - a" using False by simp
      have "poll_loop E manager_url fqdn key u a st = poll_loop E manager_url fqdn key u (Suc a) (one_poll st)"
        using False KeepPolling by (simp add: poll_loop.simps [of E _ _ _ _ a])
      moreover have "find (settled E u) [a..<1441] = find (settled E u) [Suc a..<1441]"
        using KeepPolling by (simp add: range settled_def)
      ultimately show ?thesis
        using 1 [OF False KeepPolling] later
        by (cases "find (settled E u) [Suc a..<1441]") (simp_all only: option.case polled_simps ended)
    qed (use False in \<open>simp_all add: poll_loop.simps [of E _ _ _ _ a] range settled_def poll_outcome_def
        one_poll_def polled_def\<close>)
  qed
qed

text \<open>What a successful enrollment has done.\<close>

lemma submit_body_state:
  "submit_body E token csr fqdn st = (body, st') \<Longrightarrow>
     es_files st' = es_files st \<and> es_disk st' = es_disk st \<and> es_polls st' = es_polls st"
  by (auto simp: submit_body_def detect_local_ip_def detect_os_details_def Let_def)

lemma make_request_Inr: "make_request E fqdn = Inr (key, csr) \<Longrightarrow> en_key E = Some key"
  by (auto simp: make_request_def split: option.split_asm if_split_asm)

lemma enroll_Inr:
  assumes "enroll E manager_url token fqdn st = (Inr (), st')"
  shows "\<exists>poll_url key k b host_id p. en_key E = Some key \<and> find (settled E poll_url) [1..<1441] = Some k
    \<and> poll_step (en_poll E k poll_url) = Approved b host_id
    \<and> es_polls st' = es_polls st + k
    \<and> pull_settings E (bk_pull_config b)
         (cfg_pull (unwrap_or default_agent_config (af_config (es_files st)))) = Inr p
    \<and> af_config (es_files st') = Some (saved_config E manager_url fqdn host_id p
         (unwrap_or default_agent_config (af_config (es_files st))))
    \<and> es_disk st' (cert_dir @ ''/ca.pem'') = Some (join [CHR 0x0A] (bk_ca_chain b))
    \<and> es_disk st' (cert_dir @ ''/server.pem'') = Some (bk_server_cert b)
    \<and> es_disk st' (cert_dir @ ''/server.key.pem'') = Some key
    \<and> (\<forall>path. (\<forall>name. path \<noteq> cert_dir @ name) \<longrightarrow> es_disk st' path = es_disk st path)"
proof -
  obtain key csr where request: "make_request E fqdn = Inr (key, csr)"
    using assms by (auto simp: enroll_def sbind_Inr stry_Inr)
  obtain body st1 where body: "submit_body E token csr fqdn st = (body, st1)" by fastforce
  obtain u where loop: "poll_loop E manager_url fqdn key u 1 st1 = (Inr (), st')"
    using assms request body by (auto simp: enroll_def sbind_Inr stry_Inr)
  note key = make_request_Inr [OF request] and st1 = submit_body_state [OF body]
  obtain k b hid where k: "find (settled E u) [1..<1441] = Some k"
      "poll_step (en_poll E k u) = Approved b hid"
      and run: "complete E manager_url fqdn key b hid (polled k st1) = (Inr (), st')"
    using loop
    by (auto simp: poll_loop_find poll_outcome_def simp del: upt_Suc
        split: option.split_asm poll_verdict.split_asm)
  then obtain st2 where w: "write_pki_bundle E b key (polled k st1) = (Inr (), st2)"
      and s: "save_config E manager_url fqdn (bk_pull_config b) hid st2 = (Inr (), st')"
    by (auto simp: complete_def sbind_Inr)
  have st2: "es_files st2 = es_files st" "es_polls st2 = es_polls st + k"
      "\<forall>path. (\<forall>name. path \<noteq> cert_dir @ name) \<longrightarrow> es_disk st2 path = es_disk st path"
    using write_pki_bundle_Inr [OF w] st1 by (simp_all add: polled_def)
  from save_config_Inr [OF s] show ?thesis
    using key k write_pki_bundle_Inr [OF w] st2 by (metis)
qed

lemma next_frame_append: "next_frame s = Some (frame, rest) \<Longrightarrow> next_frame (s @ t) = Some (frame, rest @ t)"
  by (induction s arbitrary: frame rule: next_frame.induct) (auto split: if_splits)

lemma drain_frames_append:
  "drain_frames (s @ t) =
     (fst (drain_frames s) + fst (drain_frames (snd (drain_frames s) @ t)),
      snd (drain_frames (snd (drain_frames s) @ t)))"
proof (induction s rule: drain_frames.induct)
  case (1 s)
  show ?case
  proof (cases "next_frame s")
    case None
    then show ?thesis by (simp add: drain_frames.simps [of s])
  next
    case (Some x)
    then obtain frame rest where x: "next_frame s = Some (frame, rest)" by (cases x) auto
    show ?thesis
      using 1 [OF x refl]
      by (simp add: drain_frames.simps [of s] drain_frames.simps [of "s @ t"] x next_frame_append [OF x]
          split: prod.split)
  qed
qed

lemma drain_frames_rest: "next_frame (snd (drain_frames s)) = None"
proof (induction s rule: drain_frames.induct)
  case (1 s)
  show ?case
  proof (cases "next_frame s")
    case (Some x)
    then show ?thesis
      using 1 [OF Some] by (cases x) (auto simp: drain_frames.simps [of s] split: prod.split)
  qed (simp add: drain_frames.simps [of s])
qed

lemma read_events_chunks:
  "next_frame buf = None \<Longrightarrow>
     read_events (map Chunk cs) buf = (Inr (), fst (drain_frames (buf @ concat cs)) + 1)"
proof (induction cs arbitrary: buf)
  case Nil
  then show ?case by (simp add: drain_frames.simps [of buf])
next
  case (Cons c cs)
  obtain n r where d: "drain_frames (buf @ c) = (n, r)" by fastforce
  have "next_frame r = None" using drain_frames_rest [of "buf @ c"] by (simp add: d)
  from Cons.IH [OF this] show ?case
    using drain_frames_append [of "buf @ c" "concat cs"] by (simp add: d)
qed

text \<open>A frame that neither contains nor makes an empty line.\<close>

definition plain_frame :: "string \<Rightarrow> bool" where
  "plain_frame f \<longleftrightarrow> next_frame (f @ [CHR 0x0A]) = None"

lemma next_frame_plain: "plain_frame f \<Longrightarrow> next_frame (f @ CHR 0x0A # CHR 0x0A # s) = Some (f, s)"
  unfolding plain_frame_def by (induction f rule: next_frame.induct) (auto split: if_splits)

lemma drain_frames_plain:
  assumes "\<forall>f \<in> set frames. plain_frame f" and "next_frame tail = None"
  shows "fst (drain_frames (concat (map (\<lambda>f. f @ [CHR 0x0A, CHR 0x0A]) frames) @ tail))
    = length (filter (\<lambda>f. parse_sse_event f = Some ''check-in'') frames)"
  using assms(1)
proof (induction frames)
  case Nil
  then show ?case using assms(2) by (simp add: drain_frames.simps [of tail])
next
  case (Cons f fs)
  let ?t = "concat (map (\<lambda>f. f @ [CHR 0x0A, CHR 0x0A]) fs) @ tail"
  have "next_frame (f @ CHR 0x0A # CHR 0x0A # ?t) = Some (f, ?t)"
    using Cons.prems by (intro next_frame_plain) simp
  moreover obtain n r where "drain_frames ?t = (n, r)" by fastforce
  ultimately show ?case
    using Cons by (simp add: drain_frames.simps [of "f @ CHR 0x0A # CHR 0x0A # ?t"])
qed

text \<open>No step of enrollment but the loop polls.\<close>

definition no_polls :: "'a enroll_op \<Rightarrow> bool" where
  "no_polls m \<longleftrightarrow> (\<forall>st. es_polls (snd (m st)) = es_polls st)"

lemma no_polls_sbind: "no_polls m \<Longrightarrow> (\<And>x. no_polls (k x)) \<Longrightarrow> no_polls (sbind m k)"
proof -
  assume m: "no_polls m" and k: "\<And>x. no_polls (k x)"
  have "es_polls (snd (sbind m k st)) = es_polls st" for st
  proof -
    obtain r st' where r: "m st = (r, st')" by fastforce
    then have "es_polls st' = es_polls st" using m by (metis no_polls_def snd_conv)
    then show ?thesis using k by (cases r) (simp_all add: sbind_def r no_polls_def)
  qed
  then show ?thesis by (simp add: no_polls_def)
qed

lemma no_polls_at: "no_polls m \<Longrightarrow> es_polls (snd (m st)) = es_polls st"
  by (simp add: no_polls_def)

lemma no_polls_basic:
  "no_polls (sret x)" "no_polls (stry r)" "no_polls (make_dir E d msg)" "no_polls (set_mode E d msg)"
  "no_polls (put_file E path c msg)" "no_polls (put_config E cfg msg)"
  by (auto simp: no_polls_def sret_def stry_def make_dir_def set_mode_def put_file_def put_config_def Let_def
      split: write_outcome.split)

lemma no_polls_complete: "no_polls (complete E manager_url fqdn key b host_id)"
proof -
  have "no_polls (save_config E manager_url fqdn pull host_id)" for pull
    unfolding no_polls_def save_config_def Let_def
    by (intro allI no_polls_at no_polls_sbind no_polls_basic)
  moreover have "no_polls (write_pki_bundle E b key)"
    unfolding write_pki_bundle_def
    by (intro no_polls_sbind no_polls_basic) (auto intro: no_polls_basic split: option.split)
  ultimately show ?thesis unfolding complete_def by (intro no_polls_sbind)
qed

section \<open>Properties\<close>

text \<open>C14. Enrollment ends.  Whatever the manager answers, the polling loop stops after at most 1440
polls: with what the first reply calls for that is more than "not yet", or with a timeout when there is
no such reply.  So every enrollment makes at most 1440 polls, a day's worth.\<close>

theorem enrollment_ends:
  "poll_loop E manager_url fqdn key u 1 st =
     (case find (settled E u) [1..<1441] of
        None \<Rightarrow> (Inl ''Enrollment timed out after 24 hours'', polled 1440 st)
      | Some k \<Rightarrow> poll_outcome E manager_url fqdn key (poll_step (en_poll E k u)) (polled k st))
   \<and> es_polls (snd (enroll E manager_url token fqdn st)) \<le> es_polls st + 1440"
proof
  show "poll_loop E manager_url fqdn key u 1 st =
     (case find (settled E u) [1..<1441] of
        None \<Rightarrow> (Inl ''Enrollment timed out after 24 hours'', polled 1440 st)
      | Some k \<Rightarrow> poll_outcome E manager_url fqdn key (poll_step (en_poll E k u)) (polled k st))"
    unfolding poll_loop_find by (simp add: poll_outcome_def split: option.split)
  have loop: "es_polls (snd (poll_loop E manager_url fqdn key' u' 1 st1)) \<le> es_polls st1 + 1440" for key' u' st1
    using no_polls_complete
    by (auto simp: poll_loop_find poll_outcome_def polled_def no_polls_def find_Some_iff
        split: option.split poll_verdict.split)
  show "es_polls (snd (enroll E manager_url token fqdn st)) \<le> es_polls st + 1440"
  proof (cases "make_request E fqdn")
    case (Inr r)
    obtain key' csr where r: "r = (key', csr)" by fastforce
    obtain body st1 where body: "submit_body E token csr fqdn st = (body, st1)" by fastforce
    show ?thesis
      using submit_body_state [OF body] loop [of key' _ st1]
      by (auto simp: enroll_def sbind_def stry_def Inr r body split: sum.split)
  qed (simp add: enroll_def sbind_def stry_def)
qed


text \<open>An agent on a machine with \<open>ufw\<close> whose request is approved at the second poll.\<close>

definition sample_bundle :: BundlePki where
  "sample_bundle =
     \<lparr> bk_ca_chain = [''root''], bk_server_cert = ''cert'', bk_crl_pem = None,
       bk_pull_config = Some \<lparr> bp_check_in_interval_secs = 900, bp_push_enabled = True,
         bp_config_version = 1, bp_manager_agent_url = ''https://10.0.0.5:8443'' \<rparr> \<rparr>"

definition sample_enroll :: enroll_env where
  "sample_enroll =
     \<lparr> en_host = calm_env \<lparr> he_output := (\<lambda>_ c as. Inr (True, if c = ''ufw'' then ''Status: active'' else [], [])) \<rparr>,
       en_mkdir = (\<lambda>_ _. True), en_chmod = (\<lambda>_ _. True), en_io_text = ''I/O'', en_key = Some ''key'',
       en_params_ok = (\<lambda>_. True), en_request = (\<lambda>_ _. Some ''csr''), en_pem = Some, en_client = Inr (),
       en_hostname = None, en_submit = (\<lambda>_ _. HttpReply 200 None (Some ''poll'')),
       en_poll = (\<lambda>n _. if n = 1 then NoReply ''timeout''
                        else HttpReply 200 None (Some \<lparr> sy_status = ''approved'',
                               sy_pki_bundle = Some sample_bundle, sy_host_id = Some ''9'' \<rparr>)),
       en_url_parse = sample_url_parse, en_resolve = (\<lambda>_. Inl []),
       en_parse_uuid = (\<lambda>s. Some (of_nat (digits_value 10 s))),
       en_pull_client = (\<lambda>_ _ _ _ _. Inr ()) \<rparr>"

definition blank_machine :: enroll_state where
  "blank_machine =
     \<lparr> es_files = ag_files fresh_agent, es_disk = (\<lambda>_. None), es_trace = [], es_polls = 0 \<rparr>"

lemma sample_enroll_ok:
  "enroll sample_enroll ''https://mgr'' ''secret'' ''h.example'' st
     = (Inr (), snd (enroll sample_enroll ''https://mgr'' ''secret'' ''h.example'' st))"
  if "st = blank_machine \<or> st = blank_machine \<lparr> es_files := af_config_update (\<lambda>_. Some
        (default_agent_config \<lparr> cfg_cert_dir := ''/opt/certs'' \<rparr>)) (es_files blank_machine) \<rparr>"
proof -
  have "is_ok (fst (enroll sample_enroll ''https://mgr'' ''secret'' ''h.example'' blank_machine))"
    "is_ok (fst (enroll sample_enroll ''https://mgr'' ''secret'' ''h.example''
       (blank_machine \<lparr> es_files := af_config_update (\<lambda>_. Some
          (default_agent_config \<lparr> cfg_cert_dir := ''/opt/certs'' \<rparr>)) (es_files blank_machine) \<rparr>)))"
    by code_simp+
  with that have "is_ok (fst (enroll sample_enroll ''https://mgr'' ''secret'' ''h.example'' st))" by blast
  then show ?thesis
    by (cases "enroll sample_enroll ''https://mgr'' ''secret'' ''h.example'' st")
      (auto simp: is_ok_def split: sum.split_asm)
qed


text \<open>A certificate directory of one's own is never used.  The bundle is always written to the
standard directory, but the daemon looks in the configured one: if that is another directory without a
CA certificate, then after a successful enrollment no turn of the daemon finds the agent enrolled.\<close>

theorem other_cert_dir_never_enrolled:
  assumes "enroll E manager_url token fqdn st = (Inr (), st')"
    and "cfg_cert_dir (unwrap_or default_agent_config (af_config (es_files st))) = d"
    and "\<forall>name. d @ ''/ca.pem'' \<noteq> cert_dir @ name" and "es_disk st (d @ ''/ca.pem'') = None"
  shows "\<exists>secs st''. wait_turn E' st' = (Inl secs, st'')"
proof -
  let ?base = "unwrap_or default_agent_config (af_config (es_files st))"
  from enroll_Inr [OF assms(1)] obtain hid p where
      cfg: "af_config (es_files st') = Some (saved_config E manager_url fqdn hid p ?base)"
      and disk: "\<forall>path. (\<forall>name. path \<noteq> cert_dir @ name) \<longrightarrow> es_disk st' path = es_disk st path"
    by blast
  have "cfg_cert_dir (saved_config E manager_url fqdn hid p ?base) = d"
    using assms(2) by (simp add: saved_config_def)
  moreover have "es_disk st' (d @ ''/ca.pem'') = None" using disk assms(3,4) by metis
  ultimately have "\<not> is_enrolled E' (saved_config E manager_url fqdn hid p ?base) st'"
    unfolding is_enrolled_def Let_def by simp
  then show ?thesis
    by (simp add: wait_turn_def cfg split: option.split prod.split sum.split)
qed

theorem other_cert_dir_never_enrolled_witness:
  "let st = blank_machine \<lparr> es_files := af_config_update (\<lambda>_. Some
              (default_agent_config \<lparr> cfg_cert_dir := ''/opt/certs'' \<rparr>)) (es_files blank_machine) \<rparr>;
       st' = snd (enroll sample_enroll ''https://mgr'' ''secret'' ''h.example'' st)
   in \<exists>secs st''. wait_turn sample_enroll st' = (Inl secs, st'')"
proof -
  let ?st = "blank_machine \<lparr> es_files := af_config_update (\<lambda>_. Some
    (default_agent_config \<lparr> cfg_cert_dir := ''/opt/certs'' \<rparr>)) (es_files blank_machine) \<rparr>"
  have dir: "cfg_cert_dir (unwrap_or default_agent_config (af_config (es_files ?st))) = ''/opt/certs''"
    "es_disk ?st (''/opt/certs'' @ ''/ca.pem'') = None"
    by (simp_all add: blank_machine_def)
  have other: "\<forall>name. ''/opt/certs'' @ ''/ca.pem'' \<noteq> cert_dir @ name" by simp
  show ?thesis
    unfolding Let_def
    by (rule other_cert_dir_never_enrolled [OF sample_enroll_ok dir(1) other dir(2)]) simp
qed



end
