(* ===== verification/Mgr_Db.thy ===== *)
theory Mgr_Db
  imports Fw_Policy "HOL-Library.AList"
begin

text \<open>The manager's state and the way its handlers use it.  The tables are those of
\<open>migrations/\<close>, a table is the list of its rows in insertion order; beside them are the values the web
server keeps in memory and the files it writes.  A handler is a state transformer with errors; the
state also carries a list of booleans that says which of the statements to come the database (or, for
a file, the operating system) refuses, so that every \<open>?\<close> and every ignored result of the sources is a
branch.  The time of a request and the identifiers the database generates are arguments.\<close>

section \<open>Errors\<close>

datatype sql_error = RowNotFound | UniqueViolation | ForeignKeyViolation | CheckViolation
  | OtherSqlError

text \<open>\<open>fw-core/src/error.rs\<close>.\<close>

datatype AppError =
    NotFound string
  | Unauthorized string
  | Forbidden string
  | BadRequest string
  | Conflict string
  | UnprocessableEntity string
  | Database sql_error
  | Internal string
  | Config string

fun AppError_status :: "AppError \<Rightarrow> nat \<times> string" where
  "AppError_status (NotFound _) = (404, ''not_found'')"
| "AppError_status (Unauthorized _) = (401, ''unauthorized'')"
| "AppError_status (Forbidden _) = (403, ''forbidden'')"
| "AppError_status (BadRequest _) = (400, ''bad_request'')"
| "AppError_status (Conflict _) = (409, ''conflict'')"
| "AppError_status (UnprocessableEntity _) = (422, ''unprocessable_entity'')"
| "AppError_status (Database _) = (500, ''database_error'')"
| "AppError_status (Internal _) = (500, ''internal_error'')"
| "AppError_status (Config _) = (500, ''config_error'')"

section \<open>Rows\<close>

text \<open>JSON values.  Numbers are integers; an object is the list of its members.\<close>

datatype json = JNull | JBool bool | JInt int | JStr string | JArr "json list"
  | JObj "(string \<times> json) list"

text \<open>\<open>Value::get\<close> with a key, \<open>as_str\<close> and \<open>as_i64\<close>.\<close>

fun json_get :: "string \<Rightarrow> json \<Rightarrow> json option" where
  "json_get k (JObj ms) = map_of ms k"
| "json_get k _ = None"

fun json_str :: "json \<Rightarrow> string option" where
  "json_str (JStr s) = Some s"
| "json_str _ = None"

definition i64_range :: "int \<Rightarrow> bool" where
  "i64_range n \<longleftrightarrow> - (2 ^ 63) \<le> n \<and> n < 2 ^ 63"

fun json_i64 :: "json \<Rightarrow> int option" where
  "json_i64 (JInt n) = (if i64_range n then Some n else None)"
| "json_i64 _ = None"

text \<open>\<open>firewall_rules\<close>: the columns of the model \<open>FirewallRule\<close> and the place in a group.\<close>

record rule_row =
  rl_rule :: FirewallRule
  rl_group_id :: Uuid
  rl_group_order :: int

record FirewallRuleGroup =
  rg_id :: Uuid
  rg_name :: string
  rg_description :: string
  rg_created_by :: "Uuid option"
  rg_created_at :: DateTime
  rg_updated_at :: DateTime

record FirewallPolicySet =
  ps_id :: Uuid
  ps_name :: string
  ps_description :: string
  ps_created_by :: "Uuid option"
  ps_created_at :: DateTime
  ps_updated_at :: DateTime
  ps_default_input_policy :: "FirewallDefaultPolicy option"
  ps_default_output_policy :: "FirewallDefaultPolicy option"

record FirewallPolicySetRuleGroup =
  pg_policy_set_id :: Uuid
  pg_rule_group_id :: Uuid
  pg_set_group_order :: int

record HostPolicyAssignment =
  ha_host_id :: Uuid
  ha_policy_set_id :: Uuid
  ha_assigned_by :: "Uuid option"
  ha_assigned_at :: DateTime

record DriftSnapshot =
  ds_host_id :: Uuid
  ds_snapshot_hash :: string
  ds_rule_count :: int
  ds_captured_at :: DateTime
  ds_source :: string

record Host =
  ho_id :: Uuid
  ho_fqdn :: string
  ho_ip_address :: string
  ho_display_name :: string
  ho_os_family :: "string option"
  ho_os_name :: "string option"
  ho_arch :: "string option"
  ho_agent_version :: "string option"
  ho_health_status :: HostHealthStatus
  ho_last_health_at :: "DateTime option"
  ho_last_sync_at :: "DateTime option"
  ho_agent_port :: int
  ho_notes :: string
  ho_registered_at :: DateTime
  ho_updated_at :: DateTime

text \<open>\<open>agent_check_ins\<close> and \<open>host_config_overrides\<close>.\<close>

record AgentCheckIn =
  ck_host_id :: Uuid
  ck_rules_hash :: string
  ck_agent_version :: string
  ck_backend_type :: string
  ck_os_info :: "(string \<times> string) list"
  ck_uptime_seconds :: int
  ck_config_version :: int
  ck_checked_in_at :: DateTime

record HostConfigOverride =
  co_host_id :: Uuid
  co_check_in_interval_secs :: int
  co_push_enabled :: bool
  co_safe_mode_enabled :: bool
  co_backend_override :: "string option"
  co_config_version :: int

record PendingAction =
  pa_id :: Uuid
  pa_host_id :: Uuid
  pa_action_type :: PendingActionType
  pa_payload :: string
  pa_reason :: string
  pa_priority :: int
  pa_status :: PendingActionStatus
  pa_created_at :: DateTime
  pa_delivered_at :: "DateTime option"
  pa_executed_at :: "DateTime option"
  pa_expires_at :: DateTime

text \<open>\<open>audit_log\<close>; the identifier is the row number.  \<open>details\<close> is the JSON text.\<close>

record AuditRow =
  au_id :: nat
  au_action :: string
  au_actor_user_id :: "Uuid option"
  au_actor_username :: "string option"
  au_target_type :: "string option"
  au_target_id :: "string option"
  au_details :: string
  au_ip_address :: "string option"
  au_request_id :: "string option"
  au_created_at :: DateTime
  au_row_hash :: string
  au_prev_hash :: string

record UserRow =
  us_id :: Uuid
  us_username :: string
  us_display_name :: string
  us_email :: string
  us_role :: UserRole
  us_auth_provider :: AuthProvider
  us_password_hash :: "string option"
  us_mfa_enabled :: bool
  us_is_active :: bool
  us_force_password_reset :: bool
  us_failed_login_attempts :: int
  us_locked_until :: "DateTime option"
  us_last_login_at :: "DateTime option"
  us_created_at :: DateTime
  us_updated_at :: DateTime

record Group =
  gr_id :: Uuid
  gr_name :: string
  gr_description :: string
  gr_created_at :: DateTime
  gr_updated_at :: DateTime

record ProtectedCidr =
  pr_host_id :: Uuid
  pr_cidr :: string
  pr_label :: string
  pr_created_by :: "Uuid option"
  pr_created_at :: DateTime

record RulePolicyDecision =
  pd_id :: Uuid
  pd_rule_id :: "Uuid option"
  pd_decision :: string
  pd_reason :: string

record RefreshToken =
  rt_user_id :: Uuid
  rt_token_hash :: string
  rt_expires_at :: DateTime
  rt_last_used_at :: DateTime
  rt_revoked :: bool
  rt_revoked_at :: "DateTime option"
  rt_jti :: "string option"
  rt_ip_address :: "string option"

record EnrollmentToken =
  et_token_hash :: string
  et_host_fqdn :: string
  et_host_ip :: "string option"
  et_created_by :: Uuid
  et_expires_at :: DateTime
  et_used_at :: "DateTime option"
  et_revoked_at :: "DateTime option"

record EnrollmentRequest =
  er_id :: Uuid
  er_machine_id :: string
  er_fqdn :: string
  er_ip_address :: string
  er_hostname :: "string option"
  er_os_details :: json
  er_polling_token :: string
  er_csr :: "string option"
  er_created_at :: DateTime
  er_expires_at :: DateTime

record CertRow =
  ce_id :: Uuid
  ce_host_id :: "Uuid option"
  ce_serial_number :: string
  ce_common_name :: string
  ce_status :: CertStatus
  ce_issued_at :: DateTime
  ce_expires_at :: DateTime
  ce_revoked_at :: "DateTime option"
  ce_cert_pem :: string
  ce_ca_tier :: string
  ce_issuer_serial :: "string option"

record AuditAnchor =
  an_chain_head :: string
  an_anchored_at :: DateTime
  an_anchor_type :: string
  an_anchor_ref :: string
  an_verified_at :: "DateTime option"

section \<open>What the web server keeps in memory\<close>

text \<open>The bundle an approved agent is handed, and the cache of approved enrollments.\<close>

record PullConfigBundle =
  pb_check_in_interval_secs :: int
  pb_push_enabled :: bool
  pb_config_version :: int
  pb_manager_agent_url :: string

record PkiBundle =
  pk_ca_chain :: "string list"
  pk_server_cert :: string
  pk_crl_pem :: "string option"
  pk_pull_config :: "PullConfigBundle option"

record ApprovedEntry =
  ap_pki_bundle :: PkiBundle
  ap_host_id :: Uuid
  ap_created_at :: DateTime

text \<open>The part of \<open>AppState\<close> that changes: the entries the running whitelist and proxy list were parsed
from, the trust anchors and revocation lists of the agent listener's verifier while it is enabled, the
cache of approved enrollments by polling token, and the hosts with a stored notification.\<close>

record memory =
  mm_whitelist :: "string list"
  mm_proxies :: "string list"
  mm_agent_tls :: "(string list \<times> string list) option"
  mm_approved :: "(string \<times> ApprovedEntry) list"
  mm_notify :: "Uuid list"

section \<open>The database\<close>

text \<open>\<open>db_host_groups\<close> and \<open>db_operator_host_groups\<close> hold pairs (host, group) and (user, group);
\<open>db_system_config\<close> pairs of a key and a value, \<open>db_crl_counter\<close> pairs of an issuer and a number,
\<open>db_disk\<close> pairs of a path and the contents of the file.\<close>

record db =
  db_rules :: "rule_row list"
  db_rule_groups :: "FirewallRuleGroup list"
  db_policy_sets :: "FirewallPolicySet list"
  db_psrg :: "FirewallPolicySetRuleGroup list"
  db_assignments :: "HostPolicyAssignment list"
  db_hosts :: "Host list"
  db_check_ins :: "AgentCheckIn list"
  db_drift :: "DriftSnapshot list"
  db_overrides :: "HostConfigOverride list"
  db_pending :: "PendingAction list"
  db_audit :: "AuditRow list"
  db_users :: "UserRow list"
  db_refresh :: "RefreshToken list"
  db_groups :: "Group list"
  db_host_groups :: "(Uuid \<times> Uuid) list"
  db_operator_host_groups :: "(Uuid \<times> Uuid) list"
  db_enroll_tokens :: "EnrollmentToken list"
  db_enroll_requests :: "EnrollmentRequest list"
  db_certificates :: "CertRow list"
  db_system_config :: "(string \<times> string) list"
  db_decisions :: "RulePolicyDecision list"
  db_protected :: "ProtectedCidr list"
  db_crl_counter :: "(string \<times> int) list"
  db_anchors :: "AuditAnchor list"
  db_disk :: "(string \<times> string) list"
  db_memory :: memory

definition empty_memory :: memory where
  "empty_memory =
     \<lparr> mm_whitelist = [], mm_proxies = [], mm_agent_tls = None, mm_approved = [], mm_notify = [] \<rparr>"

definition empty_db :: db where
  "empty_db =
     \<lparr> db_rules = [], db_rule_groups = [], db_policy_sets = [], db_psrg = [], db_assignments = [],
       db_hosts = [], db_check_ins = [], db_drift = [], db_overrides = [], db_pending = [],
       db_audit = [], db_users = [], db_refresh = [], db_groups = [], db_host_groups = [],
       db_operator_host_groups = [], db_enroll_tokens = [], db_enroll_requests = [],
       db_certificates = [], db_system_config = [],
       db_decisions = [], db_protected = [], db_crl_counter = [], db_anchors = [], db_disk = [],
       db_memory = empty_memory \<rparr>"

section \<open>Handlers as state transformers\<close>

type_synonym mstate = "db \<times> bool list"
type_synonym 'a dbm = "mstate \<Rightarrow> (AppError + 'a) \<times> mstate"

definition ret :: "'a \<Rightarrow> 'a dbm" where
  "ret x s = (Inr x, s)"

definition throw :: "AppError \<Rightarrow> 'a dbm" where
  "throw e s = (Inl e, s)"

definition bind :: "'a dbm \<Rightarrow> ('a \<Rightarrow> 'b dbm) \<Rightarrow> 'b dbm" where
  "bind m k s = (case m s of (Inl e, s') \<Rightarrow> (Inl e, s') | (Inr x, s') \<Rightarrow> k x s')"

text \<open>One statement: refused by the database, or executed.  A statement that fails changes
nothing.\<close>

definition stmt :: "(db \<Rightarrow> sql_error + 'a \<times> db) \<Rightarrow> 'a dbm" where
  "stmt f s =
     (case s of (d, faults) \<Rightarrow>
        if faults \<noteq> [] \<and> hd faults then (Inl (Database OtherSqlError), d, tl faults)
        else (case f d of
                Inl e \<Rightarrow> (Inl (Database e), d, tl faults)
              | Inr (x, d') \<Rightarrow> (Inr x, d', tl faults)))"

definition query :: "(db \<Rightarrow> 'a) \<Rightarrow> 'a dbm" where
  "query f = stmt (\<lambda>d. Inr (f d, d))"

definition exec :: "(db \<Rightarrow> db) \<Rightarrow> unit dbm" where
  "exec f = stmt (\<lambda>d. Inr ((), f d))"

text \<open>Reading memory and changing it cannot be refused.\<close>

definition recall :: "(db \<Rightarrow> 'a) \<Rightarrow> 'a dbm" where
  "recall f s = (Inr (f (fst s)), s)"

definition modify :: "(db \<Rightarrow> db) \<Rightarrow> unit dbm" where
  "modify f s = (Inr (), f (fst s), snd s)"

text \<open>\<open>let _ = ...\<close> and \<open>.ok()\<close>: the error is dropped.\<close>

definition attempt :: "'a dbm \<Rightarrow> 'a option dbm" where
  "attempt m s = (case m s of (Inl e, s') \<Rightarrow> (Inr None, s') | (Inr x, s') \<Rightarrow> (Inr (Some x), s'))"

definition ignore :: "'a dbm \<Rightarrow> unit dbm" where
  "ignore m s = (case m s of (_, s') \<Rightarrow> (Inr (), s'))"

text \<open>A \<open>match\<close> on a result, which has both cases at hand.\<close>

definition tried :: "'a dbm \<Rightarrow> (AppError + 'a) dbm" where
  "tried m s = (case m s of (r, s') \<Rightarrow> (Inr r, s'))"

text \<open>\<open>ok_or_else(...)?\<close> on a row that may be missing, and an early return of an error.\<close>

definition require :: "AppError \<Rightarrow> 'a option \<Rightarrow> 'a dbm" where
  "require e x = (case x of None \<Rightarrow> throw e | Some a \<Rightarrow> ret a)"

definition guard :: "AppError \<Rightarrow> bool \<Rightarrow> unit dbm" where
  "guard e b = (if b then ret () else throw e)"

text \<open>A \<open>for\<close> loop over a list.\<close>

primrec for_each :: "('a \<Rightarrow> unit dbm) \<Rightarrow> 'a list \<Rightarrow> unit dbm" where
  "for_each f [] = ret ()"
| "for_each f (x # xs) = bind (f x) (\<lambda>_. for_each f xs)"

text \<open>A transaction: if the body fails, its changes are undone.\<close>

definition transaction :: "'a dbm \<Rightarrow> 'a dbm" where
  "transaction m s = (case m s of (Inl e, (_, fs)) \<Rightarrow> (Inl e, fst s, fs) | (Inr x, s') \<Rightarrow> (Inr x, s'))"

text \<open>The database after a handler, and its result.\<close>

definition db_after :: "'a dbm \<Rightarrow> mstate \<Rightarrow> db" where
  "db_after m s = fst (snd (m s))"

definition result :: "'a dbm \<Rightarrow> mstate \<Rightarrow> AppError + 'a" where
  "result m s = fst (m s)"

section \<open>Relations every step of a handler satisfies\<close>

text \<open>\<open>steps R m\<close>: whatever the database refuses, \<open>m\<close> takes the database to one related by \<open>R\<close>.  For
a reflexive and transitive \<open>R\<close> this composes along the structure of a handler.\<close>

definition steps :: "(db \<Rightarrow> db \<Rightarrow> bool) \<Rightarrow> 'a dbm \<Rightarrow> bool" where
  "steps R m \<longleftrightarrow> (\<forall>s. R (fst s) (db_after m s))"

locale db_relation =
  fixes R :: "db \<Rightarrow> db \<Rightarrow> bool"
  assumes rel_refl: "R d d"
    and rel_trans: "R d1 d2 \<Longrightarrow> R d2 d3 \<Longrightarrow> R d1 d3"
begin

lemma steps_ret: "steps R (ret x)"
  by (simp add: steps_def db_after_def ret_def rel_refl)

lemma steps_throw: "steps R (throw e)"
  by (simp add: steps_def db_after_def throw_def rel_refl)

lemma stepsD: "steps R m \<Longrightarrow> m s = (r, s') \<Longrightarrow> R (fst s) (fst s')"
  unfolding steps_def db_after_def by (metis snd_conv)

lemma stepsI: "(\<And>s r s'. m s = (r, s') \<Longrightarrow> R (fst s) (fst s')) \<Longrightarrow> steps R m"
  unfolding steps_def db_after_def by (metis prod.collapse)

lemma steps_bind:
  assumes "steps R m" and "\<And>x. steps R (k x)"
  shows "steps R (bind m k)"
proof (rule stepsI)
  fix s r s' assume run: "bind m k s = (r, s')"
  obtain q s1 where m: "m s = (q, s1)" by (cases "m s")
  have first: "R (fst s) (fst s1)" by (rule stepsD [OF assms(1) m])
  show "R (fst s) (fst s')"
  proof (cases q)
    case (Inl e)
    with first run m show ?thesis by (simp add: bind_def)
  next
    case (Inr x)
    with run m have "k x s1 = (r, s')" by (simp add: bind_def)
    from first stepsD [OF assms(2) this] show ?thesis by (rule rel_trans)
  qed
qed

lemma steps_stmt: "(\<And>d x d'. f d = Inr (x, d') \<Longrightarrow> R d d') \<Longrightarrow> steps R (stmt f)"
  by (auto simp: steps_def db_after_def stmt_def rel_refl split: prod.split sum.split)

lemma steps_query: "steps R (query f)"
  unfolding query_def by (rule steps_stmt) (simp add: rel_refl)

lemma steps_exec: "(\<And>d. R d (f d)) \<Longrightarrow> steps R (exec f)"
  unfolding exec_def by (rule steps_stmt) auto

lemma steps_recall: "steps R (recall f)"
  by (simp add: steps_def db_after_def recall_def rel_refl)

lemma steps_modify: "(\<And>d. R d (f d)) \<Longrightarrow> steps R (modify f)"
  by (simp add: steps_def db_after_def modify_def)

lemma steps_tried: "steps R m \<Longrightarrow> steps R (tried m)"
  by (rule stepsI) (auto simp: tried_def dest: stepsD split: prod.split_asm)

lemma steps_attempt: "steps R m \<Longrightarrow> steps R (attempt m)"
  by (rule stepsI) (auto simp: attempt_def dest: stepsD split: prod.split_asm sum.split_asm)

lemma steps_ignore: "steps R m \<Longrightarrow> steps R (ignore m)"
  by (rule stepsI) (auto simp: ignore_def dest: stepsD split: prod.split_asm)

lemma steps_require: "steps R (require e x)"
  by (cases x) (simp_all add: require_def steps_throw steps_ret)

lemma steps_guard: "steps R (guard e b)"
  by (simp add: guard_def steps_throw steps_ret)

lemma steps_for_each: "(\<And>x. steps R (f x)) \<Longrightarrow> steps R (for_each f xs)"
  by (induction xs) (auto intro: steps_ret steps_bind)

lemma steps_transaction: "steps R m \<Longrightarrow> steps R (transaction m)"
  by (rule stepsI)
    (auto simp: transaction_def rel_refl dest: stepsD split: prod.split_asm sum.split_asm)

lemma steps_if: "(b \<Longrightarrow> steps R m) \<Longrightarrow> (\<not> b \<Longrightarrow> steps R n) \<Longrightarrow> steps R (if b then m else n)"
  by simp

lemma steps_option: "steps R m \<Longrightarrow> (\<And>x. steps R (k x)) \<Longrightarrow> steps R (case v of None \<Rightarrow> m | Some x \<Rightarrow> k x)"
  by (cases v) simp_all

lemma steps_prod: "(\<And>x y. steps R (k x y)) \<Longrightarrow> steps R (case p of (x, y) \<Rightarrow> k x y)"
  by (cases p) simp

lemma steps_sum:
  "(\<And>x. steps R (k x)) \<Longrightarrow> (\<And>y. steps R (l y)) \<Longrightarrow> steps R (case v of Inl x \<Rightarrow> k x | Inr y \<Rightarrow> l y)"
  by (cases v) simp_all

lemma steps_let: "(\<And>x. steps R (k x)) \<Longrightarrow> steps R (let x = v in k x)"
  by simp

lemmas steps_rules = steps_ret steps_throw steps_bind steps_query steps_recall steps_attempt
  steps_ignore steps_tried
  steps_require steps_guard steps_for_each steps_transaction steps_if steps_option steps_prod
  steps_sum steps_let

end

text \<open>Preservation of an invariant is such a relation.\<close>

definition preserves :: "(db \<Rightarrow> bool) \<Rightarrow> db \<Rightarrow> db \<Rightarrow> bool" where
  "preserves I d d' \<longleftrightarrow> (I d \<longrightarrow> I d')"

interpretation inv: db_relation "preserves I" for I
  by unfold_locales (auto simp: preserves_def)

text \<open>So is leaving a part of the database as it is.\<close>

definition leaves :: "(db \<Rightarrow> 'v) \<Rightarrow> db \<Rightarrow> db \<Rightarrow> bool" where
  "leaves f d d' \<longleftrightarrow> f d' = f d"

interpretation frame: db_relation "leaves f" for f
  by unfold_locales (auto simp: leaves_def)

lemma steps_db_after: "steps R m \<Longrightarrow> R d (db_after m (d, fs))"
  by (metis fst_conv steps_def)

section \<open>Outcomes\<close>

text \<open>\<open>outcome m d Q E\<close>: run on \<open>d\<close>, whatever the database refuses, \<open>m\<close> either returns a value and a
database that satisfy \<open>Q\<close>, or an error and a database that satisfy \<open>E\<close>.\<close>

named_theorems outcome_intros "introduction rules for the outcome of a handler"

definition outcome :: "'a dbm \<Rightarrow> db \<Rightarrow> ('a \<Rightarrow> db \<Rightarrow> bool) \<Rightarrow> (AppError \<Rightarrow> db \<Rightarrow> bool) \<Rightarrow> bool" where
  "outcome m d Q E \<longleftrightarrow>
     (\<forall>fs r d' fs'. m (d, fs) = (r, d', fs') \<longrightarrow> (case r of Inl e \<Rightarrow> E e d' | Inr x \<Rightarrow> Q x d'))"

lemma outcomeD:
  "outcome m d Q E \<Longrightarrow>
     (case result m (d, fs) of Inl e \<Rightarrow> E e (db_after m (d, fs)) | Inr x \<Rightarrow> Q x (db_after m (d, fs)))"
  unfolding outcome_def result_def db_after_def by (metis prod.collapse)

lemma outcome_ok: "outcome m d Q E \<Longrightarrow> result m (d, fs) = Inr x \<Longrightarrow> Q x (db_after m (d, fs))"
  using outcomeD [of m d Q E fs] by simp

lemma outcome_err: "outcome m d Q E \<Longrightarrow> result m (d, fs) = Inl e \<Longrightarrow> E e (db_after m (d, fs))"
  using outcomeD [of m d Q E fs] by simp

lemma outcome_any: "outcome m d (\<lambda>_. P) (\<lambda>_. P) \<Longrightarrow> P (db_after m (d, fs))"
  using outcomeD [of m d "\<lambda>_. P" "\<lambda>_. P" fs] by (simp split: sum.split_asm)

lemma outcome_mono:
  "outcome m d Q E \<Longrightarrow> (\<And>x d'. Q x d' \<Longrightarrow> Q' x d') \<Longrightarrow> (\<And>e d'. E e d' \<Longrightarrow> E' e d') \<Longrightarrow> outcome m d Q' E'"
  unfolding outcome_def by (fastforce split: sum.split)

lemma outcome_steps:
  "steps R m \<Longrightarrow> (\<And>x d'. R d d' \<Longrightarrow> Q x d') \<Longrightarrow> (\<And>e d'. R d d' \<Longrightarrow> E e d') \<Longrightarrow> outcome m d Q E"
  unfolding outcome_def steps_def db_after_def
  by (auto split: sum.split) (metis fst_conv snd_conv)+

lemma outcome_ret [outcome_intros]: "Q x d \<Longrightarrow> outcome (ret x) d Q E"
  by (simp add: outcome_def ret_def)

lemma outcome_throw [outcome_intros]: "E e d \<Longrightarrow> outcome (throw e) d Q E"
  by (simp add: outcome_def throw_def)

lemma outcome_bind [outcome_intros]:
  assumes "outcome m d (\<lambda>x d'. outcome (k x) d' Q E) E"
  shows "outcome (bind m k) d Q E"
  unfolding outcome_def
proof (intro allI impI)
  fix fs r d' fs' assume run: "bind m k (d, fs) = (r, d', fs')"
  obtain q d1 fs1 where m: "m (d, fs) = (q, d1, fs1)" by (cases "m (d, fs)")
  show "case r of Inl e \<Rightarrow> E e d' | Inr x \<Rightarrow> Q x d'"
  proof (cases q)
    case (Inl e)
    with m assms have "E e d1" by (fastforce simp: outcome_def)
    with run m Inl show ?thesis by (auto simp: bind_def)
  next
    case (Inr x)
    with m assms have "outcome (k x) d1 Q E" by (fastforce simp: outcome_def)
    moreover from run m Inr have "k x (d1, fs1) = (r, d', fs')" by (simp add: bind_def)
    ultimately show ?thesis unfolding outcome_def by blast
  qed
qed

lemma outcome_stmt:
  "E (Database OtherSqlError) d \<Longrightarrow> (\<And>e. f d = Inl e \<Longrightarrow> E (Database e) d) \<Longrightarrow>
     (\<And>x d'. f d = Inr (x, d') \<Longrightarrow> Q x d') \<Longrightarrow> outcome (stmt f) d Q E"
  by (auto simp: outcome_def stmt_def split: sum.split sum.split_asm prod.split_asm if_split_asm)

lemma outcome_query [outcome_intros]: "E (Database OtherSqlError) d \<Longrightarrow> Q (f d) d \<Longrightarrow> outcome (query f) d Q E"
  unfolding query_def by (rule outcome_stmt) auto

lemma outcome_exec [outcome_intros]: "E (Database OtherSqlError) d \<Longrightarrow> Q () (f d) \<Longrightarrow> outcome (exec f) d Q E"
  unfolding exec_def by (rule outcome_stmt) auto

lemma outcome_recall [outcome_intros]: "Q (f d) d \<Longrightarrow> outcome (recall f) d Q E"
  by (simp add: outcome_def recall_def)

lemma outcome_modify [outcome_intros]: "Q () (f d) \<Longrightarrow> outcome (modify f) d Q E"
  by (simp add: outcome_def modify_def)

lemma outcome_tried [outcome_intros]:
  "outcome m d (\<lambda>x. Q (Inr x)) (\<lambda>e. Q (Inl e)) \<Longrightarrow> outcome (tried m) d Q E"
  unfolding outcome_def tried_def
  by (auto split: prod.split_asm) (metis (no_types, lifting) sum.case_eq_if sum.collapse)

lemma outcome_attempt [outcome_intros]:
  "outcome m d (\<lambda>x. Q (Some x)) (\<lambda>_. Q None) \<Longrightarrow> outcome (attempt m) d Q E"
  unfolding outcome_def attempt_def by (fastforce split: prod.split_asm sum.split_asm)

lemma outcome_ignore [outcome_intros]: "outcome m d (\<lambda>_. Q ()) (\<lambda>_. Q ()) \<Longrightarrow> outcome (ignore m) d Q E"
  unfolding outcome_def ignore_def by (fastforce split: prod.split_asm sum.split_asm)

lemma outcome_require [outcome_intros]:
  "(x = None \<Longrightarrow> E e d) \<Longrightarrow> (\<And>a. x = Some a \<Longrightarrow> Q a d) \<Longrightarrow> outcome (require e x) d Q E"
  by (cases x) (simp_all add: require_def outcome_throw outcome_ret)

lemma outcome_guard [outcome_intros]: "(\<not> b \<Longrightarrow> E e d) \<Longrightarrow> (b \<Longrightarrow> Q () d) \<Longrightarrow> outcome (guard e b) d Q E"
  by (simp add: guard_def outcome_throw outcome_ret)

lemma outcome_transaction [outcome_intros]:
  assumes "outcome m d Q (\<lambda>e _. E e d)"
  shows "outcome (transaction m) d Q E"
  unfolding outcome_def
proof (intro allI impI)
  fix fs r d' fs' assume run: "transaction m (d, fs) = (r, d', fs')"
  obtain q d1 fs1 where m: "m (d, fs) = (q, d1, fs1)" by (cases "m (d, fs)")
  with assms have "case q of Inl e \<Rightarrow> E e d | Inr x \<Rightarrow> Q x d1" unfolding outcome_def by blast
  with run m show "case r of Inl e \<Rightarrow> E e d' | Inr x \<Rightarrow> Q x d'"
    by (cases q) (auto simp: transaction_def)
qed

lemma outcome_for_each:
  assumes "\<And>x d. x \<in> set xs \<Longrightarrow> I d \<Longrightarrow> outcome (f x) d (\<lambda>_. I) (\<lambda>e d. E e d)" and "I d"
    and "\<And>d. I d \<Longrightarrow> Q () d"
  shows "outcome (for_each f xs) d Q E"
  using assms
proof (induction xs arbitrary: d)
  case Nil
  then show ?case by (simp add: outcome_ret)
next
  case (Cons x xs)
  have "outcome (f x) d (\<lambda>_. I) E" using Cons.prems(1,2) by simp
  then have "outcome (f x) d (\<lambda>_ d'. outcome (for_each f xs) d' Q E) E"
    by (rule outcome_mono) (use Cons in auto)
  then show ?case by (simp add: outcome_bind)
qed

lemma outcome_if [outcome_intros]:
  "(b \<Longrightarrow> outcome m d Q E) \<Longrightarrow> (\<not> b \<Longrightarrow> outcome n d Q E) \<Longrightarrow> outcome (if b then m else n) d Q E"
  by simp

lemma outcome_option [outcome_intros]:
  "(v = None \<Longrightarrow> outcome m d Q E) \<Longrightarrow> (\<And>x. v = Some x \<Longrightarrow> outcome (k x) d Q E) \<Longrightarrow>
     outcome (case v of None \<Rightarrow> m | Some x \<Rightarrow> k x) d Q E"
  by (cases v) simp_all

lemma outcome_sum [outcome_intros]:
  "(\<And>x. v = Inl x \<Longrightarrow> outcome (k x) d Q E) \<Longrightarrow> (\<And>y. v = Inr y \<Longrightarrow> outcome (l y) d Q E) \<Longrightarrow>
     outcome (case v of Inl x \<Rightarrow> k x | Inr y \<Rightarrow> l y) d Q E"
  by (cases v) simp_all

lemma outcome_prod [outcome_intros]:
  "(\<And>x y. p = (x, y) \<Longrightarrow> outcome (k x y) d Q E) \<Longrightarrow> outcome (case p of (x, y) \<Rightarrow> k x y) d Q E"
  by (cases p) simp

lemma outcome_let [outcome_intros]: "outcome (k v) d Q E \<Longrightarrow> outcome (let x = v in k x) d Q E"
  by simp

text \<open>A run in which nothing is refused is computed.\<close>

named_theorems run_simps "evaluation of a handler when nothing is refused"

lemma run_basic [run_simps]:
  "ret x s = (Inr x, s)" "throw e s = (Inl e, s)"
  "query q (d, []) = (Inr (q d), d, [])" "exec f (d, []) = (Inr (), f d, [])"
  "stmt g (d, []) = (case g d of Inl e \<Rightarrow> (Inl (Database e), d, []) | Inr (x, d') \<Rightarrow> (Inr x, d', []))"
  "guard e b s = (if b then (Inr (), s) else (Inl e, s))"
  "require e y s = (case y of None \<Rightarrow> (Inl e, s) | Some a \<Rightarrow> (Inr a, s))"
  "modify f (d, fs) = (Inr (), f d, fs)"
  "recall p (d, fs) = (Inr (p d), d, fs)"
  by (simp_all add: modify_def recall_def ret_def throw_def query_def exec_def stmt_def guard_def require_def
      split: option.split sum.split prod.split)

lemma run_bind [run_simps]:
  "bind m k (d, fs) = (case m (d, fs) of (Inl e, s') \<Rightarrow> (Inl e, s') | (Inr x, s') \<Rightarrow> k x s')"
  "attempt m (d, fs) = (case m (d, fs) of (Inl e, s') \<Rightarrow> (Inr None, s') | (Inr x, s') \<Rightarrow> (Inr (Some x), s'))"
  "ignore n (d, fs) = (case n (d, fs) of (_, s') \<Rightarrow> (Inr (), s'))"
  "tried m (d, fs) = (case m (d, fs) of (r, s') \<Rightarrow> (Inr r, s'))"
  by (simp_all add: tried_def bind_def attempt_def ignore_def)

text \<open>\<open>succeeds m d Q\<close>: when nothing is refused, \<open>m\<close> returns a value, and it satisfies \<open>Q\<close> with the
database reached.\<close>

named_theorems succeeds_intros "introduction rules for handlers that return a value"

definition succeeds :: "'a dbm \<Rightarrow> db \<Rightarrow> ('a \<Rightarrow> db \<Rightarrow> bool) \<Rightarrow> bool" where
  "succeeds m d Q \<longleftrightarrow> (\<exists>x d'. m (d, []) = (Inr x, d', []) \<and> Q x d')"

lemma succeedsD: "succeeds m d Q \<Longrightarrow> \<exists>x. result m (d, []) = Inr x \<and> Q x (db_after m (d, []))"
  by (auto simp: succeeds_def result_def db_after_def)

lemma succeeds_mono: "succeeds m d Q \<Longrightarrow> (\<And>x d'. Q x d' \<Longrightarrow> Q' x d') \<Longrightarrow> succeeds m d Q'"
  by (auto simp: succeeds_def)

lemma succeeds_basic [succeeds_intros]:
  "Q x d \<Longrightarrow> succeeds (ret x) d Q"
  "R (q d) d \<Longrightarrow> succeeds (query q) d R"
  "S () (f d) \<Longrightarrow> succeeds (exec f) d S"
  "S () (f d) \<Longrightarrow> succeeds (modify f) d S"
  "R (q d) d \<Longrightarrow> succeeds (recall q) d R"
  "b \<Longrightarrow> S () d \<Longrightarrow> succeeds (guard e b) d S"
  "y = Some a \<Longrightarrow> T a d \<Longrightarrow> succeeds (require e y) d T"
  by (auto simp: succeeds_def run_simps)

lemma succeeds_bind [succeeds_intros]:
  "succeeds m d (\<lambda>x d'. succeeds (k x) d' Q) \<Longrightarrow> succeeds (bind m k) d Q"
  by (auto simp: succeeds_def run_simps)

lemma succeeds_stmt: "f d = Inr (x, d') \<Longrightarrow> Q x d' \<Longrightarrow> succeeds (stmt f) d Q"
  by (simp add: succeeds_def run_simps)

lemma succeeds_ignore_stmt [succeeds_intros]:
  "(\<And>e. f d = Inl e \<Longrightarrow> Q () d) \<Longrightarrow> (\<And>x d'. f d = Inr (x, d') \<Longrightarrow> Q () d') \<Longrightarrow>
     succeeds (ignore (stmt f)) d Q"
  by (auto simp: succeeds_def run_simps split: sum.split)

lemma succeeds_tried [succeeds_intros]:
  "succeeds m d (\<lambda>x. Q (Inr x)) \<Longrightarrow> succeeds (tried m) d Q"
  by (auto simp: succeeds_def run_simps)

lemma succeeds_sum [succeeds_intros]:
  "(\<And>x. v = Inl x \<Longrightarrow> succeeds (k x) d Q) \<Longrightarrow> (\<And>y. v = Inr y \<Longrightarrow> succeeds (l y) d Q) \<Longrightarrow>
     succeeds (case v of Inl x \<Rightarrow> k x | Inr y \<Rightarrow> l y) d Q"
  by (cases v) simp_all

lemma succeeds_if [succeeds_intros]:
  "(b \<Longrightarrow> succeeds m d Q) \<Longrightarrow> (\<not> b \<Longrightarrow> succeeds n d Q) \<Longrightarrow> succeeds (if b then m else n) d Q"
  by simp

lemma succeeds_option [succeeds_intros]:
  "(v = None \<Longrightarrow> succeeds m d Q) \<Longrightarrow> (\<And>x. v = Some x \<Longrightarrow> succeeds (k x) d Q) \<Longrightarrow>
     succeeds (case v of None \<Rightarrow> m | Some x \<Rightarrow> k x) d Q"
  by (cases v) simp_all

lemma succeeds_prod [succeeds_intros]:
  "(\<And>x y. p = (x, y) \<Longrightarrow> succeeds (k x y) d Q) \<Longrightarrow> succeeds (case p of (x, y) \<Rightarrow> k x y) d Q"
  by (cases p) simp

lemma succeeds_let [succeeds_intros]: "succeeds (k v) d Q \<Longrightarrow> succeeds (let x = v in k x) d Q"
  by simp

section \<open>Tables\<close>

text \<open>The rows whose key is given, and \<open>UPDATE ... WHERE\<close>.\<close>

definition update_where :: "('r \<Rightarrow> bool) \<Rightarrow> ('r \<Rightarrow> 'r) \<Rightarrow> 'r list \<Rightarrow> 'r list" where
  "update_where P f rows = map (\<lambda>r. if P r then f r else r) rows"

lemma update_where_keys:
  "(\<And>r. P r \<Longrightarrow> key (f r) = key r) \<Longrightarrow> map key (update_where P f rows) = map key rows"
  by (auto simp: update_where_def)

lemma distinct_update_where:
  "(\<And>r. P r \<Longrightarrow> key (f r) = key r) \<Longrightarrow> distinct (map key rows) \<Longrightarrow>
     distinct (map key (update_where P f rows))"
  by (simp add: update_where_keys)

lemma set_update_where:
  "r' \<in> set (update_where P f rows) \<longleftrightarrow> (\<exists>r \<in> set rows. r' = (if P r then f r else r))"
  by (auto simp: update_where_def)

lemma update_where_mem: "r \<in> set rows \<Longrightarrow> P r \<Longrightarrow> f r \<in> set (update_where P f rows)"
  by (auto simp: update_where_def)

lemma find_unique:
  "distinct (map key rows) \<Longrightarrow> r \<in> set rows \<Longrightarrow> find (\<lambda>x. key x = key r) rows = Some r"
proof (induction rows)
  case Nil
  then show ?case by simp
next
  case (Cons a rows)
  then show ?case by (auto simp: image_iff)
qed

end
