(* ===== verification/Mgr_Audit.thy ===== *)
theory Mgr_Audit
  imports Mgr_Db
begin

text \<open>The hash-chained audit log, \<open>fw-core/src/audit.rs\<close>: appending an event and verifying the chain.
Parameters of the model are SHA-256 with hexadecimal output, the printers of identifiers, times and
JSON values, and what the database returns for a stored time, JSON value and address (a
\<open>TIMESTAMPTZ\<close> has microseconds, a \<open>JSONB\<close> value is printed anew, an \<open>INET\<close> address is normalised).\<close>

record audit_lib =
  al_sha256 :: "string \<Rightarrow> string"
  al_uuid_str :: "Uuid \<Rightarrow> string"
  al_rfc3339 :: "DateTime \<Rightarrow> string"
  al_json :: "(string \<times> string) list \<Rightarrow> string"
  al_stored_time :: "DateTime \<Rightarrow> DateTime"
  al_stored_json :: "string \<Rightarrow> string"
  al_stored_ip :: "string \<Rightarrow> string"

record AuditEvent =
  ev_action :: string
  ev_actor_user_id :: "Uuid option"
  ev_actor_username :: "string option"
  ev_target_type :: "string option"
  ev_target_id :: "string option"
  ev_details :: "(string \<times> string) list"
  ev_ip_address :: "string option"
  ev_request_id :: "string option"

text \<open>An event without an actor.\<close>

definition system_event :: "string \<Rightarrow> string \<Rightarrow> string \<Rightarrow> (string \<times> string) list \<Rightarrow> AuditEvent" where
  "system_event action ttype tid details =
     \<lparr> ev_action = action, ev_actor_user_id = None, ev_actor_username = None,
       ev_target_type = Some ttype, ev_target_id = Some tid, ev_details = details,
       ev_ip_address = None, ev_request_id = None \<rparr>"

text \<open>The values of the type \<open>audit_action\<close> after migration 031.\<close>

definition audit_actions :: "string list" where
  "audit_actions =
     [''user_login'', ''user_logout'', ''user_login_failed'', ''user_created'', ''user_deleted'',
      ''user_updated'', ''host_registered'', ''host_removed'', ''group_created'', ''group_deleted'',
      ''group_membership_changed'', ''firewall_job_created'', ''firewall_job_cancelled'',
      ''firewall_job_rollback'', ''maintenance_window_created'', ''maintenance_window_updated'',
      ''maintenance_window_deleted'', ''certificate_issued'', ''certificate_renewed'',
      ''certificate_revoked'', ''certificate_downloaded'', ''config_changed'',
      ''discovery_scan_started'', ''audit_integrity_verified'', ''email_notification_sent'',
      ''firewall_job_completed'', ''firewall_job_failed'', ''maintenance_window_reminder'',
      ''rule_created'', ''rule_updated'', ''rule_deleted'', ''policy_set_created'',
      ''policy_set_changed'', ''policy_assigned'', ''policy_unassigned'', ''rule_deployed'',
      ''rule_rollback'', ''drift_detected'', ''backend_changed'', ''break_glass_used'',
      ''enrollment_token_issued'', ''enrollment_token_used'', ''enrollment_token_revoked'',
      ''host_enrolled'', ''ca_intermediate_issued'', ''ca_intermediate_revoked'',
      ''audit_anchor_mismatch'', ''policy_force_checkin'']"

text \<open>What the hasher is fed, in the order of the sources.\<close>

definition audit_input ::
  "audit_lib \<Rightarrow> string \<Rightarrow> string \<Rightarrow> Uuid option \<Rightarrow> string option \<Rightarrow> string option \<Rightarrow> string option
     \<Rightarrow> string \<Rightarrow> string option \<Rightarrow> string option \<Rightarrow> DateTime \<Rightarrow> string" where
  "audit_input L prev action uid uname ttype tid details ip rid created =
     prev @ action @ opt_bytes (al_uuid_str L) uid @ opt_bytes (\<lambda>s. s) uname
     @ opt_bytes (\<lambda>s. s) ttype @ opt_bytes (\<lambda>s. s) tid @ details
     @ opt_bytes (\<lambda>s. s) ip @ opt_bytes (\<lambda>s. s) rid @ al_rfc3339 L created"

definition next_audit_id :: "AuditRow list \<Rightarrow> nat" where
  "next_audit_id rows = (if rows = [] then 1 else Suc (au_id (last rows)))"

definition audit_row :: "audit_lib \<Rightarrow> DateTime \<Rightarrow> string \<Rightarrow> AuditEvent \<Rightarrow> nat \<Rightarrow> AuditRow" where
  "audit_row L now prev ev i =
     \<lparr> au_id = i, au_action = ev_action ev, au_actor_user_id = ev_actor_user_id ev,
       au_actor_username = ev_actor_username ev, au_target_type = ev_target_type ev,
       au_target_id = ev_target_id ev, au_details = al_stored_json L (al_json L (ev_details ev)),
       au_ip_address = map_option (al_stored_ip L) (ev_ip_address ev),
       au_request_id = ev_request_id ev, au_created_at = al_stored_time L now,
       au_row_hash = al_sha256 L (audit_input L prev (ev_action ev) (ev_actor_user_id ev)
         (ev_actor_username ev) (ev_target_type ev) (ev_target_id ev) (al_json L (ev_details ev))
         (ev_ip_address ev) (ev_request_id ev) now),
       au_prev_hash = prev \<rparr>"

text \<open>The database accepts a row whose action is a value of the type and whose actor exists.  A refusal
for any other reason, such as the type of a bound value, is among the refusals the state lists.\<close>

definition accepts_event :: "db \<Rightarrow> AuditEvent \<Rightarrow> bool" where
  "accepts_event d ev \<longleftrightarrow> ev_action ev \<in> set audit_actions
     \<and> (case ev_actor_user_id ev of None \<Rightarrow> True | Some u \<Rightarrow> u \<in> set (map us_id (db_users d)))"

definition insert_audit :: "audit_lib \<Rightarrow> DateTime \<Rightarrow> string \<Rightarrow> AuditEvent \<Rightarrow> unit dbm" where
  "insert_audit L now prev ev =
     stmt (\<lambda>d. if accepts_event d ev
               then Inr ((), d \<lparr> db_audit := db_audit d
                      @ [audit_row L now prev ev (next_audit_id (db_audit d))] \<rparr>)
               else Inl OtherSqlError)"

definition last_row_hash :: "db \<Rightarrow> string option" where
  "last_row_hash d = (if db_audit d = [] then None else Some (au_row_hash (last (db_audit d))))"

definition log_event :: "audit_lib \<Rightarrow> DateTime \<Rightarrow> AuditEvent \<Rightarrow> unit dbm" where
  "log_event L now ev =
     bind (attempt (query last_row_hash)) (\<lambda>r.
     ignore (insert_audit L now
       (case r of Some (Some prev) \<Rightarrow> prev | _ \<Rightarrow> []) ev))"

section \<open>Verification\<close>

record IntegrityResult =
  ir_verified :: bool
  ir_mismatched_rows :: "nat list"
  ir_total_rows :: nat

definition expected_hash :: "audit_lib \<Rightarrow> string \<Rightarrow> AuditRow \<Rightarrow> string" where
  "expected_hash L prev r =
     al_sha256 L (audit_input L prev (au_action r) (au_actor_user_id r) (au_actor_username r)
       (au_target_type r) (au_target_id r) (au_details r) (au_ip_address r) (au_request_id r)
       (au_created_at r))"

fun mismatched :: "audit_lib \<Rightarrow> string \<Rightarrow> AuditRow list \<Rightarrow> nat list" where
  "mismatched L prev [] = []"
| "mismatched L prev (r # rs) =
     (if expected_hash L prev r \<noteq> au_row_hash r then [au_id r] else [])
     @ mismatched L (au_row_hash r) rs"

definition verify_integrity :: "audit_lib \<Rightarrow> IntegrityResult dbm" where
  "verify_integrity L =
     bind (query db_audit) (\<lambda>rows.
     let m = mismatched L [] rows
     in ret \<lparr> ir_verified = (m = []), ir_mismatched_rows = m, ir_total_rows = length rows \<rparr>)"

section \<open>Facts\<close>

lemma mismatched_append:
  "mismatched L prev (rs @ [r]) = mismatched L prev rs
     @ (if expected_hash L (if rs = [] then prev else au_row_hash (last rs)) r \<noteq> au_row_hash r
        then [au_id r] else [])"
  by (induction rs arbitrary: prev) auto

text \<open>Storage that returns what was hashed.\<close>

definition stores_faithfully :: "audit_lib \<Rightarrow> DateTime \<Rightarrow> AuditEvent \<Rightarrow> bool" where
  "stores_faithfully L now ev \<longleftrightarrow>
     al_rfc3339 L (al_stored_time L now) = al_rfc3339 L now
     \<and> al_stored_json L (al_json L (ev_details ev)) = al_json L (ev_details ev)
     \<and> (\<forall>ip. ev_ip_address ev = Some ip \<longrightarrow> al_stored_ip L ip = ip)"

lemma expected_hash_audit_row:
  "stores_faithfully L now ev \<Longrightarrow> expected_hash L prev (audit_row L now prev ev i)
     = au_row_hash (audit_row L now prev ev i)"
  by (cases "ev_ip_address ev")
    (auto simp: stores_faithfully_def expected_hash_def audit_row_def audit_input_def)

lemma log_event_audit:
  assumes "fs = [] \<or> \<not> hd fs"
  shows "db_audit (db_after (log_event L now ev) (d, fs)) = db_audit d \<or>
    db_audit (db_after (log_event L now ev) (d, fs))
      = db_audit d @ [audit_row L now
          (if db_audit d = [] then [] else au_row_hash (last (db_audit d))) ev
          (next_audit_id (db_audit d))]"
  using assms
  by (auto simp: log_event_def db_after_def bind_def attempt_def query_def stmt_def ignore_def
      insert_audit_def last_row_hash_def)

text \<open>The event log touches no other table.\<close>

definition other_tables :: "db \<Rightarrow> db" where
  "other_tables d = d \<lparr> db_audit := [] \<rparr>"

lemma log_event_leaves_others: "steps (leaves other_tables) (log_event L now ev)"
  unfolding log_event_def insert_audit_def
  by (intro frame.steps_rules frame.steps_stmt)
    (auto simp: leaves_def other_tables_def split: if_splits)

lemma log_event_result:
  obtains d' fs' where "log_event L now ev (d, fs) = (Inr (), d', fs')"
    and "other_tables d' = other_tables d"
proof -
  have "fst (log_event L now ev (d, fs)) = Inr ()"
    by (auto simp: log_event_def bind_def attempt_def ignore_def split: prod.split sum.split)
  then obtain s' where s': "log_event L now ev (d, fs) = (Inr (), s')"
    by (metis prod.collapse)
  have "other_tables (fst s') = other_tables d"
    using steps_db_after [OF log_event_leaves_others, of d L now ev fs]
    by (simp add: leaves_def db_after_def s')
  with s' that show thesis by (cases s') auto
qed

lemma other_tables_simps [simp]:
  "db_rules (other_tables d) = db_rules d" "db_rule_groups (other_tables d) = db_rule_groups d"
  "db_policy_sets (other_tables d) = db_policy_sets d" "db_psrg (other_tables d) = db_psrg d"
  "db_assignments (other_tables d) = db_assignments d" "db_hosts (other_tables d) = db_hosts d"
  "db_check_ins (other_tables d) = db_check_ins d" "db_drift (other_tables d) = db_drift d"
  "db_overrides (other_tables d) = db_overrides d" "db_pending (other_tables d) = db_pending d"
  "db_users (other_tables d) = db_users d" "db_refresh (other_tables d) = db_refresh d"
  "db_groups (other_tables d) = db_groups d" "db_host_groups (other_tables d) = db_host_groups d"
  "db_operator_host_groups (other_tables d) = db_operator_host_groups d"
  "db_enroll_tokens (other_tables d) = db_enroll_tokens d"
  "db_enroll_requests (other_tables d) = db_enroll_requests d"
  "db_certificates (other_tables d) = db_certificates d"
  "db_system_config (other_tables d) = db_system_config d"
  "db_decisions (other_tables d) = db_decisions d" "db_protected (other_tables d) = db_protected d"
  "db_crl_counter (other_tables d) = db_crl_counter d" "db_anchors (other_tables d) = db_anchors d"
  "db_disk (other_tables d) = db_disk d" "db_memory (other_tables d) = db_memory d"
  by (simp_all add: other_tables_def)

lemma other_tables_eq_update:
  "other_tables d' = other_tables d \<longleftrightarrow> d' = d \<lparr> db_audit := db_audit d' \<rparr>"
  by (cases d; cases d') (simp add: other_tables_def)

lemma other_tables_eqD:
  assumes "other_tables d' = other_tables d"
  shows
   "db_rules d' = db_rules d" "db_rule_groups d' = db_rule_groups d"
   "db_policy_sets d' = db_policy_sets d" "db_psrg d' = db_psrg d"
   "db_assignments d' = db_assignments d" "db_hosts d' = db_hosts d"
   "db_check_ins d' = db_check_ins d" "db_drift d' = db_drift d" "db_overrides d' = db_overrides d"
   "db_pending d' = db_pending d" "db_users d' = db_users d" "db_refresh d' = db_refresh d"
   "db_groups d' = db_groups d" "db_host_groups d' = db_host_groups d"
   "db_operator_host_groups d' = db_operator_host_groups d"
   "db_enroll_tokens d' = db_enroll_tokens d" "db_enroll_requests d' = db_enroll_requests d"
   "db_certificates d' = db_certificates d" "db_system_config d' = db_system_config d"
    "db_decisions d' = db_decisions d" "db_protected d' = db_protected d"
    "db_crl_counter d' = db_crl_counter d" "db_anchors d' = db_anchors d"
    "db_disk d' = db_disk d" "db_memory d' = db_memory d"
proof -
  obtain a where "d' = d \<lparr> db_audit := a \<rparr>" using assms other_tables_eq_update by blast
  then show
   "db_rules d' = db_rules d" "db_rule_groups d' = db_rule_groups d"
   "db_policy_sets d' = db_policy_sets d" "db_psrg d' = db_psrg d"
   "db_assignments d' = db_assignments d" "db_hosts d' = db_hosts d"
   "db_check_ins d' = db_check_ins d" "db_drift d' = db_drift d" "db_overrides d' = db_overrides d"
   "db_pending d' = db_pending d" "db_users d' = db_users d" "db_refresh d' = db_refresh d"
   "db_groups d' = db_groups d" "db_host_groups d' = db_host_groups d"
   "db_operator_host_groups d' = db_operator_host_groups d"
   "db_enroll_tokens d' = db_enroll_tokens d" "db_enroll_requests d' = db_enroll_requests d"
   "db_certificates d' = db_certificates d" "db_system_config d' = db_system_config d"
    "db_decisions d' = db_decisions d" "db_protected d' = db_protected d"
    "db_crl_counter d' = db_crl_counter d" "db_anchors d' = db_anchors d"
    "db_disk d' = db_disk d" "db_memory d' = db_memory d"
    by simp_all
qed

text \<open>A part of the database that does not depend on the log is left alone by logging.\<close>

lemma log_event_leaves:
  assumes "\<And>d. f (other_tables d) = f d"
  shows "steps (leaves f) (log_event L now ev)"
  using log_event_leaves_others [of L now ev] assms unfolding steps_def leaves_def by metis

text \<open>For the outcome of a handler, logging replaces the log by some log.\<close>

lemma outcome_log_event [outcome_intros]:
  assumes "\<And>a. Q () (d \<lparr> db_audit := a \<rparr>)"
  shows "outcome (log_event L now ev) d Q E"
  unfolding outcome_def
proof (intro allI impI)
  fix fs r d' fs' assume run: "log_event L now ev (d, fs) = (r, d', fs')"
  obtain d1 fs1 where log: "log_event L now ev (d, fs) = (Inr (), d1, fs1)"
      "other_tables d1 = other_tables d"
    by (rule log_event_result)
  then have "d1 = d \<lparr> db_audit := db_audit d1 \<rparr>" by (simp only: other_tables_eq_update)
  with assms [of "db_audit d1"] have "Q () d1" by metis
  with run log(1) show "case r of Inl e \<Rightarrow> E e d' | Inr x \<Rightarrow> Q x d'" by auto
qed

text \<open>Logging when nothing is refused.\<close>

definition logged :: "audit_lib \<Rightarrow> DateTime \<Rightarrow> AuditEvent \<Rightarrow> db \<Rightarrow> db" where
  "logged L now ev d =
     (if accepts_event d ev
      then d \<lparr> db_audit := db_audit d @ [audit_row L now
             (if db_audit d = [] then [] else au_row_hash (last (db_audit d))) ev
             (next_audit_id (db_audit d))] \<rparr>
      else d)"

lemma log_event_run [run_simps]: "log_event L now ev (d, []) = (Inr (), logged L now ev d, [])"
  by (simp add: log_event_def bind_def attempt_def ignore_def insert_audit_def run_simps
      last_row_hash_def logged_def)

lemma succeeds_log_event [succeeds_intros]:
  "Q () (logged L now ev d) \<Longrightarrow> succeeds (log_event L now ev) d Q"
  by (simp add: succeeds_def log_event_run)

lemma other_tables_logged [simp]: "other_tables (logged L now ev d) = other_tables d"
  by (simp add: logged_def other_tables_def)

lemmas logged_tables [simp] = other_tables_eqD [OF other_tables_logged]

section \<open>Properties\<close>

text \<open>C20. A chain that verifies keeps verifying.  If the log verifies, the event's stored form is
what was hashed, and the read of the chain's head is not refused, then after logging the event,
whether or not its insertion is refused, the log still verifies.\<close>

theorem log_event_keeps_chain:
  assumes "mismatched L [] (db_audit d) = []" and "stores_faithfully L now ev"
    and "fs = [] \<or> \<not> hd fs"
  shows "mismatched L [] (db_audit (db_after (log_event L now ev) (d, fs))) = []"
  using log_event_audit [OF assms(3), of L now ev d] assms(1) expected_hash_audit_row [OF assms(2)]
  by (auto simp: mismatched_append)

definition plain_lib :: audit_lib where
  "plain_lib =
     \<lparr> al_sha256 = (\<lambda>s. s), al_uuid_str = (\<lambda>u. show_nat (unat u)), al_rfc3339 = show_int,
       al_json = (\<lambda>xs. concat (map (\<lambda>(k, v). k @ ''='' @ v) xs)),
       al_stored_time = (\<lambda>t. t div 1000 * 1000), al_stored_json = (\<lambda>s. s),
       al_stored_ip = (\<lambda>s. s) \<rparr>"

definition sample_event :: AuditEvent where
  "sample_event = \<lparr> ev_action = ''rule_created'', ev_actor_user_id = None,
     ev_actor_username = Some ''ann'', ev_target_type = Some ''rule'', ev_target_id = Some ''7'',
     ev_details = [], ev_ip_address = None, ev_request_id = None \<rparr>"

theorem log_event_keeps_chain_witness:
  "mismatched plain_lib [] (db_audit (db_after (log_event plain_lib 5000 sample_event)
     (db_after (log_event plain_lib 2000 sample_event) (empty_db, []), []))) = []"
proof (rule log_event_keeps_chain)
  show "mismatched plain_lib [] (db_audit (db_after (log_event plain_lib 2000 sample_event)
      (empty_db, []))) = []"
    by code_simp
  show "stores_faithfully plain_lib 5000 sample_event"
    by (simp add: stores_faithfully_def plain_lib_def sample_event_def)
qed simp



text \<open>The time that is hashed has nanoseconds, the time that is stored has microseconds.  If the
two print differently and the digest has no collisions, the first event logged is reported as
mismatched, although nobody has touched the log.\<close>

theorem fresh_event_reported_as_mismatch:
  assumes "inj (al_sha256 L)" and "al_rfc3339 L (al_stored_time L now) \<noteq> al_rfc3339 L now"
    and "al_stored_json L (al_json L (ev_details ev)) = al_json L (ev_details ev)"
    and "ev_ip_address ev = None" and "accepts_event empty_db ev"
  shows "mismatched L [] (db_audit (db_after (log_event L now ev) (empty_db, []))) = [1]"
proof -
  have "db_audit (db_after (log_event L now ev) (empty_db, [])) = [audit_row L now [] ev 1]"
    using assms(5)
    by (simp add: log_event_def db_after_def bind_def attempt_def query_def stmt_def ignore_def
        insert_audit_def last_row_hash_def next_audit_id_def)
      (simp_all add: empty_db_def)
  moreover have "expected_hash L [] (audit_row L now [] ev 1) \<noteq> au_row_hash (audit_row L now [] ev 1)"
    using assms(2-4) by (simp add: expected_hash_def audit_row_def audit_input_def inj_eq [OF assms(1)])
  ultimately show ?thesis by (simp add: audit_row_def)
qed

theorem fresh_event_reported_as_mismatch_witness:
  "mismatched plain_lib [] (db_audit (db_after (log_event plain_lib 2345 sample_event)
     (empty_db, []))) = [1]"
proof (rule fresh_event_reported_as_mismatch)
  show "inj (al_sha256 plain_lib)"
    "al_stored_json plain_lib (al_json plain_lib (ev_details sample_event))
       = al_json plain_lib (ev_details sample_event)" "ev_ip_address sample_event = None"
    by (simp_all add: plain_lib_def sample_event_def)
  show "al_rfc3339 plain_lib (al_stored_time plain_lib 2345) \<noteq> al_rfc3339 plain_lib 2345"
    "accepts_event empty_db sample_event"
    by code_simp+
qed

end
