(* ===== verification/Mgr_Policy.thy ===== *)
theory Mgr_Policy
  imports Mgr_Audit "HOL-Library.Product_Lexorder"
begin

text \<open>The compiled policy of a policy set: \<open>rules_for_policy_set\<close> and \<open>flagged_rule_ids_for_set\<close> of
\<open>fw-core/src/policy.rs\<close>, and the agent API's own copy of the query,
\<open>fetch_rules_for_policy_set\<close> of \<open>fw-web/src/routes/agent_api.rs\<close>, with the conversion to the message
the agent receives.  \<open>ORDER BY\<close> is a stable sort; rows with equal keys keep the order of the table.\<close>

section \<open>The join\<close>

definition joined_rules :: "db \<Rightarrow> Uuid \<Rightarrow> (int \<times> rule_row) list" where
  "joined_rules d ps =
     concat (map (\<lambda>p. map (\<lambda>r. (pg_set_group_order p, r))
                        (filter (\<lambda>r. rl_group_id r = pg_rule_group_id p) (db_rules d)))
               (filter (\<lambda>p. pg_policy_set_id p = ps) (db_psrg d)))"

definition rule_position :: "int \<times> rule_row \<Rightarrow> int \<times> int \<times> int" where
  "rule_position x = (fst x, rl_group_order (snd x), fr_priority (rl_rule (snd x)))"

definition compiled_rules :: "db \<Rightarrow> Uuid \<Rightarrow> FirewallRule list" where
  "compiled_rules d ps = map (\<lambda>x. rl_rule (snd x)) (sort_key rule_position (joined_rules d ps))"

definition rules_for_policy_set :: "Uuid \<Rightarrow> FirewallRule list dbm" where
  "rules_for_policy_set ps = query (\<lambda>d. compiled_rules d ps)"

definition flagged_rule_ids_for_set :: "Uuid \<Rightarrow> Uuid list dbm" where
  "flagged_rule_ids_for_set ps =
     bind (rules_for_policy_set ps) (\<lambda>rules. ret (check_policy_set_for_flagged rules))"

section \<open>The agent API's copy\<close>

record RuleRow =
  rw_id :: Uuid
  rw_name :: string
  rw_action :: string
  rw_direction :: string
  rw_protocol :: string
  rw_src_cidr :: "string option"
  rw_src_port_start :: "int option"
  rw_src_port_end :: "int option"
  rw_dst_cidr :: "string option"
  rw_dst_port_start :: "int option"
  rw_dst_port_end :: "int option"
  rw_interface_in :: "string option"
  rw_interface_out :: "string option"
  rw_priority :: int
  rw_log :: bool

text \<open>The columns selected, with the casts to text.\<close>

definition rule_row_of :: "FirewallRule \<Rightarrow> RuleRow" where
  "rule_row_of r =
     \<lparr> rw_id = fr_id r, rw_name = fr_name r, rw_action = FirewallAction_as_str (fr_action r),
       rw_direction = FirewallDirection_as_str (fr_direction r),
       rw_protocol = FirewallProtocol_as_str (fr_protocol r), rw_src_cidr = fr_src_cidr r,
       rw_src_port_start = fr_src_port_start r, rw_src_port_end = fr_src_port_end r,
       rw_dst_cidr = fr_dst_cidr r, rw_dst_port_start = fr_dst_port_start r,
       rw_dst_port_end = fr_dst_port_end r, rw_interface_in = fr_interface_in r,
       rw_interface_out = fr_interface_out r, rw_priority = fr_priority r, rw_log = fr_log r \<rparr>"

definition fetch_rules_for_policy_set :: "Uuid \<Rightarrow> RuleRow list dbm" where
  "fetch_rules_for_policy_set ps =
     query (\<lambda>d. map (\<lambda>x. rule_row_of (rl_rule (snd x)))
                   (sort_key rule_position (joined_rules d ps)))"

definition rule_to_dto :: "RuleRow \<Rightarrow> RuleDto" where
  "rule_to_dto r =
     \<lparr> dto_id = rw_id r, dto_name = rw_name r, dto_action = rw_action r,
       dto_direction = rw_direction r, dto_protocol = rw_protocol r, dto_src_cidr = rw_src_cidr r,
       dto_src_port_start = rw_src_port_start r, dto_src_port_end = rw_src_port_end r,
       dto_dst_cidr = rw_dst_cidr r, dto_dst_port_start = rw_dst_port_start r,
       dto_dst_port_end = rw_dst_port_end r, dto_interface_in = rw_interface_in r,
       dto_interface_out = rw_interface_out r, dto_priority = rw_priority r, dto_log = rw_log r \<rparr>"

text \<open>The parts of a row that enter the expected hash.\<close>

definition row_hash_parts :: "RuleRow \<Rightarrow> RuleHashParts" where
  "row_hash_parts r =
     \<lparr> hp_id = rw_id r, hp_action = rw_action r, hp_direction = rw_direction r,
       hp_protocol = rw_protocol r, hp_src_cidr = rw_src_cidr r, hp_dst_cidr = rw_dst_cidr r,
       hp_dst_port_start = rw_dst_port_start r \<rparr>"

section \<open>Facts\<close>

lemma fetch_rules_eq:
  "fetch_rules_for_policy_set ps = query (\<lambda>d. map rule_row_of (compiled_rules d ps))"
  by (simp add: fetch_rules_for_policy_set_def compiled_rules_def comp_def)

lemma set_compiled_rules:
  "set (compiled_rules d ps) =
     {rl_rule r | r p. r \<in> set (db_rules d) \<and> p \<in> set (db_psrg d) \<and> pg_policy_set_id p = ps
        \<and> rl_group_id r = pg_rule_group_id p}"
  by (auto simp: compiled_rules_def joined_rules_def image_iff) force

lemma compiled_rules_cong:
  "db_rules d' = db_rules d \<Longrightarrow> db_psrg d' = db_psrg d \<Longrightarrow> compiled_rules d' ps = compiled_rules d ps"
  by (simp add: compiled_rules_def joined_rules_def)

lemma outcome_flagged [outcome_intros]:
  "E (Database OtherSqlError) d \<Longrightarrow> Q (check_policy_set_for_flagged (compiled_rules d ps)) d \<Longrightarrow>
     outcome (flagged_rule_ids_for_set ps) d Q E"
  unfolding flagged_rule_ids_for_set_def rules_for_policy_set_def
  by (intro outcome_intros) simp_all

lemma flagged_run [run_simps]:
  "flagged_rule_ids_for_set ps (d, []) =
     (Inr (check_policy_set_for_flagged (compiled_rules d ps)), d, [])"
  by (simp add: flagged_rule_ids_for_set_def rules_for_policy_set_def bind_def run_simps)

end
