(* ===== verification/Mgr_Rbac.thy ===== *)
theory Mgr_Rbac
  imports Mgr_Policy
begin

text \<open>Access control of the manager, \<open>fw-auth/src/rbac.rs\<close>, with the claims of \<open>fw-auth/src/jwt.rs\<close>
and the password rules of \<open>fw-auth/src/password.rs\<close>.  Parameters are the \<open>ipnet\<close> crate, the
\<open>jsonwebtoken\<close> crate (decoding and checking a token against a key at a time) and the parser of the
\<open>uuid\<close> crate.\<close>

section \<open>Roles\<close>

definition parse_role :: "string \<Rightarrow> UserRole option" where
  "parse_role s =
     (if s = ''admin'' then Some Admin
      else if s = ''operator'' then Some Operator
      else if s = ''reporter'' then Some Reporter
      else if s = ''break_glass_operator'' then Some BreakGlassOperator
      else None)"

definition is_admin :: "UserRole \<Rightarrow> bool" where
  "is_admin r \<longleftrightarrow> (case r of Admin \<Rightarrow> True | _ \<Rightarrow> False)"

definition can_write :: "UserRole \<Rightarrow> bool" where
  "can_write r \<longleftrightarrow> (case r of Admin \<Rightarrow> True | Operator \<Rightarrow> True | BreakGlassOperator \<Rightarrow> True | _ \<Rightarrow> False)"

definition is_break_glass :: "UserRole \<Rightarrow> bool" where
  "is_break_glass r \<longleftrightarrow> (case r of BreakGlassOperator \<Rightarrow> True | _ \<Rightarrow> False)"

section \<open>Tokens\<close>

record AccessClaims =
  cl_sub :: string
  cl_iat :: int
  cl_exp :: int
  cl_jti :: string
  cl_role :: string
  cl_username :: string

datatype JwtError = JwtExpired | JwtEncode string | JwtDecode string | JwtKeyLoad string

text \<open>The claims of a token issued at \<open>now\<close>, in seconds.\<close>

definition access_ttl_secs :: int where
  "access_ttl_secs = 900"

definition issued_claims ::
  "(Uuid \<Rightarrow> string) \<Rightarrow> int \<Rightarrow> Uuid \<Rightarrow> string \<Rightarrow> string \<Rightarrow> string \<Rightarrow> AccessClaims" where
  "issued_claims uuid_str now uid role uname jti =
     \<lparr> cl_sub = uuid_str uid, cl_iat = now, cl_exp = now + access_ttl_secs, cl_jti = jti,
       cl_role = role, cl_username = uname \<rparr>"

record AuthUser =
  auth_user_id :: Uuid
  auth_username :: string
  auth_role :: UserRole
  auth_claims :: AccessClaims
  auth_ip :: "IpAddr option"

text \<open>The audit event of an authenticated handler.\<close>

definition auth_event ::
  "AuthUser \<Rightarrow> string \<Rightarrow> string \<Rightarrow> string option \<Rightarrow> (string \<times> string) list \<Rightarrow> AuditEvent" where
  "auth_event u action ttype tid details =
     \<lparr> ev_action = action, ev_actor_user_id = Some (auth_user_id u),
       ev_actor_username = Some (auth_username u), ev_target_type = Some ttype, ev_target_id = tid,
       ev_details = details, ev_ip_address = map_option show_ip (auth_ip u), ev_request_id = None \<rparr>"

section \<open>The middleware\<close>

text \<open>\<open>cfg_has_db\<close> says whether a pool is wired.\<close>

record 'n AuthConfig =
  cfg_verify_key_pem :: string
  cfg_ip_whitelist :: "'n list"
  cfg_trusted_proxies :: "'n list"
  cfg_has_db :: bool

definition parse_nets :: "'n ipnet_api \<Rightarrow> string list \<Rightarrow> 'n list" where
  "parse_nets N entries = List.map_filter (net_parse N) entries"

definition AuthConfig_new :: "'n ipnet_api \<Rightarrow> string \<Rightarrow> string list \<Rightarrow> string list \<Rightarrow> bool \<Rightarrow> 'n AuthConfig" where
  "AuthConfig_new N key whitelist proxies has_db =
     \<lparr> cfg_verify_key_pem = key, cfg_ip_whitelist = parse_nets N whitelist,
       cfg_trusted_proxies = parse_nets N proxies, cfg_has_db = has_db \<rparr>"

definition is_ip_allowed :: "'n ipnet_api \<Rightarrow> 'n AuthConfig \<Rightarrow> IpAddr \<Rightarrow> bool" where
  "is_ip_allowed N cfg ip \<longleftrightarrow>
     cfg_ip_whitelist cfg = [] \<or> list_ex (\<lambda>n. net_contains N n ip) (cfg_ip_whitelist cfg)"

definition update_ip_whitelist :: "'n ipnet_api \<Rightarrow> string list \<Rightarrow> 'n AuthConfig \<Rightarrow> 'n AuthConfig" where
  "update_ip_whitelist N entries cfg = cfg \<lparr> cfg_ip_whitelist := parse_nets N entries \<rparr>"

definition update_trusted_proxies :: "'n ipnet_api \<Rightarrow> string list \<Rightarrow> 'n AuthConfig \<Rightarrow> 'n AuthConfig" where
  "update_trusted_proxies N entries cfg = cfg \<lparr> cfg_trusted_proxies := parse_nets N entries \<rparr>"

text \<open>The parts of a request the middleware reads: two headers, when they are text, and the peer.\<close>

record http_request =
  rq_authorization :: "string option"
  rq_x_forwarded_for :: "string option"
  rq_peer :: "IpAddr option"

definition extract_bearer_token :: "http_request \<Rightarrow> string option" where
  "extract_bearer_token rq = Option.bind (rq_authorization rq) (strip_prefix ''Bearer '')"

definition resolve_client_ip :: "'n ipnet_api \<Rightarrow> http_request \<Rightarrow> 'n list \<Rightarrow> IpAddr option" where
  "resolve_client_ip N rq trusted =
     (case rq_peer rq of
        None \<Rightarrow> None
      | Some peer \<Rightarrow>
          if trusted \<noteq> [] \<and> list_ex (\<lambda>n. net_contains N n peer) trusted
          then (case rq_x_forwarded_for rq of
                  None \<Rightarrow> Some peer
                | Some xff \<Rightarrow> (case parse_ip (trim (hd (split_on CHR '','' xff))) of
                                None \<Rightarrow> Some peer
                              | Some ip \<Rightarrow> Some ip))
          else Some peer)"

datatype auth_reject = RejUnauthorized string | RejForbidden string | RejForbiddenIp string

fun auth_reject_status :: "auth_reject \<Rightarrow> nat \<times> string" where
  "auth_reject_status (RejUnauthorized _) = (401, ''unauthorized'')"
| "auth_reject_status (RejForbidden _) = (403, ''forbidden'')"
| "auth_reject_status (RejForbiddenIp _) = (403, ''forbidden_ip'')"

definition is_jti_revoked :: "string \<Rightarrow> bool dbm" where
  "is_jti_revoked jti =
     bind (attempt (query (\<lambda>d. map_option rt_revoked (find (\<lambda>t. rt_jti t = Some jti) (db_refresh d)))))
       (\<lambda>r. ret (case r of Some (Some revoked) \<Rightarrow> revoked | _ \<Rightarrow> True))"

definition ip_check :: "'n ipnet_api \<Rightarrow> 'n AuthConfig \<Rightarrow> http_request \<Rightarrow> auth_reject option" where
  "ip_check N cfg rq =
     (if cfg_ip_whitelist cfg = [] then None
      else case resolve_client_ip N rq (cfg_trusted_proxies cfg) of
             None \<Rightarrow> Some (RejForbiddenIp ''Client IP could not be determined'')
           | Some ip \<Rightarrow> if is_ip_allowed N cfg ip then None else Some (RejForbiddenIp ''Access denied''))"

definition require_auth ::
  "'n ipnet_api \<Rightarrow> (string \<Rightarrow> string \<Rightarrow> int \<Rightarrow> JwtError + AccessClaims) \<Rightarrow> (string \<Rightarrow> Uuid option)
     \<Rightarrow> 'n AuthConfig \<Rightarrow> int \<Rightarrow> http_request \<Rightarrow> (auth_reject + AuthUser) dbm" where
  "require_auth N decode parse_uuid cfg now rq =
     (case ip_check N cfg rq of
        Some e \<Rightarrow> ret (Inl e)
      | None \<Rightarrow>
     (case extract_bearer_token rq of
        None \<Rightarrow> ret (Inl (RejUnauthorized ''Missing authorization token''))
      | Some token \<Rightarrow>
     (case decode token (cfg_verify_key_pem cfg) now of
        Inl _ \<Rightarrow> ret (Inl (RejUnauthorized ''Invalid token''))
      | Inr claims \<Rightarrow>
     bind (if cfg_has_db cfg then is_jti_revoked (cl_jti claims) else ret False) (\<lambda>revoked.
     if revoked then ret (Inl (RejUnauthorized ''Token revoked''))
     else case parse_role (cl_role claims) of
            None \<Rightarrow> ret (Inl (RejUnauthorized ''Invalid role in token''))
          | Some role \<Rightarrow>
              ret (Inr \<lparr> auth_user_id = unwrap_or 0 (parse_uuid (cl_sub claims)),
                         auth_username = cl_username claims, auth_role = role,
                         auth_claims = claims, auth_ip = rq_peer rq \<rparr>)))))"

definition require_admin :: "AuthUser option \<Rightarrow> auth_reject option" where
  "require_admin u =
     (case u of
        None \<Rightarrow> Some (RejUnauthorized ''Authentication required'')
      | Some a \<Rightarrow> if is_admin (auth_role a) then None else Some (RejForbidden ''Admin role required''))"

section \<open>Host scoping\<close>

definition operator_hosts :: "db \<Rightarrow> Uuid \<Rightarrow> Uuid \<Rightarrow> nat" where
  "operator_hosts d uid h =
     length (concat (map (\<lambda>og. filter (\<lambda>hg. snd hg = snd og \<and> fst hg = h) (db_host_groups d))
               (filter (\<lambda>og. fst og = uid) (db_operator_host_groups d))))"

definition can_access_host :: "AuthUser \<Rightarrow> Uuid \<Rightarrow> bool dbm" where
  "can_access_host u h =
     (if is_admin (auth_role u) \<or> is_break_glass (auth_role u) then ret True
      else if \<not> can_write (auth_role u) then ret False
      else bind (query (\<lambda>d. operator_hosts d (auth_user_id u) h)) (\<lambda>n. ret (0 < n)))"

section \<open>Passwords\<close>

text \<open>The strength check on passwords of ASCII characters.\<close>

definition ascii_between :: "nat \<Rightarrow> nat \<Rightarrow> char \<Rightarrow> bool" where
  "ascii_between lo hi c \<longleftrightarrow> lo \<le> of_char c \<and> of_char c \<le> hi"

definition is_upper :: "char \<Rightarrow> bool" where
  "is_upper = ascii_between 65 90"

definition is_lower :: "char \<Rightarrow> bool" where
  "is_lower = ascii_between 97 122"

definition is_digit :: "char \<Rightarrow> bool" where
  "is_digit = ascii_between 48 57"

definition is_special :: "char \<Rightarrow> bool" where
  "is_special c \<longleftrightarrow> \<not> (is_upper c \<or> is_lower c \<or> is_digit c)"

definition validate_password_strength :: "string \<Rightarrow> string + unit" where
  "validate_password_strength p =
     (if length p < 8 then Inl ''must be at least 8 characters''
      else if \<not> list_ex is_upper p then Inl ''must contain an uppercase letter''
      else if \<not> list_ex is_lower p then Inl ''must contain a lowercase letter''
      else if \<not> list_ex is_digit p then Inl ''must contain a digit''
      else if \<not> list_ex is_special p then Inl ''must contain a special character''
      else Inr ())"

section \<open>Facts\<close>

lemma parse_role_as_str: "parse_role (UserRole_as_str r) = Some r"
  by (cases r) (simp_all add: parse_role_def)

lemma parse_role_Some: "parse_role s = Some r \<longleftrightarrow> s = UserRole_as_str r"
  by (cases r) (auto simp: parse_role_def)

lemma outcome_is_jti_revoked [outcome_intros]:
  assumes "\<And>t. find (\<lambda>t. rt_jti t = Some jti) (db_refresh d) = Some t \<Longrightarrow> \<not> rt_revoked t \<Longrightarrow> Q False d"
    and "Q True d"
  shows "outcome (is_jti_revoked jti) d Q E"
  unfolding is_jti_revoked_def
proof (intro outcome_intros)
  show "Q (case Some (map_option rt_revoked (find (\<lambda>t. rt_jti t = Some jti) (db_refresh d)))
      of Some (Some revoked) \<Rightarrow> revoked | _ \<Rightarrow> True) d"
  proof (cases "find (\<lambda>t. rt_jti t = Some jti) (db_refresh d)")
    case (Some t)
    then show ?thesis using assms by (cases "rt_revoked t") auto
  qed (use assms(2) in simp)
  show "Q (case None of Some (Some revoked) \<Rightarrow> revoked | _ \<Rightarrow> True) d" using assms(2) by simp
qed

lemma operator_hosts_pos:
  "0 < operator_hosts d uid h \<longleftrightarrow>
     (\<exists>g. (uid, g) \<in> set (db_operator_host_groups d) \<and> (h, g) \<in> set (db_host_groups d))"
  unfolding operator_hosts_def by (simp add: filter_empty_conv split_def) (metis prod.collapse fst_conv snd_conv)

text \<open>Who may access a host.\<close>

definition may_access :: "db \<Rightarrow> AuthUser \<Rightarrow> Uuid \<Rightarrow> bool" where
  "may_access d u h \<longleftrightarrow>
     (case auth_role u of
        Admin \<Rightarrow> True
      | BreakGlassOperator \<Rightarrow> True
      | Reporter \<Rightarrow> False
      | Operator \<Rightarrow> \<exists>g. (auth_user_id u, g) \<in> set (db_operator_host_groups d)
                       \<and> (h, g) \<in> set (db_host_groups d))"

lemma outcome_can_access_host [outcome_intros]:
  "E (Database OtherSqlError) d \<Longrightarrow> Q (may_access d u h) d \<Longrightarrow> outcome (can_access_host u h) d Q E"
  unfolding can_access_host_def may_access_def
  by (cases "auth_role u")
    (auto simp: is_admin_def is_break_glass_def can_write_def operator_hosts_pos
      intro!: outcome_intros)

section \<open>Properties\<close>

lemma require_auth_outcome:
  "outcome (require_auth N decode parse_uuid cfg now rq) d
     (\<lambda>r d'. d' = d \<and> (case r of
        Inl _ \<Rightarrow> True
      | Inr u \<Rightarrow> ip_check N cfg rq = None
          \<and> (\<exists>token. rq_authorization rq = Some (''Bearer '' @ token)
               \<and> decode token (cfg_verify_key_pem cfg) now = Inr (auth_claims u))
          \<and> cl_role (auth_claims u) = UserRole_as_str (auth_role u)
          \<and> (cfg_has_db cfg \<longrightarrow> (\<exists>t. find (\<lambda>t. rt_jti t = Some (cl_jti (auth_claims u))) (db_refresh d)
               = Some t \<and> \<not> rt_revoked t))))
     (\<lambda>_ _. False)"
  unfolding require_auth_def
  by (intro outcome_intros)
    (auto simp: parse_role_Some extract_bearer_token_def strip_prefix_def bind_eq_Some_conv
      prefix_def split: if_split_asm)

text \<open>C10. Authentication is fail-closed.  Whatever the database refuses, the middleware changes
nothing and gives an answer, and if it lets a request through then: with a whitelist, the address it
resolved for the client is in one of the listed blocks; the request carried a bearer token that
decodes under the configured key to the claims of the user; the role is the one of the claims; and,
with a database, the token's identifier belongs to a session that is not revoked.\<close>

theorem require_auth_sound:
  assumes "result (require_auth N decode parse_uuid cfg now rq) (d, fs) = Inr (Inr u)"
    and "cfg_has_db cfg"
  shows "db_after (require_auth N decode parse_uuid cfg now rq) (d, fs) = d
    \<and> (cfg_ip_whitelist cfg = [] \<or> (\<exists>ip n. resolve_client_ip N rq (cfg_trusted_proxies cfg) = Some ip
         \<and> n \<in> set (cfg_ip_whitelist cfg) \<and> net_contains N n ip))
    \<and> (\<exists>token. rq_authorization rq = Some (''Bearer '' @ token)
         \<and> decode token (cfg_verify_key_pem cfg) now = Inr (auth_claims u))
    \<and> cl_role (auth_claims u) = UserRole_as_str (auth_role u)
    \<and> (\<exists>t \<in> set (db_refresh d). rt_jti t = Some (cl_jti (auth_claims u)) \<and> \<not> rt_revoked t)"
  using outcome_ok [OF require_auth_outcome assms(1)] assms(2)
  by (auto simp: ip_check_def is_ip_allowed_def list_ex_iff find_Some_iff
      split: if_split_asm option.split_asm)

definition sample_claims :: AccessClaims where
  "sample_claims = issued_claims (\<lambda>_. ''u'') 0 5 ''operator'' ''ann'' ''j1''"

definition sample_session :: RefreshToken where
  "sample_session =
     \<lparr> rt_user_id = 5, rt_token_hash = ''h'', rt_expires_at = 99, rt_last_used_at = 0,
       rt_revoked = False, rt_revoked_at = None, rt_jti = Some ''j1'', rt_ip_address = None \<rparr>"

definition sample_request :: http_request where
  "sample_request = \<lparr> rq_authorization = Some ''Bearer tok'',
     rq_x_forwarded_for = Some ''10.1.1.1, 192.0.2.7'', rq_peer = Some (V4 3232235777) \<rparr>"

definition session_db :: db where
  "session_db = empty_db \<lparr> db_refresh := [sample_session] \<rparr>"

text \<open>A decoder that accepts one token under one key until it expires.\<close>

definition sample_decode :: "string \<Rightarrow> string \<Rightarrow> int \<Rightarrow> JwtError + AccessClaims" where
  "sample_decode token key now =
     (if token = ''tok'' \<and> key = ''pem''
      then if now \<le> cl_exp sample_claims + 5 then Inr sample_claims else Inl JwtExpired
      else Inl (JwtDecode ''bad''))"

theorem require_auth_sound_witness:
  "\<exists>u. result (require_auth cidr_api sample_decode (\<lambda>_. Some 5)
        (AuthConfig_new cidr_api ''pem'' [''10.0.0.0/8''] [''192.168.0.0/16''] True) 100 sample_request)
        (session_db, []) = Inr (Inr u)
     \<and> cl_role (auth_claims u) = UserRole_as_str (auth_role u)
     \<and> (\<exists>t \<in> set (db_refresh session_db). rt_jti t = Some (cl_jti (auth_claims u)) \<and> \<not> rt_revoked t)"
proof -
  let ?cfg = "AuthConfig_new cidr_api ''pem'' [''10.0.0.0/8''] [''192.168.0.0/16''] True"
  let ?u = "\<lparr> auth_user_id = 5, auth_username = ''ann'', auth_role = Operator,
    auth_claims = sample_claims, auth_ip = Some (V4 3232235777) \<rparr>"
  have "result (require_auth cidr_api sample_decode (\<lambda>_. Some 5) ?cfg 100 sample_request)
      (session_db, []) = Inr (Inr ?u)" "cfg_has_db ?cfg"
    by code_simp+
  from require_auth_sound [OF this] this(1) show ?thesis by blast
qed

text \<open>The client address of a request that arrives through a trusted proxy is the leftmost entry of
the forwarding header, whatever the proxies appended after it; a peer that is not a trusted proxy
cannot choose its address.\<close>

theorem client_ip_resolution:
  assumes "rq_peer rq = Some peer"
  shows "resolve_client_ip N rq trusted =
    (if list_ex (\<lambda>n. net_contains N n peer) trusted
     then (case Option.bind (rq_x_forwarded_for rq)
             (\<lambda>xff. parse_ip (trim (takeWhile (\<lambda>c. c \<noteq> CHR '','') xff))) of
             None \<Rightarrow> Some peer | Some ip \<Rightarrow> Some ip)
     else Some peer)"
proof -
  have hd: "hd (split_on e s) = takeWhile (\<lambda>c. c \<noteq> e) s" for e s
    by (induction e s rule: split_on.induct) (auto split: list.split)
  show ?thesis using assms by (auto simp: resolve_client_ip_def hd split: option.split)
qed

theorem client_ip_resolution_witness:
  "resolve_client_ip cidr_api sample_request (parse_nets cidr_api [''192.168.0.0/16'']) = parse_ip ''10.1.1.1''
   \<and> resolve_client_ip cidr_api sample_request [] = Some (V4 3232235777)"
proof -
  have "rq_peer sample_request = Some (V4 3232235777)" by (simp add: sample_request_def)
  note eq = client_ip_resolution [OF this, of cidr_api]
  show ?thesis unfolding eq by code_simp
qed

end
