(* ===== verification/Mgr_Agent_Api.thy ===== *)
theory Mgr_Agent_Api
  imports Mgr_Policy
begin

text \<open>The agent-facing handlers of the manager, \<open>fw-web/src/routes/agent_api.rs\<close>: check-in, the report
of a result, the policy, and the length of the event stream.  The host is the one of the client
certificate, \<open>HostIdentity\<close>.  Two specifications are proved of the check-in: what it answers as a
function of the database it found, and that no action is ever handed out twice.\<close>

section \<open>Statements\<close>

definition host_exists :: "Uuid \<Rightarrow> db \<Rightarrow> bool" where
  "host_exists h d \<longleftrightarrow> h \<in> set (map ho_id (db_hosts d))"

definition insert_check_in :: "DateTime \<Rightarrow> Uuid \<Rightarrow> CheckInRequest \<Rightarrow> unit dbm" where
  "insert_check_in now h req =
     stmt (\<lambda>d. if host_exists h d
               then Inr ((), d \<lparr> db_check_ins := db_check_ins d @
                 [\<lparr> ck_host_id = h, ck_rules_hash = ci_rules_hash req,
                    ck_agent_version = ci_agent_version req,
                    ck_backend_type = ci_backend_type req, ck_os_info = ci_os_info req,
                    ck_uptime_seconds = ci_uptime_seconds req,
                    ck_config_version = ci_config_version req, ck_checked_in_at = now \<rparr>] \<rparr>)
               else Inl ForeignKeyViolation)"

definition mark_healthy :: "DateTime \<Rightarrow> Uuid \<Rightarrow> string \<Rightarrow> db \<Rightarrow> db" where
  "mark_healthy now h version d =
     d \<lparr> db_hosts := update_where (\<lambda>x. ho_id x = h)
          (\<lambda>x. x \<lparr> ho_health_status := Healthy, ho_last_health_at := Some now,
                    ho_agent_version := Some version \<rparr>) (db_hosts d) \<rparr>"

definition assigned_policy_set :: "Uuid \<Rightarrow> db \<Rightarrow> Uuid option" where
  "assigned_policy_set h d =
     map_option ha_policy_set_id (find (\<lambda>a. ha_host_id a = h) (db_assignments d))"

definition default_policies :: "Uuid \<Rightarrow> db \<Rightarrow> string option \<times> string option" where
  "default_policies ps d =
     (case find (\<lambda>p. ps_id p = ps) (db_policy_sets d) of
        None \<Rightarrow> (None, None)
      | Some p \<Rightarrow> (map_option FirewallDefaultPolicy_as_str (ps_default_input_policy p),
                   map_option FirewallDefaultPolicy_as_str (ps_default_output_policy p)))"

definition insert_drift :: "DateTime \<Rightarrow> Uuid \<Rightarrow> string \<Rightarrow> int \<Rightarrow> string \<Rightarrow> unit dbm" where
  "insert_drift now h hash n source =
     stmt (\<lambda>d. if host_exists h d
               then Inr ((), d \<lparr> db_drift := db_drift d @
                 [\<lparr> ds_host_id = h, ds_snapshot_hash = hash, ds_rule_count = n,
                    ds_captured_at = now, ds_source = source \<rparr>] \<rparr>)
               else Inl ForeignKeyViolation)"

definition config_update :: "HostConfigOverride \<Rightarrow> ConfigUpdate" where
  "config_update r =
     \<lparr> cu_check_in_interval_secs = co_check_in_interval_secs r, cu_push_enabled = co_push_enabled r,
       cu_safe_mode_enabled = co_safe_mode_enabled r, cu_backend_override = co_backend_override r,
       cu_config_version = co_config_version r \<rparr>"

definition config_for :: "Uuid \<Rightarrow> db \<Rightarrow> ConfigUpdate option" where
  "config_for h d = map_option config_update (find (\<lambda>r. co_host_id r = h) (db_overrides d))"

text \<open>\<open>config.filter(|c| c.config_version > req.config_version)\<close>.\<close>

definition newer_config :: "int \<Rightarrow> ConfigUpdate option \<Rightarrow> ConfigUpdate option" where
  "newer_config v c =
     (case c of None \<Rightarrow> None | Some u \<Rightarrow> if v < cu_config_version u then Some u else None)"

definition queued_for :: "DateTime \<Rightarrow> Uuid \<Rightarrow> PendingAction \<Rightarrow> bool" where
  "queued_for now h a \<longleftrightarrow> pa_host_id a = h \<and> pa_status a = Queued \<and> now < pa_expires_at a"

definition action_dto :: "PendingAction \<Rightarrow> PendingActionDto" where
  "action_dto a =
     \<lparr> pad_id = pa_id a, pad_action_type = PendingActionType_text (pa_action_type a),
       pad_payload = pa_payload a, pad_reason = pa_reason a \<rparr>"

definition due_actions :: "DateTime \<Rightarrow> Uuid \<Rightarrow> db \<Rightarrow> PendingActionDto list" where
  "due_actions now h d =
     map action_dto (sort_key (\<lambda>a. (- pa_priority a, pa_created_at a))
                       (filter (queued_for now h) (db_pending d)))"

definition deliver :: "DateTime \<Rightarrow> PendingAction \<Rightarrow> PendingAction" where
  "deliver now a = a \<lparr> pa_status := Delivered, pa_delivered_at := Some now \<rparr>"

definition mark_delivered :: "DateTime \<Rightarrow> Uuid list \<Rightarrow> db \<Rightarrow> db" where
  "mark_delivered now ids d =
     d \<lparr> db_pending := update_where (\<lambda>a. pa_id a \<in> set ids) (deliver now) (db_pending d) \<rparr>"

section \<open>Check-in\<close>

definition rows_hash :: "(string \<Rightarrow> string) \<Rightarrow> RuleRow list \<Rightarrow> string" where
  "rows_hash sha rules = compute_rules_hash sha (map row_hash_parts rules)"

definition expected_rules :: "(string \<Rightarrow> string) \<Rightarrow> Uuid option \<Rightarrow> (RuleRow list \<times> string) dbm" where
  "expected_rules sha ps =
     (case ps of
        Some p \<Rightarrow> bind (fetch_rules_for_policy_set p) (\<lambda>rules. ret (rules, rows_hash sha rules))
      | None \<Rightarrow> ret ([], ''empty''))"

definition expected_defaults :: "Uuid option \<Rightarrow> (string option \<times> string option) dbm" where
  "expected_defaults ps =
     (case ps of Some p \<Rightarrow> query (default_policies p) | None \<Rightarrow> ret (None, None))"

definition record_drift ::
  "audit_lib \<Rightarrow> DateTime \<Rightarrow> Uuid \<Rightarrow> string \<Rightarrow> int \<Rightarrow> string \<Rightarrow> AuditEvent \<Rightarrow> unit dbm" where
  "record_drift L now h hash n source ev =
     bind (ignore (insert_drift now h hash n source)) (\<lambda>_. log_event L now ev)"

definition check_in ::
  "(string \<Rightarrow> string) \<Rightarrow> audit_lib \<Rightarrow> DateTime \<Rightarrow> Uuid \<Rightarrow> CheckInRequest \<Rightarrow> CheckInResponse dbm" where
  "check_in sha L now h req =
     bind (insert_check_in now h req) (\<lambda>_.
     bind (exec (mark_healthy now h (ci_agent_version req))) (\<lambda>_.
     bind (query (assigned_policy_set h)) (\<lambda>ps.
     bind (expected_rules sha ps) (\<lambda>(rules, expected).
     bind (expected_defaults ps) (\<lambda>(dinput, doutput).
     let changed = (ci_rules_hash req \<noteq> expected) in
     bind (if changed
           then record_drift L now h (ci_rules_hash req) (as_i32 (length rules)) ''check_in_mismatch''
                  (system_event ''drift_detected'' ''host'' (al_uuid_str L h)
                     [(''agent_hash'', ci_rules_hash req), (''expected_hash'', expected)])
           else ret ()) (\<lambda>_.
     bind (if ci_local_drift req
           then record_drift L now h (ci_rules_hash req) (as_i32 (length rules)) ''out_of_band''
                  (system_event ''out_of_band_drift'' ''host'' (al_uuid_str L h)
                     [(''agent_hash'', ci_rules_hash req)])
           else ret ()) (\<lambda>_.
     bind (query (config_for h)) (\<lambda>config.
     bind (query (due_actions now h)) (\<lambda>actions.
     bind (if actions \<noteq> [] then exec (mark_delivered now (map pad_id actions)) else ret ()) (\<lambda>_.
     ret \<lparr> cr_rules_changed = changed, cr_rules = map rule_to_dto rules,
           cr_config = newer_config (ci_config_version req) config, cr_pending_actions = actions,
           cr_default_input_policy = dinput, cr_default_output_policy = doutput \<rparr>))))))))))"

section \<open>Result, policy, event stream\<close>

definition finish_action :: "DateTime \<Rightarrow> Uuid \<Rightarrow> bool \<Rightarrow> db \<Rightarrow> db" where
  "finish_action now i success d =
     d \<lparr> db_pending := update_where (\<lambda>a. pa_id a = i)
          (\<lambda>a. a \<lparr> pa_status := (if success then Executed else Failed), pa_executed_at := Some now \<rparr>)
          (db_pending d) \<rparr>"

definition result_event :: "audit_lib \<Rightarrow> Uuid \<Rightarrow> CheckInResultRequest \<Rightarrow> Uuid \<Rightarrow> AuditEvent" where
  "result_event L h req i =
     system_event (if rr_success req then ''rule_deployed'' else ''firewall_job_failed'')
       ''pending_action'' (al_uuid_str L i)
       [(''host_id'', al_uuid_str L h),
        (''success'', if rr_success req then ''true'' else ''false''),
        (''error'', case rr_error_message req of None \<Rightarrow> ''null'' | Some e \<Rightarrow> e)]"

definition check_in_result ::
  "audit_lib \<Rightarrow> DateTime \<Rightarrow> Uuid \<Rightarrow> CheckInResultRequest \<Rightarrow> unit dbm" where
  "check_in_result L now h req =
     bind (case rr_action_id req of
             None \<Rightarrow> ret ()
           | Some i \<Rightarrow> bind (exec (finish_action now i (rr_success req))) (\<lambda>_.
                         log_event L now (result_event L h req i))) (\<lambda>_.
     ignore (insert_drift now h (rr_new_rules_hash req) 0 ''agent_report''))"

definition get_policy :: "Uuid \<Rightarrow> RuleDto list dbm" where
  "get_policy h =
     bind (query (assigned_policy_set h)) (\<lambda>ps.
     bind (case ps of Some p \<Rightarrow> fetch_rules_for_policy_set p | None \<Rightarrow> ret []) (\<lambda>rules.
     ret (map rule_to_dto rules)))"

text \<open>How long the event stream is held, for the configured interval.\<close>

definition events_hold_secs :: "Uuid \<Rightarrow> db \<Rightarrow> int" where
  "events_hold_secs h d =
     max 30 (unwrap_or 900 (map_option co_check_in_interval_secs
                             (find (\<lambda>r. co_host_id r = h) (db_overrides d))) - 30)"

section \<open>What a check-in answers\<close>

text \<open>The rules a host is meant to run, their hash, and the answer of a check-in as a function of the
database it finds.\<close>

definition assigned_rules :: "Uuid \<Rightarrow> db \<Rightarrow> FirewallRule list" where
  "assigned_rules h d =
     (case assigned_policy_set h d of None \<Rightarrow> [] | Some p \<Rightarrow> compiled_rules d p)"

definition assigned_hash :: "(string \<Rightarrow> string) \<Rightarrow> Uuid \<Rightarrow> db \<Rightarrow> string" where
  "assigned_hash sha h d =
     (case assigned_policy_set h d of
        None \<Rightarrow> ''empty''
      | Some p \<Rightarrow> rows_hash sha (map rule_row_of (compiled_rules d p)))"

definition assigned_defaults :: "Uuid \<Rightarrow> db \<Rightarrow> string option \<times> string option" where
  "assigned_defaults h d =
     (case assigned_policy_set h d of None \<Rightarrow> (None, None) | Some p \<Rightarrow> default_policies p d)"

definition check_in_reply ::
  "(string \<Rightarrow> string) \<Rightarrow> DateTime \<Rightarrow> Uuid \<Rightarrow> CheckInRequest \<Rightarrow> db \<Rightarrow> CheckInResponse" where
  "check_in_reply sha now h req d =
     \<lparr> cr_rules_changed = (ci_rules_hash req \<noteq> assigned_hash sha h d),
       cr_rules = map (\<lambda>r. rule_to_dto (rule_row_of r)) (assigned_rules h d),
       cr_config = newer_config (ci_config_version req) (config_for h d),
       cr_pending_actions = due_actions now h d,
       cr_default_input_policy = fst (assigned_defaults h d),
       cr_default_output_policy = snd (assigned_defaults h d) \<rparr>"

section \<open>Facts\<close>

text \<open>The tables a check-in reads for its answer.\<close>

definition policy_tables :: "db \<Rightarrow> rule_row list \<times> FirewallPolicySetRuleGroup list
    \<times> FirewallPolicySet list \<times> HostPolicyAssignment list \<times> HostConfigOverride list
    \<times> PendingAction list" where
  "policy_tables d = (db_rules d, db_psrg d, db_policy_sets d, db_assignments d, db_overrides d,
     db_pending d)"

lemma policy_tables_simps [simp]:
  "policy_tables (d \<lparr> db_check_ins := c \<rparr>) = policy_tables d"
  "policy_tables (d \<lparr> db_hosts := hs \<rparr>) = policy_tables d"
  "policy_tables (d \<lparr> db_drift := ds \<rparr>) = policy_tables d"
  "policy_tables (mark_healthy now h v d) = policy_tables d"
  "policy_tables (d \<lparr> db_audit := a \<rparr>) = policy_tables d"
  by (simp_all add: policy_tables_def mark_healthy_def)

lemma policy_tables_cong:
  assumes "policy_tables d' = policy_tables d"
  shows "assigned_policy_set h d' = assigned_policy_set h d"
    "compiled_rules d' p = compiled_rules d p" "default_policies p d' = default_policies p d"
    "config_for h d' = config_for h d" "due_actions now h d' = due_actions now h d"
    "db_pending d' = db_pending d"
  using assms
  by (simp_all add: policy_tables_def assigned_policy_set_def compiled_rules_def joined_rules_def
      default_policies_def config_for_def due_actions_def)

lemma policy_tables_eqD:
  "policy_tables d' = policy_tables d \<Longrightarrow>
     (\<forall>h. assigned_policy_set h d' = assigned_policy_set h d)
     \<and> (\<forall>p. compiled_rules d' p = compiled_rules d p)
     \<and> (\<forall>p. default_policies p d' = default_policies p d)
     \<and> (\<forall>h. config_for h d' = config_for h d)
     \<and> (\<forall>now h. due_actions now h d' = due_actions now h d) \<and> db_pending d' = db_pending d"
  by (intro conjI allI policy_tables_cong)

lemmas policy_tables_healthy [simp] = policy_tables_cong [OF policy_tables_simps(4)]

lemma outcome_insert_check_in [outcome_intros]:
  assumes "\<And>d'. policy_tables d' = policy_tables d \<Longrightarrow> Q () d'"
    and "\<And>e. E e d"
  shows "outcome (insert_check_in now h req) d Q E"
  using assms unfolding insert_check_in_def
  by (intro outcome_stmt) (auto split: if_split_asm)

lemma outcome_record_drift [outcome_intros]:
  assumes "\<And>d'. policy_tables d' = policy_tables d \<Longrightarrow> Q () d'"
  shows "outcome (record_drift L now h hash n source ev) d Q E"
  using assms unfolding record_drift_def insert_drift_def
  by (intro outcome_intros outcome_stmt) (auto split: if_split_asm)

lemma outcome_expected_rules [outcome_intros]:
  assumes "E (Database OtherSqlError) d"
    and "Q (case ps of None \<Rightarrow> ([], ''empty'')
      | Some p \<Rightarrow> (map rule_row_of (compiled_rules d p),
                   rows_hash sha (map rule_row_of (compiled_rules d p)))) d"
  shows "outcome (expected_rules sha ps) d Q E"
  using assms unfolding expected_rules_def fetch_rules_eq
  by (cases ps) (auto intro!: outcome_intros)

lemma outcome_expected_defaults [outcome_intros]:
  assumes "E (Database OtherSqlError) d"
    and "Q (case ps of None \<Rightarrow> (None, None) | Some p \<Rightarrow> default_policies p d) d"
  shows "outcome (expected_defaults ps) d Q E"
  using assms unfolding expected_defaults_def by (cases ps) (auto intro!: outcome_intros)

lemma due_actions_ids:
  "set (map pad_id (due_actions now h d)) = pa_id ` {a \<in> set (db_pending d). queued_for now h a}"
  by (auto simp: due_actions_def action_dto_def image_iff)

lemma distinct_due_actions:
  assumes "distinct (map pa_id (db_pending d))"
  shows "distinct (map pad_id (due_actions now h d))"
  using assms
  by (auto simp: due_actions_def action_dto_def comp_def distinct_map intro: inj_on_subset)

text \<open>With unique identifiers, marking by identifier marks exactly the actions that were due.\<close>

lemma mark_delivered_due:
  assumes "distinct (map pa_id (db_pending d))"
  shows "update_where (\<lambda>a. pa_id a \<in> set (map pad_id (due_actions now h d))) f (db_pending d)
    = update_where (queued_for now h) f (db_pending d)"
proof -
  have "pa_id a \<in> set (map pad_id (due_actions now h d)) \<longleftrightarrow> queued_for now h a"
    if "a \<in> set (db_pending d)" for a
    unfolding due_actions_ids using that assms by (auto simp: distinct_map inj_on_def)
  then show ?thesis by (simp add: update_where_def)
qed

lemma check_in_outcome:
  "outcome (check_in sha L now h req) d
     (\<lambda>r d'. r = check_in_reply sha now h req d
        \<and> db_pending d' = update_where
            (\<lambda>a. pa_id a \<in> set (map pad_id (due_actions now h d))) (deliver now) (db_pending d))
     (\<lambda>_ d'. db_pending d' = db_pending d)"
  unfolding check_in_def
  by (intro outcome_intros)
    (auto dest!: policy_tables_eqD simp: check_in_reply_def assigned_rules_def assigned_hash_def
      assigned_defaults_def mark_delivered_def comp_def update_where_def split: option.splits)

lemma check_in_result_pending:
  "outcome (check_in_result L now h req) d
     (\<lambda>_ d'. db_pending d' = (case rr_action_id req of None \<Rightarrow> db_pending d
        | Some i \<Rightarrow> db_pending (finish_action now i (rr_success req) d)))
     (\<lambda>_ d'. db_pending d' = db_pending d)"
  unfolding check_in_result_def insert_drift_def
  by (intro outcome_intros outcome_stmt)
    (auto split: if_split_asm option.split)

lemma check_in_run:
  assumes "host_exists h d"
  shows "fst (check_in sha L now h req (d, [])) = Inr (check_in_reply sha now h req d)"
proof -
  have "succeeds (check_in sha L now h req) d (\<lambda>_ _. True)"
    unfolding check_in_def insert_check_in_def expected_rules_def expected_defaults_def
      fetch_rules_eq record_drift_def insert_drift_def
    by (intro succeeds_intros succeeds_stmt [of _ d] TrueI) (use assms in auto)
  then show ?thesis
    using outcome_ok [OF check_in_outcome, of sha L now h req d "[]"]
    by (auto dest!: succeedsD simp: result_def)
qed

section \<open>Properties\<close>

text \<open>C3. A check-in implements its specification.  Whatever the database refuses, a check-in that
answers gives the answer that is computed from the database as it was at the start (the rules and
defaults of the assigned policy set in order, whether the hash differs from theirs, the newer
configuration, the actions due), and the actions it has marked as delivered are exactly those it
hands out; a check-in that fails has marked none.\<close>

theorem check_in_refines:
  assumes "distinct (map pa_id (db_pending d))"
  shows "case result (check_in sha L now h req) (d, fs) of
      Inl e \<Rightarrow> db_pending (db_after (check_in sha L now h req) (d, fs)) = db_pending d
    | Inr r \<Rightarrow> r = check_in_reply sha now h req d
        \<and> db_pending (db_after (check_in sha L now h req) (d, fs))
            = update_where (queued_for now h) (deliver now) (db_pending d)"
  using outcomeD [OF check_in_outcome, of sha L now h req d fs] mark_delivered_due [OF assms]
  by (auto split: sum.split)

definition sample_action :: "Uuid \<Rightarrow> Uuid \<Rightarrow> PendingAction" where
  "sample_action i h =
     \<lparr> pa_id = i, pa_host_id = h, pa_action_type = Rollback, pa_payload = ''{}'', pa_reason = [],
       pa_priority = 0, pa_status = Queued, pa_created_at = 0, pa_delivered_at = None,
       pa_executed_at = None, pa_expires_at = 3600 \<rparr>"

definition sample_host :: "Uuid \<Rightarrow> Host" where
  "sample_host h =
     \<lparr> ho_id = h, ho_fqdn = ''h.example'', ho_ip_address = ''10.0.0.9'', ho_display_name = ''h'',
       ho_os_family = None, ho_os_name = None, ho_arch = None, ho_agent_version = None,
       ho_health_status = Pending, ho_last_health_at = None, ho_last_sync_at = None,
       ho_agent_port = 0, ho_notes = [], ho_registered_at = 0, ho_updated_at = 0 \<rparr>"

definition two_host_db :: db where
  "two_host_db = empty_db \<lparr> db_hosts := [sample_host 1, sample_host 2],
     db_pending := [sample_action 10 1, sample_action 11 2] \<rparr>"

definition sample_check_in :: "string \<Rightarrow> CheckInRequest" where
  "sample_check_in hash =
     \<lparr> ci_rules_hash = hash, ci_agent_version = ''1'', ci_backend_type = ''ufw'', ci_os_info = [],
       ci_uptime_seconds = 5, ci_config_version = 0, ci_local_drift = False \<rparr>"

theorem check_in_refines_witness:
  "map pa_status (db_pending (db_after (check_in (\<lambda>s. s) plain_lib 100 1 (sample_check_in ''x''))
     (two_host_db, []))) = [Delivered, Queued]"
proof -
  have "distinct (map pa_id (db_pending two_host_db))" by code_simp
  from check_in_refines [OF this, of "\<lambda>s. s" plain_lib 100 1 "sample_check_in ''x''" "[]"]
  have "db_pending (db_after (check_in (\<lambda>s. s) plain_lib 100 1 (sample_check_in ''x''))
      (two_host_db, [])) = update_where (queued_for 100 1) (deliver 100) (db_pending two_host_db)"
    using check_in_run [of 1 two_host_db "\<lambda>s. s" plain_lib 100 "sample_check_in ''x''"]
    by (simp add: result_def two_host_db_def host_exists_def sample_host_def)
  moreover have "map pa_status (update_where (queued_for 100 1) (deliver 100)
      (db_pending two_host_db)) = [Delivered, Queued]"
    by code_simp
  ultimately show ?thesis by simp
qed

text \<open>A check-in of a known host is always answered when the database refuses nothing.\<close>

theorem check_in_answers:
  assumes "host_exists h d"
  shows "result (check_in sha L now h req) (d, []) = Inr (check_in_reply sha now h req d)"
  using check_in_run [OF assms] by (simp add: result_def)

theorem check_in_answers_witness:
  "\<exists>r. result (check_in (\<lambda>s. s) plain_lib 100 2 (sample_check_in ''x'')) (two_host_db, []) = Inr r
     \<and> map pad_id (cr_pending_actions r) = [11] \<and> cr_rules_changed r"
proof -
  have "host_exists 2 two_host_db"
    "map pad_id (cr_pending_actions (check_in_reply (\<lambda>s. s) 100 2 (sample_check_in ''x'') two_host_db))
       = [11]"
    "cr_rules_changed (check_in_reply (\<lambda>s. s) 100 2 (sample_check_in ''x'') two_host_db)"
    by code_simp+
  then show ?thesis using check_in_answers by auto
qed

text \<open>Calls of agents: check-ins and reports, of any hosts, with anything refused, one after the other.
The identifiers of the actions that are handed out are collected.\<close>

datatype agent_call =
    CallCheckIn DateTime Uuid CheckInRequest "bool list"
  | CallResult DateTime Uuid CheckInResultRequest "bool list"

fun call_out :: "(string \<Rightarrow> string) \<Rightarrow> audit_lib \<Rightarrow> agent_call \<Rightarrow> db \<Rightarrow> Uuid list" where
  "call_out sha L (CallCheckIn now h req fs) d =
     (case result (check_in sha L now h req) (d, fs) of
        Inl _ \<Rightarrow> [] | Inr r \<Rightarrow> map pad_id (cr_pending_actions r))"
| "call_out sha L (CallResult now h req fs) d = []"

fun call_db :: "(string \<Rightarrow> string) \<Rightarrow> audit_lib \<Rightarrow> agent_call \<Rightarrow> db \<Rightarrow> db" where
  "call_db sha L (CallCheckIn now h req fs) d = db_after (check_in sha L now h req) (d, fs)"
| "call_db sha L (CallResult now h req fs) d = db_after (check_in_result L now h req) (d, fs)"

fun handed_out :: "(string \<Rightarrow> string) \<Rightarrow> audit_lib \<Rightarrow> agent_call list \<Rightarrow> db \<Rightarrow> Uuid list" where
  "handed_out sha L [] d = []"
| "handed_out sha L (c # cs) d = call_out sha L c d @ handed_out sha L cs (call_db sha L c d)"

definition queued_ids :: "db \<Rightarrow> Uuid set" where
  "queued_ids d = pa_id ` {a \<in> set (db_pending d). pa_status a = Queued}"

lemma queued_ids_update_where:
  assumes "distinct (map pa_id (db_pending d))"
    and "db_pending d' = update_where P f (db_pending d)"
    and "\<And>a. pa_id (f a) = pa_id a" and "\<And>a. pa_status (f a) \<noteq> Queued"
  shows "queued_ids d' = queued_ids d - pa_id ` {a \<in> set (db_pending d). P a}"
  using assms
  by (auto simp: queued_ids_def set_update_where distinct_map inj_on_def image_iff split: if_splits)
    blast

lemma check_in_step:
  fixes sha L now h req fs
  assumes "distinct (map pa_id (db_pending d))"
  defines "out \<equiv> (case result (check_in sha L now h req) (d, fs) of
      Inl _ \<Rightarrow> [] | Inr r \<Rightarrow> map pad_id (cr_pending_actions r))"
  defines "d' \<equiv> db_after (check_in sha L now h req) (d, fs)"
  shows "distinct out" "set out \<subseteq> queued_ids d" "queued_ids d' = queued_ids d - set out"
    "distinct (map pa_id (db_pending d'))"
proof -
  have "(out = [] \<and> db_pending d' = db_pending d) \<or>
      (out = map pad_id (due_actions now h d)
       \<and> db_pending d' = update_where (\<lambda>a. pa_id a \<in> set (map pad_id (due_actions now h d)))
           (deliver now) (db_pending d))"
    using outcomeD [OF check_in_outcome, of sha L now h req d fs]
    by (auto simp: out_def d'_def check_in_reply_def split: sum.split)
  moreover have "set (map pad_id (due_actions now h d)) \<subseteq> queued_ids d"
    unfolding due_actions_ids by (auto simp: queued_ids_def queued_for_def)
  moreover have "queued_ids d' = queued_ids d - set (map pad_id (due_actions now h d))"
    if "db_pending d' = update_where (\<lambda>a. pa_id a \<in> set (map pad_id (due_actions now h d)))
           (deliver now) (db_pending d)"
    using queued_ids_update_where [OF assms(1) that]
    by (auto simp: deliver_def due_actions_ids queued_ids_def)
  moreover have "queued_ids d' = queued_ids d" if "db_pending d' = db_pending d"
    using that by (simp add: queued_ids_def)
  moreover have "distinct (map pa_id (update_where P (deliver now) (db_pending d)))" for P
    using assms(1) by (intro distinct_update_where) (simp_all add: deliver_def)
  ultimately show "distinct out" "set out \<subseteq> queued_ids d" "queued_ids d' = queued_ids d - set out"
    "distinct (map pa_id (db_pending d'))"
    using assms(1) distinct_due_actions [OF assms(1)] by auto
qed

lemma check_in_result_step:
  fixes L now h req fs
  assumes "distinct (map pa_id (db_pending d))"
  defines "d' \<equiv> db_after (check_in_result L now h req) (d, fs)"
  shows "queued_ids d' \<subseteq> queued_ids d" "distinct (map pa_id (db_pending d'))"
proof -
  let ?f = "\<lambda>a. a \<lparr> pa_status := (if rr_success req then Executed else Failed),
              pa_executed_at := Some now \<rparr>"
  consider "db_pending d' = db_pending d"
    | i where "db_pending d' = update_where (\<lambda>a. pa_id a = i) ?f (db_pending d)"
    using outcomeD [OF check_in_result_pending, of L now h req d fs]
    by (auto simp: d'_def finish_action_def split: sum.split_asm option.split_asm)
  then have "queued_ids d' \<subseteq> queued_ids d \<and> distinct (map pa_id (db_pending d'))"
  proof cases
    case 1
    then show ?thesis using assms(1) by (simp add: queued_ids_def)
  next
    case (2 i)
    then show ?thesis
      using queued_ids_update_where [OF assms(1) 2] distinct_update_where [OF _ assms(1), of _ ?f]
      by auto
  qed
  then show "queued_ids d' \<subseteq> queued_ids d" "distinct (map pa_id (db_pending d'))" by auto
qed

lemma call_step:
  assumes "distinct (map pa_id (db_pending d))"
  shows "distinct (call_out sha L c d)" "set (call_out sha L c d) \<subseteq> queued_ids d"
    "queued_ids (call_db sha L c d) \<subseteq> queued_ids d - set (call_out sha L c d)"
    "distinct (map pa_id (db_pending (call_db sha L c d)))"
  using check_in_step [OF assms] check_in_result_step [OF assms]
  by (cases c; simp)+

lemma handed_out_queued:
  "distinct (map pa_id (db_pending d)) \<Longrightarrow>
     distinct (handed_out sha L cs d) \<and> set (handed_out sha L cs d) \<subseteq> queued_ids d"
proof (induction cs arbitrary: d)
  case Nil
  then show ?case by simp
next
  case (Cons c cs)
  note step = call_step [OF Cons.prems, of sha L c]
  from Cons.IH [OF step(4)] step(1-3) show ?case by auto
qed



text \<open>A report is not bound to the host it comes from: whatever host reports success or failure for
an action, the action is closed, and the host it was meant for does not receive it any more.\<close>

theorem report_closes_foreign_action:
  assumes "a \<in> set (db_pending d)" and "rr_action_id req = Some (pa_id a)"
  shows "let d' = db_after (check_in_result L now h req) (d, [])
    in (\<exists>a' \<in> set (db_pending d'). pa_id a' = pa_id a
         \<and> pa_status a' = (if rr_success req then Executed else Failed))
       \<and> pa_id a \<notin> set (map pad_id (cr_pending_actions
            (check_in_reply sha later (pa_host_id a) creq d')))"
proof -
  let ?d' = "db_after (check_in_result L now h req) (d, [])"
  have "succeeds (check_in_result L now h req) d (\<lambda>_ _. True)"
    unfolding check_in_result_def insert_drift_def by (intro succeeds_intros TrueI)
  then obtain x where "result (check_in_result L now h req) (d, []) = Inr x"
    using succeedsD by blast
  from outcome_ok [OF check_in_result_pending this] assms(2)
  have eq: "db_pending ?d' = db_pending (finish_action now (pa_id a) (rr_success req) d)" by simp
  then have "\<forall>b \<in> set (db_pending ?d'). pa_id b = pa_id a \<longrightarrow> pa_status b \<noteq> Queued"
    by (auto simp: finish_action_def update_where_def)
  moreover have "\<exists>a' \<in> set (db_pending ?d'). pa_id a' = pa_id a
      \<and> pa_status a' = (if rr_success req then Executed else Failed)"
    using assms(1) unfolding eq finish_action_def
    by (simp add: update_where_mem bexI [OF _ update_where_mem [of a]])
  ultimately show ?thesis
    unfolding Let_def check_in_reply_def
    by (auto simp: due_actions_ids queued_for_def simp del: set_map)
qed

definition foreign_report :: CheckInResultRequest where
  "foreign_report = \<lparr> rr_action_id = Some 11, rr_success = True, rr_error_message = None,
     rr_new_rules_hash = [] \<rparr>"

theorem report_closes_foreign_action_witness:
  "11 \<notin> set (map pad_id (cr_pending_actions (check_in_reply (\<lambda>s. s) 200 2 (sample_check_in ''x'')
     (db_after (check_in_result plain_lib 100 1 foreign_report) (two_host_db, [])))))"
proof -
  have "sample_action 11 2 \<in> set (db_pending two_host_db)"
    "rr_action_id foreign_report = Some (pa_id (sample_action 11 2))"
    by (simp_all add: two_host_db_def foreign_report_def sample_action_def)
  from report_closes_foreign_action [OF this, of plain_lib 100 1 "\<lambda>s. s" 200 "sample_check_in ''x''"]
  show ?thesis by (simp add: Let_def sample_action_def)
qed

text \<open>A host without a policy set never converges: unless its agent reports the word "empty" as its
hash, every one of its check-ins is answered with changed rules and no rule, and adds a mismatch to
the drift table.\<close>

theorem unassigned_host_always_drifts:
  assumes "host_exists h d" and "assigned_policy_set h d = None" and "ci_rules_hash req \<noteq> ''empty''"
    and "\<not> ci_local_drift req"
  shows "let (r, d', _) = check_in sha L now h req (d, [])
    in (\<exists>resp. r = Inr resp \<and> cr_rules_changed resp \<and> cr_rules resp = [])
       \<and> db_drift d' = db_drift d @
           [\<lparr> ds_host_id = h, ds_snapshot_hash = ci_rules_hash req, ds_rule_count = 0,
              ds_captured_at = now, ds_source = ''check_in_mismatch'' \<rparr>]"
proof -
  have assigned: "assigned_policy_set h (mark_healthy now h v (d \<lparr> db_check_ins := c \<rparr>)) = None" for v c
    using assms(2) by (simp add: assigned_policy_set_def mark_healthy_def)
  have exists: "host_exists h (mark_healthy now h v (d \<lparr> db_check_ins := c \<rparr>))" for v c
    using assms(1) update_where_keys [where key = ho_id and rows = "db_hosts d"]
    by (simp add: host_exists_def mark_healthy_def del: set_map)
  have "succeeds (check_in sha L now h req) d (\<lambda>_ d'. db_drift d' = db_drift d @
           [\<lparr> ds_host_id = h, ds_snapshot_hash = ci_rules_hash req, ds_rule_count = as_i32 0,
              ds_captured_at = now, ds_source = ''check_in_mismatch'' \<rparr>])"
    unfolding check_in_def insert_check_in_def expected_rules_def expected_defaults_def
      fetch_rules_eq record_drift_def insert_drift_def
    by (intro succeeds_intros succeeds_stmt [of _ d])
      (use assms assigned exists in \<open>auto simp: mark_healthy_def mark_delivered_def\<close>)
  moreover have "cr_rules_changed (check_in_reply sha now h req d)"
    "cr_rules (check_in_reply sha now h req d) = []"
    using assms(2,3) by (simp_all add: check_in_reply_def assigned_hash_def assigned_rules_def)
  ultimately show ?thesis
    using check_in_run [OF assms(1), of sha L now req] by (auto simp: succeeds_def as_i32_def)
qed

theorem unassigned_host_always_drifts_witness:
  "map ds_source (db_drift (db_after (check_in (\<lambda>s. s) plain_lib 100 1 (sample_check_in ''x''))
     (two_host_db, []))) = [''check_in_mismatch'']"
proof -
  have "host_exists 1 two_host_db" "assigned_policy_set 1 two_host_db = None"
    "ci_rules_hash (sample_check_in ''x'') \<noteq> ''empty''" "\<not> ci_local_drift (sample_check_in ''x'')"
    "db_drift two_host_db = []"
    by code_simp+
  then show ?thesis
    using unassigned_host_always_drifts [of 1 two_host_db "sample_check_in ''x''" "\<lambda>s. s" plain_lib 100]
    by (auto simp: db_after_def Let_def split: prod.split_asm)
qed

text \<open>The stream is held for at least half a minute, and for a usual interval ends half a minute before
the next check-in is due.\<close>

lemma events_hold_secs_bounds:
  "30 \<le> events_hold_secs h d"
  "find (\<lambda>r. co_host_id r = h) (db_overrides d) = Some r \<Longrightarrow> 60 \<le> co_check_in_interval_secs r \<Longrightarrow>
     events_hold_secs h d = co_check_in_interval_secs r - 30"
  by (simp_all add: events_hold_secs_def unwrap_or_def)

end
