(* ===== verification/Mgr_Assign.thy ===== *)
theory Mgr_Assign
  imports Mgr_Rbac Mgr_Agent_Api
begin

text \<open>Assigning policy sets to hosts: the single-host handlers of \<open>fw-web/src/routes/hosts.rs\<close> and the
bulk handlers of \<open>fw-web/src/routes/deployment.rs\<close>.  Both have the gate SEC-003 (a set with a rule
that needs approval is assigned by administrators only); the bulk handler also has the scoping
SEC-012 (operators reach only the hosts of their groups).\<close>

section \<open>Statements\<close>

definition set_exists :: "Uuid \<Rightarrow> db \<Rightarrow> bool" where
  "set_exists p d \<longleftrightarrow> p \<in> set (map ps_id (db_policy_sets d))"

definition user_exists :: "Uuid \<Rightarrow> db \<Rightarrow> bool" where
  "user_exists u d \<longleftrightarrow> u \<in> set (map us_id (db_users d))"

text \<open>\<open>INSERT ... ON CONFLICT DO NOTHING\<close>; the result is the number of rows affected.\<close>

definition insert_assignment :: "DateTime \<Rightarrow> Uuid \<Rightarrow> Uuid \<Rightarrow> Uuid \<Rightarrow> nat dbm" where
  "insert_assignment now h p u =
     stmt (\<lambda>d. if (h, p) \<in> set (map (\<lambda>a. (ha_host_id a, ha_policy_set_id a)) (db_assignments d))
               then Inr (0, d)
               else if host_exists h d \<and> set_exists p d \<and> user_exists u d
               then Inr (1, d \<lparr> db_assignments := db_assignments d @
                      [\<lparr> ha_host_id = h, ha_policy_set_id = p, ha_assigned_by = Some u,
                         ha_assigned_at = now \<rparr>] \<rparr>)
               else Inl ForeignKeyViolation)"

definition delete_assignment :: "Uuid \<Rightarrow> Uuid \<Rightarrow> db \<Rightarrow> db" where
  "delete_assignment h p d =
     d \<lparr> db_assignments := filter (\<lambda>a. \<not> (ha_host_id a = h \<and> ha_policy_set_id a = p))
          (db_assignments d) \<rparr>"

definition flagged_message :: "audit_lib \<Rightarrow> Uuid list \<Rightarrow> string" where
  "flagged_message L ids = ''Policy set contains flagged rules requiring admin approval: ''
     @ join '', '' (map (al_uuid_str L) ids)"

definition write_guard :: "AuthUser \<Rightarrow> unit dbm" where
  "write_guard u = guard (Forbidden ''Write access required'') (can_write (auth_role u))"

text \<open>The gate both handlers open with.\<close>

definition flagged_gate :: "audit_lib \<Rightarrow> AuthUser \<Rightarrow> Uuid \<Rightarrow> unit dbm" where
  "flagged_gate L u p =
     (if is_admin (auth_role u) then ret ()
      else bind (flagged_rule_ids_for_set p) (\<lambda>flagged.
             guard (Conflict (flagged_message L flagged)) (flagged = [])))"

section \<open>One host\<close>

definition assign_policy_set :: "audit_lib \<Rightarrow> DateTime \<Rightarrow> AuthUser \<Rightarrow> Uuid \<Rightarrow> Uuid \<Rightarrow> unit dbm" where
  "assign_policy_set L now u h p =
     bind (write_guard u) (\<lambda>_.
     bind (flagged_gate L u p) (\<lambda>_.
     bind (insert_assignment now h p (auth_user_id u)) (\<lambda>_.
     log_event L now (auth_event u ''policy_assigned'' ''host'' (Some (al_uuid_str L h))
       [(''policy_set_id'', al_uuid_str L p)]))))"

definition unassign_policy_set :: "audit_lib \<Rightarrow> DateTime \<Rightarrow> AuthUser \<Rightarrow> Uuid \<Rightarrow> Uuid \<Rightarrow> unit dbm" where
  "unassign_policy_set L now u h p =
     bind (write_guard u) (\<lambda>_.
     bind (exec (delete_assignment h p)) (\<lambda>_.
     log_event L now (auth_event u ''policy_unassigned'' ''host'' (Some (al_uuid_str L h))
       [(''policy_set_id'', al_uuid_str L p)])))"

definition get_host_policy_sets :: "Uuid \<Rightarrow> HostPolicyAssignment list dbm" where
  "get_host_policy_sets h = query (\<lambda>d. filter (\<lambda>a. ha_host_id a = h) (db_assignments d))"

section \<open>Many hosts\<close>

definition resolve_host_ids :: "Uuid list \<Rightarrow> Uuid list \<Rightarrow> Uuid list dbm" where
  "resolve_host_ids hosts groups =
     bind (if groups \<noteq> []
           then bind (query (\<lambda>d. map fst (filter (\<lambda>hg. snd hg \<in> set groups) (db_host_groups d))))
                  (\<lambda>more. ret (hosts @ more))
           else ret hosts) (\<lambda>ids.
     ret (remdups_adj (sort ids)))"

record AssignRequest =
  ar_policy_set_id :: Uuid
  ar_host_ids :: "Uuid list"
  ar_group_ids :: "Uuid list"

record AssignResponse =
  as_policy_set_id :: Uuid
  as_assigned_count :: nat
  as_host_ids :: "Uuid list"

definition assign_one :: "audit_lib \<Rightarrow> DateTime \<Rightarrow> AuthUser \<Rightarrow> Uuid \<Rightarrow> Uuid \<Rightarrow> nat dbm" where
  "assign_one L now u p h =
     bind (attempt (can_access_host u h)) (\<lambda>access.
     bind (guard (Forbidden (''Operator '' @ auth_username u @ '' cannot access host '' @ al_uuid_str L h))
            (unwrap_or False access)) (\<lambda>_.
     bind (insert_assignment now h p (auth_user_id u)) (\<lambda>n.
     bind (log_event L now (auth_event u ''policy_assigned'' ''host'' (Some (al_uuid_str L h))
             [(''policy_set_id'', al_uuid_str L p)])) (\<lambda>_.
     ret (if 0 < n then 1 else 0)))))"

primrec assign_loop :: "audit_lib \<Rightarrow> DateTime \<Rightarrow> AuthUser \<Rightarrow> Uuid \<Rightarrow> nat \<Rightarrow> Uuid list \<Rightarrow> nat dbm" where
  "assign_loop L now u p assigned [] = ret assigned"
| "assign_loop L now u p assigned (h # hs) =
     bind (assign_one L now u p h) (\<lambda>n. assign_loop L now u p (assigned + n) hs)"

definition deploy_assign ::
  "audit_lib \<Rightarrow> DateTime \<Rightarrow> AuthUser \<Rightarrow> AssignRequest \<Rightarrow> AssignResponse dbm" where
  "deploy_assign L now u req =
     bind (write_guard u) (\<lambda>_.
     bind (flagged_gate L u (ar_policy_set_id req)) (\<lambda>_.
     bind (resolve_host_ids (ar_host_ids req) (ar_group_ids req)) (\<lambda>hosts.
     bind (guard (BadRequest ''No hosts selected'') (hosts \<noteq> [])) (\<lambda>_.
     bind (assign_loop L now u (ar_policy_set_id req) 0 hosts) (\<lambda>n.
     ret \<lparr> as_policy_set_id = ar_policy_set_id req, as_assigned_count = n, as_host_ids = hosts \<rparr>)))))"

definition deploy_unassign :: "audit_lib \<Rightarrow> DateTime \<Rightarrow> AuthUser \<Rightarrow> AssignRequest \<Rightarrow> nat dbm" where
  "deploy_unassign L now u req =
     bind (write_guard u) (\<lambda>_.
     bind (resolve_host_ids (ar_host_ids req) (ar_group_ids req)) (\<lambda>hosts.
     bind (for_each (\<lambda>h.
        bind (exec (delete_assignment h (ar_policy_set_id req))) (\<lambda>_.
        log_event L now (auth_event u ''policy_unassigned'' ''host'' (Some (al_uuid_str L h))
          [(''policy_set_id'', al_uuid_str L (ar_policy_set_id req))]))) hosts) (\<lambda>_.
     ret (length hosts))))"

section \<open>Facts\<close>

lemma outcome_write_guard [outcome_intros]:
  "(\<not> can_write (auth_role u) \<Longrightarrow> E (Forbidden ''Write access required'') d) \<Longrightarrow>
     (can_write (auth_role u) \<Longrightarrow> Q () d) \<Longrightarrow> outcome (write_guard u) d Q E"
  unfolding write_guard_def by (intro outcome_intros)

lemma outcome_flagged_gate [outcome_intros]:
  assumes "is_admin (auth_role u) \<or> check_policy_set_for_flagged (compiled_rules d p) = [] \<Longrightarrow> Q () d"
    and "\<And>e. E e d"
  shows "outcome (flagged_gate L u p) d Q E"
  using assms unfolding flagged_gate_def by (intro outcome_intros) auto

lemma outcome_insert_assignment [outcome_intros]:
  assumes "\<And>e. E e d"
    and "\<And>n d'. d' = d \<Longrightarrow> (\<exists>a \<in> set (db_assignments d). ha_host_id a = h \<and> ha_policy_set_id a = p) \<Longrightarrow>
      Q n d'"
    and "\<And>n d'. host_exists h d \<Longrightarrow> set_exists p d \<Longrightarrow>
      d' = d \<lparr> db_assignments := db_assignments d @
        [\<lparr> ha_host_id = h, ha_policy_set_id = p, ha_assigned_by = Some u, ha_assigned_at = now \<rparr>] \<rparr> \<Longrightarrow>
      Q n d'"
  shows "outcome (insert_assignment now h p u) d Q E"
  using assms unfolding insert_assignment_def
  by (intro outcome_stmt) (auto split: if_split_asm)

text \<open>\<open>sort\<close> followed by \<open>dedup\<close> leaves every element once.\<close>

lemma distinct_remdups_adj_sorted: "sorted xs \<Longrightarrow> distinct (remdups_adj xs)"
  by (induction xs rule: remdups_adj.induct) auto

lemma outcome_resolve_host_ids [outcome_intros]:
  assumes "E (Database OtherSqlError) d"
    and "\<And>ids. distinct ids \<Longrightarrow>
      set ids = set hosts \<union> {h. \<exists>g \<in> set groups. (h, g) \<in> set (db_host_groups d)} \<Longrightarrow> Q ids d"
  shows "outcome (resolve_host_ids hosts groups) d Q E"
proof -
  let ?more = "map fst (filter (\<lambda>hg. snd hg \<in> set groups) (db_host_groups d))"
  have "Q (remdups_adj (sort (hosts @ ?more))) d"
    by (intro assms(2) distinct_remdups_adj_sorted sorted_sort) force
  moreover have "Q (remdups_adj (sort hosts)) d" if "groups = []"
    using that by (intro assms(2) distinct_remdups_adj_sorted sorted_sort) auto
  ultimately show ?thesis
    using assms(1) unfolding resolve_host_ids_def by (intro outcome_intros) auto
qed

text \<open>The tables that decide who may access a host.\<close>

lemma may_access_cong:
  "db_operator_host_groups d' = db_operator_host_groups d \<Longrightarrow> db_host_groups d' = db_host_groups d \<Longrightarrow>
     may_access d' u h = may_access d u h"
  by (cases "auth_role u") (simp_all add: may_access_def)

text \<open>What the loop of the bulk handler keeps: the assignments there were, and nothing else but
assignments of the set, by the user, to hosts of the list the user may access.\<close>

definition scoped_assignments ::
  "db \<Rightarrow> AuthUser \<Rightarrow> Uuid \<Rightarrow> Uuid set \<Rightarrow> db \<Rightarrow> bool" where
  "scoped_assignments d u p hosts d' \<longleftrightarrow>
     db_operator_host_groups d' = db_operator_host_groups d \<and> db_host_groups d' = db_host_groups d
     \<and> (\<exists>new. db_assignments d' = db_assignments d @ new
          \<and> (\<forall>a \<in> set new. ha_host_id a \<in> hosts \<and> ha_policy_set_id a = p
               \<and> ha_assigned_by a = Some (auth_user_id u) \<and> may_access d u (ha_host_id a)))"

lemma scoped_assignments_audit [simp]:
  "scoped_assignments d u p hosts (d' \<lparr> db_audit := a \<rparr>) = scoped_assignments d u p hosts d'"
  by (simp add: scoped_assignments_def)

lemma assign_one_outcome:
  assumes "scoped_assignments d u p hosts d'" and "h \<in> hosts"
  shows "outcome (assign_one L now u p h) d'
    (\<lambda>_ d''. scoped_assignments d u p hosts d''
       \<and> (\<exists>a \<in> set (db_assignments d''). ha_host_id a = h \<and> ha_policy_set_id a = p)
       \<and> set (db_assignments d') \<subseteq> set (db_assignments d''))
    (\<lambda>_. scoped_assignments d u p hosts)"
proof -
  have acc: "may_access d' u h = may_access d u h"
    using assms(1) by (intro may_access_cong) (simp_all add: scoped_assignments_def)
  have new: "scoped_assignments d u p hosts (d' \<lparr> db_assignments := db_assignments d' @
      [\<lparr> ha_host_id = h, ha_policy_set_id = p, ha_assigned_by = Some (auth_user_id u),
         ha_assigned_at = now \<rparr>] \<rparr>)" if "may_access d' u h"
    using assms that acc by (auto simp: scoped_assignments_def)
  show ?thesis
    unfolding assign_one_def
    by (intro outcome_intros)
      (use assms new in \<open>auto simp: unwrap_or_def\<close>)
qed

lemma assign_loop_outcome:
  assumes "scoped_assignments d u p hosts d'" and "set hs \<subseteq> hosts"
  shows "outcome (assign_loop L now u p n hs) d'
    (\<lambda>_ d''. scoped_assignments d u p hosts d''
       \<and> (\<forall>h \<in> set hs. \<exists>a \<in> set (db_assignments d''). ha_host_id a = h \<and> ha_policy_set_id a = p)
       \<and> set (db_assignments d') \<subseteq> set (db_assignments d''))
    (\<lambda>_. scoped_assignments d u p hosts)"
  using assms
proof (induction hs arbitrary: d' n)
  case Nil
  then show ?case by (simp add: outcome_ret)
next
  case (Cons h hs)
  have "outcome (assign_one L now u p h) d'
    (\<lambda>m d1. outcome (assign_loop L now u p (n + m) hs) d1
      (\<lambda>_ d''. scoped_assignments d u p hosts d''
         \<and> (\<forall>h \<in> set (h # hs). \<exists>a \<in> set (db_assignments d''). ha_host_id a = h \<and> ha_policy_set_id a = p)
         \<and> set (db_assignments d') \<subseteq> set (db_assignments d''))
      (\<lambda>_. scoped_assignments d u p hosts))
    (\<lambda>_. scoped_assignments d u p hosts)"
  proof (rule outcome_mono [OF assign_one_outcome [OF Cons.prems(1)]])
    show "h \<in> hosts" using Cons.prems(2) by simp
    fix m d1 assume one: "scoped_assignments d u p hosts d1
      \<and> (\<exists>a \<in> set (db_assignments d1). ha_host_id a = h \<and> ha_policy_set_id a = p)
      \<and> set (db_assignments d') \<subseteq> set (db_assignments d1)"
    show "outcome (assign_loop L now u p (n + m) hs) d1
      (\<lambda>_ d''. scoped_assignments d u p hosts d''
         \<and> (\<forall>h \<in> set (h # hs). \<exists>a \<in> set (db_assignments d''). ha_host_id a = h \<and> ha_policy_set_id a = p)
         \<and> set (db_assignments d') \<subseteq> set (db_assignments d''))
      (\<lambda>_. scoped_assignments d u p hosts)"
      by (rule outcome_mono [OF Cons.IH]) (use one Cons.prems(2) in auto)
  qed
  then show ?case by (simp add: outcome_bind)
qed

text \<open>The hosts a request asks for.\<close>

definition asked :: "AssignRequest \<Rightarrow> db \<Rightarrow> Uuid set" where
  "asked req d = set (ar_host_ids req)
     \<union> {h. \<exists>g \<in> set (ar_group_ids req). (h, g) \<in> set (db_host_groups d)}"

lemma deploy_assign_outcome:
  "outcome (deploy_assign L now u req) d
    (\<lambda>r d'. scoped_assignments d u (ar_policy_set_id req) (asked req d) d' \<and> set (as_host_ids r) = asked req d
       \<and> (\<forall>h \<in> asked req d. \<exists>a \<in> set (db_assignments d').
            ha_host_id a = h \<and> ha_policy_set_id a = ar_policy_set_id req))
    (\<lambda>_. scoped_assignments d u (ar_policy_set_id req) (asked req d))"
proof -
  have start: "scoped_assignments d u p H d" for p H
    by (simp add: scoped_assignments_def)
  show ?thesis
    unfolding deploy_assign_def
    by (intro outcome_intros start outcome_mono [OF assign_loop_outcome [OF start]])
      (auto simp: asked_def)
qed

section \<open>Properties\<close>

lemma flagged_set:
  "r \<in> set rules \<Longrightarrow> pc_requires_approval (check_rule r) \<Longrightarrow> check_policy_set_for_flagged rules \<noteq> []"
  by (auto simp: check_policy_set_for_flagged_def filter_empty_conv)

text \<open>C22. The approval gate (SEC-003).  If the compiled rules of a policy set contain a rule that needs
approval, then a user who is not an administrator cannot assign the set, through neither handler and
whatever the database refuses: the request fails and the assignments stay as they are.\<close>

theorem flagged_set_not_assigned:
  assumes "\<not> is_admin (auth_role u)" and "r \<in> set (compiled_rules d p)"
    and "pc_requires_approval (check_rule r)" and "ar_policy_set_id req = p"
  shows "\<not> is_ok (result (assign_policy_set L now u h p) (d, fs))
    \<and> \<not> is_ok (result (deploy_assign L now u req) (d, fs))
    \<and> db_assignments (db_after (assign_policy_set L now u h p) (d, fs)) = db_assignments d
    \<and> db_assignments (db_after (deploy_assign L now u req) (d, fs)) = db_assignments d"
proof -
  have closed: "check_policy_set_for_flagged (compiled_rules d p) \<noteq> []"
    using assms(2,3) by (rule flagged_set)
  have "outcome (assign_policy_set L now u h p) d (\<lambda>_ _. False) (\<lambda>_ d'. d' = d)"
    "outcome (deploy_assign L now u req) d (\<lambda>_ _. False) (\<lambda>_ d'. d' = d)"
    unfolding assign_policy_set_def deploy_assign_def
    by (intro outcome_bind outcome_write_guard outcome_flagged_gate; use assms closed in simp)+
  then show ?thesis
    using outcomeD [of "assign_policy_set L now u h p" d "\<lambda>_ _. False" "\<lambda>_ d'. d' = d" fs]
      outcomeD [of "deploy_assign L now u req" d "\<lambda>_ _. False" "\<lambda>_ d'. d' = d" fs]
    by (auto split: sum.split_asm)
qed

definition sample_user :: "UserRole \<Rightarrow> AuthUser" where
  "sample_user r = \<lparr> auth_user_id = 5, auth_username = ''ann'', auth_role = r,
     auth_claims = sample_claims, auth_ip = None \<rparr>"

definition sample_set :: "Uuid \<Rightarrow> FirewallPolicySet" where
  "sample_set p =
     \<lparr> ps_id = p, ps_name = ''s'', ps_description = [], ps_created_by = None, ps_created_at = 0,
       ps_updated_at = 0, ps_default_input_policy = None, ps_default_output_policy = None \<rparr>"

definition sample_user_row :: UserRow where
  "sample_user_row =
     \<lparr> us_id = 5, us_username = ''ann'', us_display_name = ''Ann'', us_email = ''ann@example'',
       us_role = Operator, us_auth_provider = Local, us_password_hash = None,
       us_mfa_enabled = False, us_is_active = True, us_force_password_reset = False,
       us_failed_login_attempts = 0, us_locked_until = None, us_last_login_at = None,
       us_created_at = 0, us_updated_at = 0 \<rparr>"

text \<open>Two hosts, one of them in the operator's group, and a policy set 20 with one group of rules.\<close>

definition policy_db :: "FirewallRule list \<Rightarrow> db" where
  "policy_db rules = two_host_db
     \<lparr> db_users := [sample_user_row], db_policy_sets := [sample_set 20],
       db_psrg := [\<lparr> pg_policy_set_id = 20, pg_rule_group_id = 30, pg_set_group_order = 0 \<rparr>],
       db_rules := map (\<lambda>r. \<lparr> rl_rule = r, rl_group_id = 30, rl_group_order = 0 \<rparr>) rules,
       db_host_groups := [(1, 40)], db_operator_host_groups := [(5, 40)] \<rparr>"

theorem flagged_set_not_assigned_witness:
  "\<not> is_ok (result (assign_policy_set plain_lib 100 (sample_user Operator) 1 20)
       (policy_db [plain_rule 7 Allow], []))
   \<and> db_assignments (db_after (deploy_assign plain_lib 100 (sample_user Operator)
       \<lparr> ar_policy_set_id = 20, ar_host_ids = [1], ar_group_ids = [] \<rparr>)
       (policy_db [plain_rule 7 Allow], [])) = []"
proof -
  have "\<not> is_admin (auth_role (sample_user Operator))"
    "plain_rule 7 Allow \<in> set (compiled_rules (policy_db [plain_rule 7 Allow]) 20)"
    "pc_requires_approval (check_rule (plain_rule 7 Allow))"
    "db_assignments (policy_db [plain_rule 7 Allow]) = []"
    by code_simp+
  then show ?thesis
    using flagged_set_not_assigned [of "sample_user Operator" "plain_rule 7 Allow"
        "policy_db [plain_rule 7 Allow]" 20
        "\<lparr> ar_policy_set_id = 20, ar_host_ids = [1], ar_group_ids = [] \<rparr>"] by simp
qed

text \<open>C23. The scoping of bulk assignment (SEC-012).  Whatever the database refuses and however the
request ends, the assignments there were are kept, and every new one is an assignment of the
requested set, by the user, to a host that was asked for by name or through a group and that the
user may access.  If the request succeeds, every host asked for has the set.\<close>

theorem deploy_assign_scoped:
  "(\<exists>new. db_assignments (db_after (deploy_assign L now u req) (d, fs)) = db_assignments d @ new
      \<and> (\<forall>a \<in> set new. ha_host_id a \<in> asked req d \<and> ha_policy_set_id a = ar_policy_set_id req
           \<and> ha_assigned_by a = Some (auth_user_id u) \<and> may_access d u (ha_host_id a)))
    \<and> (\<forall>r. result (deploy_assign L now u req) (d, fs) = Inr r \<longrightarrow>
        set (as_host_ids r) = asked req d
        \<and> (\<forall>h \<in> asked req d. \<exists>a \<in> set (db_assignments (db_after (deploy_assign L now u req) (d, fs))).
             ha_host_id a = h \<and> ha_policy_set_id a = ar_policy_set_id req))"
  using outcomeD [OF deploy_assign_outcome [of L now u req d], of fs]
  unfolding scoped_assignments_def by (auto split: sum.split_asm)

theorem deploy_assign_scoped_witness:
  "result (deploy_assign plain_lib 100 (sample_user Operator)
      \<lparr> ar_policy_set_id = 20, ar_host_ids = [], ar_group_ids = [40] \<rparr>) (policy_db [], [])
     = Inr \<lparr> as_policy_set_id = 20, as_assigned_count = 1, as_host_ids = [1] \<rparr>
   \<and> (\<exists>a \<in> set (db_assignments (db_after (deploy_assign plain_lib 100 (sample_user Operator)
      \<lparr> ar_policy_set_id = 20, ar_host_ids = [], ar_group_ids = [40] \<rparr>) (policy_db [], []))).
      ha_host_id a = 1 \<and> ha_policy_set_id a = 20)"
proof -
  let ?req = "\<lparr> ar_policy_set_id = 20, ar_host_ids = [], ar_group_ids = [40] \<rparr>"
  have ok: "result (deploy_assign plain_lib 100 (sample_user Operator) ?req) (policy_db [], [])
     = Inr \<lparr> as_policy_set_id = 20, as_assigned_count = 1, as_host_ids = [1] \<rparr>"
    by code_simp
  have group: "(1, 40) \<in> set (db_host_groups (policy_db []))" by (simp add: policy_db_def)
  show ?thesis
    using deploy_assign_scoped [of plain_lib 100 "sample_user Operator" ?req "policy_db []" "[]"] ok group
    by (auto simp: asked_def)
qed

text \<open>The single-host handler does not apply the scoping: an operator can give an unflagged set to
any host, also to one of none of the operator's groups.\<close>

theorem assign_ignores_host_scope:
  assumes "auth_role u = Operator" and "check_policy_set_for_flagged (compiled_rules d p) = []"
    and "host_exists h d" and "set_exists p d" and "user_exists (auth_user_id u) d"
  shows "result (assign_policy_set L now u h p) (d, []) = Inr ()
    \<and> (\<exists>a \<in> set (db_assignments (db_after (assign_policy_set L now u h p) (d, []))).
         ha_host_id a = h \<and> ha_policy_set_id a = p)"
proof -
  have guards: "write_guard u (d, []) = (Inr (), d, [])" "flagged_gate L u p (d, []) = (Inr (), d, [])"
    using assms(1,2)
    by (simp_all add: write_guard_def flagged_gate_def can_write_def is_admin_def run_simps)
  then show ?thesis
    using assms(3-5)
    by (auto simp: assign_policy_set_def insert_assignment_def result_def db_after_def run_simps
        split: if_split)
qed

theorem assign_ignores_host_scope_witness:
  "result (assign_policy_set plain_lib 100 (sample_user Operator) 2 20) (policy_db [], []) = Inr ()
   \<and> \<not> may_access (policy_db []) (sample_user Operator) 2"
proof -
  have "auth_role (sample_user Operator) = Operator"
    "check_policy_set_for_flagged (compiled_rules (policy_db []) 20) = []"
    "host_exists 2 (policy_db [])" "set_exists 20 (policy_db [])"
    "user_exists (auth_user_id (sample_user Operator)) (policy_db [])"
    by code_simp+
  then show ?thesis
    using assign_ignores_host_scope
    by (simp add: may_access_def sample_user_def policy_db_def)
qed

end
