(* ===== verification/Mgr_Order.thy ===== *)
theory Mgr_Order
  imports Mgr_Db "HOL-Library.Product_Lexorder" "HOL-Library.Multiset"
begin

text \<open>Rows that carry their position.  Two handlers rewrite the positions of the rows of a parent (the
rules of a group in \<open>rule_groups.rs\<close>, the groups of a set in \<open>policy_sets.rs\<close>) by one \<open>UPDATE\<close> per
row in a transaction.  The locale \<open>ordered_rows\<close> is what they need of a row; its lemmas say that the
updates leave the rows of other parents alone and that the rows of the parent are then listed in the
order given.\<close>

section \<open>Positions\<close>

text \<open>The loop of a reordering writes positions one after the other.\<close>

lemma reorder_loop:
  "outcome (for_each (\<lambda>(n, i). exec (f n i)) (enumerate k ids)) d
     (\<lambda>_ d'. d' = foldl (\<lambda>d (n, i). f n i d) d (enumerate k ids))
     (\<lambda>_ _. True)"
proof (induction ids arbitrary: k d)
  case Nil
  then show ?case by (simp add: outcome_ret)
next
  case (Cons i ids)
  show ?case
    by (simp, intro outcome_bind outcome_exec outcome_mono [OF Cons.IH]) auto
qed

definition positions :: "nat \<Rightarrow> Uuid list \<Rightarrow> Uuid \<Rightarrow> nat option" where
  "positions k ids = map_of (zip ids [k..<k + length ids])"

lemma positions_Cons:
  "positions k (i # ids) j = (if j = i then Some k else positions (Suc k) ids j)"
  by (simp add: positions_def upt_conv_Cons del: upt_Suc)

lemma positions_None: "i \<notin> set ids \<Longrightarrow> positions k ids i = None"
  by (auto simp: positions_def map_of_eq_None_iff dest: set_zip_leftD)

lemma positions_Some: "i \<in> set ids \<Longrightarrow> \<exists>n. positions k ids i = Some n"
  by (induction ids arbitrary: k) (auto simp: positions_Cons)

text \<open>A list whose elements sit at strictly increasing positions is determined by its set.\<close>

lemma positions_list: "distinct ids \<Longrightarrow> map (\<lambda>i. the (positions k ids i)) ids = [k..<k + length ids]"
  by (intro nth_equalityI) (auto simp: positions_def map_of_zip_nth)

lemma positions_inj: "distinct ids \<Longrightarrow> inj_on (\<lambda>i. the (positions k ids i)) (set ids)"
  using distinct_upt [of k "k + length ids"] positions_list [of ids k, symmetric] by (simp add: distinct_map)

lemma sorted_positions_unique:
  assumes "distinct ids" and "distinct js" and "set js = set ids"
    and "sorted (map (\<lambda>i. the (positions k ids i)) js)"
  shows "js = ids"
proof -
  let ?pos = "\<lambda>i. the (positions k ids i)"
  note ids = positions_list [OF assms(1), of k] and inj = positions_inj [OF assms(1), of k]
  have "map ?pos js = map ?pos ids"
  proof (rule sorted_distinct_set_unique)
    show "distinct (map ?pos js)" using assms(2,3) inj by (simp add: distinct_map)
    show "sorted (map ?pos ids)" "distinct (map ?pos ids)" unfolding ids by simp_all
    show "set (map ?pos js) = set (map ?pos ids)" using assms(3) by simp
  qed (use assms(4) in simp)
  then show ?thesis
    using inj assms(3) by (auto intro: map_inj_on [of ?pos js ids])
qed

section \<open>Sorting a join\<close>

text \<open>Sorting the rows of a join by the parent's key first lists them parent by parent, when the keys of
the parents differ.\<close>

lemma concat_single:
  "distinct xs \<Longrightarrow> x \<in> set xs \<Longrightarrow> (\<And>y. y \<in> set xs \<Longrightarrow> y \<noteq> x \<Longrightarrow> G y = []) \<Longrightarrow>
     concat (map G xs) = G x"
proof (induction xs)
  case (Cons y xs)
  show ?case
  proof (cases "y = x")
    case True
    then have "concat (map G xs) = []" using Cons.prems by auto
    then show ?thesis using True by simp
  next
    case False
    then show ?thesis using Cons by simp
  qed
qed simp

definition join_rows :: "('p \<Rightarrow> int) \<Rightarrow> ('p \<Rightarrow> 'r list) \<Rightarrow> 'p list \<Rightarrow> (int \<times> 'r) list" where
  "join_rows f h xs = concat (map (\<lambda>x. map (\<lambda>r. (f x, r)) (h x)) xs)"

lemma join_rows_filter:
  assumes "distinct (map f xs)" and "x \<in> set xs"
  shows "filter (\<lambda>y. (f x, q r) = (fst y, q (snd y))) (join_rows f h xs)
    = map (\<lambda>r. (f x, r)) (filter (\<lambda>y. q r = q y) (h x))"
proof -
  have "distinct xs" using assms(1) by (simp add: distinct_map)
  moreover have "f x \<noteq> f y" if "y \<in> set xs" "y \<noteq> x" for y
    using that assms by (auto simp: distinct_map inj_on_def)
  ultimately have "concat (map (\<lambda>x'. filter (\<lambda>y. (f x, q r) = (fst y, q (snd y))) (map (\<lambda>r. (f x', r)) (h x'))) xs)
      = filter (\<lambda>y. (f x, q r) = (fst y, q (snd y))) (map (\<lambda>r. (f x, r)) (h x))"
    using assms(2) by (intro concat_single) (auto simp: filter_empty_conv)
  then show ?thesis by (simp add: join_rows_def filter_concat filter_map comp_def)
qed

lemma sorted_join_rows:
  assumes "sorted_wrt (<) (map f xs)" and "\<And>x. sorted (map q (h x))"
  shows "sorted (map (\<lambda>y. (fst y, q (snd y))) (join_rows f h xs))"
  using assms(1)
proof (induction xs)
  case (Cons x xs)
  have "sorted (map (\<lambda>r. (f x, q r)) (h x))"
    using assms(2) [of x] by (simp add: sorted_map)
  then show ?case
    using Cons by (auto simp: join_rows_def sorted_append comp_def)
qed (simp add: join_rows_def)

lemma sort_key_join:
  assumes "distinct (map f xs)"
  shows "sort_key (\<lambda>y. (fst y, q (snd y))) (join_rows f h xs)
    = join_rows f (\<lambda>x. sort_key q (h x)) (sort_key f xs)"
proof (rule properties_for_sort_key)
  have keys: "distinct (map f (sort_key f xs))" using assms by (simp add: distinct_map)
  show "mset (join_rows f (\<lambda>x. sort_key q (h x)) (sort_key f xs)) = mset (join_rows f h xs)"
    by (simp add: join_rows_def mset_concat comp_def flip: sum_mset_sum_list)
  show "sorted (map (\<lambda>y. (fst y, q (snd y))) (join_rows f (\<lambda>x. sort_key q (h x)) (sort_key f xs)))"
    by (rule sorted_join_rows) (use keys in \<open>auto simp: strict_sorted_iff\<close>)
  fix y assume "y \<in> set (join_rows f (\<lambda>x. sort_key q (h x)) (sort_key f xs))"
  then obtain x r where x: "x \<in> set xs" and y: "y = (f x, r)" by (auto simp: join_rows_def)
  have "filter (\<lambda>z. q r = q z) (sort_key q (h x)) = filter (\<lambda>z. q r = q z) (h x)"
    using sort_key_stable [of q "q r" "h x"] by (simp add: eq_commute)
  then show "filter (\<lambda>z. (fst y, q (snd y)) = (fst z, q (snd z)))
        (join_rows f (\<lambda>x. sort_key q (h x)) (sort_key f xs))
      = filter (\<lambda>z. (fst y, q (snd y)) = (fst z, q (snd z))) (join_rows f h xs)"
    using join_rows_filter [OF assms x, of q r h]
      join_rows_filter [OF keys, of x q r "\<lambda>x. sort_key q (h x)"] x
    by (simp add: y)
qed

section \<open>Rows with a position\<close>

text \<open>The row after the loop: a member whose key is in the list takes its position.\<close>

definition placed ::
  "('r \<Rightarrow> Uuid) \<Rightarrow> ('r \<Rightarrow> bool) \<Rightarrow> (int \<Rightarrow> 'r \<Rightarrow> 'r) \<Rightarrow> nat \<Rightarrow> Uuid list \<Rightarrow> 'r \<Rightarrow> 'r" where
  "placed key member place k ids r =
     (if member r
      then (case positions k ids (key r) of None \<Rightarrow> r | Some n \<Rightarrow> place (as_i32 n) r) else r)"

lemma distinct_sort_key: "distinct (map f (sort_key K xs)) = distinct (map f xs)"
  by (simp add: distinct_map)

lemma set_sort_key_map: "set (map f (sort_key K xs)) = set (map f xs)"
  by simp

locale ordered_rows =
  fixes key :: "'r \<Rightarrow> Uuid" and member :: "'r \<Rightarrow> bool" and order :: "'r \<Rightarrow> int"
    and place :: "int \<Rightarrow> 'r \<Rightarrow> 'r"
  assumes key_place [simp]: "key (place n r) = key r"
    and member_place [simp]: "member (place n r) = member r"
    and order_place [simp]: "order (place n r) = n"
begin

lemma placed_keeps [simp]:
  "key (placed key member place k ids r) = key r"
  "member (placed key member place k ids r) = member r"
  "\<not> member r \<Longrightarrow> placed key member place k ids r = r"
  by (simp_all add: placed_def split: option.split)

lemma place_loop:
  "distinct ids \<Longrightarrow>
     foldl (\<lambda>rows (n, i). update_where (\<lambda>r. member r \<and> key r = i) (place (as_i32 n)) rows)
       rows (enumerate k ids)
     = map (placed key member place k ids) rows"
proof (induction ids arbitrary: k rows)
  case Nil
  then show ?case by (simp add: placed_def positions_def map_idI)
next
  case (Cons i ids)
  then show ?case
    by (auto simp: update_where_def placed_def positions_Cons positions_None split: option.split)
qed

lemma placed_others:
  "filter (\<lambda>r. \<not> member r) (map (placed key member place k ids) rows) = filter (\<lambda>r. \<not> member r) rows"
  by (simp add: filter_map comp_def) (auto intro: map_idI)

lemma placed_order:
  assumes "distinct ids" and "length ids < 2 ^ 31" and "key r \<in> set ids" and "member r"
  shows "order (placed key member place 0 ids r) = int (the (positions 0 ids (key r)))"
proof -
  obtain n where n: "positions 0 ids (key r) = Some n" using positions_Some assms(3) by blast
  have "n < length ids"
    using n assms(3) by (auto simp: positions_def dest!: map_of_SomeD set_zip_rightD)
  then show ?thesis using n assms(2,4) by (simp add: placed_def as_i32_def)
qed

lemma placed_lists:
  assumes "distinct (map key (filter member rows))" and "distinct ids" and "length ids < 2 ^ 31"
    and "set ids = set (map key (filter member rows))"
    and sort: "\<And>a b. K a \<le> K b \<Longrightarrow> order a \<le> order b"
  shows "map key (sort_key K (filter member (map (placed key member place 0 ids) rows))) = ids"
proof (rule sorted_positions_unique [OF assms(2)])
  let ?rows = "filter member (map (placed key member place 0 ids) rows)"
  have keys: "map key ?rows = map key (filter member rows)" by (simp add: filter_map comp_def)
  show "distinct (map key (sort_key K ?rows))"
    unfolding distinct_sort_key keys by (rule assms(1))
  show "set (map key (sort_key K ?rows)) = set ids"
    unfolding set_sort_key_map keys assms(4) ..
  have order: "order r = int (the (positions 0 ids (key r)))" if "r \<in> set (sort_key K ?rows)" for r
    using that assms(4) by (auto simp: filter_map comp_def intro!: placed_order [OF assms(2,3)])
  have "sorted_wrt (\<lambda>a b. K a \<le> K b) (sort_key K ?rows)"
    using sorted_sort_key [of K ?rows] by (simp add: sorted_map)
  then have "sorted_wrt (\<lambda>a b. the (positions 0 ids (key a)) \<le> the (positions 0 ids (key b)))
      (sort_key K ?rows)"
    by (rule sorted_wrt_mono_rel [rotated]) (use order sort in fastforce)
  then show "sorted (map (\<lambda>i. the (positions 0 ids i)) (map key (sort_key K ?rows)))"
    by (simp add: sorted_map)
qed

lemma placed_orders_distinct:
  assumes "distinct (map key (filter member rows))" and "distinct ids" and "length ids < 2 ^ 31"
    and "set ids = set (map key (filter member rows))"
  shows "distinct (map order (filter member (map (placed key member place 0 ids) rows)))"
proof -
  have "map order (filter member (map (placed key member place 0 ids) rows))
      = map int (map (\<lambda>i. the (positions 0 ids i)) (map key (filter member rows)))"
    using assms(4) by (auto simp: filter_map comp_def intro!: placed_order [OF assms(2,3)])
  moreover have "distinct (map (\<lambda>i. the (positions 0 ids i)) (map key (filter member rows)))"
    unfolding distinct_map [of _ "map key (filter member rows)"]
    using assms(1,4) positions_inj [OF assms(2), of 0] by simp
  ultimately show ?thesis by (simp add: distinct_map inj_on_def)
qed

end

end
