(* ===== verification/Mgr_Rules.thy ===== *)
theory Mgr_Rules
  imports Mgr_Assign Mgr_Order
begin

text \<open>Rules and rule groups: \<open>fw-web/src/routes/rules.rs\<close> and \<open>fw-web/src/routes/rule_groups.rs\<close>.
The constraints of the tables (unique names, port ranges, the group of a rule, the groups of a set)
are part of the statements.  Parameters are the database's normal form of an address (\<open>None\<close> when the
cast to \<open>INET\<close> fails), the collation it sorts names with, and the identifiers it generates.\<close>

section \<open>Statements\<close>

type_synonym inet_cast = "string \<Rightarrow> string option"

definition coalesce :: "'a option \<Rightarrow> 'a \<Rightarrow> 'a" where
  "coalesce x y = (case x of None \<Rightarrow> y | Some a \<Rightarrow> a)"

definition coalesce_opt :: "'a option \<Rightarrow> 'a option \<Rightarrow> 'a option" where
  "coalesce_opt x y = (case x of None \<Rightarrow> y | Some a \<Rightarrow> Some a)"

text \<open>The cast of an optional value; an error is the outer \<open>None\<close>.\<close>

definition cast_opt :: "inet_cast \<Rightarrow> string option \<Rightarrow> string option option" where
  "cast_opt inet x = (case x of None \<Rightarrow> Some None | Some s \<Rightarrow> map_option Some (inet s))"

definition port_ok :: "int option \<Rightarrow> bool" where
  "port_ok p \<longleftrightarrow> (case p of None \<Rightarrow> True | Some n \<Rightarrow> 1 \<le> n \<and> n \<le> 65535)"

definition ports_ok :: "int option \<Rightarrow> int option \<Rightarrow> bool" where
  "ports_ok s e \<longleftrightarrow> port_ok s \<and> port_ok e \<and>
     (case (s, e) of (None, None) \<Rightarrow> True | (Some a, Some b) \<Rightarrow> a \<le> b | _ \<Rightarrow> False)"

definition rule_checks :: "FirewallRule \<Rightarrow> bool" where
  "rule_checks r \<longleftrightarrow> ports_ok (fr_src_port_start r) (fr_src_port_end r)
     \<and> ports_ok (fr_dst_port_start r) (fr_dst_port_end r)"

definition group_exists :: "Uuid \<Rightarrow> db \<Rightarrow> bool" where
  "group_exists g d \<longleftrightarrow> g \<in> set (map rg_id (db_rule_groups d))"

text \<open>\<open>COALESCE(MAX(...), -1) + 1\<close>.\<close>

definition next_order :: "int list \<Rightarrow> int" where
  "next_order os = (if os = [] then 0 else Max (set os) + 1)"

record CreateRuleRequest =
  cq_name :: string
  cq_description :: "string option"
  cq_action :: FirewallAction
  cq_direction :: FirewallDirection
  cq_protocol :: FirewallProtocol
  cq_src_cidr :: "string option"
  cq_src_port_start :: "int option"
  cq_src_port_end :: "int option"
  cq_dst_cidr :: "string option"
  cq_dst_port_start :: "int option"
  cq_dst_port_end :: "int option"
  cq_interface_in :: "string option"
  cq_interface_out :: "string option"
  cq_comment :: "string option"
  cq_log :: "bool option"
  cq_priority :: "int option"
  cq_group_order :: "int option"

definition new_rule ::
  "DateTime \<Rightarrow> Uuid \<Rightarrow> Uuid \<Rightarrow> CreateRuleRequest \<Rightarrow> string option \<Rightarrow> string option \<Rightarrow> FirewallRule" where
  "new_rule now i u req src dst =
     \<lparr> fr_id = i, fr_name = cq_name req, fr_description = coalesce (cq_description req) [],
       fr_action = cq_action req, fr_direction = cq_direction req, fr_protocol = cq_protocol req,
       fr_src_cidr = src, fr_src_port_start = cq_src_port_start req,
       fr_src_port_end = cq_src_port_end req, fr_dst_cidr = dst,
       fr_dst_port_start = cq_dst_port_start req, fr_dst_port_end = cq_dst_port_end req,
       fr_interface_in = cq_interface_in req, fr_interface_out = cq_interface_out req,
       fr_comment = coalesce (cq_comment req) [], fr_log = coalesce (cq_log req) False,
       fr_priority = coalesce (cq_priority req) 1000, fr_created_by = Some u,
       fr_created_at = now, fr_updated_at = now \<rparr>"

definition group_orders :: "Uuid \<Rightarrow> db \<Rightarrow> int list" where
  "group_orders g d = map rl_group_order (filter (\<lambda>r. rl_group_id r = g) (db_rules d))"

definition insert_rule ::
  "inet_cast \<Rightarrow> DateTime \<Rightarrow> Uuid \<Rightarrow> Uuid \<Rightarrow> Uuid \<Rightarrow> CreateRuleRequest \<Rightarrow> FirewallRule dbm" where
  "insert_rule inet now i u g req =
     stmt (\<lambda>d. case (cast_opt inet (cq_src_cidr req), cast_opt inet (cq_dst_cidr req)) of
        (Some src, Some dst) \<Rightarrow>
          (let r = new_rule now i u req src dst;
               order = coalesce (cq_group_order req) (next_order (group_orders g d))
           in if \<not> i32_range order then Inl OtherSqlError
              else if \<not> rule_checks r then Inl CheckViolation
              else if i \<in> set (map (\<lambda>x. fr_id (rl_rule x)) (db_rules d))
                   \<or> cq_name req \<in> set (map (\<lambda>x. fr_name (rl_rule x)) (db_rules d))
              then Inl UniqueViolation
              else if \<not> group_exists g d \<or> \<not> user_exists u d then Inl ForeignKeyViolation
              else Inr (r, d \<lparr> db_rules := db_rules d
                     @ [\<lparr> rl_rule = r, rl_group_id = g, rl_group_order = order \<rparr>] \<rparr>))
      | _ \<Rightarrow> Inl OtherSqlError)"

definition insert_decision :: "Uuid \<Rightarrow> Uuid \<Rightarrow> string \<Rightarrow> string \<Rightarrow> unit dbm" where
  "insert_decision i rule decision reason =
     stmt (\<lambda>d. if rule \<in> set (map (\<lambda>x. fr_id (rl_rule x)) (db_rules d))
               then Inr ((), d \<lparr> db_decisions := db_decisions d
                      @ [\<lparr> pd_id = i, pd_rule_id = Some rule, pd_decision = decision,
                           pd_reason = reason \<rparr>] \<rparr>)
               else Inl ForeignKeyViolation)"

definition policy_decision :: "FirewallRule \<Rightarrow> string" where
  "policy_decision r =
     (if pc_requires_approval (check_rule r) then ''flagged'' else ''auto_approved'')"

section \<open>Rules in a group\<close>

definition create_rule_in_group ::
  "inet_cast \<Rightarrow> audit_lib \<Rightarrow> DateTime \<Rightarrow> Uuid \<times> Uuid \<Rightarrow> AuthUser \<Rightarrow> Uuid \<Rightarrow> CreateRuleRequest
     \<Rightarrow> FirewallRule dbm" where
  "create_rule_in_group inet L now ids u g req =
     bind (write_guard u) (\<lambda>_.
     bind (insert_rule inet now (fst ids) (auth_user_id u) g req) (\<lambda>rule.
     bind (ignore (insert_decision (snd ids) (fr_id rule) (policy_decision rule)
             (pc_reason (check_rule rule)))) (\<lambda>_.
     bind (log_event L now (auth_event u ''rule_created'' ''rule'' (Some (al_uuid_str L (fr_id rule)))
             [(''name'', fr_name rule), (''rule_group_id'', al_uuid_str L g),
              (''policy_decision'', policy_decision rule)])) (\<lambda>_.
     ret rule))))"

definition list_group_rules :: "Uuid \<Rightarrow> FirewallRule list dbm" where
  "list_group_rules g =
     query (\<lambda>d. map rl_rule (sort_key (\<lambda>r. (rl_group_order r, fr_priority (rl_rule r)))
                  (filter (\<lambda>r. rl_group_id r = g) (db_rules d))))"

definition set_group_order :: "Uuid \<Rightarrow> Uuid \<Rightarrow> int \<Rightarrow> db \<Rightarrow> db" where
  "set_group_order g i order d =
     d \<lparr> db_rules := update_where (\<lambda>r. rl_group_id r = g \<and> fr_id (rl_rule r) = i)
          (\<lambda>r. r \<lparr> rl_group_order := order \<rparr>) (db_rules d) \<rparr>"

text \<open>\<open>begin\<close> and \<open>commit\<close> are statements too, and the loop runs between them.\<close>

definition in_transaction :: "unit dbm \<Rightarrow> unit dbm" where
  "in_transaction body =
     transaction (bind (query (\<lambda>_. ())) (\<lambda>_. bind body (\<lambda>_. query (\<lambda>_. ()))))"

definition reorder_group_rules ::
  "audit_lib \<Rightarrow> DateTime \<Rightarrow> AuthUser \<Rightarrow> Uuid \<Rightarrow> Uuid list \<Rightarrow> unit dbm" where
  "reorder_group_rules L now u g ids =
     bind (write_guard u) (\<lambda>_.
     bind (in_transaction (for_each (\<lambda>(n, i). exec (set_group_order g i (as_i32 n)))
             (enumerate 0 ids))) (\<lambda>_.
     log_event L now (auth_event u ''rule_group_changed'' ''rule_group'' (Some (al_uuid_str L g))
       [(''action'', ''rules_reordered''), (''count'', show_nat (length ids))])))"

section \<open>Rules\<close>

definition list_rules :: "(string \<Rightarrow> 'k::linorder) \<Rightarrow> (FirewallRule list \<times> int) dbm" where
  "list_rules collate =
     bind (query (\<lambda>d. sort_key (\<lambda>r. (fr_priority r, collate (fr_name r))) (map rl_rule (db_rules d))))
       (\<lambda>rules. ret (rules, int (length rules)))"

definition list_flagged_rules :: "(string \<Rightarrow> 'k::linorder) \<Rightarrow> FirewallRule list dbm" where
  "list_flagged_rules collate =
     bind (query (\<lambda>d. sort_key (\<lambda>r. (fr_priority r, collate (fr_name r))) (map rl_rule (db_rules d))))
       (\<lambda>rules. ret (filter (\<lambda>r. pc_requires_approval (check_rule r)) rules))"

definition find_rule :: "Uuid \<Rightarrow> db \<Rightarrow> FirewallRule option" where
  "find_rule i d = find (\<lambda>r. fr_id r = i) (map rl_rule (db_rules d))"

definition get_rule :: "Uuid \<Rightarrow> FirewallRule dbm" where
  "get_rule i = bind (query (find_rule i)) (require (NotFound ''Rule not found''))"

record UpdateRuleRequest =
  uq_name :: "string option"
  uq_description :: "string option"
  uq_action :: "FirewallAction option"
  uq_direction :: "FirewallDirection option"
  uq_protocol :: "FirewallProtocol option"
  uq_src_cidr :: "string option"
  uq_src_port_start :: "int option"
  uq_src_port_end :: "int option"
  uq_dst_cidr :: "string option"
  uq_dst_port_start :: "int option"
  uq_dst_port_end :: "int option"
  uq_interface_in :: "string option"
  uq_interface_out :: "string option"
  uq_comment :: "string option"
  uq_log :: "bool option"
  uq_priority :: "int option"

definition changed_rule ::
  "DateTime \<Rightarrow> UpdateRuleRequest \<Rightarrow> string option \<Rightarrow> string option \<Rightarrow> FirewallRule \<Rightarrow> FirewallRule" where
  "changed_rule now req src dst r =
     r \<lparr> fr_name := coalesce (uq_name req) (fr_name r),
         fr_description := coalesce (uq_description req) (fr_description r),
         fr_action := coalesce (uq_action req) (fr_action r),
         fr_direction := coalesce (uq_direction req) (fr_direction r),
         fr_protocol := coalesce (uq_protocol req) (fr_protocol r),
         fr_src_cidr := coalesce_opt src (fr_src_cidr r),
         fr_src_port_start := coalesce_opt (uq_src_port_start req) (fr_src_port_start r),
         fr_src_port_end := coalesce_opt (uq_src_port_end req) (fr_src_port_end r),
         fr_dst_cidr := coalesce_opt dst (fr_dst_cidr r),
         fr_dst_port_start := coalesce_opt (uq_dst_port_start req) (fr_dst_port_start r),
         fr_dst_port_end := coalesce_opt (uq_dst_port_end req) (fr_dst_port_end r),
         fr_interface_in := coalesce_opt (uq_interface_in req) (fr_interface_in r),
         fr_interface_out := coalesce_opt (uq_interface_out req) (fr_interface_out r),
         fr_comment := coalesce (uq_comment req) (fr_comment r),
         fr_log := coalesce (uq_log req) (fr_log r),
         fr_priority := coalesce (uq_priority req) (fr_priority r), fr_updated_at := now \<rparr>"

text \<open>\<open>UPDATE ... RETURNING\<close>: \<open>None\<close> when no row has the identifier.\<close>

definition update_rule_row ::
  "inet_cast \<Rightarrow> DateTime \<Rightarrow> Uuid \<Rightarrow> UpdateRuleRequest \<Rightarrow> FirewallRule option dbm" where
  "update_rule_row inet now i req =
     stmt (\<lambda>d. case (cast_opt inet (uq_src_cidr req), cast_opt inet (uq_dst_cidr req)) of
        (Some src, Some dst) \<Rightarrow>
          (case find_rule i d of
             None \<Rightarrow> Inr (None, d)
           | Some r \<Rightarrow>
               (let r' = changed_rule now req src dst r
                in if \<not> rule_checks r' then Inl CheckViolation
                   else if \<exists>x \<in> set (db_rules d). fr_id (rl_rule x) \<noteq> i \<and> fr_name (rl_rule x) = fr_name r'
                   then Inl UniqueViolation
                   else Inr (Some r', d \<lparr> db_rules := update_where (\<lambda>x. fr_id (rl_rule x) = i)
                          (\<lambda>x. x \<lparr> rl_rule := changed_rule now req src dst (rl_rule x) \<rparr>)
                          (db_rules d) \<rparr>)))
      | _ \<Rightarrow> Inl OtherSqlError)"

definition update_rule ::
  "inet_cast \<Rightarrow> audit_lib \<Rightarrow> DateTime \<Rightarrow> AuthUser \<Rightarrow> Uuid \<Rightarrow> UpdateRuleRequest \<Rightarrow> FirewallRule dbm" where
  "update_rule inet L now u i req =
     bind (write_guard u) (\<lambda>_.
     bind (update_rule_row inet now i req) (\<lambda>found.
     bind (require (NotFound ''Rule not found'') found) (\<lambda>rule.
     bind (log_event L now (auth_event u ''rule_updated'' ''rule'' (Some (al_uuid_str L (fr_id rule)))
             [(''name'', fr_name rule)])) (\<lambda>_.
     ret rule))))"

text \<open>\<open>DELETE\<close> with the number of rows affected; decisions about the rule lose their reference.\<close>

definition forget_rules :: "(Uuid \<Rightarrow> bool) \<Rightarrow> RulePolicyDecision list \<Rightarrow> RulePolicyDecision list" where
  "forget_rules gone ds =
     update_where (\<lambda>p. case pd_rule_id p of None \<Rightarrow> False | Some i \<Rightarrow> gone i)
       (\<lambda>p. p \<lparr> pd_rule_id := None \<rparr>) ds"

definition delete_rule_row :: "Uuid \<Rightarrow> nat dbm" where
  "delete_rule_row i =
     stmt (\<lambda>d. Inr (length (filter (\<lambda>x. fr_id (rl_rule x) = i) (db_rules d)),
                    d \<lparr> db_rules := filter (\<lambda>x. fr_id (rl_rule x) \<noteq> i) (db_rules d),
                       db_decisions := forget_rules (\<lambda>j. j = i) (db_decisions d) \<rparr>))"

definition delete_rule :: "audit_lib \<Rightarrow> DateTime \<Rightarrow> AuthUser \<Rightarrow> Uuid \<Rightarrow> unit dbm" where
  "delete_rule L now u i =
     bind (write_guard u) (\<lambda>_.
     bind (delete_rule_row i) (\<lambda>n.
     bind (guard (NotFound ''Rule not found'') (n \<noteq> 0)) (\<lambda>_.
     log_event L now (auth_event u ''rule_deleted'' ''rule'' (Some (al_uuid_str L i)) []))))"

record ValidateRuleResponse =
  vr_allowed :: bool
  vr_requires_approval :: bool
  vr_reason :: string
  vr_protected_cidr_check :: "string option"

definition validate_rule :: "'n ipnet_api \<Rightarrow> Uuid \<Rightarrow> ValidateRuleResponse dbm" where
  "validate_rule N i =
     bind (query (find_rule i)) (\<lambda>found.
     bind (require (NotFound ''Rule not found'') found) (\<lambda>rule.
     bind (query (\<lambda>d. remdups (map pr_cidr (db_protected d)))) (\<lambda>cidrs.
     let policy = check_rule rule; cidr = check_against_protected_cidrs N rule cidrs
     in ret \<lparr> vr_allowed = (pc_allowed policy \<and> pc_allowed cidr),
              vr_requires_approval = pc_requires_approval policy,
              vr_reason = (if \<not> pc_allowed cidr then pc_reason cidr else pc_reason policy),
              vr_protected_cidr_check = (if \<not> pc_allowed cidr then Some (pc_reason cidr) else None) \<rparr>)))"

section \<open>Rule groups\<close>

record RuleGroupWithCounts =
  rc_group :: FirewallRuleGroup
  rc_rule_count :: nat
  rc_used_by_count :: nat

definition group_rule_count :: "Uuid \<Rightarrow> db \<Rightarrow> nat" where
  "group_rule_count g d = length (filter (\<lambda>r. rl_group_id r = g) (db_rules d))"

definition group_used_by :: "Uuid \<Rightarrow> db \<Rightarrow> nat" where
  "group_used_by g d = length (filter (\<lambda>p. pg_rule_group_id p = g) (db_psrg d))"

definition list_rule_groups :: "(string \<Rightarrow> 'k::linorder) \<Rightarrow> (RuleGroupWithCounts list \<times> int) dbm" where
  "list_rule_groups collate =
     bind (query (\<lambda>d. map (\<lambda>g. \<lparr> rc_group = g, rc_rule_count = group_rule_count (rg_id g) d,
                                 rc_used_by_count = group_used_by (rg_id g) d \<rparr>)
                       (sort_key (\<lambda>g. collate (rg_name g)) (db_rule_groups d))))
       (\<lambda>groups. ret (groups, int (length groups)))"

definition insert_rule_group ::
  "DateTime \<Rightarrow> Uuid \<Rightarrow> string \<Rightarrow> string \<Rightarrow> Uuid \<Rightarrow> FirewallRuleGroup dbm" where
  "insert_rule_group now i name desc u =
     stmt (\<lambda>d. if group_exists i d then Inl UniqueViolation
               else if \<not> user_exists u d then Inl ForeignKeyViolation
               else (let g = \<lparr> rg_id = i, rg_name = name, rg_description = desc,
                               rg_created_by = Some u, rg_created_at = now, rg_updated_at = now \<rparr>
                     in Inr (g, d \<lparr> db_rule_groups := db_rule_groups d @ [g] \<rparr>)))"

definition create_rule_group ::
  "audit_lib \<Rightarrow> DateTime \<Rightarrow> Uuid \<Rightarrow> AuthUser \<Rightarrow> string \<Rightarrow> string option \<Rightarrow> FirewallRuleGroup dbm" where
  "create_rule_group L now i u name desc =
     bind (write_guard u) (\<lambda>_.
     bind (insert_rule_group now i name (coalesce desc []) (auth_user_id u)) (\<lambda>g.
     bind (log_event L now (auth_event u ''rule_group_created'' ''rule_group''
             (Some (al_uuid_str L (rg_id g))) [(''name'', rg_name g)])) (\<lambda>_.
     ret g)))"

definition find_rule_group :: "Uuid \<Rightarrow> db \<Rightarrow> FirewallRuleGroup option" where
  "find_rule_group g d = find (\<lambda>x. rg_id x = g) (db_rule_groups d)"

definition get_rule_group :: "Uuid \<Rightarrow> FirewallRuleGroup dbm" where
  "get_rule_group g = bind (query (find_rule_group g)) (require (NotFound ''Rule group not found''))"

definition changed_group ::
  "DateTime \<Rightarrow> string option \<Rightarrow> string option \<Rightarrow> FirewallRuleGroup \<Rightarrow> FirewallRuleGroup" where
  "changed_group now name desc g =
     g \<lparr> rg_name := coalesce name (rg_name g), rg_description := coalesce desc (rg_description g),
         rg_updated_at := now \<rparr>"

definition update_rule_group_row ::
  "DateTime \<Rightarrow> Uuid \<Rightarrow> string option \<Rightarrow> string option \<Rightarrow> FirewallRuleGroup option dbm" where
  "update_rule_group_row now g name desc =
     stmt (\<lambda>d. Inr (map_option (changed_group now name desc) (find_rule_group g d),
                    d \<lparr> db_rule_groups := update_where (\<lambda>x. rg_id x = g) (changed_group now name desc)
                         (db_rule_groups d) \<rparr>))"

definition update_rule_group ::
  "audit_lib \<Rightarrow> DateTime \<Rightarrow> AuthUser \<Rightarrow> Uuid \<Rightarrow> string option \<Rightarrow> string option
     \<Rightarrow> FirewallRuleGroup dbm" where
  "update_rule_group L now u g name desc =
     bind (write_guard u) (\<lambda>_.
     bind (update_rule_group_row now g name desc) (\<lambda>found.
     bind (require (NotFound ''Rule group not found'') found) (\<lambda>x.
     bind (log_event L now (auth_event u ''rule_group_changed'' ''rule_group''
             (Some (al_uuid_str L (rg_id x))) [(''name'', rg_name x)])) (\<lambda>_.
     ret x))))"

text \<open>Deleting a group deletes its rules, and is refused while a set uses it.\<close>

definition delete_rule_group_row :: "Uuid \<Rightarrow> nat dbm" where
  "delete_rule_group_row g =
     stmt (\<lambda>d. if group_exists g d \<and> 0 < group_used_by g d then Inl ForeignKeyViolation
               else Inr (length (filter (\<lambda>x. rg_id x = g) (db_rule_groups d)),
                    d \<lparr> db_rule_groups := filter (\<lambda>x. rg_id x \<noteq> g) (db_rule_groups d),
                       db_rules := filter (\<lambda>r. rl_group_id r \<noteq> g) (db_rules d),
                       db_decisions := forget_rules
                         (\<lambda>j. \<exists>r \<in> set (db_rules d). rl_group_id r = g \<and> fr_id (rl_rule r) = j)
                         (db_decisions d) \<rparr>))"

definition delete_rule_group :: "audit_lib \<Rightarrow> DateTime \<Rightarrow> AuthUser \<Rightarrow> Uuid \<Rightarrow> unit dbm" where
  "delete_rule_group L now u g =
     bind (write_guard u) (\<lambda>_.
     bind (query (group_used_by g)) (\<lambda>used.
     bind (guard (Conflict (''Rule group is used by '' @ show_nat used
              @ '' policy set(s); remove it from those sets before deleting'')) (used = 0)) (\<lambda>_.
     bind (delete_rule_group_row g) (\<lambda>n.
     bind (guard (NotFound ''Rule group not found'') (n \<noteq> 0)) (\<lambda>_.
     log_event L now (auth_event u ''rule_group_deleted'' ''rule_group'' (Some (al_uuid_str L g)) []))))))"

section \<open>Facts\<close>

lemma outcome_in_transaction [outcome_intros]:
  assumes "outcome body d (\<lambda>_ d'. Q () d' \<and> E (Database OtherSqlError) d) (\<lambda>e _. E e d)"
    and "E (Database OtherSqlError) d"
  shows "outcome (in_transaction body) d Q E"
  unfolding in_transaction_def
  by (intro outcome_transaction outcome_bind outcome_query outcome_mono [OF assms(1)])
    (use assms(2) in \<open>auto intro: outcome_query\<close>)

text \<open>The rules of a group are rows with a position.\<close>

interpretation rule_order: ordered_rows "\<lambda>r. fr_id (rl_rule r)" "\<lambda>r. rl_group_id r = g" rl_group_order
    "\<lambda>n r. r \<lparr> rl_group_order := n \<rparr>" for g
  by unfold_locales simp_all

abbreviation reordered :: "Uuid \<Rightarrow> Uuid list \<Rightarrow> rule_row \<Rightarrow> rule_row" where
  "reordered g ids \<equiv> placed (\<lambda>r. fr_id (rl_rule r)) (\<lambda>r. rl_group_id r = g)
     (\<lambda>n r. r \<lparr> rl_group_order := n \<rparr>) 0 ids"

lemma set_group_order_loop:
  "db_rules (foldl (\<lambda>d (n, i). set_group_order g i (as_i32 n) d) d xs)
   = foldl (\<lambda>rows (n, i). update_where (\<lambda>r. rl_group_id r = g \<and> fr_id (rl_rule r) = i)
       (\<lambda>r. r \<lparr> rl_group_order := as_i32 n \<rparr>) rows) (db_rules d) xs"
  by (induction xs arbitrary: d) (auto simp: set_group_order_def)

lemma reorder_outcome:
  "outcome (reorder_group_rules L now u g ids) d
     (\<lambda>_ d'. db_rules d' = db_rules
        (foldl (\<lambda>d (n, i). set_group_order g i (as_i32 n) d) d (enumerate 0 ids)))
     (\<lambda>_ d'. d' = d)"
  unfolding reorder_group_rules_def
  by (intro outcome_bind outcome_write_guard outcome_in_transaction
      outcome_mono [OF reorder_loop] outcome_log_event conjI refl) auto

lemma list_group_rules_run:
  "result (list_group_rules g) (d, []) = Inr (map rl_rule
     (sort_key (\<lambda>r. (rl_group_order r, fr_priority (rl_rule r)))
        (filter (\<lambda>r. rl_group_id r = g) (db_rules d))))"
  by (simp add: list_group_rules_def result_def run_simps)

section \<open>Properties\<close>

text \<open>C24. Reordering a group is atomic and does what it says: given the identifiers of the group's rules
in a new order, either the request fails and no rule has changed, or the group lists its rules in
the given order and every rule of every other group is as it was.\<close>

theorem reorder_group_rules_correct:
  assumes "distinct (map (\<lambda>r. fr_id (rl_rule r)) (db_rules d))" and "distinct ids"
    and "length ids < 2 ^ 31"
    and "set ids = set (map (\<lambda>r. fr_id (rl_rule r)) (filter (\<lambda>r. rl_group_id r = g) (db_rules d)))"
  shows "let d' = db_after (reorder_group_rules L now u g ids) (d, fs)
    in case result (reorder_group_rules L now u g ids) (d, fs) of
         Inl _ \<Rightarrow> db_rules d' = db_rules d
       | Inr _ \<Rightarrow> (\<exists>rules. result (list_group_rules g) (d', []) = Inr rules \<and> map fr_id rules = ids)
           \<and> filter (\<lambda>r. rl_group_id r \<noteq> g) (db_rules d') = filter (\<lambda>r. rl_group_id r \<noteq> g) (db_rules d)"
proof (cases "result (reorder_group_rules L now u g ids) (d, fs)")
  case (Inl e)
  then show ?thesis using outcomeD [OF reorder_outcome [of L now u g ids d], of fs] by simp
next
  case (Inr v)
  have "distinct (map (\<lambda>r. fr_id (rl_rule r)) (filter (\<lambda>r. rl_group_id r = g) (db_rules d)))"
    using assms(1) by (rule distinct_map_filter)
  then have lists: "map (\<lambda>r. fr_id (rl_rule r)) (sort_key (\<lambda>r. (rl_group_order r, fr_priority (rl_rule r)))
      (filter (\<lambda>r. rl_group_id r = g) (map (reordered g ids) (db_rules d)))) = ids"
    using assms(2-4) by (rule rule_order.placed_lists) (auto simp: less_eq_prod_def)
  have "db_rules (db_after (reorder_group_rules L now u g ids) (d, fs)) = map (reordered g ids) (db_rules d)"
    using outcomeD [OF reorder_outcome [of L now u g ids d], of fs] Inr
      rule_order.place_loop [OF assms(2), of g "db_rules d" 0]
    by (simp add: set_group_order_loop)
  then show ?thesis
    using Inr lists rule_order.placed_others [of g 0 ids "db_rules d"]
    by (simp add: list_group_rules_run comp_def)
qed

definition two_rule_db :: db where
  "two_rule_db = policy_db [plain_rule 7 Allow, plain_rule 8 Deny \<lparr> fr_name := ''s'' \<rparr>]"

theorem reorder_group_rules_correct_witness:
  "\<exists>rules. result (list_group_rules 30) (db_after (reorder_group_rules plain_lib 100
      (sample_user Operator) 30 [8, 7]) (two_rule_db, []), []) = Inr rules \<and> map fr_id rules = [8, 7]"
proof -
  have rules: "db_rules two_rule_db = [\<lparr> rl_rule = plain_rule 7 Allow, rl_group_id = 30, rl_group_order = 0 \<rparr>,
      \<lparr> rl_rule = plain_rule 8 Deny \<lparr> fr_name := ''s'' \<rparr>, rl_group_id = 30, rl_group_order = 0 \<rparr>]"
    by (simp add: two_rule_db_def policy_db_def)
  have "distinct (map (\<lambda>r. fr_id (rl_rule r)) (db_rules two_rule_db))"
    "set [8, 7] = set (map (\<lambda>r. fr_id (rl_rule r))
       (filter (\<lambda>r. rl_group_id r = 30) (db_rules two_rule_db)))"
    by (auto simp: rules plain_rule_def)
  moreover have "result (reorder_group_rules plain_lib 100 (sample_user Operator) 30 [8, 7])
      (two_rule_db, []) = Inr ()"
    by code_simp
  ultimately show ?thesis
    using reorder_group_rules_correct [of two_rule_db "[8, 7]" 30 plain_lib 100 "sample_user Operator" "[]"]
    by (auto simp: Let_def)
qed

lemma create_rule_outcome:
  "outcome (create_rule_in_group inet L now ids u g req) d
     (\<lambda>rule d'. db_psrg d' = db_psrg d \<and> db_assignments d' = db_assignments d
        \<and> (\<exists>order. db_rules d' = db_rules d
              @ [\<lparr> rl_rule = rule, rl_group_id = g, rl_group_order = order \<rparr>])
        \<and> rule_checks rule \<and> fr_created_by rule = Some (auth_user_id u))
     (\<lambda>_ d'. db_rules d' = db_rules d)"
  unfolding create_rule_in_group_def insert_rule_def insert_decision_def
  by (intro outcome_intros outcome_stmt)
    (auto simp: Let_def new_rule_def split: option.splits if_split_asm)

text \<open>The approval gate looks at the rules a set has when it is assigned.  An operator may add a
rule that needs approval to a group of a set that is assigned already: the rule is stored, and the
compiled rules of the set, which its hosts fetch at their next check-in, contain it.\<close>

theorem flagged_rule_joins_assigned_set:
  assumes "result (create_rule_in_group inet L now ids u g req) (d, fs) = Inr rule"
    and "pc_requires_approval (check_rule rule)"
    and "x \<in> set (db_psrg d)" and "pg_rule_group_id x = g"
  shows "rule \<in> set (compiled_rules
            (db_after (create_rule_in_group inet L now ids u g req) (d, fs)) (pg_policy_set_id x))
    \<and> db_assignments (db_after (create_rule_in_group inet L now ids u g req) (d, fs)) = db_assignments d"
proof -
  obtain order where "db_rules (db_after (create_rule_in_group inet L now ids u g req) (d, fs))
      = db_rules d @ [\<lparr> rl_rule = rule, rl_group_id = g, rl_group_order = order \<rparr>]"
    and "db_psrg (db_after (create_rule_in_group inet L now ids u g req) (d, fs)) = db_psrg d"
    and "db_assignments (db_after (create_rule_in_group inet L now ids u g req) (d, fs)) = db_assignments d"
    using outcomeD [OF create_rule_outcome [of inet L now ids u g req d], of fs] assms(1) by auto
  then show ?thesis
    using assms(3,4)
    by (auto simp: set_compiled_rules
        intro!: exI [of _ "\<lparr> rl_rule = rule, rl_group_id = g, rl_group_order = order \<rparr>"])
qed

definition open_rule_request :: CreateRuleRequest where
  "open_rule_request =
     \<lparr> cq_name = ''open'', cq_description = None, cq_action = Allow, cq_direction = In,
       cq_protocol = Any, cq_src_cidr = None, cq_src_port_start = None, cq_src_port_end = None,
       cq_dst_cidr = None, cq_dst_port_start = None, cq_dst_port_end = None,
       cq_interface_in = None, cq_interface_out = None, cq_comment = None, cq_log = None,
       cq_priority = None, cq_group_order = None \<rparr>"

definition assigned_db :: db where
  "assigned_db = (policy_db [])
     \<lparr> db_rule_groups := [\<lparr> rg_id = 30, rg_name = ''g'', rg_description = [], rg_created_by = None,
         rg_created_at = 0, rg_updated_at = 0 \<rparr>],
       db_assignments := [\<lparr> ha_host_id = 1, ha_policy_set_id = 20, ha_assigned_by = None,
         ha_assigned_at = 0 \<rparr>] \<rparr>"

theorem flagged_rule_joins_assigned_set_witness:
  "\<exists>rule. rule \<in> set (compiled_rules (db_after (create_rule_in_group Some plain_lib 100 (9, 10)
        (sample_user Operator) 30 open_rule_request) (assigned_db, [])) 20)
     \<and> pc_requires_approval (check_rule rule) \<and> check_policy_set_for_flagged (compiled_rules assigned_db 20) = []"
proof -
  let ?rule = "new_rule 100 9 5 open_rule_request None None"
  have "result (create_rule_in_group Some plain_lib 100 (9, 10) (sample_user Operator) 30 open_rule_request)
      (assigned_db, []) = Inr ?rule" "pc_requires_approval (check_rule ?rule)"
    "check_policy_set_for_flagged (compiled_rules assigned_db 20) = []"
    by code_simp+
  then show ?thesis
    using flagged_rule_joins_assigned_set [of Some plain_lib 100 "(9, 10)" "sample_user Operator" 30
        open_rule_request assigned_db "[]" ?rule
        "\<lparr> pg_policy_set_id = 20, pg_rule_group_id = 30, pg_set_group_order = 0 \<rparr>"]
    by (auto simp: assigned_db_def policy_db_def)
qed

end
