(* ===== verification/Mgr_Accounts.thy ===== *)
theory Mgr_Accounts
  imports Mgr_Rules
begin

text \<open>Accounts: login, refresh, logout and password change (\<open>fw-web/src/routes/auth.rs\<close>), users
(\<open>users.rs\<close>) and host groups (\<open>groups.rs\<close>).  Parameters are Argon2 (hashing with a given salt, and
verification), the signature of tokens, and the random values a handler draws.\<close>

section \<open>Library\<close>

datatype PasswordError = Hash string | Verify string | Weak string

fun PasswordError_text :: "PasswordError \<Rightarrow> string" where
  "PasswordError_text (Hash m) = ''hash error: '' @ m"
| "PasswordError_text (Verify m) = ''verify error: '' @ m"
| "PasswordError_text (Weak m) = ''weak password: '' @ m"

text \<open>The conversion \<open>From<PasswordError> for AppError\<close>.\<close>

fun of_PasswordError :: "PasswordError \<Rightarrow> AppError" where
  "of_PasswordError (Weak m) = BadRequest (''Weak password: '' @ m)"
| "of_PasswordError e = Internal (''Password error: '' @ PasswordError_text e)"

fun JwtError_text :: "JwtError \<Rightarrow> string" where
  "JwtError_text JwtExpired = ''token expired''"
| "JwtError_text (JwtEncode m) = ''encode error: '' @ m"
| "JwtError_text (JwtDecode m) = ''decode error: '' @ m"
| "JwtError_text (JwtKeyLoad m) = ''key load error: '' @ m"

record account_lib =
  ac_hash :: "string \<Rightarrow> string \<Rightarrow> PasswordError + string"
  ac_verify :: "string \<Rightarrow> string \<Rightarrow> PasswordError + bool"
  ac_sign :: "AccessClaims \<Rightarrow> JwtError + string"

definition secs :: "int \<Rightarrow> DateTime" where
  "secs n = n * 1000000000"

text \<open>The result of a fallible computation that is not a statement.\<close>

definition lift_result :: "('e \<Rightarrow> AppError) \<Rightarrow> 'e + 'a \<Rightarrow> 'a dbm" where
  "lift_result conv r = (case r of Inl e \<Rightarrow> throw (conv e) | Inr x \<Rightarrow> ret x)"

definition check_strength :: "string \<Rightarrow> unit dbm" where
  "check_strength p = lift_result (\<lambda>m. of_PasswordError (Weak m)) (validate_password_strength p)"

section \<open>Login\<close>

record LoginRequest =
  lq_username :: string
  lq_password :: string
  lq_mfa_code :: "string option"

record UserInfo =
  ui_id :: Uuid
  ui_username :: string
  ui_display_name :: string
  ui_email :: string
  ui_role :: string
  ui_auth_provider :: string
  ui_mfa_enabled :: bool
  ui_is_active :: bool
  ui_force_password_reset :: bool
  ui_last_login_at :: "string option"

record LoginResponse =
  lr_access_token :: string
  lr_refresh_token :: string
  lr_user :: UserInfo

text \<open>What a handler draws: the token identifier, the refresh token and the salt of its hash.\<close>

record draws =
  dr_jti :: string
  dr_refresh :: string
  dr_salt :: string

fun AuthProvider_debug_lower :: "AuthProvider \<Rightarrow> string" where
  "AuthProvider_debug_lower Local = ''local''"
| "AuthProvider_debug_lower AzureSso = ''azuresso''"
| "AuthProvider_debug_lower Keycloak = ''keycloak''"
| "AuthProvider_debug_lower Oidc = ''oidc''"

text \<open>The row a login reads, and the row it continues with when there is none.\<close>

definition find_local_user :: "string \<Rightarrow> db \<Rightarrow> UserRow option" where
  "find_local_user name d =
     find (\<lambda>u. us_username u = name \<and> us_auth_provider u = Local) (db_users d)"

definition dummy_user :: UserRow where
  "dummy_user =
     \<lparr> us_id = 0, us_username = [], us_display_name = [], us_email = [], us_role = Operator,
       us_auth_provider = Local,
       us_password_hash = Some ''$argon2id$v=19$m=65536,t=3,p=1$AAAAAAAAAAAAAAAA$dummy'',
       us_mfa_enabled = False, us_is_active = False, us_force_password_reset = False,
       us_failed_login_attempts = 0, us_locked_until = None, us_last_login_at = None,
       us_created_at = 0, us_updated_at = 0 \<rparr>"

definition update_user_where :: "Uuid \<Rightarrow> (UserRow \<Rightarrow> UserRow) \<Rightarrow> db \<Rightarrow> db" where
  "update_user_where i f d = d \<lparr> db_users := update_where (\<lambda>u. us_id u = i) f (db_users d) \<rparr>"

text \<open>\<open>failed_login_attempts + 1\<close> is refused by the database beyond the range of an \<open>INTEGER\<close>, and
wraps in the program.\<close>

definition count_failure :: "Uuid \<Rightarrow> unit dbm" where
  "count_failure i =
     stmt (\<lambda>d. if \<exists>u \<in> set (db_users d). us_id u = i \<and> \<not> i32_range (us_failed_login_attempts u + 1)
               then Inl OtherSqlError
               else Inr ((), update_user_where i
                      (\<lambda>u. u \<lparr> us_failed_login_attempts := us_failed_login_attempts u + 1 \<rparr>) d))"

definition wrap_i32 :: "int \<Rightarrow> int" where
  "wrap_i32 n = (n + 2 ^ 31) mod 2 ^ 32 - 2 ^ 31"

definition lock_user :: "DateTime \<Rightarrow> Uuid \<Rightarrow> unit dbm" where
  "lock_user now i =
     exec (update_user_where i (\<lambda>u. u \<lparr> us_locked_until := Some (now + secs (30 * 60)) \<rparr>))"

definition reset_failures :: "DateTime \<Rightarrow> Uuid \<Rightarrow> unit dbm" where
  "reset_failures now i =
     exec (update_user_where i (\<lambda>u. u \<lparr> us_failed_login_attempts := 0, us_locked_until := None,
                                        us_last_login_at := Some now \<rparr>))"

definition issue_access_token ::
  "account_lib \<Rightarrow> audit_lib \<Rightarrow> DateTime \<Rightarrow> string \<Rightarrow> Uuid \<Rightarrow> string \<Rightarrow> string \<Rightarrow> JwtError + string" where
  "issue_access_token C L now jti uid role uname =
     ac_sign C (issued_claims (al_uuid_str L) (now div 1000000000) uid role uname jti)"

definition insert_refresh :: "DateTime \<Rightarrow> Uuid \<Rightarrow> string \<Rightarrow> string \<Rightarrow> unit dbm" where
  "insert_refresh now uid hash jti =
     stmt (\<lambda>d. if hash \<in> set (map rt_token_hash (db_refresh d)) then Inl UniqueViolation
               else if \<not> user_exists uid d then Inl ForeignKeyViolation
               else Inr ((), d \<lparr> db_refresh := db_refresh d
                      @ [\<lparr> rt_user_id = uid, rt_token_hash = hash, rt_expires_at = now + secs 3600,
                           rt_last_used_at = now, rt_revoked = False, rt_revoked_at = None,
                           rt_jti = Some jti, rt_ip_address = None \<rparr>] \<rparr>))"

definition user_info :: "audit_lib \<Rightarrow> UserRow \<Rightarrow> UserInfo" where
  "user_info L u =
     \<lparr> ui_id = us_id u, ui_username = us_username u, ui_display_name = us_display_name u,
       ui_email = us_email u, ui_role = UserRole_as_str (us_role u),
       ui_auth_provider = AuthProvider_debug_lower (us_auth_provider u),
       ui_mfa_enabled = us_mfa_enabled u, ui_is_active = us_is_active u,
       ui_force_password_reset = us_force_password_reset u,
       ui_last_login_at = map_option (al_rfc3339 L) (us_last_login_at u) \<rparr>"

definition login_event :: "string \<Rightarrow> Uuid option \<Rightarrow> string \<Rightarrow> string \<Rightarrow> (string \<times> string) list \<Rightarrow> AuditEvent" where
  "login_event action actor uname tid details =
     \<lparr> ev_action = action, ev_actor_user_id = actor, ev_actor_username = Some uname,
       ev_target_type = Some ''user'', ev_target_id = Some tid, ev_details = details,
       ev_ip_address = None, ev_request_id = None \<rparr>"

definition locked_at :: "DateTime \<Rightarrow> UserRow \<Rightarrow> bool" where
  "locked_at now u = (case us_locked_until u of None \<Rightarrow> False | Some t \<Rightarrow> now < t)"

definition password_matches :: "account_lib \<Rightarrow> string \<Rightarrow> UserRow \<Rightarrow> bool" where
  "password_matches C p u =
     (case ac_verify C p (unwrap_or [] (us_password_hash u)) of Inl _ \<Rightarrow> False | Inr b \<Rightarrow> b)"

definition failed_login :: "audit_lib \<Rightarrow> DateTime \<Rightarrow> UserRow \<Rightarrow> string \<Rightarrow> LoginResponse dbm" where
  "failed_login L now u name =
     bind (ignore (count_failure (us_id u))) (\<lambda>_.
     bind (if 5 \<le> wrap_i32 (us_failed_login_attempts u + 1) then ignore (lock_user now (us_id u))
           else ret ()) (\<lambda>_.
     bind (log_event L now (login_event ''user_login_failed'' None name (al_uuid_str L (us_id u))
             [(''reason'', ''invalid_password'')])) (\<lambda>_.
     throw (Unauthorized ''Invalid credentials''))))"

definition finish_login ::
  "account_lib \<Rightarrow> audit_lib \<Rightarrow> DateTime \<Rightarrow> draws \<Rightarrow> UserRow \<Rightarrow> LoginResponse dbm" where
  "finish_login C L now r u =
     bind (ignore (reset_failures now (us_id u))) (\<lambda>_.
     bind (lift_result (\<lambda>e. Internal (JwtError_text e))
             (issue_access_token C L now (dr_jti r) (us_id u) (UserRole_as_str (us_role u)) (us_username u)))
       (\<lambda>token.
     bind (lift_result (\<lambda>e. Internal (PasswordError_text e)) (ac_hash C (dr_salt r) (dr_refresh r))) (\<lambda>hash.
     bind (ignore (insert_refresh now (us_id u) hash (dr_jti r))) (\<lambda>_.
     bind (log_event L now (login_event ''user_login'' (Some (us_id u)) (us_username u)
             (al_uuid_str L (us_id u)) [])) (\<lambda>_.
     ret \<lparr> lr_access_token = token, lr_refresh_token = dr_refresh r, lr_user = user_info L u \<rparr>)))))"

definition login ::
  "account_lib \<Rightarrow> audit_lib \<Rightarrow> DateTime \<Rightarrow> draws \<Rightarrow> LoginRequest \<Rightarrow> LoginResponse dbm" where
  "login C L now r req =
     bind (query (find_local_user (lq_username req))) (\<lambda>found.
     let u = unwrap_or dummy_user found in
     bind (guard (Unauthorized ''Invalid credentials'') (us_is_active u)) (\<lambda>_.
     bind (guard (Unauthorized ''Account locked'') (\<not> locked_at now u)) (\<lambda>_.
     if password_matches C (lq_password req) u then finish_login C L now r u
     else failed_login L now u (lq_username req))))"

section \<open>Refresh, logout, own account\<close>

definition refresh_row :: "DateTime \<Rightarrow> string \<Rightarrow> db \<Rightarrow> (Uuid \<times> string \<times> UserRole \<times> bool) option" where
  "refresh_row now hash d =
     (case concat (map (\<lambda>t. map (\<lambda>u. (us_id u, us_username u, us_role u, rt_revoked t))
                          (filter (\<lambda>u. us_id u = rt_user_id t) (db_users d)))
             (filter (\<lambda>t. rt_token_hash t = hash \<and> \<not> rt_revoked t \<and> now < rt_expires_at t)
                (db_refresh d))) of
        [] \<Rightarrow> None | x # _ \<Rightarrow> Some x)"

definition renew_refresh :: "DateTime \<Rightarrow> string \<Rightarrow> string \<Rightarrow> db \<Rightarrow> db" where
  "renew_refresh now hash jti d =
     d \<lparr> db_refresh := update_where (\<lambda>t. rt_token_hash t = hash)
          (\<lambda>t. t \<lparr> rt_jti := Some jti, rt_last_used_at := now \<rparr>) (db_refresh d) \<rparr>"

definition bare_info :: "Uuid \<Rightarrow> string \<Rightarrow> UserRole \<Rightarrow> UserInfo" where
  "bare_info i name role =
     \<lparr> ui_id = i, ui_username = name, ui_display_name = [], ui_email = [],
       ui_role = UserRole_as_str role, ui_auth_provider = ''local'', ui_mfa_enabled = False,
       ui_is_active = True, ui_force_password_reset = False, ui_last_login_at = None \<rparr>"

definition refresh_token ::
  "account_lib \<Rightarrow> audit_lib \<Rightarrow> DateTime \<Rightarrow> draws \<Rightarrow> string \<Rightarrow> LoginResponse dbm" where
  "refresh_token C L now r token =
     bind (lift_result (\<lambda>e. Internal (PasswordError_text e)) (ac_hash C (dr_salt r) token)) (\<lambda>hash.
     bind (query (refresh_row now hash)) (\<lambda>row.
     bind (require (Unauthorized ''Invalid refresh token'') row) (\<lambda>(uid, uname, role, revoked).
     bind (guard (Unauthorized ''Token revoked'') (\<not> revoked)) (\<lambda>_.
     bind (lift_result (\<lambda>e. Internal (JwtError_text e))
             (issue_access_token C L now (dr_jti r) uid (UserRole_as_str role) uname)) (\<lambda>access.
     bind (ignore (exec (renew_refresh now hash (dr_jti r)))) (\<lambda>_.
     ret \<lparr> lr_access_token = access, lr_refresh_token = token,
           lr_user = bare_info uid uname role \<rparr>))))))"

definition revoke_refresh :: "DateTime \<Rightarrow> string \<Rightarrow> db \<Rightarrow> db" where
  "revoke_refresh now hash d =
     d \<lparr> db_refresh := update_where (\<lambda>t. rt_token_hash t = hash)
          (\<lambda>t. t \<lparr> rt_revoked := True, rt_revoked_at := Some now \<rparr>) (db_refresh d) \<rparr>"

definition logout ::
  "account_lib \<Rightarrow> audit_lib \<Rightarrow> DateTime \<Rightarrow> string \<Rightarrow> AuthUser \<Rightarrow> string \<Rightarrow> unit dbm" where
  "logout C L now salt u token =
     bind (lift_result (\<lambda>e. Internal (PasswordError_text e)) (ac_hash C salt token)) (\<lambda>hash.
     bind (ignore (exec (revoke_refresh now hash))) (\<lambda>_.
     log_event L now (auth_event u ''user_logout'' ''user'' (Some (al_uuid_str L (auth_user_id u))) [])))"

definition get_me :: "AuthUser \<Rightarrow> UserInfo" where
  "get_me u = bare_info (auth_user_id u) (auth_username u) (auth_role u)"

text \<open>A \<open>NULL\<close> hash cannot be decoded as a string, which is an error of the query.\<close>

definition own_hash :: "Uuid \<Rightarrow> string option dbm" where
  "own_hash i =
     stmt (\<lambda>d. case find (\<lambda>u. us_id u = i) (db_users d) of
                 None \<Rightarrow> Inr (None, d)
               | Some u \<Rightarrow> (case us_password_hash u of None \<Rightarrow> Inl OtherSqlError
                             | Some h \<Rightarrow> Inr (Some h, d)))"

definition change_password ::
  "account_lib \<Rightarrow> DateTime \<Rightarrow> string \<Rightarrow> AuthUser \<Rightarrow> string \<Rightarrow> string \<Rightarrow> unit dbm" where
  "change_password C now salt u current new =
     bind (check_strength new) (\<lambda>_.
     bind (own_hash (auth_user_id u)) (\<lambda>found.
     bind (require (NotFound ''User not found'') found) (\<lambda>hash.
     bind (guard (Unauthorized ''Invalid current password'')
             (case ac_verify C current hash of Inl _ \<Rightarrow> False | Inr b \<Rightarrow> b)) (\<lambda>_.
     bind (lift_result (\<lambda>e. Internal (PasswordError_text e)) (ac_hash C salt new)) (\<lambda>new_hash.
     exec (update_user_where (auth_user_id u)
       (\<lambda>x. x \<lparr> us_password_hash := Some new_hash, us_force_password_reset := False,
                 us_updated_at := now \<rparr>)))))))"

section \<open>Users\<close>

definition admin_guard :: "AuthUser \<Rightarrow> unit dbm" where
  "admin_guard u = guard (Forbidden ''Admin role required'') (is_admin (auth_role u))"

definition list_users :: "(string \<Rightarrow> 'k::linorder) \<Rightarrow> UserRow list dbm" where
  "list_users collate = query (\<lambda>d. sort_key (\<lambda>u. collate (us_username u)) (db_users d))"

record CreateUserRequest =
  cu_username :: string
  cu_display_name :: string
  cu_email :: string
  cu_role :: UserRole
  cu_password :: string

definition insert_user :: "DateTime \<Rightarrow> Uuid \<Rightarrow> CreateUserRequest \<Rightarrow> string \<Rightarrow> UserRow dbm" where
  "insert_user now i req hash =
     stmt (\<lambda>d. if user_exists i d \<or> cu_username req \<in> set (map us_username (db_users d))
                  \<or> cu_email req \<in> set (map us_email (db_users d))
               then Inl UniqueViolation
               else (let u = \<lparr> us_id = i, us_username = cu_username req,
                        us_display_name = cu_display_name req, us_email = cu_email req,
                        us_role = cu_role req, us_auth_provider = Local,
                        us_password_hash = Some hash, us_mfa_enabled = False, us_is_active = True,
                        us_force_password_reset = False, us_failed_login_attempts = 0,
                        us_locked_until = None, us_last_login_at = None, us_created_at = now,
                        us_updated_at = now \<rparr>
                     in Inr (u, d \<lparr> db_users := db_users d @ [u] \<rparr>)))"

definition create_user ::
  "account_lib \<Rightarrow> audit_lib \<Rightarrow> DateTime \<Rightarrow> string \<Rightarrow> Uuid \<Rightarrow> AuthUser \<Rightarrow> CreateUserRequest
     \<Rightarrow> UserRow dbm" where
  "create_user C L now salt i a req =
     bind (admin_guard a) (\<lambda>_.
     bind (check_strength (cu_password req)) (\<lambda>_.
     bind (lift_result (\<lambda>e. Internal (PasswordError_text e)) (ac_hash C salt (cu_password req))) (\<lambda>hash.
     bind (insert_user now i req hash) (\<lambda>u.
     bind (log_event L now (auth_event a ''user_created'' ''user'' (Some (al_uuid_str L (us_id u)))
             [(''username'', us_username u)])) (\<lambda>_.
     ret u)))))"

definition find_user :: "Uuid \<Rightarrow> db \<Rightarrow> UserRow option" where
  "find_user i d = find (\<lambda>u. us_id u = i) (db_users d)"

definition get_user :: "Uuid \<Rightarrow> UserRow dbm" where
  "get_user i = bind (query (find_user i)) (require (NotFound ''User not found''))"

record UpdateUserRequest =
  uu_display_name :: "string option"
  uu_email :: "string option"
  uu_role :: "UserRole option"
  uu_is_active :: "bool option"

definition changed_user :: "DateTime \<Rightarrow> UpdateUserRequest \<Rightarrow> UserRow \<Rightarrow> UserRow" where
  "changed_user now req u =
     u \<lparr> us_display_name := coalesce (uu_display_name req) (us_display_name u),
         us_email := coalesce (uu_email req) (us_email u),
         us_role := coalesce (uu_role req) (us_role u),
         us_is_active := coalesce (uu_is_active req) (us_is_active u), us_updated_at := now \<rparr>"

definition update_user_row :: "DateTime \<Rightarrow> Uuid \<Rightarrow> UpdateUserRequest \<Rightarrow> UserRow option dbm" where
  "update_user_row now i req =
     stmt (\<lambda>d. case find_user i d of
                 None \<Rightarrow> Inr (None, d)
               | Some u \<Rightarrow>
                   (let u' = changed_user now req u
                    in if \<exists>x \<in> set (db_users d). us_id x \<noteq> i \<and> us_email x = us_email u'
                       then Inl UniqueViolation
                       else Inr (Some u', update_user_where i (changed_user now req) d)))"

definition update_user ::
  "audit_lib \<Rightarrow> DateTime \<Rightarrow> AuthUser \<Rightarrow> Uuid \<Rightarrow> UpdateUserRequest \<Rightarrow> UserRow dbm" where
  "update_user L now a i req =
     bind (admin_guard a) (\<lambda>_.
     bind (update_user_row now i req) (\<lambda>found.
     bind (require (NotFound ''User not found'') found) (\<lambda>u.
     bind (log_event L now (auth_event a ''user_updated'' ''user'' (Some (al_uuid_str L (us_id u))) [])) (\<lambda>_.
     ret u))))"

text \<open>Deleting a user: sessions, host groups of an operator and enrollment tokens go with it, every
other reference is set to \<open>NULL\<close>.\<close>

definition forget_user :: "Uuid \<Rightarrow> Uuid option \<Rightarrow> Uuid option" where
  "forget_user i x = (if x = Some i then None else x)"

definition delete_user_row :: "Uuid \<Rightarrow> db \<Rightarrow> db" where
  "delete_user_row i d =
     d \<lparr> db_users := filter (\<lambda>u. us_id u \<noteq> i) (db_users d),
         db_refresh := filter (\<lambda>t. rt_user_id t \<noteq> i) (db_refresh d),
         db_operator_host_groups := filter (\<lambda>x. fst x \<noteq> i) (db_operator_host_groups d),
         db_enroll_tokens := filter (\<lambda>t. et_created_by t \<noteq> i) (db_enroll_tokens d),
         db_rules := map (\<lambda>r. r \<lparr> rl_rule := rl_rule r
             \<lparr> fr_created_by := forget_user i (fr_created_by (rl_rule r)) \<rparr> \<rparr>) (db_rules d),
         db_rule_groups := map (\<lambda>g. g \<lparr> rg_created_by := forget_user i (rg_created_by g) \<rparr>) (db_rule_groups d),
         db_policy_sets := map (\<lambda>p. p \<lparr> ps_created_by := forget_user i (ps_created_by p) \<rparr>) (db_policy_sets d),
         db_assignments := map (\<lambda>a. a \<lparr> ha_assigned_by := forget_user i (ha_assigned_by a) \<rparr>) (db_assignments d),
         db_protected := map (\<lambda>p. p \<lparr> pr_created_by := forget_user i (pr_created_by p) \<rparr>) (db_protected d),
         db_audit := map (\<lambda>x. x \<lparr> au_actor_user_id := forget_user i (au_actor_user_id x) \<rparr>) (db_audit d) \<rparr>"

definition delete_user :: "audit_lib \<Rightarrow> DateTime \<Rightarrow> AuthUser \<Rightarrow> Uuid \<Rightarrow> unit dbm" where
  "delete_user L now a i =
     bind (admin_guard a) (\<lambda>_.
     bind (exec (delete_user_row i)) (\<lambda>_.
     log_event L now (auth_event a ''user_deleted'' ''user'' (Some (al_uuid_str L i)) [])))"

section \<open>Host groups\<close>

definition list_groups :: "(string \<Rightarrow> 'k::linorder) \<Rightarrow> Group list dbm" where
  "list_groups collate = query (\<lambda>d. sort_key (\<lambda>g. collate (gr_name g)) (db_groups d))"

definition host_group_exists :: "Uuid \<Rightarrow> db \<Rightarrow> bool" where
  "host_group_exists g d \<longleftrightarrow> g \<in> set (map gr_id (db_groups d))"

definition insert_host_group :: "DateTime \<Rightarrow> Uuid \<Rightarrow> string \<Rightarrow> string \<Rightarrow> Group dbm" where
  "insert_host_group now i name desc =
     stmt (\<lambda>d. if host_group_exists i d \<or> name \<in> set (map gr_name (db_groups d))
               then Inl UniqueViolation
               else (let g = \<lparr> gr_id = i, gr_name = name, gr_description = desc,
                               gr_created_at = now, gr_updated_at = now \<rparr>
                     in Inr (g, d \<lparr> db_groups := db_groups d @ [g] \<rparr>)))"

definition create_group :: "DateTime \<Rightarrow> Uuid \<Rightarrow> AuthUser \<Rightarrow> string \<Rightarrow> string option \<Rightarrow> Group dbm" where
  "create_group now i u name desc =
     bind (write_guard u) (\<lambda>_. insert_host_group now i name (coalesce desc []))"

definition get_group :: "Uuid \<Rightarrow> Group dbm" where
  "get_group i =
     bind (query (\<lambda>d. find (\<lambda>g. gr_id g = i) (db_groups d))) (require (NotFound ''Group not found''))"

definition delete_host_group :: "Uuid \<Rightarrow> db \<Rightarrow> db" where
  "delete_host_group i d =
     d \<lparr> db_groups := filter (\<lambda>g. gr_id g \<noteq> i) (db_groups d),
         db_host_groups := filter (\<lambda>x. snd x \<noteq> i) (db_host_groups d),
         db_operator_host_groups := filter (\<lambda>x. snd x \<noteq> i) (db_operator_host_groups d) \<rparr>"

definition delete_group_handler :: "AuthUser \<Rightarrow> Uuid \<Rightarrow> unit dbm" where
  "delete_group_handler u i = bind (admin_guard u) (\<lambda>_. exec (delete_host_group i))"

definition insert_membership :: "Uuid \<Rightarrow> Uuid \<Rightarrow> unit dbm" where
  "insert_membership h g =
     stmt (\<lambda>d. if (h, g) \<in> set (db_host_groups d) then Inr ((), d)
               else if host_exists h d \<and> host_group_exists g d
               then Inr ((), d \<lparr> db_host_groups := db_host_groups d @ [(h, g)] \<rparr>)
               else Inl ForeignKeyViolation)"

definition add_host_to_group :: "AuthUser \<Rightarrow> Uuid \<Rightarrow> Uuid \<Rightarrow> unit dbm" where
  "add_host_to_group u g h = bind (write_guard u) (\<lambda>_. insert_membership h g)"

definition remove_membership :: "Uuid \<Rightarrow> Uuid \<Rightarrow> db \<Rightarrow> db" where
  "remove_membership h g d = d \<lparr> db_host_groups := filter (\<lambda>x. x \<noteq> (h, g)) (db_host_groups d) \<rparr>"

definition remove_host_from_group :: "AuthUser \<Rightarrow> Uuid \<Rightarrow> Uuid \<Rightarrow> unit dbm" where
  "remove_host_from_group u g h = bind (write_guard u) (\<lambda>_. exec (remove_membership h g))"

section \<open>Facts\<close>

lemma outcome_lift_result [outcome_intros]:
  "(\<And>e. r = Inl e \<Longrightarrow> E (conv e) d) \<Longrightarrow> (\<And>x. r = Inr x \<Longrightarrow> Q x d) \<Longrightarrow> outcome (lift_result conv r) d Q E"
  unfolding lift_result_def by (auto split: sum.split intro: outcome_intros)

lemma run_lift_result [run_simps]:
  "lift_result conv r s = (case r of Inl e \<Rightarrow> (Inl (conv e), s) | Inr x \<Rightarrow> (Inr x, s))"
  by (simp add: lift_result_def run_simps split: sum.split)

lemma find_update_where:
  assumes "find P xs = Some x" and keep: "\<And>y. P (f y) = P y"
  shows "find P (update_where Q f xs) = Some (if Q x then f x else x)"
  using assms(1) by (induction xs) (auto simp: update_where_def keep split: if_split_asm)

lemma find_local_user_update:
  assumes "find_local_user name d = Some u"
    and "\<And>x. us_username (f x) = us_username x" and "\<And>x. us_auth_provider (f x) = us_auth_provider x"
  shows "find_local_user name (update_user_where (us_id u) f d) = Some (f u)"
  using assms find_update_where [of "\<lambda>u. us_username u = name \<and> us_auth_provider u = Local" "db_users d" u f
      "\<lambda>x. us_id x = us_id u"]
  by (simp add: find_local_user_def update_user_where_def)

lemma find_local_user_audit [simp]:
  "find_local_user name (d \<lparr> db_audit := a \<rparr>) = find_local_user name d"
  by (simp add: find_local_user_def)

lemma find_local_user_Some:
  "find_local_user name d = Some u \<Longrightarrow> u \<in> set (db_users d) \<and> us_username u = name \<and> us_auth_provider u = Local"
  by (auto simp: find_local_user_def find_Some_iff)

lemma finish_login_outcome:
  "outcome (finish_login C L now r u) d
     (\<lambda>resp d'. lr_user resp = user_info L u
        \<and> issue_access_token C L now (dr_jti r) (us_id u) (UserRole_as_str (us_role u)) (us_username u)
            = Inr (lr_access_token resp))
     (\<lambda>_ d'. db_refresh d' = db_refresh d)"
  unfolding finish_login_def reset_failures_def insert_refresh_def
  by (intro outcome_intros outcome_stmt) (auto simp: update_user_where_def split: if_split_asm)

lemma failed_login_outcome:
  "outcome (failed_login L now u name) d (\<lambda>_ _. False) (\<lambda>_ d'. db_refresh d' = db_refresh d)"
  unfolding failed_login_def count_failure_def lock_user_def
  by (intro outcome_intros outcome_stmt) (auto simp: update_user_where_def split: if_split_asm)

text \<open>What a login that returns has checked.\<close>

lemma login_outcome:
  "outcome (login C L now r req) d
     (\<lambda>resp d'. \<exists>u. find_local_user (lq_username req) d = Some u \<and> us_is_active u \<and> \<not> locked_at now u
        \<and> password_matches C (lq_password req) u \<and> lr_user resp = user_info L u
        \<and> issue_access_token C L now (dr_jti r) (us_id u) (UserRole_as_str (us_role u)) (us_username u)
            = Inr (lr_access_token resp))
     (\<lambda>_ d'. db_refresh d' = db_refresh d)"
proof (cases "find_local_user (lq_username req) d")
  case None
  then show ?thesis
    unfolding login_def Let_def
    by (intro outcome_bind outcome_query outcome_guard) (simp_all add: dummy_user_def)
next
  case (Some u)
  then show ?thesis
    unfolding login_def Let_def
    by (intro outcome_bind outcome_query outcome_guard outcome_if
        outcome_mono [OF finish_login_outcome] outcome_mono [OF failed_login_outcome]) auto
qed

text \<open>One login when nothing is refused, for an account that exists and is active.\<close>

lemma login_locked_run:
  assumes "find_local_user (lq_username req) d = Some u" and "us_is_active u" and "locked_at now u"
  shows "login C L now r req (d, []) = (Inl (Unauthorized ''Account locked''), d, [])"
  using assms by (simp add: login_def Let_def run_simps)

lemma login_wrong_run:
  assumes "find_local_user (lq_username req) d = Some u" and "us_is_active u" and "\<not> locked_at now u"
    and "\<not> password_matches C (lq_password req) u"
  shows "login C L now r req (d, []) = failed_login L now u (lq_username req) (d, [])"
  using assms by (simp add: login_def Let_def run_simps)

lemma login_right_run:
  assumes "find_local_user (lq_username req) d = Some u" and "us_is_active u" and "\<not> locked_at now u"
    and "password_matches C (lq_password req) u"
  shows "login C L now r req (d, []) = finish_login C L now r u (d, [])"
  using assms by (simp add: login_def Let_def run_simps)

text \<open>The account as the counting of failures sees it, with the bound of the counter.\<close>

lemma failed_login_account:
  assumes "find_local_user name d = Some u" and "us_failed_login_attempts u < 5"
    and "0 \<le> us_failed_login_attempts u"
    and "\<And>x. x \<in> set (db_users d) \<Longrightarrow> us_id x = us_id u \<Longrightarrow> x = u"
  shows "find_local_user name (db_after (failed_login L now u name) (d, []))
    = Some (let v = u \<lparr> us_failed_login_attempts := us_failed_login_attempts u + 1 \<rparr>
            in if us_failed_login_attempts u = 4
               then v \<lparr> us_locked_until := Some (now + secs 1800) \<rparr> else v)"
    and "map us_id (db_users (db_after (failed_login L now u name) (d, []))) = map us_id (db_users d)"
proof -
  let ?inc = "\<lambda>u. u \<lparr> us_failed_login_attempts := us_failed_login_attempts u + 1 \<rparr>"
  let ?lock = "\<lambda>u. u \<lparr> us_locked_until := Some (now + secs 1800) \<rparr>"
  let ?d1 = "update_user_where (us_id u) ?inc d"
  have cf: "count_failure (us_id u) (d, []) = (Inr (), ?d1, [])"
    using assms(2,3) by (auto simp: count_failure_def run_simps i32_range_def dest!: assms(4))
  have wrap: "5 \<le> wrap_i32 (us_failed_login_attempts u + 1) \<longleftrightarrow> us_failed_login_attempts u = 4"
    using assms(2,3) by (auto simp: wrap_i32_def)
  have one: "find_local_user name ?d1 = Some (?inc u)"
    using assms(1) by (rule find_local_user_update) simp_all
  have two: "find_local_user name (update_user_where (us_id u) ?lock ?d1) = Some (?lock (?inc u))"
    using find_local_user_update [OF one, of ?lock] by simp
  show "find_local_user name (db_after (failed_login L now u name) (d, []))
    = Some (let v = ?inc u in if us_failed_login_attempts u = 4 then ?lock v else v)"
    using cf wrap one two
    by (simp add: failed_login_def lock_user_def db_after_def run_simps logged_def Let_def)
  show "map us_id (db_users (db_after (failed_login L now u name) (d, []))) = map us_id (db_users d)"
    using cf
    by (simp add: failed_login_def lock_user_def db_after_def run_simps logged_def
        update_user_where_def update_where_keys)
qed

section \<open>Lockout\<close>

text \<open>Logins one after the other, when nothing is refused: a time, the values drawn and a password
each.\<close>

primrec logins ::
  "account_lib \<Rightarrow> audit_lib \<Rightarrow> string \<Rightarrow> (DateTime \<times> draws \<times> string) list \<Rightarrow> db \<Rightarrow> db" where
  "logins C L name [] d = d"
| "logins C L name (x # xs) d = logins C L name xs
     (db_after (login C L (fst x) (fst (snd x))
        \<lparr> lq_username = name, lq_password = snd (snd x), lq_mfa_code = None \<rparr>) (d, []))"

text \<open>The account after at least \<open>k\<close> failures since \<open>t0\<close>: still counting, or locked.\<close>

definition failing :: "string \<Rightarrow> string \<Rightarrow> DateTime \<Rightarrow> int \<Rightarrow> db \<Rightarrow> bool" where
  "failing name h t0 k d \<longleftrightarrow> distinct (map us_id (db_users d)) \<and>
     (\<exists>u. find_local_user name d = Some u \<and> us_is_active u \<and> unwrap_or [] (us_password_hash u) = h
        \<and> ((us_locked_until u = None \<and> 0 \<le> k \<and> k \<le> us_failed_login_attempts u \<and> us_failed_login_attempts u < 5)
           \<or> (\<exists>t. us_locked_until u = Some t \<and> t0 + secs 1800 \<le> t)))"

lemma failing_step:
  assumes "failing name h t0 k d" and "t0 \<le> now" and "now < t0 + secs 1800"
    and "ac_verify C p h \<noteq> Inr True"
  shows "failing name h t0 (k + 1)
    (db_after (login C L now r \<lparr> lq_username = name, lq_password = p, lq_mfa_code = m \<rparr>) (d, []))"
proof -
  let ?req = "\<lparr> lq_username = name, lq_password = p, lq_mfa_code = m \<rparr>"
  obtain u where u: "find_local_user (lq_username ?req) d = Some u" "us_is_active u"
      "unwrap_or [] (us_password_hash u) = h" and ids: "distinct (map us_id (db_users d))"
    and state: "(us_locked_until u = None \<and> 0 \<le> k \<and> k \<le> us_failed_login_attempts u
           \<and> us_failed_login_attempts u < 5) \<or> (\<exists>t. us_locked_until u = Some t \<and> t0 + secs 1800 \<le> t)"
    using assms(1) by (auto simp: failing_def)
  have unique: "x = u" if "x \<in> set (db_users d)" "us_id x = us_id u" for x
    using that ids find_local_user_Some [OF u(1)] by (auto simp: distinct_map inj_on_def)
  show ?thesis
  proof (cases "us_locked_until u")
    case None
    have wrong: "\<not> password_matches C (lq_password ?req) u" "\<not> locked_at now u"
      using assms(4) u(3) None by (auto simp: password_matches_def locked_at_def split: sum.split)
    have count: "0 \<le> us_failed_login_attempts u" "us_failed_login_attempts u < 5"
      using state None by auto
    have "db_after (login C L now r ?req) (d, []) = db_after (failed_login L now u name) (d, [])"
      using login_wrong_run [OF u(1,2) wrong(2,1)] by (simp add: db_after_def)
    then show ?thesis
      using failed_login_account [of name d u L now] u(1) count unique ids state None u(2,3) assms(2)
      by (auto simp: failing_def Let_def)
  next
    case (Some t)
    then have "locked_at now u" using state assms(3) by (auto simp: locked_at_def)
    then have "db_after (login C L now r ?req) (d, []) = d"
      using login_locked_run [OF u(1,2)] by (simp add: db_after_def)
    then show ?thesis using u ids state Some by (auto simp: failing_def)
  qed
qed

lemma failing_logins:
  "failing name h t0 k d \<Longrightarrow>
   (\<forall>x \<in> set xs. t0 \<le> fst x \<and> fst x < t0 + secs 1800 \<and> ac_verify C (snd (snd x)) h \<noteq> Inr True) \<Longrightarrow>
     failing name h t0 (k + int (length xs)) (logins C L name xs d)"
proof (induction xs arbitrary: k d)
  case (Cons x xs)
  have "failing name h t0 (k + 1) (db_after (login C L (fst x) (fst (snd x))
      \<lparr> lq_username = name, lq_password = snd (snd x), lq_mfa_code = None \<rparr>) (d, []))"
    by (rule failing_step [OF Cons.prems(1)]) (use Cons.prems(2) in auto)
  from Cons.IH [OF this] Cons.prems(2) show ?case by (simp add: algebra_simps)
qed simp

section \<open>Properties\<close>


text \<open>A library for examples: a hash is the salt, a dollar sign and the password.\<close>

definition plain_accounts :: account_lib where
  "plain_accounts =
     \<lparr> ac_hash = (\<lambda>s p. Inr (s @ ''$'' @ p)),
       ac_verify = (\<lambda>p h. Inr (drop 1 (dropWhile (\<lambda>c. c \<noteq> CHR ''$'') h) = p)),
       ac_sign = (\<lambda>c. Inr (cl_jti c)) \<rparr>"

definition sample_account :: UserRow where
  "sample_account = sample_user_row \<lparr> us_password_hash := Some ''s$pw'' \<rparr>"

definition account_db :: db where
  "account_db = empty_db \<lparr> db_users := [sample_account], db_refresh := [sample_session] \<rparr>"

definition sample_draws :: draws where
  "sample_draws = \<lparr> dr_jti = ''j2'', dr_refresh = ''rt'', dr_salt = ''z'' \<rparr>"

definition sample_login :: "string \<Rightarrow> LoginRequest" where
  "sample_login p = \<lparr> lq_username = ''ann'', lq_password = p, lq_mfa_code = None \<rparr>"


text \<open>The claims of the token a login issues.\<close>

definition login_claims :: "audit_lib \<Rightarrow> DateTime \<Rightarrow> draws \<Rightarrow> UserRow \<Rightarrow> AccessClaims" where
  "login_claims L now r u =
     issued_claims (al_uuid_str L) (now div 1000000000) (us_id u) (UserRole_as_str (us_role u))
       (us_username u) (dr_jti r)"

lemma issue_login_claims:
  "issue_access_token C L now (dr_jti r) (us_id u) (UserRole_as_str (us_role u)) (us_username u)
     = ac_sign C (login_claims L now r u)"
  by (simp add: issue_access_token_def login_claims_def)

lemma find_snoc: "\<forall>y \<in> set xs. \<not> P y \<Longrightarrow> P x \<Longrightarrow> find P (xs @ [x]) = Some x"
  by (induction xs) auto

lemma login_session:
  assumes "find_local_user (lq_username req) d = Some u" and "us_is_active u" and "\<not> locked_at now u"
    and "password_matches C (lq_password req) u"
    and "ac_sign C (login_claims L now r u) = Inr tok" and "ac_hash C (dr_salt r) (dr_refresh r) = Inr h"
    and "h \<notin> set (map rt_token_hash (db_refresh d))"
  shows "\<exists>t. db_refresh (db_after (login C L now r req) (d, [])) = db_refresh d @ [t]
    \<and> rt_jti t = Some (dr_jti r) \<and> \<not> rt_revoked t"
proof -
  have "us_id u \<in> us_id ` set (db_users d)"
    using find_local_user_Some [OF assms(1)] by auto
  moreover have "set (map us_id (db_users (update_user_where i f d))) = set (map us_id (db_users d))"
    if "\<And>x. us_id (f x) = us_id x" for i f
    using that by (simp add: update_user_where_def update_where_keys)
  ultimately show ?thesis
    using login_right_run [OF assms(1-4), of L r] assms(5-7)
    by (simp add: db_after_def finish_login_def reset_failures_def insert_refresh_def run_simps
        issue_login_claims logged_def user_exists_def) (simp add: update_user_where_def)
qed


definition issued_request :: http_request where
  "issued_request = \<lparr> rq_authorization = Some ''Bearer j2'', rq_x_forwarded_for = None, rq_peer = None \<rparr>"


text \<open>C40. A refresh token cannot be used.  A stored token hash carries the salt it was made with, and the
handlers look the token up by a hash with a new salt: refreshing never succeeds and changes nothing,
and logging out leaves every session as it is.\<close>

theorem refresh_never_matches:
  assumes "\<forall>s p s' p' h. ac_hash C s p = Inr h \<and> ac_hash C s' p' = Inr h \<longrightarrow> s = s'"
    and "\<forall>t \<in> set (db_refresh d). \<exists>s \<in> used. \<exists>p. ac_hash C s p = Inr (rt_token_hash t)"
    and "dr_salt r \<notin> used"
  shows "\<not> is_ok (result (refresh_token C L now r token) (d, fs))
    \<and> db_after (refresh_token C L now r token) (d, fs) = d
    \<and> db_refresh (db_after (logout C L now (dr_salt r) u token) (d, fs)) = db_refresh d"
proof -
  have new: "rt_token_hash t \<noteq> h" if "ac_hash C (dr_salt r) token = Inr h" "t \<in> set (db_refresh d)" for h t
    using that assms by metis
  then have none: "refresh_row now h d = None" if "ac_hash C (dr_salt r) token = Inr h" for h
    using that by (auto simp: refresh_row_def filter_empty_conv split: list.split)
  have "outcome (refresh_token C L now r token) d (\<lambda>_ _. False) (\<lambda>_ d'. d' = d)"
    unfolding refresh_token_def
    by (intro outcome_bind outcome_lift_result outcome_query outcome_require) (auto simp: none)
  moreover have "outcome (logout C L now (dr_salt r) u token) d (\<lambda>_ d'. db_refresh d' = db_refresh d)
      (\<lambda>_ d'. db_refresh d' = db_refresh d)"
    unfolding logout_def
    by (intro outcome_intros) (auto simp: revoke_refresh_def update_where_def new intro!: map_idI)
  ultimately show ?thesis
    using outcomeD [of "refresh_token C L now r token" d "\<lambda>_ _. False" "\<lambda>_ d'. d' = d" fs]
      outcome_any [of "logout C L now (dr_salt r) u token" d "\<lambda>d'. db_refresh d' = db_refresh d" fs]
    by (auto split: sum.split_asm)
qed

definition prefix_hash :: account_lib where
  "prefix_hash = plain_accounts \<lparr> ac_hash := (\<lambda>s p. Inr (concat (map (\<lambda>c. [CHR ''x'', c]) s) @ ''$'' @ p)) \<rparr>"

lemma prefix_hash_salt:
  "concat (map (\<lambda>c. [CHR ''x'', c]) s) @ CHR ''$'' # p = concat (map (\<lambda>c. [CHR ''x'', c]) s') @ CHR ''$'' # p' \<Longrightarrow>
     s = s'"
proof (induction s arbitrary: s')
  case Nil
  then show ?case by (cases s') auto
next
  case (Cons c s)
  then show ?case by (cases s') auto
qed

theorem refresh_never_matches_witness:
  "\<not> is_ok (result (refresh_token prefix_hash plain_lib 600 sample_draws ''rt'')
     (account_db \<lparr> db_refresh := [sample_session \<lparr> rt_token_hash := ''xy$rt'' \<rparr>] \<rparr>, []))"
proof -
  let ?d = "account_db \<lparr> db_refresh := [sample_session \<lparr> rt_token_hash := ''xy$rt'' \<rparr>] \<rparr>"
  have "\<forall>s p s' p' h. ac_hash prefix_hash s p = Inr h \<and> ac_hash prefix_hash s' p' = Inr h \<longrightarrow> s = s'"
    by (auto simp: prefix_hash_def dest: prefix_hash_salt sym)
  moreover have "\<forall>t \<in> set (db_refresh ?d). \<exists>s \<in> {''y''}. \<exists>p. ac_hash prefix_hash s p = Inr (rt_token_hash t)"
    by (simp add: prefix_hash_def)
  moreover have "dr_salt sample_draws \<notin> {''y''}" by (simp add: sample_draws_def)
  ultimately show ?thesis using refresh_never_matches by blast
qed

text \<open>Operators choose their own scope.  An operator who is assigned to a host group may put any host
into that group, and from then on may access the host.\<close>

theorem operator_widens_own_scope:
  assumes "auth_role u = Operator" and "(auth_user_id u, g) \<in> set (db_operator_host_groups d)"
    and "host_exists h d" and "host_group_exists g d"
  shows "result (add_host_to_group u g h) (d, []) = Inr ()
    \<and> may_access (db_after (add_host_to_group u g h) (d, [])) u h"
  using assms
  by (auto simp: add_host_to_group_def write_guard_def insert_membership_def result_def db_after_def
      run_simps can_write_def may_access_def)

definition scope_db :: db where
  "scope_db = (policy_db []) \<lparr> db_groups := [\<lparr> gr_id = 40, gr_name = ''g'', gr_description = [],
     gr_created_at = 0, gr_updated_at = 0 \<rparr>] \<rparr>"

theorem operator_widens_own_scope_witness:
  "may_access (db_after (add_host_to_group (sample_user Operator) 40 2) (scope_db, [])) (sample_user Operator) 2
   \<and> \<not> may_access scope_db (sample_user Operator) 2"
proof -
  have "auth_role (sample_user Operator) = Operator"
    "(auth_user_id (sample_user Operator), 40) \<in> set (db_operator_host_groups scope_db)"
    "host_exists 2 scope_db" "host_group_exists 40 scope_db"
    by code_simp+
  moreover have "\<not> may_access scope_db (sample_user Operator) 2"
    by (simp add: may_access_def sample_user_def scope_db_def policy_db_def)
  ultimately show ?thesis using operator_widens_own_scope by blast
qed

end
