(* ===== verification/Mgr_Settings.thy ===== *)
theory Mgr_Settings
  imports Mgr_Accounts
begin

text \<open>Settings of the manager (\<open>fw-web/src/routes/settings.rs\<close>), the values a start of the web server
gives its memory (\<open>fw-web/src/main.rs\<close>), and the first password of the administrator
(\<open>bootstrap_admin_password\<close> in \<open>fw-web/src/lib.rs\<close>).  Parameters are the printer and the parser of
\<open>serde_json\<close>, the \<open>ipnet\<close> crate and Argon2.  The properties say which requests pass the whitelist after
it was changed, and after a restart, and that a new check-in interval reaches the agents.\<close>

section \<open>Stored values\<close>

record json_lib =
  jl_to_string :: "json \<Rightarrow> string"
  jl_from_str :: "string \<Rightarrow> json option"

text \<open>A list of strings as JSON.\<close>

definition strings_json :: "string list \<Rightarrow> json" where
  "strings_json xs = JArr (map JStr xs)"

fun json_strings :: "json \<Rightarrow> string list option" where
  "json_strings (JArr xs) = those (map json_str xs)"
| "json_strings _ = None"

definition config_value :: "string \<Rightarrow> db \<Rightarrow> string option" where
  "config_value key d = map_of (db_system_config d) key"

definition upsert_config :: "string \<Rightarrow> string \<Rightarrow> db \<Rightarrow> db" where
  "upsert_config key v d = d \<lparr> db_system_config := AList.update key v (db_system_config d) \<rparr>"

definition get_config_json :: "json_lib \<Rightarrow> string \<Rightarrow> json option dbm" where
  "get_config_json J key =
     bind (attempt (query (config_value key))) (\<lambda>r.
     ret (case r of Some (Some s) \<Rightarrow> jl_from_str J s | _ \<Rightarrow> None))"

definition set_config :: "json_lib \<Rightarrow> string \<Rightarrow> json \<Rightarrow> unit dbm" where
  "set_config J key v = exec (upsert_config key (jl_to_string J v))"

text \<open>A stored list of strings, empty when there is none or when it does not parse.\<close>

definition config_list :: "json_lib \<Rightarrow> string \<Rightarrow> string list dbm" where
  "config_list J key =
     bind (query (config_value key)) (\<lambda>v.
     ret (unwrap_or [] (Option.bind (Option.bind v (jl_from_str J)) json_strings)))"

section \<open>The check-in interval\<close>

definition clamp_interval :: "int \<Rightarrow> int" where
  "clamp_interval n = max 1 (min 86400 n)"

definition polling_interval :: "json \<Rightarrow> int option" where
  "polling_interval v =
     map_option clamp_interval (Option.bind (json_get ''check_in_interval_secs'' v) json_i64)"

definition global_check_in_interval :: "json_lib \<Rightarrow> int dbm" where
  "global_check_in_interval J =
     bind (get_config_json J ''settings_polling'') (\<lambda>v.
     ret (unwrap_or 900 (Option.bind v polling_interval)))"

text \<open>Rows at another interval get the new one and the next version; a version beyond the range of an
\<open>INTEGER\<close> makes the database refuse the whole statement.\<close>

definition renewed_override :: "int \<Rightarrow> HostConfigOverride \<Rightarrow> HostConfigOverride" where
  "renewed_override n r =
     r \<lparr> co_check_in_interval_secs := n, co_config_version := co_config_version r + 1 \<rparr>"

definition propagate_interval :: "int \<Rightarrow> unit dbm" where
  "propagate_interval n =
     stmt (\<lambda>d. if \<exists>r \<in> set (db_overrides d). co_check_in_interval_secs r \<noteq> n
                     \<and> \<not> i32_range (co_config_version r + 1)
               then Inl OtherSqlError
               else Inr ((), d \<lparr> db_overrides :=
                      update_where (\<lambda>r. co_check_in_interval_secs r \<noteq> n) (renewed_override n)
                        (db_overrides d) \<rparr>))"

section \<open>All settings at once\<close>

definition default_oidc :: json where
  "default_oidc = JObj [(''enabled'', JBool False), (''issuer'', JStr []), (''client_id'', JStr []),
     (''client_secret'', JStr []), (''redirect_uri'', JStr [])]"

definition default_smtp :: json where
  "default_smtp = JObj [(''enabled'', JBool False), (''host'', JStr []), (''port'', JInt 587),
     (''username'', JStr []), (''password'', JStr []), (''from'', JStr []),
     (''tls_mode'', JStr ''starttls'')]"

definition default_polling :: json where
  "default_polling = JObj [(''check_in_interval_secs'', JInt 900)]"

definition default_notification :: json where
  "default_notification = JObj [(''email_enabled'', JBool False), (''webhook_enabled'', JBool False),
     (''webhook_url'', JStr [])]"

definition get_settings :: "json_lib \<Rightarrow> json dbm" where
  "get_settings J =
     bind (config_list J ''ip_whitelist'') (\<lambda>ip_list.
     bind (get_config_json J ''settings_oidc'') (\<lambda>oidc.
     bind (get_config_json J ''settings_smtp'') (\<lambda>smtp.
     bind (get_config_json J ''settings_polling'') (\<lambda>polling.
     bind (get_config_json J ''settings_web_tls_strategy'') (\<lambda>tls.
     bind (get_config_json J ''settings_notification'') (\<lambda>notification.
     ret (JObj
       [(''oidc'', unwrap_or default_oidc oidc), (''smtp'', unwrap_or default_smtp smtp),
        (''polling'', unwrap_or default_polling polling), (''ip_whitelist'', strings_json ip_list),
        (''web_tls_strategy'', JStr (unwrap_or ''internal_ca'' (Option.bind tls json_str))),
        (''notification'', unwrap_or default_notification notification)])))))))"

record UpdateSettingsRequest =
  uq_oidc :: "json option"
  uq_smtp :: "json option"
  uq_polling :: "json option"
  uq_ip_whitelist :: "string list option"
  uq_web_tls_strategy :: "string option"
  uq_notification :: "json option"

definition if_some :: "'a option \<Rightarrow> ('a \<Rightarrow> unit dbm) \<Rightarrow> unit dbm" where
  "if_some x f = (case x of None \<Rightarrow> ret () | Some v \<Rightarrow> f v)"

definition update_settings ::
  "json_lib \<Rightarrow> audit_lib \<Rightarrow> DateTime \<Rightarrow> AuthUser \<Rightarrow> UpdateSettingsRequest \<Rightarrow> json dbm" where
  "update_settings J L now u req =
     bind (admin_guard u) (\<lambda>_.
     bind (if_some (uq_ip_whitelist req) (\<lambda>v. set_config J ''ip_whitelist'' (strings_json v))) (\<lambda>_.
     bind (if_some (uq_oidc req) (set_config J ''settings_oidc'')) (\<lambda>_.
     bind (if_some (uq_smtp req) (set_config J ''settings_smtp'')) (\<lambda>_.
     bind (if_some (uq_polling req) (\<lambda>v.
             bind (set_config J ''settings_polling'' v) (\<lambda>_.
             if_some (polling_interval v) propagate_interval))) (\<lambda>_.
     bind (if_some (uq_web_tls_strategy req) (\<lambda>v. set_config J ''settings_web_tls_strategy'' (JStr v)))
       (\<lambda>_.
     bind (if_some (uq_notification req) (set_config J ''settings_notification'')) (\<lambda>_.
     bind (log_event L now (auth_event u ''config_changed'' ''system'' (Some ''settings'') [])) (\<lambda>_.
     get_settings J))))))))"

section \<open>Whitelist and proxies\<close>

definition get_ip_whitelist :: "json_lib \<Rightarrow> string list dbm" where
  "get_ip_whitelist J = config_list J ''ip_whitelist''"

definition get_trusted_proxies :: "json_lib \<Rightarrow> string list dbm" where
  "get_trusted_proxies J = config_list J ''trusted_proxies''"

definition validate_cidr_or_ip :: "'n ipnet_api \<Rightarrow> string \<Rightarrow> string + string" where
  "validate_cidr_or_ip N entry =
     (let trimmed = trim entry in
      if trimmed = [] then Inl entry
      else case net_parse N trimmed of
             Some net \<Rightarrow> Inr (net_show N net)
           | None \<Rightarrow> (case parse_ip trimmed of
                       Some ip \<Rightarrow> Inr (net_show N (net_host N ip))
                     | None \<Rightarrow> Inl entry))"

text \<open>\<open>collect::<Result<Vec<_>, _>>()\<close>: all values, or the first error.\<close>

fun collect_results :: "('e + 'a) list \<Rightarrow> 'e + 'a list" where
  "collect_results [] = Inr []"
| "collect_results (Inl e # rs) = Inl e"
| "collect_results (Inr x # rs) = map_sum id (Cons x) (collect_results rs)"

definition bad_entry :: "string \<Rightarrow> AppError" where
  "bad_entry bad =
     BadRequest (''Invalid IP/CIDR entry: '' @ [CHR 0x27] @ bad @ [CHR 0x27]
       @ ''. Use formats like 10.0.0.0/8, 192.168.1.0/24, or 10.0.0.1'')"

definition validate_entries :: "'n ipnet_api \<Rightarrow> string list \<Rightarrow> string list dbm" where
  "validate_entries N entries =
     lift_result bad_entry (collect_results (map (validate_cidr_or_ip N) entries))"

definition covers :: "'n ipnet_api \<Rightarrow> string list \<Rightarrow> IpAddr \<Rightarrow> bool" where
  "covers N entries ip \<longleftrightarrow>
     list_ex (\<lambda>e. case net_parse N e of None \<Rightarrow> False | Some net \<Rightarrow> net_contains N net ip) entries"

definition lockout_error :: "IpAddr \<Rightarrow> AppError" where
  "lockout_error ip =
     BadRequest (''Lockout prevention: your IP ('' @ show_ip ip @ '') is not in the new whitelist. ''
       @ ''Add your IP or subnet to the list before saving, or clear the list to allow all IPs.'')"

definition set_running_whitelist :: "string list \<Rightarrow> db \<Rightarrow> db" where
  "set_running_whitelist entries d =
     d \<lparr> db_memory := db_memory d \<lparr> mm_whitelist := entries \<rparr> \<rparr>"

definition set_running_proxies :: "string list \<Rightarrow> db \<Rightarrow> db" where
  "set_running_proxies entries d =
     d \<lparr> db_memory := db_memory d \<lparr> mm_proxies := entries \<rparr> \<rparr>"

definition put_ip_whitelist ::
  "'n ipnet_api \<Rightarrow> json_lib \<Rightarrow> audit_lib \<Rightarrow> DateTime \<Rightarrow> AuthUser \<Rightarrow> string list \<Rightarrow> unit dbm" where
  "put_ip_whitelist N J L now u entries =
     bind (admin_guard u) (\<lambda>_.
     bind (validate_entries N entries) (\<lambda>validated.
     bind (let requester = unwrap_or (V4 0) (auth_ip u)
           in guard (lockout_error requester) (validated = [] \<or> covers N validated requester)) (\<lambda>_.
     bind (set_config J ''ip_whitelist'' (strings_json validated)) (\<lambda>_.
     bind (modify (set_running_whitelist validated)) (\<lambda>_.
     log_event L now (auth_event u ''config_changed'' ''settings'' (Some ''ip_whitelist'') []))))))"

definition put_trusted_proxies ::
  "'n ipnet_api \<Rightarrow> json_lib \<Rightarrow> AuthUser \<Rightarrow> string list \<Rightarrow> unit dbm" where
  "put_trusted_proxies N J u entries =
     bind (admin_guard u) (\<lambda>_.
     bind (validate_entries N entries) (\<lambda>validated.
     bind (set_config J ''trusted_proxies'' (strings_json validated)) (\<lambda>_.
     modify (set_running_proxies validated))))"

section \<open>OIDC and mail\<close>

text \<open>The row of \<open>oidc_config\<close>, which no statement of the sources writes, is an argument: whether it is
enabled, its provider type, display name, discovery URL and client.\<close>

definition get_oidc_config :: "(bool \<times> string \<times> string \<times> string \<times> string) option \<Rightarrow> json dbm" where
  "get_oidc_config row =
     bind (query (\<lambda>_. row)) (\<lambda>r.
     ret (case r of
            Some (enabled, ptype, name, url, cid) \<Rightarrow>
              JObj [(''enabled'', JBool enabled), (''provider_type'', JStr ptype),
                    (''display_name'', JStr name), (''discovery_url'', JStr url),
                    (''client_id'', JStr cid)]
          | None \<Rightarrow> JObj [(''enabled'', JBool False)]))"

definition update_oidc_config ::
  "audit_lib \<Rightarrow> DateTime \<Rightarrow> AuthUser \<Rightarrow> json \<Rightarrow> unit dbm" where
  "update_oidc_config L now u req =
     bind (admin_guard u) (\<lambda>_.
     log_event L now (auth_event u ''config_changed'' ''settings'' (Some ''oidc'') []))"

definition get_smtp_config :: "json dbm" where
  "get_smtp_config =
     bind (query (config_value ''smtp_enabled'')) (\<lambda>enabled.
     bind (query (config_value ''smtp_host'')) (\<lambda>host.
     ret (JObj [(''enabled'', JBool (unwrap_or [] enabled = ''true'')),
                (''host'', JStr (unwrap_or [] host))])))"

definition update_smtp_config ::
  "audit_lib \<Rightarrow> DateTime \<Rightarrow> AuthUser \<Rightarrow> json \<Rightarrow> unit dbm" where
  "update_smtp_config L now u req =
     bind (admin_guard u) (\<lambda>_.
     log_event L now (auth_event u ''config_changed'' ''settings'' (Some ''smtp'') []))"

section \<open>Start of the web server\<close>

text \<open>The memory of a server that starts with the given entries in its configuration file; the
acceptor of the agent listener is added when the listener is set up.\<close>

definition fresh_memory :: "string list \<Rightarrow> string list \<Rightarrow> memory" where
  "fresh_memory whitelist proxies =
     \<lparr> mm_whitelist = whitelist, mm_proxies = proxies, mm_agent_tls = None, mm_approved = [],
       mm_notify = [] \<rparr>"

definition restart :: "string list \<Rightarrow> string list \<Rightarrow> db \<Rightarrow> db" where
  "restart whitelist proxies d = d \<lparr> db_memory := fresh_memory whitelist proxies \<rparr>"

text \<open>The configuration the middleware of a running server reads.\<close>

definition running_config :: "'n ipnet_api \<Rightarrow> string \<Rightarrow> db \<Rightarrow> 'n AuthConfig" where
  "running_config N key d =
     AuthConfig_new N key (mm_whitelist (db_memory d)) (mm_proxies (db_memory d)) True"

definition placeholder_prefix :: string where
  "placeholder_prefix = ''$argon2id$v=19$m=65536,t=3,p=1$AAAAAAAAAAAAAAAA''"

definition has_placeholder :: "UserRow \<Rightarrow> bool" where
  "has_placeholder u \<longleftrightarrow> us_username u = ''admin''
     \<and> (case us_password_hash u of None \<Rightarrow> False | Some h \<Rightarrow> starts_with h placeholder_prefix)"

definition admin_hash :: "string option dbm" where
  "admin_hash =
     stmt (\<lambda>d. case find (\<lambda>u. us_username u = ''admin'') (db_users d) of
                 None \<Rightarrow> Inr (None, d)
               | Some u \<Rightarrow> (case us_password_hash u of None \<Rightarrow> Inl OtherSqlError
                             | Some h \<Rightarrow> Inr (Some h, d)))"

text \<open>The value is the password that is printed, if one is.\<close>

definition bootstrap_admin_password :: "account_lib \<Rightarrow> string \<Rightarrow> string \<Rightarrow> string option dbm" where
  "bootstrap_admin_password C salt password =
     bind (attempt admin_hash) (\<lambda>r.
     case r of
       Some (Some current) \<Rightarrow>
         if \<not> starts_with current placeholder_prefix then ret None
         else (case ac_hash C salt password of
                 Inl _ \<Rightarrow> ret None
               | Inr new_hash \<Rightarrow>
                   bind (attempt (stmt (\<lambda>d. Inr (length (filter has_placeholder (db_users d)),
                            d \<lparr> db_users := update_where has_placeholder
                                  (\<lambda>u. u \<lparr> us_password_hash := Some new_hash \<rparr>) (db_users d) \<rparr>))))
                     (\<lambda>n. ret (if n = Some 1 then Some password else None)))
     | _ \<Rightarrow> ret None)"

section \<open>Facts\<close>

lemma outcome_if_some [outcome_intros]:
  "(x = None \<Longrightarrow> Q () d) \<Longrightarrow> (\<And>v. x = Some v \<Longrightarrow> outcome (f v) d Q E) \<Longrightarrow> outcome (if_some x f) d Q E"
  by (cases x) (auto simp: if_some_def intro: outcome_ret)

lemma outcome_set_config [outcome_intros]:
  "E (Database OtherSqlError) d \<Longrightarrow> Q () (upsert_config key (jl_to_string J v) d) \<Longrightarrow>
     outcome (set_config J key v) d Q E"
  unfolding set_config_def by (rule outcome_exec)

lemma outcome_get_config_json [outcome_intros]: "(\<And>v. Q v d) \<Longrightarrow> outcome (get_config_json J key) d Q E"
  unfolding get_config_json_def by (intro outcome_intros)

lemma outcome_validate_entries [outcome_intros]:
  "(\<And>e. E (bad_entry e) d) \<Longrightarrow>
   (\<And>vs. collect_results (map (validate_cidr_or_ip N) entries) = Inr vs \<Longrightarrow> Q vs d) \<Longrightarrow>
     outcome (validate_entries N entries) d Q E"
  unfolding validate_entries_def by (intro outcome_lift_result) auto

lemma config_value_upsert:
  "config_value k (upsert_config key v d) = (if k = key then Some v else config_value k d)"
  by (simp add: config_value_def upsert_config_def update_conv')

lemma config_value_other:
  "config_value k (d \<lparr> db_audit := a \<rparr>) = config_value k d"
  "config_value k (set_running_whitelist es d) = config_value k d"
  "config_value k (restart wl px d) = config_value k d"
  by (simp_all add: config_value_def set_running_whitelist_def restart_def)

lemma json_strings_strings_json: "json_strings (strings_json xs) = Some xs"
proof -
  have "those (map json_str (map JStr xs)) = Some xs" by (induction xs) auto
  then show ?thesis by (simp add: strings_json_def)
qed

lemma covers_iff: "covers N entries ip \<longleftrightarrow> (\<exists>net \<in> set (parse_nets N entries). net_contains N net ip)"
proof (induction entries)
  case (Cons e es)
  then show ?case
    by (cases "net_parse N e") (auto simp: covers_def parse_nets_def map_filter_simps)
qed (simp add: covers_def parse_nets_def map_filter_simps)

lemma put_ip_whitelist_outcome:
  "outcome (put_ip_whitelist N J L now u entries) d
     (\<lambda>_ d'. \<exists>vs. collect_results (map (validate_cidr_or_ip N) entries) = Inr vs
        \<and> (vs = [] \<or> covers N vs (unwrap_or (V4 0) (auth_ip u)))
        \<and> db_memory d' = db_memory d \<lparr> mm_whitelist := vs \<rparr>
        \<and> config_value ''ip_whitelist'' d' = Some (jl_to_string J (strings_json vs)))
     (\<lambda>_ d'. db_memory d' = db_memory d)"
  unfolding put_ip_whitelist_def admin_guard_def
  by (intro outcome_intros)
    (auto simp: set_running_whitelist_def upsert_config_def config_value_def update_conv')

lemma running_nets:
  "cfg_ip_whitelist (running_config N key d) = parse_nets N (mm_whitelist (db_memory d))"
  "cfg_trusted_proxies (running_config N key d) = parse_nets N (mm_proxies (db_memory d))"
  by (simp_all add: running_config_def AuthConfig_new_def)

lemma propagate_outcome:
  "outcome (propagate_interval n) d
     (\<lambda>_ d'. d' = d \<lparr> db_overrides := update_where (\<lambda>r. co_check_in_interval_secs r \<noteq> n)
        (renewed_override n) (db_overrides d) \<rparr>)
     (\<lambda>_ d'. d' = d)"
  unfolding propagate_interval_def by (intro outcome_stmt) (auto split: if_split_asm)

lemma overrides_upsert [simp]: "db_overrides (upsert_config k v d) = db_overrides d"
  by (simp add: upsert_config_def)

lemma memory_upsert [simp]: "db_memory (upsert_config k v d) = db_memory d"
  by (simp add: upsert_config_def)

lemma update_settings_outcome:
  assumes "uq_polling req = Some v" and "polling_interval v = Some n"
  shows "outcome (update_settings J L now u req) d
     (\<lambda>_ d'. db_overrides d' = update_where (\<lambda>r. co_check_in_interval_secs r \<noteq> n)
        (renewed_override n) (db_overrides d))
     (\<lambda>_ _. True)"
  unfolding update_settings_def admin_guard_def get_settings_def config_list_def
  by (intro outcome_intros outcome_mono [OF propagate_outcome]) (use assms in auto)

lemma update_settings_memory:
  "outcome (update_settings J L now u req) d (\<lambda>_ d'. db_memory d' = db_memory d)
     (\<lambda>_ d'. db_memory d' = db_memory d)"
  unfolding update_settings_def admin_guard_def get_settings_def config_list_def
  by (intro outcome_intros outcome_mono [OF propagate_outcome]) auto

section \<open>Properties\<close>


text \<open>An administrator and the JSON text of the lists the concrete instances store.\<close>

definition admin_at :: "IpAddr option \<Rightarrow> AuthUser" where
  "admin_at ip =
     \<lparr> auth_user_id = 5, auth_username = ''ann'', auth_role = Admin,
       auth_claims = \<lparr> cl_sub = ''5'', cl_iat = 0, cl_exp = 900, cl_jti = ''j'', cl_role = ''admin'',
         cl_username = ''ann'' \<rparr>,
       auth_ip = ip \<rparr>"

fun flat_json :: "json \<Rightarrow> string" where
  "flat_json (JArr [JStr s]) = ''[''  @ s @ '']''"
| "flat_json (JObj [(k, JInt n)]) = ''{'' @ k @ '':'' @ show_int n @ ''}''"
| "flat_json _ = ''null''"

definition flat_lib :: json_lib where
  "flat_lib =
     \<lparr> jl_to_string = flat_json,
       jl_from_str = (\<lambda>s. if s = ''[10.0.0.0/8]'' then Some (JArr [JStr ''10.0.0.0/8'']) else None) \<rparr>"

definition request_from :: "IpAddr \<Rightarrow> http_request" where
  "request_from ip = \<lparr> rq_authorization = None, rq_x_forwarded_for = None, rq_peer = Some ip \<rparr>"


text \<open>A saved whitelist does not survive a restart.  After an accepted change and a restart with
no whitelist in the configuration file, the settings page still shows the saved entries, but requests
from every address pass.\<close>

theorem saved_whitelist_lost_on_restart:
  assumes "result (put_ip_whitelist N J L now u entries) (d, fs) = Inr ()"
    and "collect_results (map (validate_cidr_or_ip N) entries) = Inr vs"
    and "jl_from_str J (jl_to_string J (strings_json vs)) = Some (strings_json vs)"
  shows "let d' = restart [] proxies (db_after (put_ip_whitelist N J L now u entries) (d, fs))
    in result (get_ip_whitelist J) (d', []) = Inr vs \<and> ip_check N (running_config N key d') rq = None"
proof -
  let ?d = "db_after (put_ip_whitelist N J L now u entries) (d, fs)"
  have "config_value ''ip_whitelist'' ?d = Some (jl_to_string J (strings_json vs))"
    using outcome_ok [OF put_ip_whitelist_outcome assms(1)] assms(2) by auto
  then have "result (get_ip_whitelist J) (restart [] proxies ?d, []) = Inr vs"
    by (simp add: get_ip_whitelist_def config_list_def result_def run_simps config_value_other
        assms(3) json_strings_strings_json)
  moreover have "ip_check N (running_config N key (restart [] proxies ?d)) rq = None"
    by (simp add: ip_check_def running_nets restart_def fresh_memory_def parse_nets_def map_filter_simps)
  ultimately show ?thesis by (simp add: Let_def)
qed

theorem saved_whitelist_lost_on_restart_witness:
  "let d' = restart [] [] (db_after (put_ip_whitelist cidr_api flat_lib plain_lib 0
       (admin_at (Some (V4 0x0A010203))) ['' 10.0.0.0/8'']) (empty_db, []))
   in result (get_ip_whitelist flat_lib) (d', []) = Inr [''10.0.0.0/8'']
      \<and> ip_check cidr_api (running_config cidr_api ''pem'' d') (request_from (V4 0xC0000201)) = None"
  by (rule saved_whitelist_lost_on_restart; code_simp)


definition polling_request :: UpdateSettingsRequest where
  "polling_request =
     \<lparr> uq_oidc = None, uq_smtp = None,
       uq_polling = Some (JObj [(''check_in_interval_secs'', JInt 120)]), uq_ip_whitelist = None,
       uq_web_tls_strategy = None, uq_notification = None \<rparr>"

definition sample_override :: "Uuid \<Rightarrow> HostConfigOverride" where
  "sample_override h =
     \<lparr> co_host_id = h, co_check_in_interval_secs = 900, co_push_enabled = True,
       co_safe_mode_enabled = False, co_backend_override = None, co_config_version = 1 \<rparr>"


end
