(* ===== verification/Mgr_Ca.thy ===== *)
theory Mgr_Ca
  imports Mgr_Settings
begin

text \<open>The certificate authority of the manager, \<open>fw-ca/src/ca.rs\<close>: its own root, an imported upstream
sub-CA and the checks on its chain, signing of agent and listener certificates, and the revocation
lists.  Parameters are \<open>rcgen\<close> (keys, signing), \<open>x509-parser\<close> (what it reads of a certificate),
\<open>base64\<close>, \<open>hex\<close> and the conversion of \<open>time\<close>; random values are arguments.\<close>

section \<open>Errors and files\<close>

text \<open>\<open>fw-ca/src/error.rs\<close>.\<close>

datatype CertError = CertNotImplemented | CertIo | CertRcgen string | CertDatabase sql_error

text \<open>The text of an error; the texts of system and database errors are given.\<close>

fun CertError_text :: "string \<Rightarrow> (sql_error \<Rightarrow> string) \<Rightarrow> CertError \<Rightarrow> string" where
  "CertError_text io sql CertNotImplemented = ''not implemented''"
| "CertError_text io sql CertIo = ''io error: '' @ io"
| "CertError_text io sql (CertRcgen m) = ''rcgen error: '' @ m"
| "CertError_text io sql (CertDatabase e) = ''database error: '' @ sql e"

text \<open>Operations that fail with an error of their own, such as a \<open>CertError\<close>, and the operator \<open>?\<close> on
them and on plain results.\<close>

type_synonym 'a cam = "(CertError + 'a) dbm"

definition cbind :: "('e + 'a) dbm \<Rightarrow> ('a \<Rightarrow> ('e + 'b) dbm) \<Rightarrow> ('e + 'b) dbm" where
  "cbind m k = bind m (\<lambda>r. case r of Inl e \<Rightarrow> ret (Inl e) | Inr x \<Rightarrow> k x)"

definition cret :: "'a \<Rightarrow> ('e + 'a) dbm" where
  "cret x = ret (Inr x)"

definition and_then :: "'e + 'a \<Rightarrow> ('a \<Rightarrow> 'e + 'b) \<Rightarrow> 'e + 'b" where
  "and_then r f = (case r of Inl e \<Rightarrow> Inl e | Inr x \<Rightarrow> f x)"

definition ensure :: "'e \<Rightarrow> bool \<Rightarrow> 'e + unit" where
  "ensure e b = (if b then Inr () else Inl e)"

text \<open>\<open>From<sqlx::Error>\<close> and \<open>From<io::Error>\<close>.\<close>

definition cdb :: "'a dbm \<Rightarrow> 'a cam" where
  "cdb m =
     bind (tried m) (\<lambda>r.
     ret (case r of
            Inr x \<Rightarrow> Inr x
          | Inl (Database e) \<Rightarrow> Inl (CertDatabase e)
          | Inl _ \<Rightarrow> Inl CertNotImplemented))"

definition cio :: "'a dbm \<Rightarrow> 'a cam" where
  "cio m = bind (tried m) (\<lambda>r. ret (case r of Inr x \<Rightarrow> Inr x | Inl _ \<Rightarrow> Inl CertIo))"

definition read_to_string :: "string \<Rightarrow> string dbm" where
  "read_to_string path =
     stmt (\<lambda>d. case map_of (db_disk d) path of None \<Rightarrow> Inl OtherSqlError | Some c \<Rightarrow> Inr (c, d))"

definition fs_write :: "string \<Rightarrow> string \<Rightarrow> unit dbm" where
  "fs_write path c = exec (\<lambda>d. d \<lparr> db_disk := AList.update path c (db_disk d) \<rparr>)"

definition path_exists :: "string \<Rightarrow> bool dbm" where
  "path_exists path =
     bind (attempt (query (\<lambda>d. map_of (db_disk d) path \<noteq> None))) (\<lambda>r. ret (r = Some True))"

text \<open>Creating a directory and restricting a key file have no effect the model sees.\<close>

definition create_dir_all :: "unit dbm" where
  "create_dir_all = exec (\<lambda>d. d)"

definition restrict_key_permissions :: "unit dbm" where
  "restrict_key_permissions = ignore (exec (\<lambda>d. d))"

section \<open>Certificates\<close>

text \<open>What the sources read of a parsed certificate: key usage is the pair of keyCertSign and cRLSign,
names are raw bytes, common names and alternative names are missing when they cannot be read.\<close>

datatype san = SanDns string | SanIp "nat list" | SanOther

record x509 =
  x_not_before :: DateTime
  x_not_after :: DateTime
  x_is_ca :: bool
  x_key_usage :: "(bool \<times> bool) option"
  x_spki :: string
  x_issuer :: string
  x_subject :: string
  x_serial :: string
  x_subject_cn :: "string option"
  x_issuer_cn :: "string option"
  x_sans :: "san list option"

text \<open>The parameters of a certificate and of a revocation list that is to be signed.\<close>

datatype san_type = DnsName string | IpAddress IpAddr

record cert_params =
  cp_common_name :: string
  cp_organization :: string
  cp_is_ca :: bool
  cp_serial :: "string option"
  cp_key_usages :: "string list"
  cp_ext_usages :: "string list"
  cp_sans :: "san_type list"
  cp_authority_key_id :: bool
  cp_not_before :: DateTime
  cp_not_after :: DateTime

record revoked_cert =
  rv_serial :: string
  rv_time :: DateTime

record crl_params =
  crl_this_update :: DateTime
  crl_next_update :: DateTime
  crl_number :: int
  crl_revoked :: "revoked_cert list"

text \<open>A signing identity: the root's parameters, or a certificate, with a private key.\<close>

datatype Issuer = RootIssuer string | SubIssuer string string

record ca_lib =
  rc_key :: "string \<Rightarrow> string + string"
  rc_self_signed :: "cert_params \<Rightarrow> string \<Rightarrow> string + string"
  rc_issuer :: "string \<Rightarrow> string \<Rightarrow> string + unit"
  rc_csr :: "string \<Rightarrow> string + cert_params \<times> string"
  rc_dns_ok :: "string list \<Rightarrow> string + unit"
  rc_sign :: "cert_params \<Rightarrow> string \<Rightarrow> Issuer \<Rightarrow> string + string"
  rc_sign_crl :: "crl_params \<Rightarrow> Issuer \<Rightarrow> string + string"
  x5_parse :: "string \<Rightarrow> string + x509"
  b64_decode :: "string \<Rightarrow> string + string"
  hx_encode :: "string \<Rightarrow> string"
  hx_decode :: "string \<Rightarrow> string + string"
  tm_from_unix :: "int \<Rightarrow> DateTime option"
  tm_text :: "DateTime \<Rightarrow> string"

definition days :: "int \<Rightarrow> DateTime" where
  "days n = secs (86400 * n)"

definition root_subject_cn :: string where
  "root_subject_cn = ''Firewall Manager Root CA''"

record IssuingCa =
  ic_issuer :: Issuer
  ic_chain_pems :: "string list"
  ic_serial_hex :: string
  ic_subject_cn :: string

record CertAuthority =
  ca_base :: string
  ca_root :: Issuer
  ca_root_cert_pem :: string
  ca_issuing :: "IssuingCa option"

record SignedCert =
  sc_cert_pem :: string
  sc_serial_hex :: string
  sc_ca_chain :: "string list"
  sc_crl_pem :: "string option"

record ServerCert =
  sv_cert_pem :: string
  sv_key_pem :: string

section \<open>PEM\<close>

definition end_marker :: string where
  "end_marker = ''-----END CERTIFICATE-----''"

fun split_lines :: "string \<Rightarrow> string list \<Rightarrow> string list" where
  "split_lines current [] = []"
| "split_lines current (l # ls) =
     (if contains_str l end_marker then (current @ l @ [CHR 0x0A]) # split_lines [] ls
      else split_lines (current @ l @ [CHR 0x0A]) ls)"

definition split_pem_chain :: "string \<Rightarrow> string list" where
  "split_pem_chain bundle = split_lines [] (lines bundle)"

definition pem_to_der :: "ca_lib \<Rightarrow> string \<Rightarrow> CertError + string" where
  "pem_to_der C pem =
     map_sum (\<lambda>e. CertRcgen (''invalid PEM base64: '' @ e)) id
       (b64_decode C (trim (concat (filter (\<lambda>l. \<not> starts_with l ''-----'') (lines pem)))))"

section \<open>The root\<close>

definition build_ca_params :: "DateTime \<Rightarrow> cert_params" where
  "build_ca_params now =
     \<lparr> cp_common_name = root_subject_cn, cp_organization = ''Firewall Manager'', cp_is_ca = True,
       cp_serial = None, cp_key_usages = [''keyCertSign'', ''cRLSign'', ''digitalSignature''],
       cp_ext_usages = [], cp_sans = [], cp_authority_key_id = False,
       cp_not_before = now - days 1, cp_not_after = now + days (365 * 10) \<rparr>"

text \<open>The row of the root; its serial is the text of a new UUID.\<close>

definition insert_root_row :: "DateTime \<Rightarrow> Uuid \<Rightarrow> string \<Rightarrow> string \<Rightarrow> unit dbm" where
  "insert_root_row now i serial pem =
     stmt (\<lambda>d. if i \<in> set (map ce_id (db_certificates d))
                  \<or> serial \<in> set (map ce_serial_number (db_certificates d))
               then Inl UniqueViolation
               else Inr ((), d \<lparr> db_certificates := db_certificates d @
                 [\<lparr> ce_id = i, ce_host_id = None, ce_serial_number = serial,
                    ce_common_name = root_subject_cn, ce_status = CertActive, ce_issued_at = now,
                    ce_expires_at = now + days (365 * 10), ce_revoked_at = None, ce_cert_pem = pem,
                    ce_ca_tier = ''root'', ce_issuer_serial = None \<rparr>] \<rparr>))"

definition persist_root_cert_row :: "DateTime \<Rightarrow> Uuid \<Rightarrow> string \<Rightarrow> string \<Rightarrow> unit cam" where
  "persist_root_cert_row now i serial pem =
     cbind (cdb (query (\<lambda>d. length (filter (\<lambda>c. ce_ca_tier c = ''root'' \<and> ce_status c = CertActive)
                                      (db_certificates d))))) (\<lambda>existing.
     if 0 < existing then cret () else cdb (insert_root_row now i serial pem))"

text \<open>\<open>gen\<close> is what generating a key gives; the row's identifier and serial are drawn too.\<close>

definition load_or_generate :: "ca_lib \<Rightarrow> DateTime \<Rightarrow> string + string \<Rightarrow> string \<Rightarrow> (string \<times> string \<times> bool) cam" where
  "load_or_generate C now gen base =
     bind (path_exists (base @ ''/ca.pem'')) (\<lambda>have_cert.
     bind (if have_cert then path_exists (base @ ''/ca.key.pem'') else ret False) (\<lambda>have_both.
     if have_both
     then cbind (cio (read_to_string (base @ ''/ca.key.pem''))) (\<lambda>key.
          cbind (cio (read_to_string (base @ ''/ca.pem''))) (\<lambda>cert.
          cbind (ret (map_sum CertRcgen id (rc_key C key))) (\<lambda>_.
          cret (key, cert, False))))
     else cbind (ret (map_sum CertRcgen id gen)) (\<lambda>key.
          cbind (ret (map_sum CertRcgen id (rc_self_signed C (build_ca_params now) key))) (\<lambda>cert.
          cbind (cio (fs_write (base @ ''/ca.pem'') cert)) (\<lambda>_.
          cbind (cio (fs_write (base @ ''/ca.key.pem'') key)) (\<lambda>_.
          bind restrict_key_permissions (\<lambda>_.
          cret (key, cert, True))))))))"

definition init_ca ::
  "ca_lib \<Rightarrow> DateTime \<Rightarrow> string + string \<Rightarrow> Uuid \<Rightarrow> string \<Rightarrow> string \<Rightarrow> CertAuthority cam" where
  "init_ca C now gen i serial base =
     cbind (cio create_dir_all) (\<lambda>_.
     cbind (load_or_generate C now gen base) (\<lambda>(key, cert, first_run).
     cbind (if first_run then persist_root_cert_row now i serial cert else cret ()) (\<lambda>_.
     cret \<lparr> ca_base = base, ca_root = RootIssuer key, ca_root_cert_pem = cert, ca_issuing = None \<rparr>)))"

section \<open>An imported sub-CA\<close>

definition parse_block :: "ca_lib \<Rightarrow> string \<Rightarrow> string \<Rightarrow> CertError + x509" where
  "parse_block C label pem =
     and_then (pem_to_der C pem) (\<lambda>der.
     map_sum (\<lambda>e. CertRcgen (label @ '': '' @ e)) id (x5_parse C der))"

definition check_validity :: "ca_lib \<Rightarrow> DateTime \<Rightarrow> string \<Rightarrow> x509 \<Rightarrow> CertError + unit" where
  "check_validity C now label c =
     and_then (ensure (CertRcgen (label @ '' is not yet valid (not_before '' @ tm_text C (x_not_before c)
                 @ '' is in the future)'')) (\<not> now < x_not_before c)) (\<lambda>_.
     ensure (CertRcgen (label @ '' is expired (not_after '' @ tm_text C (x_not_after c)
                 @ '' is in the past)'')) (\<not> now > x_not_after c))"

definition check_usage :: "x509 \<Rightarrow> CertError + unit" where
  "check_usage c =
     and_then (ensure (CertRcgen ''issuing CA cert is not a CA (basicConstraints CA:true missing)'')
                 (x_is_ca c)) (\<lambda>_.
     and_then (ok_or (CertRcgen (''issuing CA cert has no keyUsage extension '' @ em_dash
                        @ '' cannot sign certs'')) (x_key_usage c)) (\<lambda>(cert_sign, crl_sign).
     and_then (ensure (CertRcgen (''issuing CA cert keyUsage lacks keyCertSign '' @ em_dash
                 @ '' cannot sign agent certs'')) cert_sign) (\<lambda>_.
     ensure (CertRcgen (''issuing CA cert keyUsage lacks cRLSign '' @ em_dash
       @ '' CRL revocation requires it; ask the upstream CA for a sub-CA with cRLSign'')) crl_sign)))"

definition chain_label :: "nat \<Rightarrow> string" where
  "chain_label i = ''chain cert #'' @ show_nat i"

fun chain_links :: "ca_lib \<Rightarrow> DateTime \<Rightarrow> nat \<Rightarrow> string list \<Rightarrow> CertError + (string \<times> string) list" where
  "chain_links C now i [] = Inr []"
| "chain_links C now i (pem # pems) =
     and_then (parse_block C (chain_label i) pem) (\<lambda>c.
     and_then (check_validity C now (chain_label i) c) (\<lambda>_.
     and_then (chain_links C now (Suc i) pems) (\<lambda>links.
     Inr ((x_issuer c, x_subject c) # links))))"

fun check_links :: "nat \<Rightarrow> (string \<times> string) list \<Rightarrow> CertError + unit" where
  "check_links i [] = Inr ()"
| "check_links i [(issuer, subject)] =
     ensure (CertRcgen (''issuing CA chain does not terminate in a self-signed root (terminal cert''
       @ [CHR 0x27] @ ''s issuer != subject)'')) (issuer = subject)"
| "check_links i ((issuer, subject) # (issuer', subject') # links) =
     and_then (ensure (CertRcgen (''issuing CA chain is broken at cert #'' @ show_nat i
                 @ '': its issuer does not match cert #'' @ show_nat (Suc i) @ [CHR 0x27]
                 @ ''s subject'')) (issuer = subject')) (\<lambda>_.
     check_links (Suc i) ((issuer', subject') # links))"

definition load_issuing :: "ca_lib \<Rightarrow> DateTime \<Rightarrow> string \<Rightarrow> string \<Rightarrow> string \<Rightarrow> CertError + IssuingCa" where
  "load_issuing C now chain_path chain_pem key_pem =
     and_then (map_sum (\<lambda>e. CertRcgen (''issuing CA key: '' @ e)) id (rc_key C key_pem)) (\<lambda>spki.
     let chain = split_pem_chain chain_pem in
     and_then (ok_or (CertRcgen (''no certificate in '' @ chain_path))
                 (if chain = [] then None else Some (hd chain))) (\<lambda>sub_pem.
     and_then (parse_block C ''issuing CA cert'' sub_pem) (\<lambda>sub.
     and_then (check_validity C now ''issuing CA cert'' sub) (\<lambda>_.
     and_then (check_usage sub) (\<lambda>_.
     and_then (ensure (CertRcgen ''issuing CA key does not match the sub-CA certificate'')
                 (spki = x_spki sub)) (\<lambda>_.
     and_then (chain_links C now 1 (tl chain)) (\<lambda>links.
     and_then (check_links 0 ((x_issuer sub, x_subject sub) # links)) (\<lambda>_.
     and_then (map_sum (\<lambda>e. CertRcgen (''issuing CA: '' @ e)) id (rc_issuer C sub_pem key_pem)) (\<lambda>_.
     Inr \<lparr> ic_issuer = SubIssuer sub_pem key_pem, ic_chain_pems = chain,
           ic_serial_hex = hx_encode C (x_serial sub),
           ic_subject_cn = unwrap_or [] (x_subject_cn sub) \<rparr>)))))))))"

definition with_issuing_ca ::
  "ca_lib \<Rightarrow> DateTime \<Rightarrow> string \<Rightarrow> string \<Rightarrow> CertAuthority \<Rightarrow> CertAuthority cam" where
  "with_issuing_ca C now chain_path key_path ca =
     cbind (cio (read_to_string chain_path)) (\<lambda>chain_pem.
     cbind (cio (read_to_string key_path)) (\<lambda>key_pem.
     ret (map_sum id (\<lambda>ic. ca \<lparr> ca_issuing := Some ic \<rparr>)
            (load_issuing C now chain_path chain_pem key_pem))))"

definition issuer :: "CertAuthority \<Rightarrow> Issuer" where
  "issuer ca = unwrap_or (ca_root ca) (map_option ic_issuer (ca_issuing ca))"

definition issuing_serial_hex :: "CertAuthority \<Rightarrow> string" where
  "issuing_serial_hex ca = (case ca_issuing ca of Some ic \<Rightarrow> ic_serial_hex ic | None \<Rightarrow> [])"

definition ca_chain_for_agents :: "CertAuthority \<Rightarrow> string list" where
  "ca_chain_for_agents ca =
     (case ca_issuing ca of Some ic \<Rightarrow> ic_chain_pems ic | None \<Rightarrow> [ca_root_cert_pem ca])"

definition verification_anchors :: "CertAuthority \<Rightarrow> string list" where
  "verification_anchors ca =
     ca_root_cert_pem ca # (case ca_issuing ca of Some ic \<Rightarrow> ic_chain_pems ic | None \<Rightarrow> [])"

definition issuing_chain_pems :: "CertAuthority \<Rightarrow> string list option" where
  "issuing_chain_pems ca = map_option ic_chain_pems (ca_issuing ca)"

definition issuing_subject_cn :: "CertAuthority \<Rightarrow> string" where
  "issuing_subject_cn ca =
     (case ca_issuing ca of Some ic \<Rightarrow> ic_subject_cn ic | None \<Rightarrow> root_subject_cn)"

section \<open>Signing\<close>

text \<open>The request's own alternative names and key usages stay; subject, serial, extended usages and
validity are the manager's.  The new serial is drawn, the host is given by its text.\<close>

definition agent_params :: "DateTime \<Rightarrow> Uuid \<Rightarrow> string \<Rightarrow> cert_params \<Rightarrow> cert_params" where
  "agent_params now serial host_id p =
     p \<lparr> cp_common_name := host_id, cp_organization := ''Firewall Manager Agent'',
         cp_serial := Some (uuid_bytes serial), cp_ext_usages := [''serverAuth'', ''clientAuth''],
         cp_authority_key_id := True, cp_not_before := now - days 1, cp_not_after := now + days 365 \<rparr>"

definition sign_csr ::
  "ca_lib \<Rightarrow> CertAuthority \<Rightarrow> DateTime \<Rightarrow> Uuid \<Rightarrow> string \<Rightarrow> string \<Rightarrow> CertError + SignedCert" where
  "sign_csr C ca now serial csr_pem host_id =
     and_then (map_sum CertRcgen id (rc_csr C csr_pem)) (\<lambda>(params, public_key).
     and_then (map_sum CertRcgen id
                 (rc_sign C (agent_params now serial host_id params) public_key (issuer ca))) (\<lambda>pem.
     Inr \<lparr> sc_cert_pem = pem, sc_serial_hex = hx_encode C (uuid_bytes serial),
           sc_ca_chain = ca_chain_for_agents ca, sc_crl_pem = None \<rparr>))"

definition san_ips :: "string list \<Rightarrow> IpAddr list" where
  "san_ips sans = List.map_filter parse_ip sans"

definition san_names :: "string list \<Rightarrow> string list" where
  "san_names sans = filter (\<lambda>s. parse_ip s = None) sans"

definition server_params :: "DateTime \<Rightarrow> string list \<Rightarrow> cert_params" where
  "server_params now sans =
     \<lparr> cp_common_name = ''Firewall Manager Agent API'', cp_organization = ''Firewall Manager'',
       cp_is_ca = False, cp_serial = None,
       cp_key_usages = [''digitalSignature'', ''keyEncipherment''], cp_ext_usages = [''serverAuth''],
       cp_sans = map DnsName (san_names sans) @ map IpAddress (san_ips sans),
       cp_authority_key_id = True, cp_not_before = now - days 1, cp_not_after = now + days 365 \<rparr>"

text \<open>\<open>gen\<close> is what generating a key gives: its PEM text, whose public part \<open>rc_key\<close> reads.\<close>

definition issue_server_cert ::
  "ca_lib \<Rightarrow> CertAuthority \<Rightarrow> DateTime \<Rightarrow> string + string \<Rightarrow> string list \<Rightarrow> CertError + ServerCert" where
  "issue_server_cert C ca now gen sans =
     and_then (map_sum CertRcgen id gen) (\<lambda>key.
     and_then (map_sum CertRcgen id (rc_dns_ok C (san_names sans))) (\<lambda>_.
     and_then (map_sum CertRcgen id (rc_key C key)) (\<lambda>public_key.
     and_then (map_sum CertRcgen id (rc_sign C (server_params now sans) public_key (issuer ca))) (\<lambda>pem.
     Inr \<lparr> sv_cert_pem = pem, sv_key_pem = key \<rparr>))))"

section \<open>Revocation lists\<close>

definition revocable :: "DateTime \<Rightarrow> CertRow \<Rightarrow> bool" where
  "revocable now c \<longleftrightarrow> ce_status c = CertRevoked \<and> ce_revoked_at c \<noteq> None \<and> now < ce_expires_at c"

definition revoked_rows :: "DateTime \<Rightarrow> db \<Rightarrow> CertRow list" where
  "revoked_rows now d =
     sort_key (\<lambda>c. unwrap_or 0 (ce_revoked_at c)) (filter (revocable now) (db_certificates d))"

definition in_issuing_group :: "CertAuthority \<Rightarrow> CertRow \<Rightarrow> bool" where
  "in_issuing_group ca c =
     (case ca_issuing ca of None \<Rightarrow> False | Some ic \<Rightarrow> ce_issuer_serial c = Some (ic_serial_hex ic))"

definition revoked_entry :: "ca_lib \<Rightarrow> DateTime \<Rightarrow> string \<Rightarrow> CertRow \<Rightarrow> revoked_cert" where
  "revoked_entry C now serial c =
     \<lparr> rv_serial = serial,
       rv_time = unwrap_or now (tm_from_unix C (unwrap_or 0 (ce_revoked_at c) div 1000000000)) \<rparr>"

fun group_revoked ::
  "ca_lib \<Rightarrow> CertAuthority \<Rightarrow> DateTime \<Rightarrow> CertRow list \<Rightarrow> CertError + revoked_cert list \<times> revoked_cert list"
where
  "group_revoked C ca now [] = Inr ([], [])"
| "group_revoked C ca now (c # cs) =
     and_then (map_sum (\<lambda>e. CertRcgen (''serial_number hex: '' @ e)) id
                 (hx_decode C (trim (ce_serial_number c)))) (\<lambda>serial.
     and_then (group_revoked C ca now cs) (\<lambda>(root, issuing).
     Inr (if in_issuing_group ca c then (root, revoked_entry C now serial c # issuing)
          else (revoked_entry C now serial c # root, issuing))))"

text \<open>The counter of an issuer, a \<open>BIGINT\<close>.\<close>

definition next_crl_number :: "string \<Rightarrow> int dbm" where
  "next_crl_number key =
     stmt (\<lambda>d. let n = (case map_of (db_crl_counter d) key of None \<Rightarrow> 1 | Some m \<Rightarrow> m + 1)
               in if i64_range n
                  then Inr (n, d \<lparr> db_crl_counter := AList.update key n (db_crl_counter d) \<rparr>)
                  else Inl OtherSqlError)"

definition new_crl :: "DateTime \<Rightarrow> int \<Rightarrow> revoked_cert list \<Rightarrow> crl_params" where
  "new_crl now n revoked =
     \<lparr> crl_this_update = now, crl_next_update = now + secs (24 * 3600), crl_number = n,
       crl_revoked = revoked \<rparr>"

definition sign_group ::
  "ca_lib \<Rightarrow> DateTime \<Rightarrow> revoked_cert list \<Rightarrow> Issuer \<Rightarrow> string \<Rightarrow> string list cam" where
  "sign_group C now revoked iss key =
     (if revoked = [] then cret []
      else cbind (cdb (next_crl_number key)) (\<lambda>n.
           ret (map_sum CertRcgen (\<lambda>pem. [pem]) (rc_sign_crl C (new_crl now n revoked) iss))))"

definition generate_crls :: "ca_lib \<Rightarrow> CertAuthority \<Rightarrow> DateTime \<Rightarrow> string list cam" where
  "generate_crls C ca now =
     cbind (cdb (query (revoked_rows now))) (\<lambda>rows.
     cbind (ret (group_revoked C ca now rows)) (\<lambda>(root, issuing).
     cbind (sign_group C now root (ca_root ca) ''root'') (\<lambda>a.
     cbind (sign_group C now issuing (issuer ca) ''issuing'') (\<lambda>b.
     cret (a @ b)))))"

section \<open>Facts\<close>

lemma and_then_Inr: "and_then r f = Inr y \<longleftrightarrow> (\<exists>x. r = Inr x \<and> f x = Inr y)"
  by (cases r) (auto simp: and_then_def)

lemma is_ok_iff: "is_ok r \<longleftrightarrow> (\<exists>x. r = Inr x)" "\<not> is_ok r \<longleftrightarrow> (\<exists>e. r = Inl e)"
  by (cases r; simp)+

lemma ensure_Inr [simp]: "ensure e b = Inr u \<longleftrightarrow> b"
  by (simp add: ensure_def)

lemma ok_or_Inr [simp]: "ok_or e x = Inr y \<longleftrightarrow> x = Some y"
  by (cases x) auto

lemma map_sum_Inr_iff: "map_sum f g r = Inr y \<longleftrightarrow> (\<exists>x. r = Inr x \<and> y = g x)"
  by (cases r) auto

lemma map_sum_id_Inr [simp]: "map_sum f id r = Inr y \<longleftrightarrow> r = Inr y"
  by (cases r) auto

lemma outcome_cbind [outcome_intros]:
  "outcome m d (\<lambda>r d'. case r of Inl e \<Rightarrow> Q (Inl e) d' | Inr x \<Rightarrow> outcome (k x) d' Q E) E \<Longrightarrow>
     outcome (cbind m k) d Q E"
  unfolding cbind_def
  by (intro outcome_bind, erule outcome_mono) (auto split: sum.splits intro: outcome_ret)

lemma outcome_cret [outcome_intros]: "Q (Inr x) d \<Longrightarrow> outcome (cret x) d Q E"
  unfolding cret_def by (rule outcome_ret)

lemma outcome_cdb [outcome_intros]:
  "outcome m d (\<lambda>x. Q (Inr x))
     (\<lambda>e. Q (Inl (case e of Database s \<Rightarrow> CertDatabase s | _ \<Rightarrow> CertNotImplemented))) \<Longrightarrow>
     outcome (cdb m) d Q E"
  unfolding cdb_def
  by (intro outcome_bind outcome_tried, erule outcome_mono) (auto intro!: outcome_ret split: AppError.splits)

lemma outcome_cio [outcome_intros]:
  "outcome m d (\<lambda>x. Q (Inr x)) (\<lambda>_. Q (Inl CertIo)) \<Longrightarrow> outcome (cio m) d Q E"
  unfolding cio_def by (intro outcome_bind outcome_tried, erule outcome_mono) (auto intro!: outcome_ret)

lemma run_cam [run_simps]:
  "cbind m k (d, fs) = (case m (d, fs) of (Inl e, s) \<Rightarrow> (Inl e, s)
     | (Inr (Inl e), s) \<Rightarrow> (Inr (Inl e), s) | (Inr (Inr x), s) \<Rightarrow> k x s)"
  "cret y s = (Inr (Inr y), s)"
  by (auto simp: cbind_def cret_def run_simps split: prod.splits sum.splits)

lemma group_revoked_Inr:
  "group_revoked C ca now cs = Inr (root, issuing) \<Longrightarrow>
     (\<forall>c \<in> set cs. \<exists>serial. hx_decode C (trim (ce_serial_number c)) = Inr serial
        \<and> revoked_entry C now serial c \<in> set (if in_issuing_group ca c then issuing else root))
     \<and> (\<forall>e \<in> set root. \<exists>c \<in> set cs. \<not> in_issuing_group ca c
          \<and> hx_decode C (trim (ce_serial_number c)) = Inr (rv_serial e))
     \<and> (\<forall>e \<in> set issuing. \<exists>c \<in> set cs. in_issuing_group ca c
          \<and> hx_decode C (trim (ce_serial_number c)) = Inr (rv_serial e))"
proof (induction cs arbitrary: root issuing)
  case Nil
  then show ?case by simp
next
  case (Cons c cs)
  obtain serial a b where c: "hx_decode C (trim (ce_serial_number c)) = Inr serial"
    and cs: "group_revoked C ca now cs = Inr (a, b)"
    and ri: "(root, issuing) = (if in_issuing_group ca c then (a, revoked_entry C now serial c # b)
               else (revoked_entry C now serial c # a, b))"
    using Cons.prems by (auto simp: and_then_Inr split: if_splits)
  have e: "rv_serial (revoked_entry C now serial c) = serial" by (simp add: revoked_entry_def)
  show ?case
  proof (cases "in_issuing_group ca c")
    case True
    with ri have "root = a" "issuing = revoked_entry C now serial c # b" by simp_all
    with True c e Cons.IH [OF cs] show ?thesis by (auto split: if_split_asm; metis)
  next
    case False
    with ri have "root = revoked_entry C now serial c # a" "issuing = b" by simp_all
    with False c e Cons.IH [OF cs] show ?thesis by (auto split: if_split_asm; metis)
  qed
qed

text \<open>The lists signed for a group of revoked certificates: none, or one that names them.\<close>

definition group_lists :: "ca_lib \<Rightarrow> DateTime \<Rightarrow> revoked_cert list \<Rightarrow> Issuer \<Rightarrow> string list \<Rightarrow> bool" where
  "group_lists C now revoked iss pems \<longleftrightarrow>
     (if revoked = [] then pems = []
      else \<exists>n pem. pems = [pem] \<and> rc_sign_crl C (new_crl now n revoked) iss = Inr pem)"

lemma sign_group_outcome:
  "outcome (sign_group C now revoked iss key) d
     (\<lambda>r _. case r of Inl _ \<Rightarrow> True | Inr pems \<Rightarrow> group_lists C now revoked iss pems) (\<lambda>_ _. False)"
  unfolding sign_group_def next_crl_number_def Let_def group_lists_def
  by (intro outcome_intros outcome_stmt)
    (auto simp: map_sum_Inr_iff intro!: outcome_ret split: sum.split if_split_asm, blast)

definition issuer_of :: "CertAuthority \<Rightarrow> CertRow \<Rightarrow> Issuer" where
  "issuer_of ca c = (if in_issuing_group ca c then issuer ca else ca_root ca)"

lemma set_revoked_rows: "set (revoked_rows now d) = {c \<in> set (db_certificates d). revocable now c}"
  by (auto simp: revoked_rows_def)

lemma generate_crls_outcome:
  "outcome (generate_crls C ca now) d
     (\<lambda>r _. case r of Inl _ \<Rightarrow> True | Inr pems \<Rightarrow>
        \<exists>root issuing a b. group_revoked C ca now (revoked_rows now d) = Inr (root, issuing)
        \<and> pems = a @ b \<and> group_lists C now root (ca_root ca) a
        \<and> group_lists C now issuing (issuer ca) b)
     (\<lambda>_ _. False)"
  unfolding generate_crls_def
  by (intro outcome_intros outcome_mono [OF sign_group_outcome])
    (auto intro!: outcome_intros outcome_mono [OF sign_group_outcome] split: sum.split, blast)

text \<open>A serial that is no hexadecimal number makes every generation fail.\<close>

lemma group_revoked_Inl:
  "c \<in> set cs \<Longrightarrow> hx_decode C (trim (ce_serial_number c)) = Inl e \<Longrightarrow>
     \<exists>e'. group_revoked C ca now cs = Inl e'"
proof (induction cs)
  case Nil
  then show ?case by simp
next
  case (Cons x xs)
  then show ?case
    by (cases "hx_decode C (trim (ce_serial_number x))") (auto simp: and_then_def)
qed

lemma bad_serial_blocks_crls:
  assumes "c \<in> set (db_certificates d)" and "revocable now c"
    and "hx_decode C (trim (ce_serial_number c)) = Inl e"
  shows "outcome (generate_crls C ca now) d (\<lambda>r _. \<exists>e'. r = Inl e') (\<lambda>_ _. False)"
proof -
  obtain e' where "group_revoked C ca now (revoked_rows now d) = Inl e'"
    using group_revoked_Inl [OF _ assms(3), of "revoked_rows now d" ca now] assms(1,2)
    by (auto simp: set_revoked_rows)
  then show ?thesis
    unfolding generate_crls_def by (intro outcome_intros) (auto intro!: outcome_intros)
qed

text \<open>What a start leaves on the disk.\<close>

lemma init_ca_disk:
  assumes "\<And>key. gen = Inr key \<Longrightarrow> \<exists>spki. rc_key C key = Inr spki"
  shows "outcome (init_ca C now gen i serial base) d
     (\<lambda>r d'. \<forall>ca. r = Inr ca \<longrightarrow> (\<exists>key spki. rc_key C key = Inr spki
        \<and> map_of (db_disk d') (base @ ''/ca.key.pem'') = Some key
        \<and> map_of (db_disk d') (base @ ''/ca.pem'') = Some (ca_root_cert_pem ca)
        \<and> ca = \<lparr> ca_base = base, ca_root = RootIssuer key, ca_root_cert_pem = ca_root_cert_pem ca,
                 ca_issuing = None \<rparr>))
     (\<lambda>_ _. False)"
  unfolding init_ca_def load_or_generate_def create_dir_all_def path_exists_def read_to_string_def
    fs_write_def restrict_key_permissions_def persist_root_cert_row_def insert_root_row_def
  by (intro outcome_intros outcome_stmt)
    (use assms in \<open>auto simp: update_conv' intro!: outcome_intros outcome_stmt
      split: option.splits sum.splits if_split_asm\<close>)

text \<open>A certificate is listed: an entry with its serial is in a list signed by its issuer.  Conversely
an entry stands for a revoked certificate of the signer.\<close>

definition listed ::
  "ca_lib \<Rightarrow> CertAuthority \<Rightarrow> (string \<Rightarrow> crl_params \<times> Issuer) \<Rightarrow> string list \<Rightarrow> CertRow \<Rightarrow> bool" where
  "listed C ca read_crl pems c \<longleftrightarrow>
     (\<exists>pem \<in> set pems. \<exists>e \<in> set (crl_revoked (fst (read_crl pem))).
        hx_decode C (trim (ce_serial_number c)) = Inr (rv_serial e) \<and> snd (read_crl pem) = issuer_of ca c)"

text \<open>Reading a signed list gives back what was signed.\<close>

definition reads_back :: "ca_lib \<Rightarrow> (string \<Rightarrow> crl_params \<times> Issuer) \<Rightarrow> bool" where
  "reads_back C read_crl \<longleftrightarrow> (\<forall>p iss pem. rc_sign_crl C p iss = Inr pem \<longrightarrow> read_crl pem = (p, iss))"

lemma group_lists_read:
  assumes "group_lists C now rs iss ps"
    and "reads_back C read_crl"
  shows "\<forall>pem \<in> set ps. crl_revoked (fst (read_crl pem)) = rs \<and> snd (read_crl pem) = iss"
    and "rs \<noteq> [] \<longrightarrow> ps \<noteq> []"
  using assms by (fastforce simp: group_lists_def new_crl_def reads_back_def split: if_split_asm)+

lemma crls_complete:
  assumes "result (generate_crls C ca now) (d, fs) = Inr (Inr pems)"
    and "reads_back C read_crl"
    and c: "c \<in> set (db_certificates d)" "revocable now c"
  shows "listed C ca read_crl pems c"
proof -
  obtain root issuing a b where groups: "group_revoked C ca now (revoked_rows now d) = Inr (root, issuing)"
    and pems: "pems = a @ b" and a: "group_lists C now root (ca_root ca) a"
    and b: "group_lists C now issuing (issuer ca) b"
    using outcome_ok [OF generate_crls_outcome assms(1)] by auto
  let ?group = "if in_issuing_group ca c then issuing else root"
  let ?lists = "if in_issuing_group ca c then b else a"
  obtain s where s: "hx_decode C (trim (ce_serial_number c)) = Inr s"
      "revoked_entry C now s c \<in> set ?group"
    using group_revoked_Inr [OF groups, unfolded set_revoked_rows] c by blast
  note lists = group_lists_read [OF a assms(2)] group_lists_read [OF b assms(2)]
  have "?lists \<noteq> []" using s(2) lists(2,4) by (auto split: if_split_asm)
  then have "hd ?lists \<in> set ?lists" by (rule list.set_sel)
  moreover have "\<forall>pem \<in> set ?lists. pem \<in> set pems \<and> crl_revoked (fst (read_crl pem)) = ?group
      \<and> snd (read_crl pem) = issuer_of ca c"
    using lists(1,3) by (simp add: pems issuer_of_def)
  moreover have "rv_serial (revoked_entry C now s c) = s" by (simp add: revoked_entry_def)
  ultimately show ?thesis unfolding listed_def using s by metis
qed

lemma crls_exact:
  assumes "result (generate_crls C ca now) (d, fs) = Inr (Inr pems)"
    and "reads_back C read_crl"
    and pem: "pem \<in> set pems" and e: "e \<in> set (crl_revoked (fst (read_crl pem)))"
  shows "\<exists>c \<in> set (db_certificates d). revocable now c
      \<and> hx_decode C (trim (ce_serial_number c)) = Inr (rv_serial e) \<and> snd (read_crl pem) = issuer_of ca c"
proof -
  obtain root issuing a b where groups: "group_revoked C ca now (revoked_rows now d) = Inr (root, issuing)"
    and pems: "pems = a @ b" and a: "group_lists C now root (ca_root ca) a"
    and b: "group_lists C now issuing (issuer ca) b"
    using outcome_ok [OF generate_crls_outcome assms(1)] by auto
  note lists = group_lists_read [OF a assms(2)] group_lists_read [OF b assms(2)]
  note g = group_revoked_Inr [OF groups, unfolded set_revoked_rows]
  have "\<exists>c \<in> set (db_certificates d). revocable now c \<and> \<not> in_issuing_group ca c
        \<and> hx_decode C (trim (ce_serial_number c)) = Inr (rv_serial e)"
    if "pem \<in> set a" using that e g lists(1) by auto
  moreover have "\<exists>c \<in> set (db_certificates d). revocable now c \<and> in_issuing_group ca c
        \<and> hx_decode C (trim (ce_serial_number c)) = Inr (rv_serial e)"
    if "pem \<in> set b" using that e g lists(3) by auto
  ultimately show ?thesis using pem lists(1,3) by (auto simp: pems issuer_of_def)
qed

text \<open>When nothing is refused, signing works and the serials are hexadecimal, there is a result.\<close>

lemma succeeds_cbind [succeeds_intros]:
  "succeeds m d (\<lambda>r d'. case r of Inl e \<Rightarrow> Q (Inl e) d' | Inr x \<Rightarrow> succeeds (k x) d' Q) \<Longrightarrow>
     succeeds (cbind m k) d Q"
  unfolding cbind_def
  by (intro succeeds_bind, erule succeeds_mono) (auto split: sum.splits intro: succeeds_basic)

lemma succeeds_cret [succeeds_intros]: "Q (Inr x) d \<Longrightarrow> succeeds (cret x) d Q"
  by (simp add: succeeds_def run_simps)

lemma succeeds_cdb [succeeds_intros]: "succeeds m d (\<lambda>x. Q (Inr x)) \<Longrightarrow> succeeds (cdb m) d Q"
  by (auto simp: succeeds_def cdb_def run_simps)

lemma group_revoked_ok:
  "\<forall>c \<in> set cs. is_ok (hx_decode C (trim (ce_serial_number c))) \<Longrightarrow>
     \<exists>root issuing. group_revoked C ca now cs = Inr (root, issuing)"
proof (induction cs)
  case Nil
  then show ?case by simp
next
  case (Cons c cs)
  then obtain s a b where "hx_decode C (trim (ce_serial_number c)) = Inr s"
      "group_revoked C ca now cs = Inr (a, b)"
    by (auto simp: is_ok_def split: sum.splits)
  then show ?case by (simp add: and_then_def)
qed

definition counters_ok :: "db \<Rightarrow> bool" where
  "counters_ok d \<longleftrightarrow> (\<forall>k n. map_of (db_crl_counter d) k = Some n \<longrightarrow> i64_range (n + 1))"

lemma sign_group_succeeds:
  assumes "\<And>p. is_ok (rc_sign_crl C p iss)"
    and "\<And>n. map_of (db_crl_counter d) key = Some n \<Longrightarrow> i64_range (n + 1)"
    and "\<And>pems xs. (\<forall>k. k \<noteq> key \<longrightarrow> map_of xs k = map_of (db_crl_counter d) k) \<Longrightarrow>
      Q (Inr pems) (d \<lparr> db_crl_counter := xs \<rparr>)"
  shows "succeeds (sign_group C now revoked iss key) d Q"
proof -
  let ?n = "case map_of (db_crl_counter d) key of None \<Rightarrow> 1 | Some m \<Rightarrow> m + 1"
  let ?xs = "AList.update key ?n (db_crl_counter d)"
  have n: "i64_range ?n" using assms(2) by (auto simp: i64_range_def split: option.split)
  obtain pem where pem: "rc_sign_crl C (new_crl now ?n revoked) iss = Inr pem"
    using assms(1) [of "new_crl now ?n revoked"] by (auto simp: is_ok_def split: sum.splits)
  have "Q (Inr []) d" using assms(3) [of "db_crl_counter d" "[]"] by simp
  moreover have "Q (Inr [pem]) (d \<lparr> db_crl_counter := ?xs \<rparr>)"
    by (rule assms(3)) (simp add: update_conv')
  ultimately show ?thesis
    unfolding sign_group_def next_crl_number_def Let_def
    by (auto simp: succeeds_def run_simps cdb_def n pem)
qed

lemma generate_crls_succeeds:
  assumes "\<And>p iss. is_ok (rc_sign_crl C p iss)" and "counters_ok d"
    and "\<forall>c \<in> set (db_certificates d). revocable now c \<longrightarrow> is_ok (hx_decode C (trim (ce_serial_number c)))"
  shows "succeeds (generate_crls C ca now) d (\<lambda>r d'. \<exists>pems xs. r = Inr pems
    \<and> d' = d \<lparr> db_crl_counter := xs \<rparr>)"
proof -
  obtain root issuing where g: "group_revoked C ca now (revoked_rows now d) = Inr (root, issuing)"
    using group_revoked_ok [of "revoked_rows now d" C ca now] assms(3) by (auto simp: set_revoked_rows)
  show ?thesis
    unfolding generate_crls_def
    by (intro succeeds_intros)
      (use assms(1,2) in \<open>auto simp: g counters_ok_def intro!: succeeds_intros sign_group_succeeds, blast\<close>)
qed

text \<open>What is known of a chain that was read.\<close>

definition read_cert :: "ca_lib \<Rightarrow> string \<Rightarrow> x509 option" where
  "read_cert C pem =
     (case pem_to_der C pem of
        Inl _ \<Rightarrow> None
      | Inr der \<Rightarrow> (case x5_parse C der of Inl _ \<Rightarrow> None | Inr c \<Rightarrow> Some c))"

definition valid_at :: "DateTime \<Rightarrow> x509 \<Rightarrow> bool" where
  "valid_at now c \<longleftrightarrow> x_not_before c \<le> now \<and> now \<le> x_not_after c"

lemma parse_block_Inr: "parse_block C l pem = Inr c \<longleftrightarrow> read_cert C pem = Some c"
  by (auto simp: parse_block_def read_cert_def and_then_Inr split: sum.splits)

lemma check_validity_Inr: "check_validity C now l c = Inr u \<longleftrightarrow> valid_at now c"
  by (auto simp: check_validity_def valid_at_def and_then_Inr)

lemma check_usage_Inr: "check_usage c = Inr u \<longleftrightarrow> x_is_ca c \<and> x_key_usage c = Some (True, True)"
  by (auto simp: check_usage_def and_then_Inr split: prod.splits)

lemma chain_links_Inr:
  "chain_links C now i pems = Inr links \<longleftrightarrow>
     (\<exists>cs. map (read_cert C) pems = map Some cs \<and> list_all (valid_at now) cs
        \<and> links = map (\<lambda>c. (x_issuer c, x_subject c)) cs)"
proof (induction pems arbitrary: i links)
  case Nil
  then show ?case by auto
next
  case (Cons pem pems)
  have "map (read_cert C) (pem # pems) = map Some cs \<longleftrightarrow>
      (\<exists>c cs'. cs = c # cs' \<and> read_cert C pem = Some c \<and> map (read_cert C) pems = map Some cs')" for cs
    by (cases cs) auto
  then show ?case
    by (fastforce simp: and_then_Inr parse_block_Inr check_validity_Inr Cons.IH)
qed

lemma check_links_Inr:
  "cs \<noteq> [] \<Longrightarrow> check_links i (map (\<lambda>c. (x_issuer c, x_subject c)) cs) = Inr u \<longleftrightarrow>
     successively (\<lambda>a b. x_issuer a = x_subject b) cs \<and> x_issuer (last cs) = x_subject (last cs)"
  by (induction cs arbitrary: i rule: induct_list012) (auto simp: and_then_Inr)

text \<open>Lines of a text, one after the other.\<close>

lemma lines_Cons_line: "CHR 0x0A \<notin> set l \<Longrightarrow> lines (l @ CHR 0x0A # s) = chop_cr l # lines s"
  by (simp add: lines_def split_on_append_sep split_on_free Let_def)

definition pem_text :: "string list \<Rightarrow> string" where
  "pem_text ls = concat (map (\<lambda>l. l @ [CHR 0x0A]) ls)"

lemma lines_pem_text:
  "list_all (\<lambda>l. CHR 0x0A \<notin> set l) ls \<Longrightarrow> lines (pem_text ls @ s) = map chop_cr ls @ lines s"
  by (induction ls) (simp_all add: pem_text_def lines_Cons_line)

text \<open>The lines of a block: the marker is in the last one only, and no line holds a line end.\<close>

definition pem_block :: "string list \<Rightarrow> bool" where
  "pem_block ls \<longleftrightarrow> ls \<noteq> [] \<and> contains_str (last ls) end_marker
     \<and> list_all (\<lambda>l. \<not> contains_str l end_marker) (butlast ls)
     \<and> list_all (\<lambda>l. CHR 0x0A \<notin> set l \<and> (l = [] \<or> last l \<noteq> CHR 0x0D)) ls"

lemma chop_cr_block: "pem_block ls \<Longrightarrow> map chop_cr ls = ls"
  by (auto simp: pem_block_def list_all_iff chop_cr_def intro!: map_idI)

lemma split_lines_body:
  "list_all (\<lambda>l. \<not> contains_str l end_marker) ls \<Longrightarrow>
     split_lines cur (ls @ rest) = split_lines (cur @ pem_text ls) rest"
  by (induction ls arbitrary: cur) (simp_all add: pem_text_def)

lemma split_lines_block:
  assumes "pem_block ls"
  shows "split_lines [] (ls @ rest) = pem_text ls # split_lines [] rest"
proof -
  have ls: "ls = butlast ls @ [last ls]" using assms by (simp add: pem_block_def)
  have "split_lines [] (butlast ls @ last ls # rest)
      = split_lines (pem_text (butlast ls)) (last ls # rest)"
    using assms split_lines_body [of "butlast ls" "[]"] by (simp add: pem_block_def)
  also have "\<dots> = (pem_text (butlast ls) @ last ls @ [CHR 0x0A]) # split_lines [] rest"
    using assms by (simp add: pem_block_def)
  also have "pem_text (butlast ls) @ last ls @ [CHR 0x0A] = pem_text (butlast ls @ [last ls])"
    by (simp add: pem_text_def)
  finally show ?thesis using ls by (metis append.assoc append_Cons append_Nil)
qed

section \<open>Properties\<close>


text \<open>An authority with its own root, and a library that signs one revocation list, for the concrete
instances.\<close>

definition root_ca :: CertAuthority where
  "root_ca =
     \<lparr> ca_base = ''/ca'', ca_root = RootIssuer ''k'', ca_root_cert_pem = ''root'', ca_issuing = None \<rparr>"

definition leaf_row :: CertRow where
  "leaf_row =
     \<lparr> ce_id = 1, ce_host_id = Some 1, ce_serial_number = ''ab'', ce_common_name = ''1'',
       ce_status = CertRevoked, ce_issued_at = 0, ce_expires_at = 5000, ce_revoked_at = Some 10,
       ce_cert_pem = ''pem'', ce_ca_tier = ''leaf'', ce_issuer_serial = None \<rparr>"

definition leaf_list :: crl_params where
  "leaf_list = new_crl 100 1 [\<lparr> rv_serial = ''ab'', rv_time = 0 \<rparr>]"

definition read_leaf :: "string \<Rightarrow> crl_params \<times> Issuer" where
  "read_leaf pem = (leaf_list, RootIssuer ''k'')"

definition one_list_lib :: ca_lib where
  "one_list_lib =
     \<lparr> rc_key = Inr, rc_self_signed = (\<lambda>p k. Inr (''cert of '' @ k)), rc_issuer = (\<lambda>_ _. Inr ()),
       rc_csr = (\<lambda>s. Inl ''no request''), rc_dns_ok = (\<lambda>_. Inr ()), rc_sign = (\<lambda>p k i. Inr k),
       rc_sign_crl = (\<lambda>p i. if p = leaf_list \<and> i = RootIssuer ''k'' then Inr ''crl'' else Inl ''other list''),
       x5_parse = (\<lambda>s. Inl ''no certificate''), b64_decode = Inr, hx_encode = (\<lambda>s. s),
       hx_decode = (\<lambda>s. if CHR ''-'' \<in> set s then Inl ''Invalid character'' else Inr s),
       tm_from_unix = (\<lambda>t. Some (secs t)), tm_text = show_int \<rparr>"


text \<open>C32. A sub-CA is imported exactly when its files are in order.  The key must parse; the chain
must consist of certificates that can be read and are valid now, of which the first is a CA that may
sign certificates and revocation lists and has the key's public key; each must name the next as its
issuer, and the last itself.\<close>

theorem issuing_ca_accepted_iff:
  "is_ok (load_issuing C now path chain_pem key_pem) \<longleftrightarrow>
     (\<exists>spki sub rest. rc_key C key_pem = Inr spki
        \<and> map (read_cert C) (split_pem_chain chain_pem) = map Some (sub # rest)
        \<and> list_all (valid_at now) (sub # rest)
        \<and> x_is_ca sub \<and> x_key_usage sub = Some (True, True) \<and> x_spki sub = spki
        \<and> successively (\<lambda>a b. x_issuer a = x_subject b) (sub # rest)
        \<and> x_issuer (last (sub # rest)) = x_subject (last (sub # rest))
        \<and> rc_issuer C (hd (split_pem_chain chain_pem)) key_pem = Inr ())"
proof -
  let ?chain = "split_pem_chain chain_pem"
  let ?ok = "\<lambda>spki sub rest. rc_key C key_pem = Inr spki
        \<and> map (read_cert C) ?chain = map Some (sub # rest)
        \<and> list_all (valid_at now) (sub # rest)
        \<and> x_is_ca sub \<and> x_key_usage sub = Some (True, True) \<and> x_spki sub = spki
        \<and> successively (\<lambda>a b. x_issuer a = x_subject b) (sub # rest)
        \<and> x_issuer (last (sub # rest)) = x_subject (last (sub # rest))
        \<and> rc_issuer C (hd ?chain) key_pem = Inr ()"
  have links: "check_links 0 ((x_issuer sub, x_subject sub) # map (\<lambda>c. (x_issuer c, x_subject c)) rest)
      = Inr u \<longleftrightarrow> successively (\<lambda>a b. x_issuer a = x_subject b) (sub # rest)
        \<and> x_issuer (last (sub # rest)) = x_subject (last (sub # rest))" for sub rest u
    using check_links_Inr [of "sub # rest" 0 u] by simp
  have "is_ok (load_issuing C now path chain_pem key_pem) \<longleftrightarrow>
      (\<exists>ic. load_issuing C now path chain_pem key_pem = Inr ic)"
    by (cases "load_issuing C now path chain_pem key_pem") auto
  also have "\<dots> \<longleftrightarrow> (\<exists>spki sub rest. ?ok spki sub rest)"
  proof (cases ?chain)
    case Nil
    then show ?thesis by (auto simp: load_issuing_def and_then_Inr)
  next
    case (Cons pem pems)
    show ?thesis
      unfolding load_issuing_def Let_def Cons
      by (auto simp: and_then_Inr parse_block_Inr check_validity_Inr check_usage_Inr chain_links_Inr
          links simp del: check_links.simps successively.simps last.simps)
  qed
  finally show ?thesis .
qed

text \<open>A bundle of PEM blocks is split into its blocks.\<close>

theorem split_pem_chain_blocks:
  assumes "list_all pem_block blocks"
  shows "split_pem_chain (concat (map pem_text blocks)) = map pem_text blocks"
proof -
  have "lines (concat (map pem_text blocks)) = concat blocks"
    using assms
    by (induction blocks)
      (auto simp: lines_pem_text chop_cr_block pem_block_def list_all_iff)
  moreover have "split_lines [] (concat blocks) = map pem_text blocks"
    using assms by (induction blocks) (simp_all add: split_lines_block)
  ultimately show ?thesis by (simp add: split_pem_chain_def)
qed

theorem split_pem_chain_blocks_witness:
  "split_pem_chain (concat (map pem_text [[''-----BEGIN CERTIFICATE-----'', ''QUJD'', end_marker],
     [end_marker]]))
   = map pem_text [[''-----BEGIN CERTIFICATE-----'', ''QUJD'', end_marker], [end_marker]]"
proof (rule split_pem_chain_blocks)
  show "list_all pem_block [[''-----BEGIN CERTIFICATE-----'', ''QUJD'', end_marker], [end_marker]]"
    by code_simp
qed

text \<open>C33. The authority keeps its identity.  After a start that succeeded, whether it found its files
or made them, every later start gives the same authority and changes nothing, provided a generated key
can be read back and nothing is refused.\<close>

theorem ca_survives_restart:
  assumes "result (init_ca C now gen i serial base) (d, fs) = Inr (Inr ca)"
    and "\<And>key. gen = Inr key \<Longrightarrow> \<exists>spki. rc_key C key = Inr spki"
  shows "init_ca C now' gen' i' serial' base (db_after (init_ca C now gen i serial base) (d, fs), [])
    = (Inr (Inr ca), db_after (init_ca C now gen i serial base) (d, fs), [])"
proof -
  let ?d = "db_after (init_ca C now gen i serial base) (d, fs)"
  obtain key spki where "rc_key C key = Inr spki"
      "map_of (db_disk ?d) (base @ ''/ca.key.pem'') = Some key"
      "map_of (db_disk ?d) (base @ ''/ca.pem'') = Some (ca_root_cert_pem ca)"
      "ca = \<lparr> ca_base = base, ca_root = RootIssuer key, ca_root_cert_pem = ca_root_cert_pem ca,
              ca_issuing = None \<rparr>"
    using outcome_ok [OF init_ca_disk assms(1)] assms(2) by blast
  then show ?thesis
    by (simp add: init_ca_def load_or_generate_def create_dir_all_def path_exists_def
        read_to_string_def cio_def run_simps)
qed

theorem ca_survives_restart_witness:
  "let d = db_after (init_ca one_list_lib 0 (Inr ''k'') 7 ''0-7'' ''/ca'') (empty_db, [])
   in init_ca one_list_lib 50 (Inr ''other'') 8 ''0-8'' ''/ca'' (d, [])
      = (Inr (Inr (root_ca \<lparr> ca_root_cert_pem := ''cert of k'' \<rparr>)), d, [])"
proof -
  have "result (init_ca one_list_lib 0 (Inr ''k'') 7 ''0-7'' ''/ca'') (empty_db, [])
      = Inr (Inr (root_ca \<lparr> ca_root_cert_pem := ''cert of k'' \<rparr>))"
    by code_simp
  then show ?thesis
    unfolding Let_def by (rule ca_survives_restart) (simp add: one_list_lib_def)
qed

end
