(* ===== verification/Mgr_Pki.thy ===== *)
theory Mgr_Pki
  imports Mgr_Ca
begin

text \<open>Where the certificate authority meets the web server: the certificate and the verifier of the
agent listener (\<open>fw-web/src/agent_cert.rs\<close>, \<open>agent_listener.rs\<close>, \<open>mtls/host_authz.rs\<close>), the start of
the server (\<open>main.rs\<close>), and the routes \<open>certificates.rs\<close>, \<open>ca.rs\<close> and \<open>pki.rs\<close>.  Parameters are the
parser of \<open>x509-parser\<close> for PEM text and the configuration builder of \<open>rustls\<close>.\<close>

section \<open>The certificate of the agent listener\<close>

record tls_lib =
  tl_parse_pem :: "string \<Rightarrow> x509 option"
  tl_roots :: "string list \<Rightarrow> string + unit"
  tl_config :: "string list \<Rightarrow> string list \<Rightarrow> string \<Rightarrow> string \<Rightarrow> string + unit"
  tl_io_text :: string
  tl_sql_text :: "sql_error \<Rightarrow> string"

datatype CertEnsureError = EnsureIssue CertError | EnsureIo | EnsureParse string

datatype CertOutcome = Reused | Issued

definition ip_of_bytes :: "nat list \<Rightarrow> IpAddr option" where
  "ip_of_bytes bs =
     (if length bs = 4 then Some (V4 (of_nat (of_digits 256 bs)))
      else if length bs = 16 then Some (V6 (of_nat (of_digits 256 bs)))
      else None)"

fun san_string :: "san \<Rightarrow> string option" where
  "san_string (SanDns dns) = Some dns"
| "san_string (SanIp bs) = map_option show_ip (ip_of_bytes bs)"
| "san_string SanOther = None"

definition cert_san_strings :: "x509 \<Rightarrow> string list option" where
  "cert_san_strings c = Option.bind (x_sans c) (\<lambda>sans. those (map san_string sans))"

definition canonical_sans :: "string list \<Rightarrow> string list" where
  "canonical_sans sans = map (\<lambda>s. case parse_ip s of Some ip \<Rightarrow> show_ip ip | None \<Rightarrow> s) sans"

definition existing_cert_reusable ::
  "tls_lib \<Rightarrow> DateTime \<Rightarrow> string \<Rightarrow> string list \<Rightarrow> string \<Rightarrow> bool option" where
  "existing_cert_reusable T now pem sans expected_issuer_cn =
     Option.bind (tl_parse_pem T pem) (\<lambda>cert.
     Option.bind (x_issuer_cn cert) (\<lambda>issuer_cn.
     if issuer_cn \<noteq> expected_issuer_cn then Some False
     else if x_not_after cert div 1000000000 \<le> now div 1000000000 + 30 * 24 * 3600 then Some False
     else map_option (\<lambda>cert_sans. cert_sans = canonical_sans sans) (cert_san_strings cert)))"

definition ensure_agent_listener_cert ::
  "tls_lib \<Rightarrow> ca_lib \<Rightarrow> CertAuthority \<Rightarrow> DateTime \<Rightarrow> string + string \<Rightarrow> string \<Rightarrow> string \<Rightarrow> string list
     \<Rightarrow> (CertEnsureError + CertOutcome) dbm" where
  "ensure_agent_listener_cert T C ca now gen cert_path key_path sans =
     bind (attempt (read_to_string cert_path)) (\<lambda>r.
     let reusable = Option.bind r (\<lambda>pem. existing_cert_reusable T now pem sans (issuing_subject_cn ca))
     in bind (if reusable = Some True then path_exists key_path else ret False) (\<lambda>keep.
        if keep then cret Reused
        else cbind (ret (map_sum EnsureIssue id (issue_server_cert C ca now gen sans))) (\<lambda>sv.
             cbind (bind (tried (fs_write cert_path (sv_cert_pem sv))) (\<lambda>w. ret (map_sum (\<lambda>_. EnsureIo) id w)))
               (\<lambda>_.
             cbind (bind (tried (fs_write key_path (sv_key_pem sv))) (\<lambda>w. ret (map_sum (\<lambda>_. EnsureIo) id w)))
               (\<lambda>_.
             bind restrict_key_permissions (\<lambda>_.
             cret Issued))))))"

section \<open>The verifier of the agent listener\<close>

datatype TlsError = TlsCrls CertError | TlsFile | TlsDer CertError | TlsRustls string

text \<open>The configuration is kept as its trust anchors and revocation lists.\<close>

definition build_agent_server_config ::
  "tls_lib \<Rightarrow> ca_lib \<Rightarrow> string list \<Rightarrow> string \<Rightarrow> string \<Rightarrow> string list
     \<Rightarrow> TlsError + string list \<times> string list" where
  "build_agent_server_config T C anchors cert_pem key_pem crl_pems =
     and_then (map_sum TlsRustls id (tl_roots T anchors)) (\<lambda>_.
     and_then (map_sum TlsDer id (collect_results (map (pem_to_der C) crl_pems))) (\<lambda>crls.
     and_then (map_sum TlsRustls id (tl_config T anchors crls cert_pem key_pem)) (\<lambda>_.
     Inr (anchors, crl_pems))))"

definition tls_file :: "string \<Rightarrow> (TlsError + string) dbm" where
  "tls_file path = bind (tried (read_to_string path)) (\<lambda>r. ret (map_sum (\<lambda>_. TlsFile) id r))"

definition build_agent_tls_config ::
  "tls_lib \<Rightarrow> ca_lib \<Rightarrow> CertAuthority \<Rightarrow> DateTime \<Rightarrow> string \<Rightarrow> string
     \<Rightarrow> (TlsError + string list \<times> string list) dbm" where
  "build_agent_tls_config T C ca now cert_path key_path =
     cbind (bind (generate_crls C ca now) (\<lambda>r. ret (map_sum TlsCrls id r))) (\<lambda>crl_pems.
     cbind (tls_file cert_path) (\<lambda>cert_pem.
     cbind (tls_file key_path) (\<lambda>key_pem.
     ret (build_agent_server_config T C (verification_anchors ca) cert_pem key_pem crl_pems))))"

text \<open>The host of a client certificate, and the loop that accepts connections: what each connection
comes to is given, and the first one that ends with a host identifier is handed on.\<close>

definition parse_host_id :: "(string \<Rightarrow> Uuid option) \<Rightarrow> x509 option \<Rightarrow> Uuid option" where
  "parse_host_id parse_uuid cert = Option.bind (Option.bind cert x_subject_cn) parse_uuid"

datatype connection = TcpFailed | LockPoisoned | HandshakeRejected | Peer "x509 option" string

fun accept :: "(string \<Rightarrow> Uuid option) \<Rightarrow> connection list \<Rightarrow> ((Uuid \<times> string) \<times> connection list) option" where
  "accept parse_uuid [] = None"
| "accept parse_uuid (Peer cert addr # cs) =
     (case parse_host_id parse_uuid cert of
        Some h \<Rightarrow> Some ((h, addr), cs)
      | None \<Rightarrow> accept parse_uuid cs)"
| "accept parse_uuid (_ # cs) = accept parse_uuid cs"

text \<open>The extractor \<open>HostIdentity\<close>: the status and text of a rejection, or the host.\<close>

definition host_identity :: "(Uuid \<times> string) option \<Rightarrow> (nat \<times> string) + Uuid" where
  "host_identity info =
     map_sum id fst (ok_or (401, ''no mTLS client identity on this connection'') info)"

section \<open>Start\<close>

record start_config =
  st_issuing_chain_path :: string
  st_issuing_key_path :: string
  st_agent_sans :: "string list"
  st_agent_cert_path :: string
  st_agent_key_path :: string
  st_ip_whitelist :: "string list"
  st_trusted_proxies :: "string list"

text \<open>What a start draws: two keys, and the identifier and the serial of the root's row.\<close>

record start_draws =
  sd_root_key :: "string + string"
  sd_listener_key :: "string + string"
  sd_row_id :: Uuid
  sd_row_serial :: string

datatype StartError = StartCert CertError | StartOneIssuingFile | StartEnsure CertEnsureError
  | StartTls TlsError

definition start_ca :: "ca_lib \<Rightarrow> DateTime \<Rightarrow> start_draws \<Rightarrow> start_config \<Rightarrow> (StartError + CertAuthority) dbm" where
  "start_ca C now r cfg =
     cbind (bind (init_ca C now (sd_root_key r) (sd_row_id r) (sd_row_serial r) ''/etc/firewall-manager/ca'')
              (\<lambda>x. ret (map_sum StartCert id x))) (\<lambda>ca.
     bind (path_exists (st_issuing_chain_path cfg)) (\<lambda>chain.
     bind (path_exists (st_issuing_key_path cfg)) (\<lambda>key.
     if chain \<and> key
     then bind (with_issuing_ca C now (st_issuing_chain_path cfg) (st_issuing_key_path cfg) ca)
            (\<lambda>x. ret (map_sum StartCert id x))
     else if chain \<or> key then ret (Inl StartOneIssuingFile)
     else cret ca)))"

definition start_listener ::
  "tls_lib \<Rightarrow> ca_lib \<Rightarrow> CertAuthority \<Rightarrow> DateTime \<Rightarrow> start_draws \<Rightarrow> start_config
     \<Rightarrow> (StartError + (string list \<times> string list) option) dbm" where
  "start_listener T C ca now r cfg =
     (if st_agent_sans cfg = [] then cret None
      else cbind (bind (ensure_agent_listener_cert T C ca now (sd_listener_key r) (st_agent_cert_path cfg)
                          (st_agent_key_path cfg) (st_agent_sans cfg))
                    (\<lambda>x. ret (map_sum StartEnsure id x))) (\<lambda>_.
           cbind (bind (build_agent_tls_config T C ca now (st_agent_cert_path cfg) (st_agent_key_path cfg))
                    (\<lambda>x. ret (map_sum StartTls id x))) (\<lambda>tls.
           cret (Some tls))))"

definition start_web ::
  "tls_lib \<Rightarrow> ca_lib \<Rightarrow> DateTime \<Rightarrow> start_draws \<Rightarrow> start_config \<Rightarrow> (StartError + CertAuthority) dbm" where
  "start_web T C now r cfg =
     cbind (start_ca C now r cfg) (\<lambda>ca.
     cbind (start_listener T C ca now r cfg) (\<lambda>tls.
     bind (modify (\<lambda>d. d \<lparr> db_memory := (fresh_memory (st_ip_whitelist cfg) (st_trusted_proxies cfg))
                                           \<lparr> mm_agent_tls := tls \<rparr> \<rparr>)) (\<lambda>_.
     cret ca)))"

section \<open>Routes\<close>

definition list_certs :: "CertRow list dbm" where
  "list_certs = query (\<lambda>d. take 50 (sort_key (\<lambda>c. - ce_issued_at c) (db_certificates d)))"

definition find_cert :: "Uuid \<Rightarrow> db \<Rightarrow> CertRow option" where
  "find_cert i d = find (\<lambda>c. ce_id c = i) (db_certificates d)"

definition get_cert :: "Uuid \<Rightarrow> CertRow dbm" where
  "get_cert i = bind (query (find_cert i)) (require (NotFound ''Certificate not found''))"

definition revoke_row :: "DateTime \<Rightarrow> CertRow \<Rightarrow> CertRow" where
  "revoke_row now c = c \<lparr> ce_status := CertRevoked, ce_revoked_at := Some now \<rparr>"

definition mark_revoked :: "DateTime \<Rightarrow> Uuid \<Rightarrow> nat dbm" where
  "mark_revoked now i =
     stmt (\<lambda>d. Inr (length (filter (\<lambda>c. ce_id c = i) (db_certificates d)),
                d \<lparr> db_certificates := update_where (\<lambda>c. ce_id c = i) (revoke_row now)
                      (db_certificates d) \<rparr>))"

definition swap_acceptor :: "string list \<times> string list \<Rightarrow> db \<Rightarrow> db" where
  "swap_acceptor tls d = d \<lparr> db_memory := db_memory d \<lparr> mm_agent_tls := Some tls \<rparr> \<rparr>"

definition revoke_cert ::
  "tls_lib \<Rightarrow> ca_lib \<Rightarrow> CertAuthority \<Rightarrow> start_config \<Rightarrow> audit_lib \<Rightarrow> DateTime \<Rightarrow> AuthUser \<Rightarrow> Uuid
     \<Rightarrow> unit dbm" where
  "revoke_cert T C ca cfg L now u i =
     bind (admin_guard u) (\<lambda>_.
     bind (mark_revoked now i) (\<lambda>n.
     bind (guard (NotFound ''Certificate not found'') (n \<noteq> 0)) (\<lambda>_.
     bind (log_event L now (auth_event u ''certificate_revoked'' ''certificate''
             (Some (al_uuid_str L i)) [])) (\<lambda>_.
     bind (recall (\<lambda>d. mm_agent_tls (db_memory d))) (\<lambda>shared.
     case shared of
       None \<Rightarrow> ret ()
     | Some _ \<Rightarrow>
         bind (build_agent_tls_config T C ca now (st_agent_cert_path cfg) (st_agent_key_path cfg)) (\<lambda>r.
         case r of Inr tls \<Rightarrow> modify (swap_acceptor tls) | Inl _ \<Rightarrow> ret ()))))))"

text \<open>Whether there is a root, its PEM text, and the imported chain.\<close>

definition get_ca_info :: "CertAuthority \<Rightarrow> (string option \<times> string list option) dbm" where
  "get_ca_info ca =
     bind (query (\<lambda>d. map_option ce_cert_pem (find (\<lambda>c. ce_ca_tier c = ''root'') (db_certificates d)))) (\<lambda>root.
     ret (root, issuing_chain_pems ca))"

definition get_crl :: "tls_lib \<Rightarrow> ca_lib \<Rightarrow> CertAuthority \<Rightarrow> DateTime \<Rightarrow> string list dbm" where
  "get_crl T C ca now =
     bind (generate_crls C ca now) (lift_result (\<lambda>e. Internal (''CRL generation failed: ''
       @ CertError_text (tl_io_text T) (tl_sql_text T) e)))"

definition get_crl_pem :: "ca_lib \<Rightarrow> CertAuthority \<Rightarrow> DateTime \<Rightarrow> (nat \<times> string) dbm" where
  "get_crl_pem C ca now =
     bind (generate_crls C ca now) (\<lambda>r.
     ret (case r of Inr crls \<Rightarrow> (200, concat crls) | Inl _ \<Rightarrow> (500, ''Failed to generate CRL'')))"

section \<open>Facts\<close>

lemma mem_dropWhile: "x \<in> set xs \<Longrightarrow> \<not> P x \<Longrightarrow> x \<in> set (dropWhile P xs)"
  by (induction xs) auto

lemma mem_trim: "c \<in> set s \<Longrightarrow> \<not> is_whitespace c \<Longrightarrow> c \<in> set (trim s)"
  by (simp add: trim_def trim_start_def trim_end_def mem_dropWhile)

text \<open>What a revocation does to the table of certificates.\<close>

lemma revoke_cert_rows:
  "outcome (revoke_cert T C ca cfg L now u i) d
     (\<lambda>_ d'. db_certificates d' = update_where (\<lambda>c. ce_id c = i) (revoke_row now) (db_certificates d))
     (\<lambda>_ _. True)"
proof -
  have keep: "steps (leaves db_certificates) (build_agent_tls_config T C ca now cp kp)" for cp kp
    unfolding build_agent_tls_config_def generate_crls_def sign_group_def next_crl_number_def tls_file_def
      read_to_string_def cbind_def cret_def cdb_def
    by (intro frame.steps_rules frame.steps_stmt)
      (auto simp: leaves_def Let_def split: if_split_asm option.split_asm)
  show ?thesis
    unfolding revoke_cert_def admin_guard_def mark_revoked_def
    by (intro outcome_intros outcome_stmt outcome_steps [OF keep])
      (auto simp: leaves_def swap_acceptor_def intro!: outcome_intros)
qed

text \<open>A row that cannot be listed keeps the listener from being set up.\<close>

definition bad_row :: "ca_lib \<Rightarrow> DateTime \<Rightarrow> db \<Rightarrow> bool" where
  "bad_row C now d \<longleftrightarrow> (\<exists>c \<in> set (db_certificates d). revocable now c
     \<and> \<not> is_ok (hx_decode C (trim (ce_serial_number c))))"

lemma bad_row_cong: "db_certificates d' = db_certificates d \<Longrightarrow> bad_row C now d' = bad_row C now d"
  by (simp add: bad_row_def)

lemma build_fails:
  assumes "bad_row C now d"
  shows "outcome (build_agent_tls_config T C ca now cp kp) d (\<lambda>r _. \<exists>e. r = Inl e) (\<lambda>_ _. False)"
proof -
  obtain c e where c: "c \<in> set (db_certificates d)" "revocable now c"
      "hx_decode C (trim (ce_serial_number c)) = Inl e"
    using assms by (auto simp: bad_row_def is_ok_iff(2))
  show ?thesis
    unfolding build_agent_tls_config_def
    by (intro outcome_intros outcome_mono [OF bad_serial_blocks_crls [OF c]])
      (auto intro!: outcome_intros)
qed

lemma start_ca_keeps_bad_row: "steps (preserves (bad_row C t)) (start_ca C now r cfg)"
  unfolding start_ca_def init_ca_def load_or_generate_def with_issuing_ca_def path_exists_def
    create_dir_all_def read_to_string_def fs_write_def restrict_key_permissions_def
    persist_root_cert_row_def insert_root_row_def cbind_def cret_def cdb_def cio_def
  by (intro inv.steps_rules inv.steps_stmt inv.steps_exec)
    (auto simp: preserves_def bad_row_def split: if_split_asm option.split_asm)

lemma ensure_keeps_bad_row:
  "steps (preserves (bad_row C t)) (ensure_agent_listener_cert T C ca now gen cp kp sans)"
  unfolding ensure_agent_listener_cert_def path_exists_def read_to_string_def fs_write_def
    restrict_key_permissions_def cbind_def cret_def
  by (intro inv.steps_rules inv.steps_stmt inv.steps_exec)
    (auto simp: preserves_def bad_row_def split: if_split_asm option.split_asm)

lemma start_fails:
  assumes "bad_row C now d" and "st_agent_sans cfg \<noteq> []"
  shows "outcome (start_web T C now r cfg) d (\<lambda>x _. \<exists>e. x = Inl e) (\<lambda>_ _. True)"
proof -
  have listener: "outcome (start_listener T C ca now r cfg) d' (\<lambda>x _. \<exists>e. x = Inl e) (\<lambda>_ _. True)"
    if "bad_row C now d'" for ca d'
  proof -
    have build: "outcome (build_agent_tls_config T C ca now cp kp) d2 (\<lambda>x _. \<exists>e. x = Inl e) (\<lambda>_ _. True)"
      if "bad_row C now d2" for d2 cp kp
      by (rule outcome_mono [OF build_fails [OF that]]) auto
    show ?thesis
      unfolding start_listener_def
      by (intro outcome_intros outcome_steps [OF ensure_keeps_bad_row [of C now]])
        (use that assms(2) in \<open>auto simp: preserves_def intro!: outcome_intros
          outcome_mono [OF build] split: sum.split\<close>)
  qed
  show ?thesis
    unfolding start_web_def
    by (intro outcome_intros outcome_steps [OF start_ca_keeps_bad_row [of C now]])
      (use assms(1) in \<open>auto simp: preserves_def split: sum.split
        intro!: outcome_intros outcome_mono [OF listener]\<close>)
qed

text \<open>The list of results of total operations is a result.\<close>

lemma collect_results_ok: "(\<And>x. x \<in> set xs \<Longrightarrow> is_ok (f x)) \<Longrightarrow> is_ok (collect_results (map f xs))"
proof (induction xs)
  case Nil
  then show ?case by simp
next
  case (Cons x xs)
  have "is_ok (f x)" "is_ok (collect_results (map f xs))" using Cons by simp_all
  then obtain y ys where "f x = Inr y" "collect_results (map f xs) = Inr ys"
    by (auto simp: is_ok_iff(1))
  then show ?case by simp
qed

lemma those_map_Some: "(\<And>x. x \<in> set xs \<Longrightarrow> f x = Some (g x)) \<Longrightarrow> those (map f xs) = Some (map g xs)"
  by (induction xs) auto

lemma those_append: "those (xs @ ys) = Option.bind (those xs) (\<lambda>a. map_option (append a) (those ys))"
proof (induction xs)
  case Nil
  then show ?case by (cases "those ys") auto
next
  case (Cons x xs)
  then show ?case by (cases x; cases "those xs"; cases "those ys") auto
qed

section \<open>Properties\<close>

text \<open>The listener can be set up again: signing, decoding and the configuration builder work, the
listener's files are there, and the counters of the lists are not exhausted.\<close>

definition pki_ready :: "tls_lib \<Rightarrow> ca_lib \<Rightarrow> start_config \<Rightarrow> db \<Rightarrow> bool" where
  "pki_ready T C cfg d \<longleftrightarrow>
     (\<forall>p iss. is_ok (rc_sign_crl C p iss)) \<and> (\<forall>pem. is_ok (pem_to_der C pem))
     \<and> (\<forall>anchors. is_ok (tl_roots T anchors)) \<and> (\<forall>as cs c k. is_ok (tl_config T as cs c k))
     \<and> map_of (db_disk d) (st_agent_cert_path cfg) \<noteq> None
     \<and> map_of (db_disk d) (st_agent_key_path cfg) \<noteq> None \<and> counters_ok d"

lemma build_succeeds:
  assumes "pki_ready T C cfg d" and "reads_back C read_crl"
    and "\<forall>c \<in> set (db_certificates d). revocable now c \<longrightarrow> is_ok (hx_decode C (trim (ce_serial_number c)))"
  shows "succeeds (build_agent_tls_config T C ca now (st_agent_cert_path cfg) (st_agent_key_path cfg)) d
     (\<lambda>r d'. \<exists>pems xs. r = Inr (verification_anchors ca, pems) \<and> d' = d \<lparr> db_crl_counter := xs \<rparr>
        \<and> (\<forall>c \<in> set (db_certificates d). revocable now c \<longrightarrow> listed C ca read_crl pems c))"
proof -
  obtain pems xs where gen: "generate_crls C ca now (d, []) = (Inr (Inr pems), d \<lparr> db_crl_counter := xs \<rparr>, [])"
    using generate_crls_succeeds [of C d now ca] assms(1,3) by (auto simp: pki_ready_def succeeds_def)
  have "is_ok (collect_results (map (pem_to_der C) pems))"
    using assms(1) by (auto simp: pki_ready_def intro: collect_results_ok)
  then have config: "build_agent_server_config T C as c k pems = Inr (as, pems)" for as c k
    using assms(1) by (auto simp: build_agent_server_config_def and_then_Inr pki_ready_def is_ok_iff(1))
  obtain c k where "map_of (db_disk d) (st_agent_cert_path cfg) = Some c"
      "map_of (db_disk d) (st_agent_key_path cfg) = Some k"
    using assms(1) by (auto simp: pki_ready_def)
  then have "build_agent_tls_config T C ca now (st_agent_cert_path cfg) (st_agent_key_path cfg) (d, [])
      = (Inr (Inr (verification_anchors ca, pems)), d \<lparr> db_crl_counter := xs \<rparr>, [])"
    by (simp add: build_agent_tls_config_def run_simps gen tls_file_def read_to_string_def config)
  moreover have "\<forall>c \<in> set (db_certificates d). revocable now c \<longrightarrow> listed C ca read_crl pems c"
    using crls_complete [OF _ assms(2), of ca now d "[]" pems] gen by (auto simp: result_def)
  ultimately show ?thesis unfolding succeeds_def by blast
qed


text \<open>A signer that writes a revocation list as plain text, for the concrete instances: every part is
written in a code none of whose words begins another.\<close>

definition codes :: "('a \<Rightarrow> string) \<Rightarrow> bool" where
  "codes enc \<longleftrightarrow> (\<forall>x y r s. enc x @ r = enc y @ s \<longrightarrow> x = y \<and> r = s)"

primrec enc_nat :: "nat \<Rightarrow> string" where
  "enc_nat 0 = ''0''"
| "enc_nat (Suc n) = CHR ''1'' # enc_nat n"

primrec enc_list :: "('a \<Rightarrow> string) \<Rightarrow> 'a list \<Rightarrow> string" where
  "enc_list enc [] = ''0''"
| "enc_list enc (x # xs) = CHR ''1'' # enc x @ enc_list enc xs"

definition enc_string :: "string \<Rightarrow> string" where
  "enc_string = enc_list (\<lambda>c. [c])"

definition enc_int :: "int \<Rightarrow> string" where
  "enc_int i = (if i < 0 then CHR ''-'' # enc_nat (nat (- i)) else CHR ''+'' # enc_nat (nat i))"

fun enc_issuer :: "Issuer \<Rightarrow> string" where
  "enc_issuer (RootIssuer k) = CHR ''r'' # enc_string k"
| "enc_issuer (SubIssuer c k) = CHR ''s'' # enc_string c @ enc_string k"

definition enc_entry :: "revoked_cert \<Rightarrow> string" where
  "enc_entry e = enc_string (rv_serial e) @ enc_int (rv_time e)"

definition enc_crl :: "crl_params \<times> Issuer \<Rightarrow> string" where
  "enc_crl x = (case x of (p, iss) \<Rightarrow> enc_int (crl_this_update p) @ enc_int (crl_next_update p)
     @ enc_int (crl_number p) @ enc_list enc_entry (crl_revoked p) @ enc_issuer iss)"

lemma codesD: "codes enc \<Longrightarrow> enc x @ r = enc y @ s \<Longrightarrow> x = y \<and> r = s"
  by (auto simp: codes_def)

lemma codes_inj: "codes enc \<Longrightarrow> enc x = enc y \<Longrightarrow> x = y"
  using codesD [of enc x "[]" y "[]"] by simp

lemma codes_list:
  assumes "codes enc"
  shows "codes (enc_list enc)"
proof -
  have "enc_list enc xs @ r = enc_list enc ys @ s \<Longrightarrow> xs = ys \<and> r = s" for xs ys r s
  proof (induction xs arbitrary: ys)
    case Nil
    then show ?case by (cases ys) auto
  next
    case (Cons x xs)
    then show ?case by (cases ys) (auto dest!: codesD [OF assms])
  qed
  then show ?thesis unfolding codes_def by blast
qed

lemma codes_nat: "codes enc_nat"
proof -
  have "enc_nat m @ r = enc_nat n @ s \<Longrightarrow> m = n \<and> r = s" for m n r s
    by (induction m arbitrary: n) (case_tac n, auto)+
  then show ?thesis unfolding codes_def by blast
qed

lemma codes_string: "codes enc_string"
  unfolding enc_string_def by (rule codes_list) (simp add: codes_def)

lemma codes_int: "codes enc_int"
  unfolding codes_def enc_int_def by (auto dest!: codesD [OF codes_nat] split: if_split_asm)

lemma codes_issuer: "codes enc_issuer"
proof -
  have "enc_issuer i @ r = enc_issuer j @ s \<Longrightarrow> i = j \<and> r = s" for i j r s
    by (cases i; cases j) (auto dest!: codesD [OF codes_string])
  then show ?thesis unfolding codes_def by blast
qed

lemma codes_entry: "codes enc_entry"
  unfolding codes_def enc_entry_def
  by (auto dest!: codesD [OF codes_string] codesD [OF codes_int])

lemma inj_enc_crl: "inj enc_crl"
proof (rule injI)
  fix x y assume "enc_crl x = enc_crl y"
  then show "x = y"
    by (cases x; cases y)
      (auto simp: enc_crl_def dest!: codesD [OF codes_int] codesD [OF codes_list [OF codes_entry]]
        codes_inj [OF codes_issuer])
qed

definition plain_ca_lib :: ca_lib where
  "plain_ca_lib = one_list_lib \<lparr> rc_sign_crl := \<lambda>p iss. Inr (enc_crl (p, iss)) \<rparr>"

lemma plain_reads_back: "reads_back plain_ca_lib (the_inv enc_crl)"
  by (simp add: reads_back_def plain_ca_lib_def the_inv_f_f [OF inj_enc_crl])

definition plain_tls_lib :: tls_lib where
  "plain_tls_lib =
     \<lparr> tl_parse_pem = (\<lambda>_. None), tl_roots = (\<lambda>_. Inr ()), tl_config = (\<lambda>_ _ _ _. Inr ()),
       tl_io_text = ''I/O'', tl_sql_text = (\<lambda>_. ''SQL'') \<rparr>"

definition plain_config :: start_config where
  "plain_config =
     \<lparr> st_issuing_chain_path = ''/chain'', st_issuing_key_path = ''/key'', st_agent_sans = [''mgr''],
       st_agent_cert_path = ''/agent-cert'', st_agent_key_path = ''/agent-key'', st_ip_whitelist = [],
       st_trusted_proxies = [] \<rparr>"

text \<open>A server with a running listener and two certificates.\<close>

definition root_row :: CertRow where
  "root_row = leaf_row \<lparr> ce_id := 7, ce_host_id := None, ce_serial_number := ''0-7'',
     ce_status := CertActive, ce_revoked_at := None, ce_ca_tier := ''root'' \<rparr>"

definition listener_db :: db where
  "listener_db = empty_db \<lparr>
     db_certificates := [leaf_row \<lparr> ce_status := CertActive, ce_revoked_at := None \<rparr>, root_row],
     db_disk := [(''/agent-cert'', ''c''), (''/agent-key'', ''k'')],
     db_memory := empty_memory \<lparr> mm_agent_tls := Some ([], []) \<rparr> \<rparr>"


text \<open>A revoked root row keeps the manager from starting.  The row of the root is stored with the
text of a UUID as its serial, which is no hexadecimal number.  Once that row is revoked through the
route, no start of the web server with an agent listener succeeds until the row expires.\<close>

theorem revoked_root_blocks_start:
  assumes "result (revoke_cert T C ca cfg L now u (ce_id c)) (d, fs) = Inr ()"
    and "c \<in> set (db_certificates d)" and "CHR ''-'' \<in> set (ce_serial_number c)"
    and "\<And>s. CHR ''-'' \<in> set s \<Longrightarrow> \<not> is_ok (hx_decode C s)"
    and "t < ce_expires_at c" and "st_agent_sans cfg' \<noteq> []"
  shows "result (start_web T' C t r cfg')
    (db_after (revoke_cert T C ca cfg L now u (ce_id c)) (d, fs), fs') \<noteq> Inr (Inr ca')"
proof -
  let ?d = "db_after (revoke_cert T C ca cfg L now u (ce_id c)) (d, fs)"
  have "db_certificates ?d = update_where (\<lambda>x. ce_id x = ce_id c) (revoke_row now) (db_certificates d)"
    using outcome_ok [OF revoke_cert_rows assms(1)] .
  then have "revoke_row now c \<in> set (db_certificates ?d)"
    using assms(2) by (auto simp: update_where_def)
  moreover have "revocable t (revoke_row now c)"
    using assms(5) by (simp add: revocable_def revoke_row_def)
  moreover have "\<not> is_ok (hx_decode C (trim (ce_serial_number (revoke_row now c))))"
    using assms(3) by (intro assms(4) mem_trim) (simp_all add: revoke_row_def is_whitespace_def)
  ultimately have "bad_row C t ?d" by (auto simp: bad_row_def)
  from outcomeD [OF start_fails [OF this assms(6)], of T' r fs'] show ?thesis
    by (auto split: sum.splits)
qed

theorem revoked_root_blocks_start_witness:
  "result (revoke_cert plain_tls_lib one_list_lib root_ca plain_config plain_lib 100 (admin_at None) 7)
     (listener_db, []) = Inr ()
   \<and> result (start_web plain_tls_lib one_list_lib 200
        \<lparr> sd_root_key = Inr ''k'', sd_listener_key = Inr ''k'', sd_row_id = 8, sd_row_serial = ''0-8'' \<rparr>
        plain_config) (db_after (revoke_cert plain_tls_lib one_list_lib root_ca plain_config plain_lib 100
          (admin_at None) 7) (listener_db, []), []) \<noteq> Inr (Inr root_ca)"
proof -
  have i: "ce_id root_row = 7" by (simp add: root_row_def)
  have run: "result (revoke_cert plain_tls_lib one_list_lib root_ca plain_config plain_lib 100
      (admin_at None) 7) (listener_db, []) = Inr ()"
    by code_simp
  have bad: "\<And>s. CHR ''-'' \<in> set s \<Longrightarrow> \<not> is_ok (hx_decode one_list_lib s)"
    by (simp add: one_list_lib_def)
  have "root_row \<in> set (db_certificates listener_db)" "CHR ''-'' \<in> set (ce_serial_number root_row)"
    "200 < ce_expires_at root_row" "st_agent_sans plain_config \<noteq> []"
    by (simp_all add: listener_db_def root_row_def leaf_row_def plain_config_def)
  then show ?thesis
    using run revoked_root_blocks_start [OF run [folded i] _ _ bad, unfolded i] by blast
qed

text \<open>When the listener's certificate is reused.  Take a certificate that was issued for the
configured names (its alternative names are the configured DNS names, then the configured addresses),
by the current authority, and that is good for more than thirty days.  It is found reusable exactly
when the configuration lists all DNS names before all addresses; otherwise it is issued anew at every
start.\<close>

theorem listener_cert_reused_iff:
  assumes "tl_parse_pem T pem = Some cert" and "x_issuer_cn cert = Some cn"
    and "x_not_after cert div 1000000000 > now div 1000000000 + 30 * 24 * 3600"
    and "x_sans cert = Some (map SanDns (san_names sans) @ map SanIp bs)"
    and "map ip_of_bytes bs = map Some (san_ips sans)"
  shows "existing_cert_reusable T now pem sans cn
    = Some (canonical_sans sans = san_names sans @ map show_ip (san_ips sans))"
proof -
  have names: "those (map (san_string \<circ> SanDns) ns) = Some ns" for ns by (induction ns) auto
  have "map san_string (map SanIp bs) = map (map_option show_ip) (map ip_of_bytes bs)" by simp
  also have "\<dots> = map Some (map show_ip (san_ips sans))" unfolding assms(5) by simp
  finally have "those (map san_string (map SanIp bs)) = Some (map show_ip (san_ips sans))"
    using those_map_Some [of "map show_ip (san_ips sans)" Some "\<lambda>x. x"] by simp
  then have "cert_san_strings cert = Some (san_names sans @ map show_ip (san_ips sans))"
    by (simp add: cert_san_strings_def assms(4) those_append names)
  then show ?thesis
    using assms(1-3) by (auto simp: existing_cert_reusable_def)
qed

definition listener_x509 :: x509 where
  "listener_x509 =
     \<lparr> x_not_before = 0, x_not_after = secs 9000000, x_is_ca = False, x_key_usage = None,
       x_spki = [], x_issuer = [], x_subject = [], x_serial = [], x_subject_cn = None,
       x_issuer_cn = Some root_subject_cn,
       x_sans = Some (map SanDns [''mgr''] @ map SanIp [[10, 0, 0, 5]]) \<rparr>"

theorem listener_cert_reused_iff_witness:
  "existing_cert_reusable (plain_tls_lib \<lparr> tl_parse_pem := \<lambda>_. Some listener_x509 \<rparr>) 0 ''pem''
     [''10.0.0.5'', ''mgr''] root_subject_cn = Some False
   \<and> existing_cert_reusable (plain_tls_lib \<lparr> tl_parse_pem := \<lambda>_. Some listener_x509 \<rparr>) 0 ''pem''
     [''mgr'', ''10.0.0.5''] root_subject_cn = Some True"
proof
  let ?T = "plain_tls_lib \<lparr> tl_parse_pem := \<lambda>_. Some listener_x509 \<rparr>"
  have cert: "tl_parse_pem ?T ''pem'' = Some listener_x509" "x_issuer_cn listener_x509 = Some root_subject_cn"
    "x_not_after listener_x509 div 1000000000 > (0::int) div 1000000000 + 30 * 24 * 3600"
    by (simp_all add: listener_x509_def secs_def)
  have eq: "(canonical_sans [''10.0.0.5'', ''mgr'']
      = san_names [''10.0.0.5'', ''mgr''] @ map show_ip (san_ips [''10.0.0.5'', ''mgr''])) = False"
    "(canonical_sans [''mgr'', ''10.0.0.5'']
      = san_names [''mgr'', ''10.0.0.5''] @ map show_ip (san_ips [''mgr'', ''10.0.0.5''])) = True"
    by code_simp+
  show "existing_cert_reusable ?T 0 ''pem'' [''10.0.0.5'', ''mgr''] root_subject_cn = Some False"
    by (rule listener_cert_reused_iff [OF cert, of "[''10.0.0.5'', ''mgr'']" "[[10, 0, 0, 5]]",
          unfolded eq]; code_simp)
  show "existing_cert_reusable ?T 0 ''pem'' [''mgr'', ''10.0.0.5''] root_subject_cn = Some True"
    by (rule listener_cert_reused_iff [OF cert, of "[''mgr'', ''10.0.0.5'']" "[[10, 0, 0, 5]]",
          unfolded eq]; code_simp)
qed

end
