(* ===== verification/Mgr_Enrollment.thy ===== *)
theory Mgr_Enrollment
  imports Mgr_Pki
begin

text \<open>Enrollment of hosts on the manager's side, \<open>fw-web/src/routes/enrollment.rs\<close>: tokens, requests,
approval with the certificate it issues, and the poll that hands the bundle out once.  Parameters
beside those of the authority are SHA-256 in hexadecimal and the cast of a text to \<open>INET\<close>; the values
a handler draws are arguments.\<close>

section \<open>Submission\<close>

record SubmitEnrollmentRequest =
  sq_token :: string
  sq_csr :: string
  sq_fqdn :: string
  sq_ip_address :: string
  sq_hostname :: "string option"
  sq_os_details :: json

record EnrollmentStatusResponse =
  sr_status :: string
  sr_pki_bundle :: "PkiBundle option"
  sr_host_id :: "string option"

definition find_token :: "string \<Rightarrow> db \<Rightarrow> EnrollmentToken option" where
  "find_token hash d = find (\<lambda>t. et_token_hash t = hash) (db_enroll_tokens d)"

definition mark_token_used :: "DateTime \<Rightarrow> string \<Rightarrow> db \<Rightarrow> db" where
  "mark_token_used now hash d =
     d \<lparr> db_enroll_tokens := update_where (\<lambda>t. et_token_hash t = hash)
          (\<lambda>t. t \<lparr> et_used_at := Some now \<rparr>) (db_enroll_tokens d) \<rparr>"

definition machine_id :: "SubmitEnrollmentRequest \<Rightarrow> string" where
  "machine_id req = sq_fqdn req @ ''-'' @ sq_ip_address req"

definition new_request :: "DateTime \<Rightarrow> Uuid \<Rightarrow> string \<Rightarrow> string \<Rightarrow> SubmitEnrollmentRequest \<Rightarrow> EnrollmentRequest" where
  "new_request now i hash ip req =
     \<lparr> er_id = i, er_machine_id = machine_id req, er_fqdn = sq_fqdn req, er_ip_address = ip,
       er_hostname = sq_hostname req, er_os_details = sq_os_details req, er_polling_token = hash,
       er_csr = Some (sq_csr req), er_created_at = now, er_expires_at = now + secs (24 * 3600) \<rparr>"

definition renewed_request :: "DateTime \<Rightarrow> string \<Rightarrow> SubmitEnrollmentRequest \<Rightarrow> EnrollmentRequest \<Rightarrow> EnrollmentRequest" where
  "renewed_request now hash req r =
     r \<lparr> er_polling_token := hash, er_csr := Some (sq_csr req), er_created_at := now \<rparr>"

text \<open>\<open>INSERT ... ON CONFLICT (machine_id) DO UPDATE\<close>; the polling token is unique too.\<close>

definition upsert_request ::
  "(string \<Rightarrow> string option) \<Rightarrow> DateTime \<Rightarrow> Uuid \<Rightarrow> string \<Rightarrow> SubmitEnrollmentRequest \<Rightarrow> unit dbm" where
  "upsert_request inet now i hash req =
     stmt (\<lambda>d. case inet (sq_ip_address req) of
                 None \<Rightarrow> Inl OtherSqlError
               | Some ip \<Rightarrow>
                   (let rows = db_enroll_requests d; m = machine_id req
                    in if \<exists>r \<in> set rows. er_machine_id r \<noteq> m \<and> er_polling_token r = hash
                       then Inl UniqueViolation
                       else if m \<in> set (map er_machine_id rows)
                       then Inr ((), d \<lparr> db_enroll_requests :=
                              update_where (\<lambda>r. er_machine_id r = m) (renewed_request now hash req) rows \<rparr>)
                       else if i \<in> set (map er_id rows) then Inl UniqueViolation
                       else Inr ((), d \<lparr> db_enroll_requests := rows @ [new_request now i hash ip req] \<rparr>)))"

definition submit_event :: "SubmitEnrollmentRequest \<Rightarrow> AuditEvent" where
  "submit_event req =
     (system_event ''enrollment_token_used'' ''enrollment'' (sq_fqdn req)
        [(''fqdn'', sq_fqdn req), (''ip'', sq_ip_address req)])
     \<lparr> ev_ip_address := Some (sq_ip_address req) \<rparr>"

text \<open>The polling token is the text of a new UUID, the row's identifier is drawn by the database.\<close>

definition submit_enrollment ::
  "(string \<Rightarrow> string) \<Rightarrow> (string \<Rightarrow> string option) \<Rightarrow> audit_lib \<Rightarrow> DateTime \<Rightarrow> Uuid \<Rightarrow> string
     \<Rightarrow> SubmitEnrollmentRequest \<Rightarrow> string dbm" where
  "submit_enrollment sha inet L now i polling_token req =
     (let hash = sha (sq_token req) in
     bind (query (find_token hash)) (\<lambda>row.
     bind (require (BadRequest ''Invalid token'') row) (\<lambda>t.
     bind (guard (BadRequest ''Token already used'') (et_used_at t = None)) (\<lambda>_.
     bind (guard (BadRequest ''Token expired'') (\<not> et_expires_at t < now)) (\<lambda>_.
     bind (query (\<lambda>d. map_option et_host_fqdn (find_token hash d))) (\<lambda>fqdn.
     bind (guard (BadRequest ''FQDN does not match token'') (fqdn = Some (sq_fqdn req))) (\<lambda>_.
     bind (ignore (exec (mark_token_used now hash))) (\<lambda>_.
     bind (upsert_request inet now i (sha polling_token) req) (\<lambda>_.
     bind (log_event L now (submit_event req)) (\<lambda>_.
     ret polling_token))))))))))"

section \<open>Polling\<close>

definition forget_approved :: "string \<Rightarrow> db \<Rightarrow> db" where
  "forget_approved hash d =
     d \<lparr> db_memory := db_memory d \<lparr> mm_approved := AList.delete hash (mm_approved (db_memory d)) \<rparr> \<rparr>"

definition pending_request :: "DateTime \<Rightarrow> string \<Rightarrow> db \<Rightarrow> EnrollmentRequest option" where
  "pending_request now hash d =
     find (\<lambda>r. er_polling_token r = hash \<and> now < er_expires_at r) (db_enroll_requests d)"

definition poll_enrollment_status ::
  "(string \<Rightarrow> string) \<Rightarrow> audit_lib \<Rightarrow> DateTime \<Rightarrow> string \<Rightarrow> EnrollmentStatusResponse dbm" where
  "poll_enrollment_status sha L now token =
     (let hash = sha token in
     bind (recall (\<lambda>d. map_of (mm_approved (db_memory d)) hash)) (\<lambda>cached.
     case cached of
       Some entry \<Rightarrow>
         bind (modify (forget_approved hash)) (\<lambda>_.
         ret \<lparr> sr_status = ''approved'', sr_pki_bundle = Some (ap_pki_bundle entry),
               sr_host_id = Some (al_uuid_str L (ap_host_id entry)) \<rparr>)
     | None \<Rightarrow>
         bind (query (pending_request now hash)) (\<lambda>row.
         case row of
           Some _ \<Rightarrow> ret \<lparr> sr_status = ''pending'', sr_pki_bundle = None, sr_host_id = None \<rparr>
         | None \<Rightarrow> throw (NotFound ''Enrollment not found or expired''))))"

definition list_enrollments :: "DateTime \<Rightarrow> EnrollmentRequest list dbm" where
  "list_enrollments now =
     query (\<lambda>d. sort_key (\<lambda>r. - er_created_at r) (filter (\<lambda>r. now < er_expires_at r) (db_enroll_requests d)))"

section \<open>Approval\<close>

record approve_draws =
  ad_host_id :: Uuid
  ad_serial :: Uuid
  ad_cert_id :: Uuid

definition count_collisions :: "(string \<Rightarrow> string option) \<Rightarrow> string \<Rightarrow> string \<Rightarrow> nat dbm" where
  "count_collisions inet fqdn ip =
     stmt (\<lambda>d. case inet ip of
                 None \<Rightarrow> Inl OtherSqlError
               | Some a \<Rightarrow> Inr (length (filter (\<lambda>h. ho_fqdn h = fqdn \<and> ho_ip_address h = a) (db_hosts d)), d))"

definition new_host :: "DateTime \<Rightarrow> Uuid \<Rightarrow> string \<Rightarrow> string \<Rightarrow> string \<Rightarrow> string \<Rightarrow> Host" where
  "new_host now h fqdn ip name os =
     \<lparr> ho_id = h, ho_fqdn = fqdn, ho_ip_address = ip, ho_display_name = name, ho_os_family = None,
       ho_os_name = Some os, ho_arch = None, ho_agent_version = None, ho_health_status = Pending,
       ho_last_health_at = None, ho_last_sync_at = None, ho_agent_port = 12443, ho_notes = [],
       ho_registered_at = now, ho_updated_at = now \<rparr>"

definition insert_host ::
  "(string \<Rightarrow> string option) \<Rightarrow> DateTime \<Rightarrow> Uuid \<Rightarrow> string \<Rightarrow> string \<Rightarrow> string \<Rightarrow> string \<Rightarrow> Uuid dbm" where
  "insert_host inet now h fqdn ip name os =
     stmt (\<lambda>d. case inet ip of
                 None \<Rightarrow> Inl OtherSqlError
               | Some a \<Rightarrow>
                   if host_exists h d \<or> (\<exists>x \<in> set (db_hosts d). ho_fqdn x = fqdn \<and> ho_ip_address x = a)
                   then Inl UniqueViolation
                   else Inr (h, d \<lparr> db_hosts := db_hosts d @ [new_host now h fqdn a name os] \<rparr>))"

definition insert_override :: "Uuid \<Rightarrow> int \<Rightarrow> unit dbm" where
  "insert_override h interval =
     stmt (\<lambda>d. if h \<in> set (map co_host_id (db_overrides d)) then Inr ((), d)
               else if \<not> host_exists h d then Inl ForeignKeyViolation
               else Inr ((), d \<lparr> db_overrides := db_overrides d @
                 [\<lparr> co_host_id = h, co_check_in_interval_secs = interval, co_push_enabled = True,
                    co_safe_mode_enabled = False, co_backend_override = None, co_config_version = 1 \<rparr>] \<rparr>))"

definition leaf_cert_row ::
  "DateTime \<Rightarrow> Uuid \<Rightarrow> Uuid \<Rightarrow> string \<Rightarrow> SignedCert \<Rightarrow> string \<Rightarrow> CertRow" where
  "leaf_cert_row now i h cn cert issuer_serial =
     \<lparr> ce_id = i, ce_host_id = Some h, ce_serial_number = sc_serial_hex cert, ce_common_name = cn,
       ce_status = CertActive, ce_issued_at = now, ce_expires_at = now + days 365,
       ce_revoked_at = None, ce_cert_pem = sc_cert_pem cert, ce_ca_tier = ''leaf'',
       ce_issuer_serial = (if issuer_serial = [] then None else Some issuer_serial) \<rparr>"

definition insert_leaf_cert :: "CertRow \<Rightarrow> unit dbm" where
  "insert_leaf_cert c =
     stmt (\<lambda>d. if ce_id c \<in> set (map ce_id (db_certificates d))
                  \<or> ce_serial_number c \<in> set (map ce_serial_number (db_certificates d))
               then Inl UniqueViolation
               else if \<exists>h. ce_host_id c = Some h \<and> \<not> host_exists h d then Inl ForeignKeyViolation
               else Inr ((), d \<lparr> db_certificates := db_certificates d @ [c] \<rparr>))"

definition cache_approved :: "string \<Rightarrow> ApprovedEntry \<Rightarrow> db \<Rightarrow> db" where
  "cache_approved hash e d =
     d \<lparr> db_memory := db_memory d \<lparr> mm_approved := AList.update hash e (mm_approved (db_memory d)) \<rparr> \<rparr>"

definition delete_request :: "Uuid \<Rightarrow> db \<Rightarrow> db" where
  "delete_request i d =
     d \<lparr> db_enroll_requests := filter (\<lambda>r. er_id r \<noteq> i) (db_enroll_requests d) \<rparr>"

definition approved_bundle :: "SignedCert \<Rightarrow> int \<Rightarrow> string \<Rightarrow> PkiBundle" where
  "approved_bundle cert interval url =
     \<lparr> pk_ca_chain = sc_ca_chain cert, pk_server_cert = sc_cert_pem cert,
       pk_crl_pem = sc_crl_pem cert,
       pk_pull_config = Some \<lparr> pb_check_in_interval_secs = interval, pb_push_enabled = True,
         pb_config_version = 1, pb_manager_agent_url = url \<rparr> \<rparr>"

record manager_lib =
  ml_inet :: "string \<Rightarrow> string option"
  ml_json :: json_lib
  ml_audit :: audit_lib
  ml_ca :: ca_lib
  ml_tls :: tls_lib

definition agent_url :: "string \<Rightarrow> nat \<Rightarrow> string" where
  "agent_url host port = ''https://'' @ host @ '':'' @ show_nat port"

definition os_name_of :: "json \<Rightarrow> string" where
  "os_name_of os = unwrap_or ''unknown'' (Option.bind (json_get ''os_name'' os) json_str)"

text \<open>The second half of an approval, once the host and its configuration are stored.\<close>

definition issue_and_cache ::
  "manager_lib \<Rightarrow> CertAuthority \<Rightarrow> DateTime \<Rightarrow> approve_draws \<Rightarrow> AuthUser \<Rightarrow> string \<Rightarrow> EnrollmentRequest
     \<Rightarrow> int \<Rightarrow> unit dbm" where
  "issue_and_cache M ca now r u url q interval =
     (let h = ad_host_id r; host_text = al_uuid_str (ml_audit M) h in
     bind (require (BadRequest ''Enrollment request has no CSR'') (er_csr q)) (\<lambda>csr.
     bind (lift_result (\<lambda>e. Internal (''CA sign failed: ''
             @ CertError_text (tl_io_text (ml_tls M)) (tl_sql_text (ml_tls M)) e))
             (sign_csr (ml_ca M) ca now (ad_serial r) csr host_text)) (\<lambda>cert.
     bind (insert_leaf_cert (leaf_cert_row now (ad_cert_id r) h host_text cert (issuing_serial_hex ca))) (\<lambda>_.
     bind (modify (cache_approved (er_polling_token q)
             \<lparr> ap_pki_bundle = approved_bundle cert interval url, ap_host_id = h, ap_created_at = now \<rparr>)) (\<lambda>_.
     bind (exec (delete_request (er_id q))) (\<lambda>_.
     log_event (ml_audit M) now (auth_event u ''host_enrolled'' ''host'' (Some host_text)
       [(''fqdn'', er_fqdn q), (''ip'', er_ip_address q)])))))))"

definition approve_enrollment ::
  "manager_lib \<Rightarrow> CertAuthority \<Rightarrow> string \<Rightarrow> nat \<Rightarrow> DateTime \<Rightarrow> approve_draws \<Rightarrow> AuthUser \<Rightarrow> Uuid
     \<Rightarrow> unit dbm" where
  "approve_enrollment M ca server_host agent_port now r u i =
     bind (admin_guard u) (\<lambda>_.
     bind (query (\<lambda>d. find (\<lambda>q. er_id q = i) (db_enroll_requests d))) (\<lambda>row.
     bind (require (NotFound ''Enrollment request not found'') row) (\<lambda>q.
     bind (count_collisions (ml_inet M) (er_fqdn q) (er_ip_address q)) (\<lambda>collision.
     bind (guard (Conflict ''Host already registered'') (collision = 0)) (\<lambda>_.
     bind (insert_host (ml_inet M) now (ad_host_id r) (er_fqdn q) (er_ip_address q)
             (unwrap_or (er_fqdn q) (er_hostname q)) (os_name_of (er_os_details q))) (\<lambda>h.
     bind (global_check_in_interval (ml_json M)) (\<lambda>interval.
     bind (ignore (insert_override h interval)) (\<lambda>_.
     issue_and_cache M ca now r u (agent_url server_host agent_port) q interval))))))))"

definition deny_enrollment :: "AuthUser \<Rightarrow> Uuid \<Rightarrow> unit dbm" where
  "deny_enrollment u i = bind (admin_guard u) (\<lambda>_. exec (delete_request i))"

section \<open>Tokens\<close>

definition token_view :: "EnrollmentToken \<Rightarrow> string \<times> string \<times> string option \<times> DateTime \<times> DateTime option" where
  "token_view t =
     (et_host_fqdn t, take 16 (et_token_hash t), et_host_ip t, et_expires_at t, et_used_at t)"

definition list_tokens :: "(string \<times> string \<times> string option \<times> DateTime \<times> DateTime option) list dbm" where
  "list_tokens =
     query (\<lambda>d. map token_view (sort_key (\<lambda>t. - et_expires_at t)
       (filter (\<lambda>t. et_used_at t = None \<and> et_revoked_at t = None) (db_enroll_tokens d))))"

record CreateTokenRequest =
  ct_host_fqdn :: string
  ct_host_ip :: "string option"
  ct_ttl_hours :: "int option"

definition insert_token ::
  "(string \<Rightarrow> string option) \<Rightarrow> DateTime \<Rightarrow> Uuid \<Rightarrow> string \<Rightarrow> CreateTokenRequest \<Rightarrow> int \<Rightarrow> unit dbm" where
  "insert_token inet now creator hash req ttl =
     stmt (\<lambda>d. if hash \<in> set (map et_token_hash (db_enroll_tokens d)) then Inl UniqueViolation
               else if \<not> user_exists creator d then Inl ForeignKeyViolation
               else if \<exists>ip. ct_host_ip req = Some ip \<and> inet ip = None then Inl OtherSqlError
               else Inr ((), d \<lparr> db_enroll_tokens := db_enroll_tokens d @
                 [\<lparr> et_token_hash = hash, et_host_fqdn = ct_host_fqdn req,
                    et_host_ip = Option.bind (ct_host_ip req) inet, et_created_by = creator,
                    et_expires_at = now + secs (3600 * ttl), et_used_at = None, et_revoked_at = None \<rparr>] \<rparr>))"

text \<open>The value is the token and its lifetime in hours; the token is drawn.\<close>

definition create_token ::
  "(string \<Rightarrow> string) \<Rightarrow> (string \<Rightarrow> string option) \<Rightarrow> audit_lib \<Rightarrow> DateTime \<Rightarrow> string \<Rightarrow> AuthUser
     \<Rightarrow> CreateTokenRequest \<Rightarrow> (string \<times> int) dbm" where
  "create_token sha inet L now token u req =
     (let ttl = unwrap_or 24 (ct_ttl_hours req) in
     bind (admin_guard u) (\<lambda>_.
     bind (insert_token inet now (auth_user_id u) (sha token) req ttl) (\<lambda>_.
     bind (log_event L now (auth_event u ''enrollment_token_issued'' ''enrollment''
             (Some (ct_host_fqdn req)) [(''fqdn'', ct_host_fqdn req), (''ttl_hours'', show_int ttl)])) (\<lambda>_.
     ret (token, ttl)))))"

definition mark_token_revoked :: "DateTime \<Rightarrow> string \<Rightarrow> db \<Rightarrow> db" where
  "mark_token_revoked now hash d =
     d \<lparr> db_enroll_tokens := update_where (\<lambda>t. et_token_hash t = hash)
          (\<lambda>t. t \<lparr> et_revoked_at := Some now \<rparr>) (db_enroll_tokens d) \<rparr>"

definition revoke_token :: "audit_lib \<Rightarrow> DateTime \<Rightarrow> AuthUser \<Rightarrow> string \<Rightarrow> unit dbm" where
  "revoke_token L now u hash =
     bind (admin_guard u) (\<lambda>_.
     bind (exec (mark_token_revoked now hash)) (\<lambda>_.
     log_event L now (auth_event u ''enrollment_token_revoked'' ''enrollment'' (Some hash) [])))"

section \<open>Facts\<close>

lemma succeeds_attempt [succeeds_intros]:
  "succeeds m d (\<lambda>x. Q (Some x)) \<Longrightarrow> succeeds (attempt m) d Q"
  by (auto simp: succeeds_def run_simps)

lemma succeeds_lift_result [succeeds_intros]:
  "r = Inr x \<Longrightarrow> Q x d \<Longrightarrow> succeeds (lift_result conv r) d Q"
  by (simp add: lift_result_def succeeds_basic)

text \<open>The check-in interval a host is enrolled with.\<close>

definition fleet_interval :: "json_lib \<Rightarrow> db \<Rightarrow> int" where
  "fleet_interval J d =
     unwrap_or 900 (Option.bind (Option.bind (config_value ''settings_polling'' d) (jl_from_str J))
       polling_interval)"

lemma succeeds_global_interval [succeeds_intros]:
  "Q (fleet_interval J d) d \<Longrightarrow> succeeds (global_check_in_interval J) d Q"
  unfolding global_check_in_interval_def get_config_json_def
  by (intro succeeds_intros) (auto simp: fleet_interval_def split: option.split)

lemma used_token_refused:
  assumes "find_token (sha (sq_token req)) d = Some t" and "et_used_at t \<noteq> None"
  shows "outcome (submit_enrollment sha inet L now i p req) d (\<lambda>_ _. False)
     (\<lambda>e _. e \<in> {BadRequest ''Token already used'', Database OtherSqlError})"
  unfolding submit_enrollment_def Let_def by (intro outcome_intros) (use assms in auto)

text \<open>What an accepted submission has found and done.\<close>

lemma submit_outcome:
  "outcome (submit_enrollment sha inet L now i p req) d
     (\<lambda>tok d'. tok = p \<and> db_memory d' = db_memory d \<and>
        (\<forall>r' \<in> set (db_enroll_requests d'). er_polling_token r' = sha p \<longrightarrow> er_machine_id r' = machine_id req)
        \<and> (machine_id req \<in> set (map er_machine_id (db_enroll_requests d)) \<longrightarrow>
            db_enroll_requests d' = update_where (\<lambda>r. er_machine_id r = machine_id req)
              (renewed_request now (sha p) req) (db_enroll_requests d)))
     (\<lambda>_ _. True)"
  unfolding submit_enrollment_def upsert_request_def Let_def
  by (intro outcome_intros outcome_stmt)
    (auto simp: mark_token_used_def update_where_def new_request_def renewed_request_def
      split: option.split_asm if_split_asm)

lemma submit_tokens:
  assumes "result (submit_enrollment sha inet L now i p req) (d, []) = Inr tok"
  shows "\<exists>t. find_token (sha (sq_token req))
    (db_after (submit_enrollment sha inet L now i p req) (d, [])) = Some (t \<lparr> et_used_at := Some now \<rparr>)"
proof -
  let ?h = "sha (sq_token req)"
  obtain t where t: "find_token ?h d = Some t"
    using assms by (auto simp: submit_enrollment_def Let_def result_def run_simps split: option.splits)
  have "db_enroll_tokens (db_after (submit_enrollment sha inet L now i p req) (d, []))
      = update_where (\<lambda>t. et_token_hash t = ?h) (\<lambda>t. t \<lparr> et_used_at := Some now \<rparr>) (db_enroll_tokens d)"
    using assms
    by (auto simp: submit_enrollment_def Let_def result_def db_after_def run_simps upsert_request_def
        mark_token_used_def split: option.splits if_splits sum.splits prod.splits)
  moreover have "et_token_hash t = ?h" using t by (auto simp: find_token_def find_Some_iff)
  ultimately show ?thesis
    using find_update_where [OF t [unfolded find_token_def], of "\<lambda>t. t \<lparr> et_used_at := Some now \<rparr>"
        "\<lambda>t. et_token_hash t = ?h"]
    by (auto simp: find_token_def)
qed

section \<open>Properties\<close>


definition sample_token :: EnrollmentToken where
  "sample_token =
     \<lparr> et_token_hash = ''secret'', et_host_fqdn = ''h.example'', et_host_ip = None, et_created_by = 5,
       et_expires_at = 1000, et_used_at = None, et_revoked_at = None \<rparr>"

definition sample_submission :: SubmitEnrollmentRequest where
  "sample_submission =
     \<lparr> sq_token = ''secret'', sq_csr = ''csr'', sq_fqdn = ''h.example'', sq_ip_address = ''10.0.0.9'',
       sq_hostname = None, sq_os_details = JNull \<rparr>"

definition token_db :: db where
  "token_db = empty_db \<lparr> db_enroll_tokens := [sample_token] \<rparr>"


text \<open>Revoking a token has no effect on enrollment.  If a submission would be accepted, it is still
accepted after an administrator has revoked the token.\<close>

theorem revoked_token_still_enrolls:
  assumes "result (submit_enrollment sha inet L now i p req) (d, []) = Inr tok"
    and "is_admin (auth_role u)"
  shows "result (revoke_token L t u (sha (sq_token req))) (d, []) = Inr ()
    \<and> result (submit_enrollment sha inet L now i p req)
        (db_after (revoke_token L t u (sha (sq_token req))) (d, []), []) = Inr tok"
proof -
  let ?h = "sha (sq_token req)"
  let ?d' = "db_after (revoke_token L t u ?h) (d, [])"
  have revoke: "result (revoke_token L t u ?h) (d, []) = Inr ()"
      "db_enroll_tokens ?d' = db_enroll_tokens (mark_token_revoked t ?h d)"
      "db_enroll_requests ?d' = db_enroll_requests d"
    using assms(2)
    by (simp_all add: revoke_token_def admin_guard_def result_def db_after_def run_simps
        mark_token_revoked_def)
  obtain x where x: "find_token ?h d = Some x"
    using assms(1) by (auto simp: submit_enrollment_def Let_def result_def run_simps split: option.splits)
  then have found: "find_token ?h ?d' = Some (x \<lparr> et_revoked_at := Some t \<rparr>)"
    using find_update_where [OF x [unfolded find_token_def], of "\<lambda>t'. t' \<lparr> et_revoked_at := Some t \<rparr>"
        "\<lambda>t. et_token_hash t = ?h"]
    by (auto simp: find_token_def revoke(2) mark_token_revoked_def find_Some_iff)
  have "result (submit_enrollment sha inet L now i p req) (?d', []) = Inr tok"
    using assms(1) x found revoke(3)
    by (auto simp: submit_enrollment_def Let_def result_def run_simps upsert_request_def
        mark_token_used_def split: option.splits if_splits sum.splits prod.splits)
  with revoke(1) show ?thesis by simp
qed

theorem revoked_token_still_enrolls_witness:
  "result (submit_enrollment (\<lambda>s. s) Some plain_lib 100 7 ''poll'' sample_submission)
     (db_after (revoke_token plain_lib 50 (admin_at None) ''secret'') (token_db, []), []) = Inr ''poll''"
proof -
  have "result (submit_enrollment (\<lambda>s. s) Some plain_lib 100 7 ''poll'' sample_submission) (token_db, [])
      = Inr ''poll''"
    by code_simp
  from revoked_token_still_enrolls [OF this, of "admin_at None" 50] show ?thesis
    by (simp add: admin_at_def is_admin_def sample_submission_def)
qed

text \<open>A host whose request has expired cannot enroll again.  If the machine has an expired
request, a new submission with a valid token is accepted but keeps the old expiry: every later poll
with the token it returns is refused, and the request is not listed for the administrators.\<close>

theorem resubmission_keeps_expiry:
  assumes "result (submit_enrollment sha inet L now i p req) (d, fs) = Inr tok"
    and "r \<in> set (db_enroll_requests d)" and "er_machine_id r = machine_id req"
    and "er_expires_at r \<le> now" and "distinct (map er_machine_id (db_enroll_requests d))"
    and "map_of (mm_approved (db_memory d)) (sha p) = None" and "now \<le> t"
  shows "let d' = db_after (submit_enrollment sha inet L now i p req) (d, fs) in
      result (poll_enrollment_status sha L' t tok) (d', fs')
        \<in> {Inl (NotFound ''Enrollment not found or expired''), Inl (Database OtherSqlError)}
      \<and> (\<exists>rs. result (list_enrollments t) (d', []) = Inr rs
           \<and> machine_id req \<notin> set (map er_machine_id rs))"
proof -
  let ?d = "db_after (submit_enrollment sha inet L now i p req) (d, fs)"
  have "machine_id req \<in> set (map er_machine_id (db_enroll_requests d))"
    using assms(2,3) by (force simp: image_iff)
  then have d': "tok = p" "db_memory ?d = db_memory d"
      "\<forall>x \<in> set (db_enroll_requests ?d). er_polling_token x = sha p \<longrightarrow> er_machine_id x = machine_id req"
      "db_enroll_requests ?d = update_where (\<lambda>r. er_machine_id r = machine_id req)
         (renewed_request now (sha p) req) (db_enroll_requests d)"
    using outcome_ok [OF submit_outcome assms(1)] by blast+
  have expired: "er_expires_at x \<le> t"
    if x: "x \<in> set (db_enroll_requests ?d)" "er_machine_id x = machine_id req" for x
  proof -
    from x obtain y where y: "y \<in> set (db_enroll_requests d)" "er_machine_id y = machine_id req"
        "er_expires_at x = er_expires_at y"
      by (auto simp: d'(4) set_update_where renewed_request_def split: if_split_asm)
    with assms(2,3,5) have "y = r" by (auto simp: distinct_map inj_on_def)
    with y assms(4,7) show ?thesis by simp
  qed
  then have none: "pending_request t (sha p) ?d = None"
    using d'(3) by (auto simp: pending_request_def find_None_iff not_less)
  have "outcome (poll_enrollment_status sha L' t p) ?d (\<lambda>_ _. False)
      (\<lambda>e _. e \<in> {NotFound ''Enrollment not found or expired'', Database OtherSqlError})"
    unfolding poll_enrollment_status_def Let_def
    by (intro outcome_intros) (use none assms(6) d'(2) in auto)
  from outcomeD [OF this, of fs'] have "result (poll_enrollment_status sha L' t tok) (?d, fs')
      \<in> {Inl (NotFound ''Enrollment not found or expired''), Inl (Database OtherSqlError)}"
    by (auto simp: d'(1) split: sum.splits)
  moreover have "machine_id req \<notin> er_machine_id ` {x \<in> set (db_enroll_requests ?d). t < er_expires_at x}"
    using expired by fastforce
  ultimately show ?thesis by (simp add: Let_def list_enrollments_def result_def run_simps)
qed

definition expired_request :: EnrollmentRequest where
  "expired_request = (new_request 0 3 ''old'' ''10.0.0.9'' sample_submission) \<lparr> er_expires_at := 50 \<rparr>"

definition expired_db :: db where
  "expired_db = token_db \<lparr> db_enroll_requests := [expired_request] \<rparr>"

theorem resubmission_keeps_expiry_witness:
  "let d' = db_after (submit_enrollment (\<lambda>s. s) Some plain_lib 100 7 ''poll'' sample_submission) (expired_db, []) in
     result (poll_enrollment_status (\<lambda>s. s) plain_lib 160 ''poll'') (d', [])
       \<in> {Inl (NotFound ''Enrollment not found or expired''), Inl (Database OtherSqlError)}
     \<and> (\<exists>rs. result (list_enrollments 160) (d', []) = Inr rs
          \<and> ''h.example-10.0.0.9'' \<notin> set (map er_machine_id rs))"
proof -
  have run: "result (submit_enrollment (\<lambda>s. s) Some plain_lib 100 7 ''poll'' sample_submission) (expired_db, [])
      = Inr ''poll''"
    by code_simp
  have mid: "machine_id sample_submission = ''h.example-10.0.0.9''"
    by (simp add: machine_id_def sample_submission_def)
  have "expired_request \<in> set (db_enroll_requests expired_db)"
    "er_machine_id expired_request = machine_id sample_submission" "er_expires_at expired_request \<le> 100"
    "distinct (map er_machine_id (db_enroll_requests expired_db))"
    "map_of (mm_approved (db_memory expired_db)) ''poll'' = None"
    by (simp_all add: expired_db_def token_db_def expired_request_def new_request_def empty_db_def
        empty_memory_def)
  from resubmission_keeps_expiry [OF run this, of 160 plain_lib "[]"] show ?thesis
    by (simp add: mid)
qed

text \<open>When an approval finds all it needs: the address is one, no host has that name and address, the
request carries a signing request the authority signs, and the drawn identifiers are new.\<close>

definition approvable ::
  "manager_lib \<Rightarrow> CertAuthority \<Rightarrow> DateTime \<Rightarrow> approve_draws \<Rightarrow> EnrollmentRequest \<Rightarrow> SignedCert \<Rightarrow> db \<Rightarrow> bool" where
  "approvable M ca now r q cert d \<longleftrightarrow>
     (\<exists>ip csr. ml_inet M (er_ip_address q) = Some ip
        \<and> (\<forall>h \<in> set (db_hosts d). ho_fqdn h = er_fqdn q \<longrightarrow> ho_ip_address h \<noteq> ip)
        \<and> er_csr q = Some csr
        \<and> sign_csr (ml_ca M) ca now (ad_serial r) csr (al_uuid_str (ml_audit M) (ad_host_id r)) = Inr cert)
     \<and> \<not> host_exists (ad_host_id r) d \<and> ad_cert_id r \<notin> set (map ce_id (db_certificates d))
     \<and> sc_serial_hex cert \<notin> set (map ce_serial_number (db_certificates d))"

lemma insert_override_run:
  "host_exists h d \<Longrightarrow> \<exists>ovs. insert_override h iv (d, []) = (Inr (), d \<lparr> db_overrides := ovs \<rparr>, [])"
  by (auto simp: insert_override_def run_simps intro: exI [of _ "db_overrides d"])

text \<open>An approval up to the issue of the certificate.\<close>

lemma approve_run:
  assumes "is_admin (auth_role u)" and "find (\<lambda>q. er_id q = i) (db_enroll_requests d) = Some q"
    and "ml_inet M (er_ip_address q) = Some ip" and "\<not> host_exists (ad_host_id r) d"
    and "\<forall>h \<in> set (db_hosts d). ho_fqdn h = er_fqdn q \<longrightarrow> ho_ip_address h \<noteq> ip"
  shows "\<exists>ovs hs. approve_enrollment M ca sh port now r u i (d, [])
      = issue_and_cache M ca now r u (agent_url sh port) q (fleet_interval (ml_json M) d)
          (d \<lparr> db_hosts := db_hosts d @ [hs], db_overrides := ovs \<rparr>, [])
      \<and> ho_id hs = ad_host_id r \<and> ho_fqdn hs = er_fqdn q \<and> ho_ip_address hs = ip"
proof -
  define hs where "hs = new_host now (ad_host_id r) (er_fqdn q) ip
    (unwrap_or (er_fqdn q) (er_hostname q)) (os_name_of (er_os_details q))"
  let ?d = "d \<lparr> db_hosts := db_hosts d @ [hs] \<rparr>"
  have none: "filter (\<lambda>h. ho_fqdn h = er_fqdn q \<and> ho_ip_address h = ip) (db_hosts d) = []"
    using assms(5) by (auto simp: filter_empty_conv)
  have "host_exists (ad_host_id r) ?d" by (simp add: host_exists_def hs_def new_host_def)
  from insert_override_run [OF this] obtain ovs where
    ovs: "insert_override (ad_host_id r) (fleet_interval (ml_json M) d) (?d, [])
      = (Inr (), ?d \<lparr> db_overrides := ovs \<rparr>, [])"
    by blast
  have interval: "global_check_in_interval (ml_json M) (?d, []) = (Inr (fleet_interval (ml_json M) d), ?d, [])"
    using succeeds_global_interval [of "\<lambda>x d'. x = fleet_interval (ml_json M) ?d \<and> d' = ?d" "ml_json M" ?d]
    by (auto simp: succeeds_def fleet_interval_def config_value_def)
  have insert: "insert_host (ml_inet M) now (ad_host_id r) (er_fqdn q) (er_ip_address q)
      (unwrap_or (er_fqdn q) (er_hostname q)) (os_name_of (er_os_details q)) (d, [])
      = (Inr (ad_host_id r), ?d, [])"
    using assms(3-5) by (auto simp: insert_host_def run_simps hs_def)
  have "approve_enrollment M ca sh port now r u i (d, [])
      = issue_and_cache M ca now r u (agent_url sh port) q (fleet_interval (ml_json M) d)
          (?d \<lparr> db_overrides := ovs \<rparr>, [])"
    using assms(1-3) none
    by (simp add: approve_enrollment_def admin_guard_def count_collisions_def run_simps insert interval ovs)
  then show ?thesis
    by (intro exI [of _ ovs] exI [of _ hs]) (simp add: hs_def new_host_def)
qed

text \<open>A host that is registered is never approved again.\<close>

lemma registered_not_approved:
  assumes "h \<in> set (db_hosts d)" and "\<forall>q \<in> set (db_enroll_requests d). er_id q = i \<longrightarrow>
      er_fqdn q = ho_fqdn h \<and> ml_inet M (er_ip_address q) = Some (ho_ip_address h)"
  shows "outcome (approve_enrollment M ca sh port now r u i) d (\<lambda>_ _. False)
     (\<lambda>_ d'. db_hosts d' = db_hosts d)"
  unfolding approve_enrollment_def admin_guard_def count_collisions_def
  by (intro outcome_intros outcome_stmt)
    (use assms in \<open>auto simp: find_Some_iff filter_empty_conv split: option.split_asm\<close>)

lemma leaf_cert_row_fields [simp]:
  "ce_id (leaf_cert_row now i h cn cert iss) = i"
  "ce_host_id (leaf_cert_row now i h cn cert iss) = Some h"
  "ce_serial_number (leaf_cert_row now i h cn cert iss) = sc_serial_hex cert"
  by (simp_all add: leaf_cert_row_def)

text \<open>What an approval that goes through leaves.\<close>

lemma approve_succeeds:
  assumes "is_admin (auth_role u)" and "q \<in> set (db_enroll_requests d)"
    and "distinct (map er_id (db_enroll_requests d))" and "approvable M ca now r q cert d"
  shows "succeeds (approve_enrollment M ca sh port now r u (er_id q)) d (\<lambda>_ d'.
      host_exists (ad_host_id r) d'
      \<and> (\<exists>h \<in> set (db_hosts d'). ho_fqdn h = er_fqdn q
           \<and> ml_inet M (er_ip_address q) = Some (ho_ip_address h))
      \<and> leaf_cert_row now (ad_cert_id r) (ad_host_id r) (al_uuid_str (ml_audit M) (ad_host_id r)) cert
           (issuing_serial_hex ca) \<in> set (db_certificates d')
      \<and> db_enroll_requests d' = filter (\<lambda>x. er_id x \<noteq> er_id q) (db_enroll_requests d)
      \<and> mm_approved (db_memory d') = AList.update (er_polling_token q)
           \<lparr> ap_pki_bundle = approved_bundle cert (fleet_interval (ml_json M) d) (agent_url sh port),
             ap_host_id = ad_host_id r, ap_created_at = now \<rparr> (mm_approved (db_memory d)))"
proof -
  obtain ip csr where ip: "ml_inet M (er_ip_address q) = Some ip"
      "\<forall>h \<in> set (db_hosts d). ho_fqdn h = er_fqdn q \<longrightarrow> ho_ip_address h \<noteq> ip" "er_csr q = Some csr"
      "sign_csr (ml_ca M) ca now (ad_serial r) csr (al_uuid_str (ml_audit M) (ad_host_id r)) = Inr cert"
      and new: "\<not> host_exists (ad_host_id r) d" "ad_cert_id r \<notin> set (map ce_id (db_certificates d))"
      "sc_serial_hex cert \<notin> set (map ce_serial_number (db_certificates d))"
    using assms(4) by (auto simp: approvable_def)
  have "find (\<lambda>x. er_id x = er_id q) (db_enroll_requests d) = Some q"
    using find_unique [OF assms(3,2)] by simp
  from approve_run [OF assms(1) this ip(1) new(1) ip(2), of ca sh port now] obtain ovs hs where
    run: "approve_enrollment M ca sh port now r u (er_id q) (d, [])
      = issue_and_cache M ca now r u (agent_url sh port) q (fleet_interval (ml_json M) d)
          (d \<lparr> db_hosts := db_hosts d @ [hs], db_overrides := ovs \<rparr>, [])"
    and hs: "ho_id hs = ad_host_id r" "ho_fqdn hs = er_fqdn q" "ho_ip_address hs = ip"
    by blast
  show ?thesis
    unfolding succeeds_def run
    using ip(1,3,4) new hs
    by (simp add: issue_and_cache_def Let_def lift_result_def insert_leaf_cert_def run_simps
        host_exists_def cache_approved_def delete_request_def)
qed

lemma poll_approved:
  assumes "map_of (mm_approved (db_memory d)) (sha p) = Some entry"
  shows "poll_enrollment_status sha L t p (d, fs)
    = (Inr \<lparr> sr_status = ''approved'', sr_pki_bundle = Some (ap_pki_bundle entry),
             sr_host_id = Some (al_uuid_str L (ap_host_id entry)) \<rparr>, forget_approved (sha p) d, fs)"
  using assms by (simp add: poll_enrollment_status_def Let_def bind_def recall_def modify_def ret_def)

lemma poll_refused:
  assumes "map_of (mm_approved (db_memory d)) (sha p) = None"
    and "\<forall>q \<in> set (db_enroll_requests d). er_polling_token q \<noteq> sha p"
  shows "result (poll_enrollment_status sha L t p) (d, fs)
    \<in> {Inl (NotFound ''Enrollment not found or expired''), Inl (Database OtherSqlError)}"
proof -
  have "pending_request t (sha p) d = None"
    using assms(2) by (auto simp: pending_request_def find_None_iff)
  then have "outcome (poll_enrollment_status sha L t p) d (\<lambda>_ _. False)
      (\<lambda>e _. e \<in> {NotFound ''Enrollment not found or expired'', Database OtherSqlError})"
    unfolding poll_enrollment_status_def Let_def
    by (intro outcome_intros) (use assms(1) in auto)
  from outcomeD [OF this, of fs] show ?thesis by (auto split: sum.splits)
qed

text \<open>C13. An approval is delivered once.  If an administrator approves a request that can be approved,
and nothing is refused, then the host and its certificate are stored, the first poll with the
request's token returns the bundle with the certificate, and every later poll is refused.  A
certificate parser that reads the common name back makes the agent listener take the holder of that
certificate for the new host.\<close>

theorem approval_delivered_once:
  assumes "is_admin (auth_role u)" and "q \<in> set (db_enroll_requests d)"
    and "distinct (map er_id (db_enroll_requests d))"
    and "distinct (map er_polling_token (db_enroll_requests d))"
    and "approvable M ca now r q cert d" and "er_polling_token q = sha p"
    and "\<And>params key iss pem. rc_sign (ml_ca M) params key iss = Inr pem \<Longrightarrow>
           Option.bind (tl_parse_pem (ml_tls M) pem) x_subject_cn = Some (cp_common_name params)"
    and "parse_uuid (al_uuid_str (ml_audit M) (ad_host_id r)) = Some (ad_host_id r)"
  shows "let d1 = db_after (approve_enrollment M ca sh port now r u (er_id q)) (d, []);
             d2 = db_after (poll_enrollment_status sha (ml_audit M) t p) (d1, fs)
    in result (approve_enrollment M ca sh port now r u (er_id q)) (d, []) = Inr ()
      \<and> host_exists (ad_host_id r) d1
      \<and> leaf_cert_row now (ad_cert_id r) (ad_host_id r) (al_uuid_str (ml_audit M) (ad_host_id r)) cert
           (issuing_serial_hex ca) \<in> set (db_certificates d1)
      \<and> result (poll_enrollment_status sha (ml_audit M) t p) (d1, fs)
          = Inr \<lparr> sr_status = ''approved'',
                  sr_pki_bundle = Some (approved_bundle cert (fleet_interval (ml_json M) d) (agent_url sh port)),
                  sr_host_id = Some (al_uuid_str (ml_audit M) (ad_host_id r)) \<rparr>
      \<and> result (poll_enrollment_status sha (ml_audit M) t' p) (d2, fs')
          \<in> {Inl (NotFound ''Enrollment not found or expired''), Inl (Database OtherSqlError)}
      \<and> accept parse_uuid [Peer (tl_parse_pem (ml_tls M) (sc_cert_pem cert)) addr]
          = Some ((ad_host_id r, addr), [])"
proof -
  let ?d1 = "db_after (approve_enrollment M ca sh port now r u (er_id q)) (d, [])"
  from succeedsD [OF approve_succeeds [OF assms(1-3,5), of sh port]]
  have d1: "result (approve_enrollment M ca sh port now r u (er_id q)) (d, []) = Inr ()"
      "host_exists (ad_host_id r) ?d1"
      "leaf_cert_row now (ad_cert_id r) (ad_host_id r) (al_uuid_str (ml_audit M) (ad_host_id r)) cert
         (issuing_serial_hex ca) \<in> set (db_certificates ?d1)"
      "db_enroll_requests ?d1 = filter (\<lambda>x. er_id x \<noteq> er_id q) (db_enroll_requests d)"
      "mm_approved (db_memory ?d1) = AList.update (sha p)
           \<lparr> ap_pki_bundle = approved_bundle cert (fleet_interval (ml_json M) d) (agent_url sh port),
             ap_host_id = ad_host_id r, ap_created_at = now \<rparr> (mm_approved (db_memory d))"
    by (auto simp: assms(6))
  have "map_of (mm_approved (db_memory ?d1)) (sha p) = Some
      \<lparr> ap_pki_bundle = approved_bundle cert (fleet_interval (ml_json M) d) (agent_url sh port),
        ap_host_id = ad_host_id r, ap_created_at = now \<rparr>"
    by (simp add: d1(5) update_conv)
  from poll_approved [where sha = sha, OF this] have poll: "poll_enrollment_status sha (ml_audit M) t p (?d1, fs)
      = (Inr \<lparr> sr_status = ''approved'',
               sr_pki_bundle = Some (approved_bundle cert (fleet_interval (ml_json M) d) (agent_url sh port)),
               sr_host_id = Some (al_uuid_str (ml_audit M) (ad_host_id r)) \<rparr>, forget_approved (sha p) ?d1, fs)"
    by simp
  have "\<forall>x \<in> set (db_enroll_requests (forget_approved (sha p) ?d1)). er_polling_token x \<noteq> sha p"
    using assms(2,4,6) by (auto simp: forget_approved_def d1(4) distinct_map inj_on_def)
  then have "result (poll_enrollment_status sha (ml_audit M) t' p) (forget_approved (sha p) ?d1, fs')
      \<in> {Inl (NotFound ''Enrollment not found or expired''), Inl (Database OtherSqlError)}"
    by (intro poll_refused) (simp_all add: forget_approved_def delete_conv)
  moreover obtain csr where "sign_csr (ml_ca M) ca now (ad_serial r) csr
      (al_uuid_str (ml_audit M) (ad_host_id r)) = Inr cert"
    using assms(5) by (auto simp: approvable_def)
  then obtain params key where "rc_sign (ml_ca M) (agent_params now (ad_serial r)
      (al_uuid_str (ml_audit M) (ad_host_id r)) params) key (issuer ca) = Inr (sc_cert_pem cert)"
    by (auto simp: sign_csr_def and_then_Inr split: sum.split_asm)
  from assms(7) [OF this] have "Option.bind (tl_parse_pem (ml_tls M) (sc_cert_pem cert)) x_subject_cn
      = Some (al_uuid_str (ml_audit M) (ad_host_id r))"
    by (simp add: agent_params_def)
  then have "accept parse_uuid [Peer (tl_parse_pem (ml_tls M) (sc_cert_pem cert)) addr]
      = Some ((ad_host_id r, addr), [])"
    by (simp add: parse_host_id_def assms(8))
  ultimately show ?thesis using d1(1-3) poll by (simp add: Let_def result_def db_after_def)
qed

text \<open>Libraries that write a certificate as its common name, for the concrete instances.\<close>

definition sample_mgr_lib :: manager_lib where
  "sample_mgr_lib =
     \<lparr> ml_inet = Some, ml_json = flat_lib, ml_audit = plain_lib,
       ml_ca = one_list_lib \<lparr> rc_csr := (\<lambda>csr. if csr = ''csr'' then Inr (server_params 0 [], csr)
                                else Inl ''bad request''),
                              rc_sign := \<lambda>p k iss. Inr (cp_common_name p) \<rparr>,
       ml_tls = plain_tls_lib \<lparr> tl_parse_pem := \<lambda>pem. Some (listener_x509 \<lparr> x_subject_cn := Some pem \<rparr>) \<rparr> \<rparr>"

definition host_draws :: approve_draws where
  "host_draws = \<lparr> ad_host_id = 9, ad_serial = 10, ad_cert_id = 11 \<rparr>"

definition waiting_request :: EnrollmentRequest where
  "waiting_request = new_request 0 3 ''poll'' ''10.0.0.9'' sample_submission"

definition sample_cert :: SignedCert where
  "sample_cert =
     \<lparr> sc_cert_pem = ''9'', sc_serial_hex = hx_encode one_list_lib (uuid_bytes 10),
       sc_ca_chain = ca_chain_for_agents root_ca, sc_crl_pem = None \<rparr>"

definition request_db :: db where
  "request_db = empty_db \<lparr> db_enroll_requests := [waiting_request] \<rparr>"

lemma request_db_facts:
  "is_admin (auth_role (admin_at None))" "waiting_request \<in> set (db_enroll_requests request_db)"
  "distinct (map er_id (db_enroll_requests request_db))"
  "distinct (map er_polling_token (db_enroll_requests request_db))"
  "approvable sample_mgr_lib root_ca 100 host_draws waiting_request sample_cert request_db"
  "er_polling_token waiting_request = (\<lambda>s. s) ''poll''"
proof -
  show "approvable sample_mgr_lib root_ca 100 host_draws waiting_request sample_cert request_db"
    unfolding approvable_def
    by (intro conjI exI [of _ "''10.0.0.9''"] exI [of _ "''csr''"]) code_simp+
qed (simp_all add: admin_at_def is_admin_def request_db_def waiting_request_def new_request_def)

theorem approval_delivered_once_witness:
  "let d1 = db_after (approve_enrollment sample_mgr_lib root_ca ''mgr'' 8443 100 host_draws
              (admin_at None) 3) (request_db, []);
       d2 = db_after (poll_enrollment_status (\<lambda>s. s) plain_lib 160 ''poll'') (d1, [])
   in host_exists 9 d1
     \<and> result (poll_enrollment_status (\<lambda>s. s) plain_lib 160 ''poll'') (d1, [])
          = Inr \<lparr> sr_status = ''approved'',
                  sr_pki_bundle = Some (approved_bundle sample_cert 900 ''https://mgr:8443''),
                  sr_host_id = Some ''9'' \<rparr>
     \<and> result (poll_enrollment_status (\<lambda>s. s) plain_lib 220 ''poll'') (d2, [])
          \<in> {Inl (NotFound ''Enrollment not found or expired''), Inl (Database OtherSqlError)}
     \<and> accept (\<lambda>s. Some (of_nat (digits_value 10 s)))
          [Peer (tl_parse_pem (ml_tls sample_mgr_lib) ''9'') ''10.0.0.9:4000''] = Some ((9, ''10.0.0.9:4000''), [])"
proof -
  have lib: "ml_audit sample_mgr_lib = plain_lib" by (simp add: sample_mgr_lib_def)
  have fields: "er_id waiting_request = 3" "ad_host_id host_draws = 9"
    "al_uuid_str plain_lib 9 = ''9''" "sc_cert_pem sample_cert = ''9''"
    "fleet_interval (ml_json sample_mgr_lib) request_db = 900" "agent_url ''mgr'' 8443 = ''https://mgr:8443''"
    by code_simp+
  note request_db_facts
  moreover have "\<And>params key iss pem. rc_sign (ml_ca sample_mgr_lib) params key iss = Inr pem \<Longrightarrow>
      Option.bind (tl_parse_pem (ml_tls sample_mgr_lib) pem) x_subject_cn = Some (cp_common_name params)"
    by (simp add: sample_mgr_lib_def)
  moreover have "(\<lambda>s. Some (of_nat (digits_value 10 s))) (al_uuid_str (ml_audit sample_mgr_lib)
      (ad_host_id host_draws)) = Some (ad_host_id host_draws)"
    by code_simp
  ultimately show ?thesis
    using approval_delivered_once [where p = "''poll''" and sha = "\<lambda>s. s" and M = sample_mgr_lib and ca = root_ca
        and now = 100 and r = host_draws and q = waiting_request and cert = sample_cert and d = request_db
        and u = "admin_at None" and sh = "''mgr''" and port = 8443 and t = 160 and t' = 220 and fs = "[]"
        and fs' = "[]" and addr = "''10.0.0.9:4000''" and parse_uuid = "\<lambda>s. Some (of_nat (digits_value 10 s))"]
    unfolding lib fields Let_def by blast
qed

text \<open>A signing request the authority refuses blocks the host.  If the stored signing request cannot
be signed, an approval fails but leaves the host registered: from then on, as long as the hosts stay,
no approval of any request of that host succeeds.\<close>

theorem failed_approval_blocks_host:
  assumes "is_admin (auth_role u)" and "q \<in> set (db_enroll_requests d)"
    and "distinct (map er_id (db_enroll_requests d))" and "ml_inet M (er_ip_address q) = Some ip"
    and "\<forall>h \<in> set (db_hosts d). ho_fqdn h = er_fqdn q \<longrightarrow> ho_ip_address h \<noteq> ip"
    and "\<not> host_exists (ad_host_id r) d" and "er_csr q = Some csr"
    and "sign_csr (ml_ca M) ca now (ad_serial r) csr (al_uuid_str (ml_audit M) (ad_host_id r)) = Inl e"
    and "db_hosts d2 = db_hosts (db_after (approve_enrollment M ca sh port now r u (er_id q)) (d, []))"
    and "\<forall>x \<in> set (db_enroll_requests d2). er_id x = i \<longrightarrow>
           er_fqdn x = er_fqdn q \<and> er_ip_address x = er_ip_address q"
  shows "\<not> is_ok (result (approve_enrollment M ca sh port now r u (er_id q)) (d, []))
    \<and> host_exists (ad_host_id r) d2
    \<and> \<not> is_ok (result (approve_enrollment M ca' sh' port' now' r' u' i) (d2, fs))"
proof -
  have found: "find (\<lambda>x. er_id x = er_id q) (db_enroll_requests d) = Some q"
    using find_unique [OF assms(3,2)] by simp
  from approve_run [OF assms(1) found assms(4,6,5), of ca sh port now] obtain ovs hs where
    run: "approve_enrollment M ca sh port now r u (er_id q) (d, [])
      = issue_and_cache M ca now r u (agent_url sh port) q (fleet_interval (ml_json M) d)
          (d \<lparr> db_hosts := db_hosts d @ [hs], db_overrides := ovs \<rparr>, [])"
    and hs: "ho_id hs = ad_host_id r" "ho_fqdn hs = er_fqdn q" "ho_ip_address hs = ip"
    by blast
  have fails: "\<not> is_ok (result (approve_enrollment M ca sh port now r u (er_id q)) (d, []))"
    and hosts: "db_hosts d2 = db_hosts d @ [hs]"
    using assms(7-9)
    by (simp_all add: result_def db_after_def run issue_and_cache_def Let_def lift_result_def run_simps)
  have "outcome (approve_enrollment M ca' sh' port' now' r' u' i) d2 (\<lambda>_ _. False)
      (\<lambda>_ d'. db_hosts d' = db_hosts d2)"
    using assms(4,10) hs hosts by (intro registered_not_approved [of hs]) auto
  from outcomeD [OF this, of fs]
  have "\<not> is_ok (result (approve_enrollment M ca' sh' port' now' r' u' i) (d2, fs))"
    by (auto simp: is_ok_def split: sum.splits)
  with fails hosts hs(1) show ?thesis by (simp add: host_exists_def)
qed

theorem failed_approval_blocks_host_witness:
  "let d = empty_db \<lparr> db_enroll_requests := [waiting_request \<lparr> er_csr := Some ''junk'' \<rparr>] \<rparr>;
       d1 = db_after (approve_enrollment sample_mgr_lib root_ca ''mgr'' 8443 100 host_draws
              (admin_at None) 3) (d, []);
       d2 = d1 \<lparr> db_enroll_requests := [waiting_request \<lparr> er_id := 4 \<rparr>] \<rparr>
   in host_exists 9 d2
     \<and> \<not> is_ok (result (approve_enrollment sample_mgr_lib root_ca ''mgr'' 8443 200
          \<lparr> ad_host_id = 12, ad_serial = 13, ad_cert_id = 14 \<rparr> (admin_at None) 4) (d2, []))"
proof -
  let ?q = "waiting_request \<lparr> er_csr := Some ''junk'' \<rparr>"
  let ?d = "empty_db \<lparr> db_enroll_requests := [?q] \<rparr>"
  let ?d2 = "db_after (approve_enrollment sample_mgr_lib root_ca ''mgr'' 8443 100 host_draws
    (admin_at None) 3) (?d, []) \<lparr> db_enroll_requests := [waiting_request \<lparr> er_id := 4 \<rparr>] \<rparr>"
  have fields: "er_id ?q = 3" "ad_host_id host_draws = 9" by (simp_all add: waiting_request_def new_request_def host_draws_def)
  have "is_admin (auth_role (admin_at None))" "?q \<in> set (db_enroll_requests ?d)"
    "distinct (map er_id (db_enroll_requests ?d))"
    "ml_inet sample_mgr_lib (er_ip_address ?q) = Some ''10.0.0.9''"
    "\<forall>h \<in> set (db_hosts ?d). ho_fqdn h = er_fqdn ?q \<longrightarrow> ho_ip_address h \<noteq> ''10.0.0.9''"
    "\<not> host_exists (ad_host_id host_draws) ?d" "er_csr ?q = Some ''junk''"
    by (simp_all add: admin_at_def is_admin_def sample_mgr_lib_def waiting_request_def new_request_def
        host_exists_def empty_db_def)
  moreover have "sign_csr (ml_ca sample_mgr_lib) root_ca 100 (ad_serial host_draws) ''junk''
      (al_uuid_str (ml_audit sample_mgr_lib) (ad_host_id host_draws)) = Inl (CertRcgen ''bad request'')"
    by code_simp
  moreover have "db_hosts ?d2 = db_hosts (db_after (approve_enrollment sample_mgr_lib root_ca ''mgr'' 8443 100
      host_draws (admin_at None) (er_id ?q)) (?d, []))"
    "\<forall>x \<in> set (db_enroll_requests ?d2). er_id x = 4 \<longrightarrow>
       er_fqdn x = er_fqdn ?q \<and> er_ip_address x = er_ip_address ?q"
    by (simp_all add: fields)
  ultimately have "\<not> is_ok (result (approve_enrollment sample_mgr_lib root_ca ''mgr'' 8443 100 host_draws
      (admin_at None) (er_id ?q)) (?d, []))
    \<and> host_exists (ad_host_id host_draws) ?d2
    \<and> \<not> is_ok (result (approve_enrollment sample_mgr_lib root_ca ''mgr'' 8443 200
          \<lparr> ad_host_id = 12, ad_serial = 13, ad_cert_id = 14 \<rparr> (admin_at None) 4) (?d2, []))"
    by (rule failed_approval_blocks_host)
  then show ?thesis unfolding fields Let_def by blast
qed

text \<open>C39. A restart between approval and the next poll strands the host.  The bundle is only in memory:
after the restart every poll is refused, and as long as the hosts stay no approval of a new request of
that host succeeds.\<close>

theorem restart_strands_host:
  assumes "is_admin (auth_role u)" and "q \<in> set (db_enroll_requests d)"
    and "distinct (map er_id (db_enroll_requests d))"
    and "distinct (map er_polling_token (db_enroll_requests d))"
    and "approvable M ca now r q cert d" and "er_polling_token q = sha p"
    and "db_hosts d2 = db_hosts (db_after (approve_enrollment M ca sh port now r u (er_id q)) (d, []))"
    and "\<forall>x \<in> set (db_enroll_requests d2). er_id x = i \<longrightarrow>
           er_fqdn x = er_fqdn q \<and> er_ip_address x = er_ip_address q"
  shows "result (approve_enrollment M ca sh port now r u (er_id q)) (d, []) = Inr ()
    \<and> result (poll_enrollment_status sha L t p)
        (restart wl px (db_after (approve_enrollment M ca sh port now r u (er_id q)) (d, [])), fs)
      \<in> {Inl (NotFound ''Enrollment not found or expired''), Inl (Database OtherSqlError)}
    \<and> \<not> is_ok (result (approve_enrollment M ca' sh' port' now' r' u' i) (d2, fs'))"
proof -
  let ?d1 = "db_after (approve_enrollment M ca sh port now r u (er_id q)) (d, [])"
  from succeedsD [OF approve_succeeds [OF assms(1-3,5), of sh port]] obtain h where
    ok: "result (approve_enrollment M ca sh port now r u (er_id q)) (d, []) = Inr ()"
    and h: "h \<in> set (db_hosts ?d1)" "ho_fqdn h = er_fqdn q"
      "ml_inet M (er_ip_address q) = Some (ho_ip_address h)"
    and reqs: "db_enroll_requests ?d1 = filter (\<lambda>x. er_id x \<noteq> er_id q) (db_enroll_requests d)"
    by auto
  have "\<forall>x \<in> set (db_enroll_requests (restart wl px ?d1)). er_polling_token x \<noteq> sha p"
    using assms(2,4,6) by (auto simp: restart_def reqs distinct_map inj_on_def)
  then have "result (poll_enrollment_status sha L t p) (restart wl px ?d1, fs)
      \<in> {Inl (NotFound ''Enrollment not found or expired''), Inl (Database OtherSqlError)}"
    by (intro poll_refused) (simp_all add: restart_def fresh_memory_def)
  moreover have "outcome (approve_enrollment M ca' sh' port' now' r' u' i) d2 (\<lambda>_ _. False)
      (\<lambda>_ d'. db_hosts d' = db_hosts d2)"
    using assms(8) h by (intro registered_not_approved [of h]) (auto simp: assms(7))
  from outcomeD [OF this, of fs']
  have "\<not> is_ok (result (approve_enrollment M ca' sh' port' now' r' u' i) (d2, fs'))"
    by (auto simp: is_ok_def split: sum.splits)
  ultimately show ?thesis using ok by simp
qed

theorem restart_strands_host_witness:
  "let d1 = db_after (approve_enrollment sample_mgr_lib root_ca ''mgr'' 8443 100 host_draws
              (admin_at None) 3) (request_db, [])
   in result (poll_enrollment_status (\<lambda>s. s) plain_lib 160 ''poll'') (restart [] [] d1, [])
        \<in> {Inl (NotFound ''Enrollment not found or expired''), Inl (Database OtherSqlError)}
     \<and> \<not> is_ok (result (approve_enrollment sample_mgr_lib root_ca ''mgr'' 8443 200
          \<lparr> ad_host_id = 12, ad_serial = 13, ad_cert_id = 14 \<rparr> (admin_at None) 4)
          (restart [] [] d1 \<lparr> db_enroll_requests := [waiting_request \<lparr> er_id := 4 \<rparr>] \<rparr>, []))"
proof -
  let ?d1 = "db_after (approve_enrollment sample_mgr_lib root_ca ''mgr'' 8443 100 host_draws
    (admin_at None) 3) (request_db, [])"
  let ?d2 = "restart [] [] ?d1 \<lparr> db_enroll_requests := [waiting_request \<lparr> er_id := 4 \<rparr>] \<rparr>"
  have i: "er_id waiting_request = 3" by (simp add: waiting_request_def new_request_def)
  note request_db_facts
  moreover have "db_hosts ?d2 = db_hosts (db_after (approve_enrollment sample_mgr_lib root_ca ''mgr'' 8443 100
      host_draws (admin_at None) (er_id waiting_request)) (request_db, []))"
    "\<forall>x \<in> set (db_enroll_requests ?d2). er_id x = 4 \<longrightarrow>
       er_fqdn x = er_fqdn waiting_request \<and> er_ip_address x = er_ip_address waiting_request"
    by (simp_all add: i restart_def)
  ultimately have "result (approve_enrollment sample_mgr_lib root_ca ''mgr'' 8443 100 host_draws
      (admin_at None) (er_id waiting_request)) (request_db, []) = Inr ()
    \<and> result (poll_enrollment_status (\<lambda>s. s) plain_lib 160 ''poll'') (restart [] []
        (db_after (approve_enrollment sample_mgr_lib root_ca ''mgr'' 8443 100 host_draws
          (admin_at None) (er_id waiting_request)) (request_db, [])), [])
      \<in> {Inl (NotFound ''Enrollment not found or expired''), Inl (Database OtherSqlError)}
    \<and> \<not> is_ok (result (approve_enrollment sample_mgr_lib root_ca ''mgr'' 8443 200
          \<lparr> ad_host_id = 12, ad_serial = 13, ad_cert_id = 14 \<rparr> (admin_at None) 4) (?d2, []))"
    by (rule restart_strands_host)
  then show ?thesis unfolding i Let_def by blast
qed

end
