(* ===== verification/Mgr_Hosts.thy ===== *)
theory Mgr_Hosts
  imports Mgr_Enrollment
begin

text \<open>The life of a host on the manager after enrollment: the remaining handlers of
\<open>fw-web/src/routes/hosts.rs\<close>, the event stream of \<open>agent_api.rs\<close>, the views \<open>health.rs\<close> and
\<open>drift.rs\<close>, and the background worker (\<open>fw-worker/src\<close>): stale agents, audit anchors, the wait for the
schema.  Where a query orders rows by a time, rows of one instant are taken with the later one first,
as its own time is the later one.  The collation of a text order and the cast to \<open>INET\<close> are
parameters.\<close>

section \<open>Views of hosts\<close>

definition newest :: "('r \<Rightarrow> DateTime) \<Rightarrow> 'r list \<Rightarrow> 'r list" where
  "newest key rows = sort_key (\<lambda>r. - key r) (rev rows)"

fun HostHealthStatus_text :: "HostHealthStatus \<Rightarrow> string" where
  "HostHealthStatus_text Pending = ''pending''"
| "HostHealthStatus_text Healthy = ''healthy''"
| "HostHealthStatus_text Degraded = ''degraded''"
| "HostHealthStatus_text Unreachable = ''unreachable''"

definition parse_health_status :: "string \<Rightarrow> HostHealthStatus" where
  "parse_health_status s =
     (if s = ''healthy'' then Healthy
      else if s = ''degraded'' then Degraded
      else if s = ''unreachable'' then Unreachable
      else Pending)"

definition latest_check_in :: "Uuid \<Rightarrow> db \<Rightarrow> AgentCheckIn option" where
  "latest_check_in h d =
     (case newest ck_checked_in_at (filter (\<lambda>c. ck_host_id c = h) (db_check_ins d)) of
        [] \<Rightarrow> None | c # _ \<Rightarrow> Some c)"

definition container_runtime :: "AgentCheckIn option \<Rightarrow> string option" where
  "container_runtime c = Option.bind c (\<lambda>c. map_of (ck_os_info c) ''container_runtime'')"

definition policy_set_name :: "Uuid \<Rightarrow> db \<Rightarrow> string option" where
  "policy_set_name h d =
     (case List.map_filter (\<lambda>a. find (\<lambda>p. ps_id p = ha_policy_set_id a) (db_policy_sets d))
             (filter (\<lambda>a. ha_host_id a = h) (db_assignments d)) of
        [] \<Rightarrow> None | p # _ \<Rightarrow> Some (ps_name p))"

text \<open>A row of the list: the host (with its status as text), the container runtime, the backend, the
time of the latest check-in and the name of an assigned policy set.\<close>

record HostRow =
  hr_host :: Host
  hr_health_status :: string
  hr_container_runtime :: "string option"
  hr_backend_type :: "string option"
  hr_last_check_in :: "DateTime option"
  hr_policy_set_name :: "string option"

definition host_row :: "db \<Rightarrow> Host \<Rightarrow> HostRow" where
  "host_row d h =
     (let latest = latest_check_in (ho_id h) d
      in \<lparr> hr_host = h, hr_health_status = HostHealthStatus_text (ho_health_status h),
           hr_container_runtime = container_runtime latest,
           hr_backend_type = map_option ck_backend_type latest,
           hr_last_check_in = map_option ck_checked_in_at latest,
           hr_policy_set_name = policy_set_name (ho_id h) d \<rparr>)"

definition list_hosts :: "(string \<Rightarrow> 'k::linorder) \<Rightarrow> (HostRow list \<times> nat) dbm" where
  "list_hosts collate =
     bind (query (\<lambda>d. map (host_row d) (sort_key (\<lambda>h. collate (ho_fqdn h)) (db_hosts d)))) (\<lambda>hosts.
     ret (hosts, length hosts))"

definition find_host :: "Uuid \<Rightarrow> db \<Rightarrow> Host option" where
  "find_host h d = find (\<lambda>x. ho_id x = h) (db_hosts d)"

text \<open>The detail view: the host, its status read back from the text, and the container runtime.\<close>

definition get_host :: "Uuid \<Rightarrow> (Host \<times> HostHealthStatus \<times> string option) dbm" where
  "get_host h =
     bind (query (\<lambda>d. map_option (\<lambda>x. (x, container_runtime (latest_check_in h d))) (find_host h d))) (\<lambda>row.
     bind (require (NotFound ''Host not found'') row) (\<lambda>(x, runtime).
     ret (x, parse_health_status (HostHealthStatus_text (ho_health_status x)), runtime)))"

definition get_drift_snapshots :: "Uuid \<Rightarrow> DriftSnapshot list dbm" where
  "get_drift_snapshots h =
     query (\<lambda>d. take 20 (newest ds_captured_at (filter (\<lambda>s. ds_host_id s = h) (db_drift d))))"

text \<open>The columns on the outcome of an apply are left out: nothing ever writes them.\<close>

definition get_check_ins :: "Uuid \<Rightarrow> (DateTime \<times> string \<times> string \<times> string) list dbm" where
  "get_check_ins h =
     query (\<lambda>d. map (\<lambda>c. (ck_checked_in_at c, ck_rules_hash c, ck_agent_version c, ck_backend_type c))
       (take 25 (newest ck_checked_in_at (filter (\<lambda>c. ck_host_id c = h) (db_check_ins d)))))"

text \<open>\<open>GET /drift/snapshots\<close>: with the name of the host, the limit between 1 and 1000.\<close>

definition list_drift_snapshots ::
  "Uuid option \<Rightarrow> int option \<Rightarrow> (DriftSnapshot \<times> string \<times> string) list dbm" where
  "list_drift_snapshots host limit =
     query (\<lambda>d. take (nat (min 1000 (max 1 (unwrap_or 200 limit))))
       (List.map_filter (\<lambda>s. map_option (\<lambda>h. (s, ho_fqdn h, ho_display_name h)) (find_host (ds_host_id s) d))
          (filter (\<lambda>s. host = None \<or> host = Some (ds_host_id s)) (newest ds_captured_at (db_drift d)))))"

section \<open>Changing a host\<close>

record UpdateHostRequest =
  uh_display_name :: "string option"
  uh_notes :: "string option"

definition changed_host :: "DateTime \<Rightarrow> UpdateHostRequest \<Rightarrow> Host \<Rightarrow> Host" where
  "changed_host now req h =
     h \<lparr> ho_display_name := unwrap_or (ho_display_name h) (uh_display_name req),
         ho_notes := unwrap_or (ho_notes h) (uh_notes req), ho_updated_at := now \<rparr>"

definition update_host :: "DateTime \<Rightarrow> AuthUser \<Rightarrow> Uuid \<Rightarrow> UpdateHostRequest \<Rightarrow> Host dbm" where
  "update_host now u i req =
     bind (write_guard u) (\<lambda>_.
     bind (stmt (\<lambda>d. Inr (map_option (changed_host now req) (find_host i d),
             d \<lparr> db_hosts := update_where (\<lambda>h. ho_id h = i) (changed_host now req) (db_hosts d) \<rparr>)))
       (require (NotFound ''Host not found'')))"

text \<open>Deleting the row deletes every row that refers to it.\<close>

definition delete_host_row :: "Uuid \<Rightarrow> db \<Rightarrow> db" where
  "delete_host_row i d =
     d \<lparr> db_hosts := filter (\<lambda>h. ho_id h \<noteq> i) (db_hosts d),
         db_host_groups := filter (\<lambda>x. fst x \<noteq> i) (db_host_groups d),
         db_assignments := filter (\<lambda>a. ha_host_id a \<noteq> i) (db_assignments d),
         db_drift := filter (\<lambda>s. ds_host_id s \<noteq> i) (db_drift d),
         db_certificates := filter (\<lambda>c. ce_host_id c \<noteq> Some i) (db_certificates d),
         db_check_ins := filter (\<lambda>c. ck_host_id c \<noteq> i) (db_check_ins d),
         db_overrides := filter (\<lambda>r. co_host_id r \<noteq> i) (db_overrides d),
         db_pending := filter (\<lambda>a. pa_host_id a \<noteq> i) (db_pending d),
         db_protected := filter (\<lambda>p. pr_host_id p \<noteq> i) (db_protected d) \<rparr>"

definition delete_host :: "audit_lib \<Rightarrow> DateTime \<Rightarrow> AuthUser \<Rightarrow> Uuid \<Rightarrow> unit dbm" where
  "delete_host L now u i =
     bind (admin_guard u) (\<lambda>_.
     bind (exec (delete_host_row i)) (\<lambda>_.
     log_event L now (auth_event u ''host_removed'' ''host'' (Some (al_uuid_str L i)) [])))"

definition get_protected_cidrs :: "Uuid \<Rightarrow> ProtectedCidr list dbm" where
  "get_protected_cidrs h = query (\<lambda>d. filter (\<lambda>p. pr_host_id p = h) (db_protected d))"

record AddProtectedCidrRequest =
  aq_cidr :: string
  aq_label :: "string option"

definition insert_protected ::
  "(string \<Rightarrow> string option) \<Rightarrow> DateTime \<Rightarrow> Uuid \<Rightarrow> Uuid \<Rightarrow> AddProtectedCidrRequest \<Rightarrow> unit dbm" where
  "insert_protected inet now u h req =
     stmt (\<lambda>d. case inet (aq_cidr req) of
                 None \<Rightarrow> Inl OtherSqlError
               | Some c \<Rightarrow>
                   if (h, c) \<in> set (map (\<lambda>p. (pr_host_id p, pr_cidr p)) (db_protected d)) then Inr ((), d)
                   else if host_exists h d \<and> user_exists u d
                   then Inr ((), d \<lparr> db_protected := db_protected d @
                          [\<lparr> pr_host_id = h, pr_cidr = c, pr_label = unwrap_or [] (aq_label req),
                             pr_created_by = Some u, pr_created_at = now \<rparr>] \<rparr>)
                   else Inl ForeignKeyViolation)"

definition add_protected_cidr ::
  "(string \<Rightarrow> string option) \<Rightarrow> DateTime \<Rightarrow> AuthUser \<Rightarrow> Uuid \<Rightarrow> AddProtectedCidrRequest \<Rightarrow> unit dbm" where
  "add_protected_cidr inet now u h req =
     bind (admin_guard u) (\<lambda>_. insert_protected inet now (auth_user_id u) h req)"

section \<open>Forced check-ins\<close>

text \<open>A notification without a waiter is stored, at most one per host.\<close>

definition store_permit :: "Uuid \<Rightarrow> db \<Rightarrow> db" where
  "store_permit h d =
     d \<lparr> db_memory := db_memory d \<lparr> mm_notify := List.insert h (mm_notify (db_memory d)) \<rparr> \<rparr>"

definition take_permit :: "Uuid \<Rightarrow> db \<Rightarrow> db" where
  "take_permit h d =
     d \<lparr> db_memory := db_memory d \<lparr> mm_notify := removeAll h (mm_notify (db_memory d)) \<rparr> \<rparr>"

definition force_check_in :: "Uuid \<Rightarrow> unit dbm" where
  "force_check_in h =
     bind (query (host_exists h)) (\<lambda>exists.
     bind (guard (NotFound ''Host not found'') exists) (\<lambda>_.
     modify (store_permit h)))"

text \<open>The event stream: what wakes the loop, with whether the client still listens, and the events
sent (name and data).  A stored notification wakes it first, as the deadline is at least thirty
seconds away.\<close>

datatype wake = Notified bool | HoldExpired

fun events_loop :: "wake list \<Rightarrow> (string \<times> string) list" where
  "events_loop [] = []"
| "events_loop (Notified True # ws) = (''check-in'', ''now'') # events_loop ws"
| "events_loop (Notified False # ws) = []"
| "events_loop (HoldExpired # ws) = [(''timeout'', ''hold-expired'')]"

definition events :: "Uuid \<Rightarrow> wake list \<Rightarrow> (int \<times> (string \<times> string) list) dbm" where
  "events h wakes =
     bind (attempt (query (\<lambda>d. map_option co_check_in_interval_secs
                               (find (\<lambda>r. co_host_id r = h) (db_overrides d))))) (\<lambda>r.
     let hold_secs = max 30 (unwrap_or 900 (unwrap_or None r) - 30) in
     bind (recall (\<lambda>d. h \<in> set (mm_notify (db_memory d)))) (\<lambda>stored.
     bind (modify (take_permit h)) (\<lambda>_.
     ret (hold_secs, events_loop ((if stored then [Notified True] else []) @ wakes)))))"

section \<open>Fleet status\<close>

definition health_handler :: "(string \<times> string) dbm" where
  "health_handler =
     bind (attempt (query (\<lambda>_. ()))) (\<lambda>r.
     ret (if r \<noteq> None then (''healthy'', ''ok'') else (''degraded'', ''error'')))"

record FleetStatus =
  fs_total_hosts :: nat
  fs_healthy :: nat
  fs_degraded :: nat
  fs_unreachable :: nat
  fs_pending :: nat
  fs_total_rules :: nat
  fs_policy_sets :: nat
  fs_hosts_in_drift :: nat
  fs_recent_check_ins :: nat

definition count_or_zero :: "(db \<Rightarrow> nat) \<Rightarrow> nat dbm" where
  "count_or_zero f = bind (attempt (query f)) (\<lambda>r. ret (unwrap_or 0 r))"

definition count_health :: "HostHealthStatus \<Rightarrow> db \<Rightarrow> nat" where
  "count_health s d = length (filter (\<lambda>h. ho_health_status h = s) (db_hosts d))"

definition latest_drift :: "Uuid \<Rightarrow> db \<Rightarrow> DriftSnapshot option" where
  "latest_drift h d =
     (case newest ds_captured_at (filter (\<lambda>s. ds_host_id s = h) (db_drift d)) of
        [] \<Rightarrow> None | s # _ \<Rightarrow> Some s)"

definition hosts_in_drift :: "db \<Rightarrow> Uuid list" where
  "hosts_in_drift d =
     filter (\<lambda>h. map_option ds_source (latest_drift h d) = Some ''check_in_mismatch'')
       (remdups (map ds_host_id (db_drift d)))"

definition fleet_status_handler :: "DateTime \<Rightarrow> FleetStatus dbm" where
  "fleet_status_handler now =
     bind (count_or_zero (\<lambda>d. length (db_hosts d))) (\<lambda>total.
     bind (count_or_zero (count_health Healthy)) (\<lambda>healthy.
     bind (count_or_zero (count_health Degraded)) (\<lambda>degraded.
     bind (count_or_zero (count_health Unreachable)) (\<lambda>unreachable.
     bind (count_or_zero (count_health Pending)) (\<lambda>pending.
     bind (count_or_zero (\<lambda>d. length (db_rules d))) (\<lambda>rules.
     bind (count_or_zero (\<lambda>d. length (db_policy_sets d))) (\<lambda>sets.
     bind (count_or_zero (\<lambda>d. length (hosts_in_drift d))) (\<lambda>drift.
     bind (count_or_zero (\<lambda>d. length (filter (\<lambda>c. now - secs (15 * 60) < ck_checked_in_at c)
                                       (db_check_ins d)))) (\<lambda>recent.
     ret \<lparr> fs_total_hosts = total, fs_healthy = healthy, fs_degraded = degraded,
           fs_unreachable = unreachable, fs_pending = pending, fs_total_rules = rules,
           fs_policy_sets = sets, fs_hosts_in_drift = drift, fs_recent_check_ins = recent \<rparr>)))))))))"

section \<open>The worker\<close>

record StaleHostRow =
  sh_id :: Uuid
  sh_last_check_in :: "DateTime option"
  sh_interval_secs :: "int option"

definition last_check_in_at :: "Uuid \<Rightarrow> db \<Rightarrow> DateTime option" where
  "last_check_in_at h d =
     (case map ck_checked_in_at (filter (\<lambda>c. ck_host_id c = h) (db_check_ins d)) of
        [] \<Rightarrow> None | t # ts \<Rightarrow> Some (fold max ts t))"

definition stale_row :: "db \<Rightarrow> Host \<Rightarrow> StaleHostRow" where
  "stale_row d h =
     \<lparr> sh_id = ho_id h, sh_last_check_in = last_check_in_at (ho_id h) d,
       sh_interval_secs = map_option co_check_in_interval_secs
         (find (\<lambda>r. co_host_id r = ho_id h) (db_overrides d)) \<rparr>"

definition examined :: "Host \<Rightarrow> bool" where
  "examined h \<longleftrightarrow> ho_health_status h \<noteq> Unreachable \<or> ho_last_health_at h = None"

text \<open>\<open>num_seconds\<close> of a duration rounds towards zero.\<close>

definition num_seconds :: "int \<Rightarrow> int" where
  "num_seconds n = (if 0 \<le> n then n div 1000000000 else - ((- n) div 1000000000))"

definition new_status :: "DateTime \<Rightarrow> StaleHostRow \<Rightarrow> HostHealthStatus" where
  "new_status now r =
     (let interval = unwrap_or 900 (sh_interval_secs r)
      in case sh_last_check_in r of
           None \<Rightarrow> Pending
         | Some seen \<Rightarrow>
             (let elapsed = num_seconds (now - seen)
              in if interval * 4 < elapsed then Unreachable
                 else if interval * 2 < elapsed then Degraded
                 else Healthy))"

definition set_health :: "Uuid \<Rightarrow> HostHealthStatus \<Rightarrow> db \<Rightarrow> db" where
  "set_health i s d =
     d \<lparr> db_hosts := update_where (\<lambda>h. ho_id h = i \<and> ho_health_status h \<noteq> s)
          (\<lambda>h. h \<lparr> ho_health_status := s \<rparr>) (db_hosts d) \<rparr>"

definition detect_stale_agents :: "DateTime \<Rightarrow> unit dbm" where
  "detect_stale_agents now =
     bind (query (\<lambda>d. map (stale_row d) (filter examined (db_hosts d)))) (\<lambda>hosts.
     for_each (\<lambda>r. ignore (exec (set_health (sh_id r) (new_status now r)))) hosts)"

definition insert_anchor :: "DateTime \<Rightarrow> string \<Rightarrow> db \<Rightarrow> db" where
  "insert_anchor now head d =
     d \<lparr> db_anchors := db_anchors d @
          [\<lparr> an_chain_head = head, an_anchored_at = now, an_anchor_type = ''remote_log_host'',
             an_anchor_ref = ''local-anchor-'' @ show_int (now div 1000000000),
             an_verified_at = None \<rparr>] \<rparr>"

text \<open>The value is the number of unverified anchors that is logged, if any.\<close>

definition anchor_chain :: "DateTime \<Rightarrow> nat dbm" where
  "anchor_chain now =
     bind (query last_row_hash) (\<lambda>head.
     case head of
       None \<Rightarrow> ret 0
     | Some h \<Rightarrow>
         bind (exec (insert_anchor now h)) (\<lambda>_.
         count_or_zero (\<lambda>d. length (filter (\<lambda>a. an_verified_at a = None) (db_anchors d)))))"

text \<open>The wait for the schema: each turn has the time after its query and the number of migrations, if
the query worked.  The value says whether the worker goes on; it is missing when the list ends first.\<close>

fun wait_for_migrations :: "DateTime \<Rightarrow> (DateTime \<times> nat option) list \<Rightarrow> bool option" where
  "wait_for_migrations deadline [] = None"
| "wait_for_migrations deadline ((now, n) # later) =
     (if 37 \<le> unwrap_or 0 n then Some True
      else if deadline < now then Some False
      else wait_for_migrations deadline later)"

section \<open>Facts\<close>

lemma parse_health_status_text [simp]: "parse_health_status (HostHealthStatus_text s) = s"
  by (cases s) (simp_all add: parse_health_status_def)

text \<open>The newest row is the one appended last, if no other is newer.\<close>

lemma newest_snoc:
  assumes "\<forall>x \<in> set rows. key x \<le> key r"
  shows "\<exists>xs. newest key (rows @ [r]) = r # xs"
proof -
  have "insort_key (\<lambda>r. - key r) r ys = r # ys" if "\<forall>x \<in> set ys. - key r \<le> - key x" for ys
    using that by (cases ys) auto
  moreover have "\<forall>x \<in> set (sort_key (\<lambda>r. - key r) (rev rows)). - key r \<le> - key x" using assms by simp
  ultimately show ?thesis by (simp add: newest_def)
qed

lemma last_check_in_at_Max:
  "last_check_in_at h d =
     (let ts = map ck_checked_in_at (filter (\<lambda>c. ck_host_id c = h) (db_check_ins d))
      in if ts = [] then None else Some (Max (set ts)))"
proof (cases "map ck_checked_in_at (filter (\<lambda>c. ck_host_id c = h) (db_check_ins d))")
  case (Cons t ts)
  show ?thesis unfolding last_check_in_at_def Let_def Cons by (simp add: Max.set_eq_fold [symmetric])
qed (simp add: last_check_in_at_def)

lemma num_seconds_mono: "a \<le> b \<Longrightarrow> num_seconds a \<le> num_seconds b"
  unfolding num_seconds_def
  by (cases "0 \<le> a"; cases "0 \<le> b") (auto simp: zdiv_mono1 pos_imp_zdiv_nonneg_iff
      intro: order_trans [of _ 0])

lemma run_result: "m s = (r, d, fs) \<Longrightarrow> result m s = r \<and> db_after m s = d"
  by (simp add: result_def db_after_def)

text \<open>One cycle of the detector.\<close>

lemma set_health_loop:
  "distinct (map sh_id rs) \<Longrightarrow>
     for_each (\<lambda>r. ignore (exec (set_health (sh_id r) (S r)))) rs (d, [])
       = (Inr (), d \<lparr> db_hosts := map (\<lambda>h. case find (\<lambda>r. sh_id r = ho_id h) rs of
             None \<Rightarrow> h | Some r \<Rightarrow> h \<lparr> ho_health_status := S r \<rparr>) (db_hosts d) \<rparr>, [])"
proof (induction rs arbitrary: d)
  case Nil
  then show ?case by (simp add: run_simps)
next
  case (Cons r rs)
  have later: "find (\<lambda>x. sh_id x = ho_id h) rs = None" if "ho_id h = sh_id r" for h
    using Cons.prems that by (force simp: find_None_iff image_iff)
  show ?case
    using Cons
    by (auto simp: run_simps set_health_def update_where_def comp_def later intro!: map_cong
        split: option.split)
qed

lemma detect_stale_agents_run:
  assumes "distinct (map ho_id (db_hosts d))"
  shows "detect_stale_agents now (d, []) = (Inr (), d \<lparr> db_hosts := map (\<lambda>h. if examined h
     then h \<lparr> ho_health_status := new_status now (stale_row d h) \<rparr> else h) (db_hosts d) \<rparr>, [])"
proof -
  let ?rs = "map (stale_row d) (filter examined (db_hosts d))"
  have ids: "map sh_id ?rs = map ho_id (filter examined (db_hosts d))" by (simp add: stale_row_def)
  have dist: "distinct (map sh_id ?rs)" unfolding ids using assms by (rule distinct_map_filter)
  have "(case find (\<lambda>r. sh_id r = ho_id h) ?rs of None \<Rightarrow> h
      | Some r \<Rightarrow> h \<lparr> ho_health_status := new_status now r \<rparr>)
    = (if examined h then h \<lparr> ho_health_status := new_status now (stale_row d h) \<rparr> else h)"
    if h: "h \<in> set (db_hosts d)" for h
  proof (cases "examined h")
    case True
    have "find (\<lambda>r. sh_id r = sh_id (stale_row d h)) ?rs = Some (stale_row d h)"
      using dist h True by (intro find_unique) auto
    then show ?thesis using True by (simp add: stale_row_def)
  next
    case False
    have "find (\<lambda>r. sh_id r = ho_id h) ?rs = None"
      using assms h False by (auto simp: find_None_iff stale_row_def distinct_map inj_on_def)
    then show ?thesis using False by simp
  qed
  then show ?thesis
    by (simp add: detect_stale_agents_def run_simps set_health_loop [OF dist] cong: map_cong)
qed

text \<open>What an answered check-in leaves of the tables the detector reads.\<close>

lemma check_in_health:
  "outcome (check_in sha L now h req) d
     (\<lambda>_ d'. \<exists>c. host_exists h d \<and> ck_host_id c = h \<and> ck_checked_in_at c = now
        \<and> db_check_ins d' = db_check_ins d @ [c] \<and> db_overrides d' = db_overrides d
        \<and> db_hosts d' = db_hosts (mark_healthy now h (ci_agent_version req) d))
     (\<lambda>_ _. True)"
proof -
  have drift: "outcome (record_drift L now h hash n source ev) d1
      (\<lambda>_ d'. db_check_ins d' = db_check_ins d1 \<and> db_overrides d' = db_overrides d1 \<and> db_hosts d' = db_hosts d1)
      (\<lambda>_ _. True)" for hash n source ev d1
    unfolding record_drift_def insert_drift_def
    by (intro outcome_intros outcome_stmt) (auto split: if_split_asm)
  show ?thesis
    unfolding check_in_def insert_check_in_def
    by (intro outcome_bind outcome_stmt outcome_exec outcome_query outcome_expected_rules
        outcome_expected_defaults outcome_prod outcome_let outcome_if outcome_ret
        outcome_mono [OF drift])
      (auto simp: mark_healthy_def mark_delivered_def split: if_split_asm)
qed

lemma check_in_result_drift:
  assumes "host_exists h d"
  shows "succeeds (check_in_result L now h req) d (\<lambda>_ d'. db_drift d' = db_drift d @
     [\<lparr> ds_host_id = h, ds_snapshot_hash = rr_new_rules_hash req, ds_rule_count = 0,
        ds_captured_at = now, ds_source = ''agent_report'' \<rparr>])"
  using assms
  by (cases "rr_action_id req")
    (simp_all add: succeeds_def check_in_result_def run_simps insert_drift_def finish_action_def
      host_exists_def)

text \<open>The wait for the schema ends: it asks every two seconds at least, so a turn after the deadline
comes, and that turn decides.\<close>

lemma wait_for_migrations_ends:
  "\<exists>(now, n) \<in> set turns. deadline < now \<Longrightarrow> \<exists>ok. wait_for_migrations deadline turns = Some ok"
  by (induction deadline turns rule: wait_for_migrations.induct) auto

section \<open>Properties\<close>

text \<open>C30. Health follows the check-ins.  After an answered check-in, and with no later one, a cycle of the
worker gives the host the status its silence calls for: healthy up to twice its check-in interval,
degraded up to four times, unreachable after that.\<close>

theorem health_follows_check_ins:
  assumes "result (check_in sha L t h req) (d, fs) = Inr r"
    and "distinct (map ho_id (db_hosts d))" and "\<forall>c \<in> set (db_check_ins d). ck_checked_in_at c \<le> t"
    and "interval = unwrap_or 900 (map_option co_check_in_interval_secs
           (find (\<lambda>x. co_host_id x = h) (db_overrides d)))"
  shows "let d1 = db_after (check_in sha L t h req) (d, fs);
             d2 = db_after (detect_stale_agents now) (d1, []); elapsed = num_seconds (now - t)
    in result (detect_stale_agents now) (d1, []) = Inr () \<and> host_exists h d2
      \<and> (\<forall>x \<in> set (db_hosts d2). ho_id x = h \<longrightarrow> ho_health_status x =
            (if 4 * interval < elapsed then Unreachable
             else if 2 * interval < elapsed then Degraded else Healthy))"
proof -
  let ?d1 = "db_after (check_in sha L t h req) (d, fs)"
  obtain c where ex: "host_exists h d" and c: "ck_host_id c = h" "ck_checked_in_at c = t"
      and d1: "db_check_ins ?d1 = db_check_ins d @ [c]" "db_overrides ?d1 = db_overrides d"
        "db_hosts ?d1 = db_hosts (mark_healthy t h (ci_agent_version req) d)"
    using outcome_ok [OF check_in_health assms(1)] by blast
  have ids: "map ho_id (db_hosts ?d1) = map ho_id (db_hosts d)"
    by (auto simp: d1(3) mark_healthy_def intro: update_where_keys)
  have run: "detect_stale_agents now (?d1, []) = (Inr (), ?d1 \<lparr> db_hosts := map (\<lambda>x. if examined x
      then x \<lparr> ho_health_status := new_status now (stale_row ?d1 x) \<rparr> else x) (db_hosts ?d1) \<rparr>, [])"
    by (rule detect_stale_agents_run) (simp add: ids assms(2))
  have "last_check_in_at h ?d1 = Some t"
    using assms(3) c by (auto simp: last_check_in_at_Max d1(1) intro!: Max_eqI)
  then have status: "new_status now (stale_row ?d1 x) = (if 4 * interval < num_seconds (now - t)
      then Unreachable else if 2 * interval < num_seconds (now - t) then Degraded else Healthy)"
    if "ho_id x = h" for x
    using that assms(4) by (simp add: new_status_def stale_row_def d1(2) Let_def mult.commute)
  have exam: "examined x" if x: "x \<in> set (db_hosts ?d1)" "ho_id x = h" for x
  proof -
    obtain y where "x = (if ho_id y = h then y \<lparr> ho_health_status := Healthy, ho_last_health_at := Some t,
        ho_agent_version := Some (ci_agent_version req) \<rparr> else y)"
      using x(1) unfolding d1(3) mark_healthy_def by (auto simp: set_update_where)
    then show ?thesis using x(2) by (cases "ho_id y = h") (simp_all add: examined_def)
  qed
  note ran = run_result [where m = "detect_stale_agents now", OF run]
  have "map ho_id (map (\<lambda>x. if examined x then x \<lparr> ho_health_status := S x \<rparr> else x) xs) = map ho_id xs" for S xs
    by simp
  then have "host_exists h (db_after (detect_stale_agents now) (?d1, []))"
    using ex unfolding host_exists_def ids [symmetric] by (simp add: ran del: map_map)
  moreover have "ho_health_status x = (if 4 * interval < num_seconds (now - t) then Unreachable
      else if 2 * interval < num_seconds (now - t) then Degraded else Healthy)"
    if x: "x \<in> set (db_hosts (db_after (detect_stale_agents now) (?d1, [])))" "ho_id x = h" for x
  proof -
    obtain y where y: "y \<in> set (db_hosts ?d1)" "x = (if examined y
        then y \<lparr> ho_health_status := new_status now (stale_row ?d1 y) \<rparr> else y)"
      using x(1) by (auto simp: ran)
    then have h: "ho_id y = h" using x(2) by (cases "examined y") simp_all
    then show ?thesis using y(2) exam [OF y(1) h] status [OF h] by simp
  qed
  ultimately show ?thesis using ran [THEN conjunct1] unfolding Let_def by blast
qed

theorem health_follows_check_ins_witness:
  "let d1 = db_after (check_in (\<lambda>s. s) plain_lib 100 1 (sample_check_in ''x'')) (two_host_db, []);
       d2 = db_after (detect_stale_agents (100 + secs 2000)) (d1, [])
   in host_exists 1 d2 \<and> map ho_health_status (filter (\<lambda>x. ho_id x = 1) (db_hosts d2)) = [Degraded]"
proof -
  let ?d1 = "db_after (check_in (\<lambda>s. s) plain_lib 100 1 (sample_check_in ''x'')) (two_host_db, [])"
  let ?d2 = "db_after (detect_stale_agents (100 + secs 2000)) (?d1, [])"
  have "\<exists>r. result (check_in (\<lambda>s. s) plain_lib 100 1 (sample_check_in ''x'')) (two_host_db, []) = Inr r"
    using check_in_run [of 1 two_host_db "\<lambda>s. s" plain_lib 100 "sample_check_in ''x''"]
    by (simp add: result_def two_host_db_def host_exists_def sample_host_def)
  then obtain r where r: "result (check_in (\<lambda>s. s) plain_lib 100 1 (sample_check_in ''x'')) (two_host_db, []) = Inr r"
    by blast
  have db: "distinct (map ho_id (db_hosts two_host_db))"
    "\<forall>c \<in> set (db_check_ins two_host_db). ck_checked_in_at c \<le> 100"
    "900 = unwrap_or 900 (map_option co_check_in_interval_secs
       (find (\<lambda>x. co_host_id x = 1) (db_overrides two_host_db)))"
    by code_simp+
  have elapsed: "num_seconds (100 + secs 2000 - 100) = 2000" by code_simp
  have all: "host_exists 1 ?d2 \<and> (\<forall>x \<in> set (db_hosts ?d2). ho_id x = 1 \<longrightarrow> ho_health_status x = Degraded)"
    using health_follows_check_ins [OF r db, of "100 + secs 2000"] unfolding elapsed Let_def by simp
  have "length (filter (\<lambda>x. ho_id x = 1) (db_hosts ?d2)) = 1" by code_simp
  then obtain x where "filter (\<lambda>x. ho_id x = 1) (db_hosts ?d2) = [x]"
    by (auto simp: length_Suc_conv)
  moreover from this have "x \<in> set (db_hosts ?d2)" "ho_id x = 1"
    by (auto simp: filter_eq_Cons_iff)
  ultimately show ?thesis using all by (simp add: Let_def)
qed


definition quiet_answer :: CheckInResponse where
  "quiet_answer =
     \<lparr> cr_rules_changed = False, cr_rules = [], cr_config = None, cr_pending_actions = [],
       cr_default_input_policy = None, cr_default_output_policy = None \<rparr>"


text \<open>A failed apply counts as a correction.  Whatever a result report says, in particular when it
reports that the apply failed, the host is not among the hosts in drift of the fleet status any
more.\<close>

theorem failed_apply_clears_drift:
  assumes "host_exists h d" and "\<forall>s \<in> set (db_drift d). ds_captured_at s \<le> now"
  shows "result (check_in_result L now h req) (d, []) = Inr ()
    \<and> h \<notin> set (hosts_in_drift (db_after (check_in_result L now h req) (d, [])))"
proof -
  let ?r = "\<lparr> ds_host_id = h, ds_snapshot_hash = rr_new_rules_hash req, ds_rule_count = 0,
    ds_captured_at = now, ds_source = ''agent_report'' \<rparr>"
  let ?d = "db_after (check_in_result L now h req) (d, [])"
  have run: "result (check_in_result L now h req) (d, []) = Inr ()" "db_drift ?d = db_drift d @ [?r]"
    using succeedsD [OF check_in_result_drift [OF assms(1)], of L now req] by auto
  have "\<exists>xs. newest ds_captured_at (filter (\<lambda>s. ds_host_id s = h) (db_drift d) @ [?r]) = ?r # xs"
    by (rule newest_snoc) (use assms(2) in auto)
  then have "latest_drift h ?d = Some ?r" by (auto simp: latest_drift_def run(2))
  then show ?thesis using run(1) by (simp add: hosts_in_drift_def)
qed

theorem failed_apply_clears_drift_witness:
  "let d = two_host_db \<lparr> db_drift := [\<lparr> ds_host_id = 1, ds_snapshot_hash = ''x'', ds_rule_count = 0,
             ds_captured_at = 90, ds_source = ''check_in_mismatch'' \<rparr>] \<rparr>;
       failed = \<lparr> rr_action_id = None, rr_success = False, rr_error_message = Some ''apply failed'',
                  rr_new_rules_hash = ''x'' \<rparr>
   in hosts_in_drift d = [1]
     \<and> 1 \<notin> set (hosts_in_drift (db_after (check_in_result plain_lib 100 1 failed) (d, [])))"
proof -
  let ?d = "two_host_db \<lparr> db_drift := [\<lparr> ds_host_id = 1, ds_snapshot_hash = ''x'', ds_rule_count = 0,
    ds_captured_at = 90, ds_source = ''check_in_mismatch'' \<rparr>] \<rparr>"
  have "host_exists 1 ?d" "\<forall>s \<in> set (db_drift ?d). ds_captured_at s \<le> 100"
    by (simp_all add: host_exists_def two_host_db_def sample_host_def)
  moreover have "hosts_in_drift ?d = [1]" by code_simp
  ultimately show ?thesis using failed_apply_clears_drift unfolding Let_def by blast
qed

end
