(* ===== verification/Mgr_Sets.thy ===== *)
theory Mgr_Sets
  imports Mgr_Rules Agent_Backend
begin

text \<open>Policy sets: \<open>fw-web/src/routes/policy_sets.rs\<close>, and the preview of
\<open>fw-web/src/routes/deployment.rs\<close>.  A set is an ordered list of rule groups; the lemmas show that its
compiled rules are the rules of its groups one group after the other, and how the commands of a
preview relate to those the agent compiles.\<close>

section \<open>Sets\<close>

definition list_policy_sets :: "(string \<Rightarrow> 'k::linorder) \<Rightarrow> (FirewallPolicySet list \<times> int) dbm" where
  "list_policy_sets collate =
     bind (query (\<lambda>d. sort_key (\<lambda>p. collate (ps_name p)) (db_policy_sets d)))
       (\<lambda>sets. ret (sets, int (length sets)))"

record CreatePolicySetRequest =
  cp_name :: string
  cp_description :: "string option"
  cp_default_input_policy :: "FirewallDefaultPolicy option"
  cp_default_output_policy :: "FirewallDefaultPolicy option"

definition insert_policy_set ::
  "DateTime \<Rightarrow> Uuid \<Rightarrow> Uuid \<Rightarrow> CreatePolicySetRequest \<Rightarrow> FirewallPolicySet dbm" where
  "insert_policy_set now i u req =
     stmt (\<lambda>d. if set_exists i d \<or> cp_name req \<in> set (map ps_name (db_policy_sets d))
               then Inl UniqueViolation
               else if \<not> user_exists u d then Inl ForeignKeyViolation
               else (let p = \<lparr> ps_id = i, ps_name = cp_name req,
                               ps_description = coalesce (cp_description req) [],
                               ps_created_by = Some u, ps_created_at = now, ps_updated_at = now,
                               ps_default_input_policy = cp_default_input_policy req,
                               ps_default_output_policy = cp_default_output_policy req \<rparr>
                     in Inr (p, d \<lparr> db_policy_sets := db_policy_sets d @ [p] \<rparr>)))"

definition create_policy_set ::
  "audit_lib \<Rightarrow> DateTime \<Rightarrow> Uuid \<Rightarrow> AuthUser \<Rightarrow> CreatePolicySetRequest \<Rightarrow> FirewallPolicySet dbm" where
  "create_policy_set L now i u req =
     bind (write_guard u) (\<lambda>_.
     bind (insert_policy_set now i (auth_user_id u) req) (\<lambda>p.
     bind (log_event L now (auth_event u ''policy_set_created'' ''policy_set''
             (Some (al_uuid_str L (ps_id p))) [(''name'', ps_name p)])) (\<lambda>_.
     ret p)))"

definition find_policy_set :: "Uuid \<Rightarrow> db \<Rightarrow> FirewallPolicySet option" where
  "find_policy_set i d = find (\<lambda>p. ps_id p = i) (db_policy_sets d)"

definition get_policy_set :: "Uuid \<Rightarrow> FirewallPolicySet dbm" where
  "get_policy_set i = bind (query (find_policy_set i)) (require (NotFound ''Policy set not found''))"

text \<open>The default policies of an update are double options: absent, present and null, or a value.\<close>

record UpdatePolicySetRequest =
  up_name :: "string option"
  up_description :: "string option"
  up_default_input_policy :: "FirewallDefaultPolicy option option"
  up_default_output_policy :: "FirewallDefaultPolicy option option"

definition present :: "'a option option \<Rightarrow> bool \<times> 'a option" where
  "present x = (case x of None \<Rightarrow> (False, None) | Some v \<Rightarrow> (True, v))"

definition changed_set :: "DateTime \<Rightarrow> UpdatePolicySetRequest \<Rightarrow> FirewallPolicySet \<Rightarrow> FirewallPolicySet" where
  "changed_set now req p =
     (let (in_present, in_value) = present (up_default_input_policy req);
          (out_present, out_value) = present (up_default_output_policy req)
      in p \<lparr> ps_name := coalesce (up_name req) (ps_name p),
             ps_description := coalesce (up_description req) (ps_description p),
             ps_default_input_policy := (if in_present then in_value else ps_default_input_policy p),
             ps_default_output_policy := (if out_present then out_value else ps_default_output_policy p),
             ps_updated_at := now \<rparr>)"

definition update_policy_set_row ::
  "DateTime \<Rightarrow> Uuid \<Rightarrow> UpdatePolicySetRequest \<Rightarrow> FirewallPolicySet option dbm" where
  "update_policy_set_row now i req =
     stmt (\<lambda>d. case find_policy_set i d of
                 None \<Rightarrow> Inr (None, d)
               | Some p \<Rightarrow>
                   (let p' = changed_set now req p
                    in if \<exists>x \<in> set (db_policy_sets d). ps_id x \<noteq> i \<and> ps_name x = ps_name p'
                       then Inl UniqueViolation
                       else Inr (Some p', d \<lparr> db_policy_sets := update_where (\<lambda>x. ps_id x = i)
                              (changed_set now req) (db_policy_sets d) \<rparr>)))"

definition update_policy_set ::
  "audit_lib \<Rightarrow> DateTime \<Rightarrow> AuthUser \<Rightarrow> Uuid \<Rightarrow> UpdatePolicySetRequest \<Rightarrow> FirewallPolicySet dbm" where
  "update_policy_set L now u i req =
     bind (write_guard u) (\<lambda>_.
     bind (update_policy_set_row now i req) (\<lambda>found.
     bind (require (NotFound ''Policy set not found'') found) (\<lambda>p.
     bind (log_event L now (auth_event u ''policy_set_changed'' ''policy_set''
             (Some (al_uuid_str L (ps_id p))) [(''name'', ps_name p)])) (\<lambda>_.
     ret p))))"

text \<open>Deleting a set deletes its list of groups and its assignments.\<close>

definition delete_policy_set_row :: "Uuid \<Rightarrow> nat dbm" where
  "delete_policy_set_row i =
     stmt (\<lambda>d. Inr (length (filter (\<lambda>p. ps_id p = i) (db_policy_sets d)),
                    d \<lparr> db_policy_sets := filter (\<lambda>p. ps_id p \<noteq> i) (db_policy_sets d),
                       db_psrg := filter (\<lambda>x. pg_policy_set_id x \<noteq> i) (db_psrg d),
                       db_assignments := filter (\<lambda>a. ha_policy_set_id a \<noteq> i) (db_assignments d) \<rparr>))"

definition delete_policy_set :: "audit_lib \<Rightarrow> DateTime \<Rightarrow> AuthUser \<Rightarrow> Uuid \<Rightarrow> unit dbm" where
  "delete_policy_set L now u i =
     bind (write_guard u) (\<lambda>_.
     bind (delete_policy_set_row i) (\<lambda>n.
     bind (guard (NotFound ''Policy set not found'') (n \<noteq> 0)) (\<lambda>_.
     log_event L now (auth_event u ''policy_set_changed'' ''policy_set'' (Some (al_uuid_str L i))
       [(''action'', ''deleted'')]))))"

definition list_policy_set_rules :: "Uuid \<Rightarrow> FirewallRule list dbm" where
  "list_policy_set_rules i = rules_for_policy_set i"

section \<open>The groups of a set\<close>

record PolicySetRuleGroup =
  sg_rule_group_id :: Uuid
  sg_name :: string
  sg_description :: string
  sg_set_group_order :: int
  sg_rule_count :: nat

definition list_policy_set_groups :: "Uuid \<Rightarrow> PolicySetRuleGroup list dbm" where
  "list_policy_set_groups i =
     query (\<lambda>d. sort_key sg_set_group_order
       (concat (map (\<lambda>x. map (\<lambda>g. \<lparr> sg_rule_group_id = pg_rule_group_id x, sg_name = rg_name g,
                                    sg_description = rg_description g,
                                    sg_set_group_order = pg_set_group_order x,
                                    sg_rule_count = group_rule_count (rg_id g) d \<rparr>)
                           (filter (\<lambda>g. rg_id g = pg_rule_group_id x) (db_rule_groups d)))
                  (filter (\<lambda>x. pg_policy_set_id x = i) (db_psrg d)))))"

definition set_orders :: "Uuid \<Rightarrow> db \<Rightarrow> int list" where
  "set_orders p d = map pg_set_group_order (filter (\<lambda>x. pg_policy_set_id x = p) (db_psrg d))"

definition set_set_order :: "Uuid \<Rightarrow> Uuid \<Rightarrow> int \<Rightarrow> db \<Rightarrow> db" where
  "set_set_order p g order d =
     d \<lparr> db_psrg := update_where (\<lambda>x. pg_policy_set_id x = p \<and> pg_rule_group_id x = g)
          (\<lambda>x. x \<lparr> pg_set_group_order := order \<rparr>) (db_psrg d) \<rparr>"

text \<open>\<open>INSERT ... ON CONFLICT DO UPDATE\<close>.\<close>

definition insert_group :: "Uuid \<Rightarrow> Uuid \<Rightarrow> int option \<Rightarrow> unit dbm" where
  "insert_group p g order =
     stmt (\<lambda>d. let n = coalesce order (next_order (set_orders p d))
               in if \<not> i32_range n then Inl OtherSqlError
                  else if (p, g) \<in> set (map (\<lambda>x. (pg_policy_set_id x, pg_rule_group_id x)) (db_psrg d))
                  then Inr ((), set_set_order p g n d)
                  else if \<not> set_exists p d \<or> \<not> group_exists g d then Inl ForeignKeyViolation
                  else Inr ((), d \<lparr> db_psrg := db_psrg d
                         @ [\<lparr> pg_policy_set_id = p, pg_rule_group_id = g, pg_set_group_order = n \<rparr>] \<rparr>))"

definition add_group_to_set ::
  "audit_lib \<Rightarrow> DateTime \<Rightarrow> AuthUser \<Rightarrow> Uuid \<Rightarrow> Uuid \<Rightarrow> int option \<Rightarrow> unit dbm" where
  "add_group_to_set L now u p g order =
     bind (write_guard u) (\<lambda>_.
     bind (insert_group p g order) (\<lambda>_.
     log_event L now (auth_event u ''policy_set_changed'' ''policy_set'' (Some (al_uuid_str L p))
       [(''action'', ''rule_group_added''), (''rule_group_id'', al_uuid_str L g)])))"

definition delete_group :: "Uuid \<Rightarrow> Uuid \<Rightarrow> db \<Rightarrow> db" where
  "delete_group p g d =
     d \<lparr> db_psrg := filter (\<lambda>x. \<not> (pg_policy_set_id x = p \<and> pg_rule_group_id x = g)) (db_psrg d) \<rparr>"

definition remove_group_from_set :: "audit_lib \<Rightarrow> DateTime \<Rightarrow> AuthUser \<Rightarrow> Uuid \<Rightarrow> Uuid \<Rightarrow> unit dbm" where
  "remove_group_from_set L now u p g =
     bind (write_guard u) (\<lambda>_.
     bind (exec (delete_group p g)) (\<lambda>_.
     log_event L now (auth_event u ''policy_set_changed'' ''policy_set'' (Some (al_uuid_str L p))
       [(''action'', ''rule_group_removed''), (''rule_group_id'', al_uuid_str L g)])))"

definition reorder_groups :: "audit_lib \<Rightarrow> DateTime \<Rightarrow> AuthUser \<Rightarrow> Uuid \<Rightarrow> Uuid list \<Rightarrow> unit dbm" where
  "reorder_groups L now u p gs =
     bind (write_guard u) (\<lambda>_.
     bind (in_transaction (for_each (\<lambda>(n, g). exec (set_set_order p g (as_i32 n))) (enumerate 0 gs))) (\<lambda>_.
     log_event L now (auth_event u ''policy_set_changed'' ''policy_set'' (Some (al_uuid_str L p))
       [(''action'', ''rule_groups_reordered''), (''count'', show_nat (length gs))])))"

section \<open>Preview\<close>

definition compile_ufw_command :: "FirewallRule \<Rightarrow> string" where
  "compile_ufw_command rule =
     ''ufw''
     @ (case fr_action rule of Allow \<Rightarrow> '' allow'' | Deny \<Rightarrow> '' deny'' | Reject \<Rightarrow> '' reject''
          | Limit \<Rightarrow> '' limit'' | Masquerade \<Rightarrow> '' masquerade'')
     @ (if fr_direction rule = Out then '' out'' else [])
     @ (if fr_protocol rule \<noteq> Any
        then '' proto '' @ to_lowercase (FirewallProtocol_debug (fr_protocol rule)) else [])
     @ (case fr_src_cidr rule of None \<Rightarrow> [] | Some src \<Rightarrow> '' from '' @ src)
     @ (case fr_dst_cidr rule of None \<Rightarrow> [] | Some dst \<Rightarrow> '' to '' @ dst)
     @ (case fr_dst_port_start rule of
          None \<Rightarrow> []
        | Some port \<Rightarrow>
            (case fr_dst_port_end rule of
               Some end_port \<Rightarrow> if port = end_port then '' port '' @ show_int port
                           else '' port '' @ show_int port @ '':'' @ show_int end_port
             | None \<Rightarrow> '' port '' @ show_int port))
     @ (if fr_comment rule \<noteq> [] then '' comment '' @ [CHR 0x27] @ fr_comment rule @ [CHR 0x27] else [])"

definition compile_firewalld_command :: "FirewallRule \<Rightarrow> string" where
  "compile_firewalld_command rule =
     (let action = (case fr_action rule of Allow \<Rightarrow> ''accept'' | Deny \<Rightarrow> ''drop'' | Reject \<Rightarrow> ''reject''
                      | Limit \<Rightarrow> ''accept'' | Masquerade \<Rightarrow> ''masquerade'');
          proto = (if fr_protocol rule = Any then ''all''
                   else to_lowercase (FirewallProtocol_debug (fr_protocol rule)));
          src = unwrap_or ''any'' (fr_src_cidr rule);
          port = unwrap_or [] (map_option show_int (fr_dst_port_start rule));
          q = [CHR 0x22]
      in ''firewall-cmd --permanent --add-rich-rule='' @ [CHR 0x27]
         @ ''rule family=ipv4 source address='' @ q @ src @ q @ '' ''
         @ (if port = [] then [] else ''service'') @ '' port port='' @ q @ port @ q
         @ '' protocol='' @ q @ proto @ q @ '' '' @ action @ [CHR 0x27])"

record PreviewCompilationResponse =
  pv_ufw_commands :: "string list"
  pv_firewalld_commands :: "string list"
  pv_rule_count :: nat

definition preview_compilation :: "Uuid \<Rightarrow> PreviewCompilationResponse dbm" where
  "preview_compilation i =
     bind (rules_for_policy_set i) (\<lambda>rules.
     ret \<lparr> pv_ufw_commands = map compile_ufw_command rules,
           pv_firewalld_commands = map compile_firewalld_command rules,
           pv_rule_count = length rules \<rparr>)"

text \<open>The preview of a deployment.\<close>

record PreviewResponse =
  pw_ufw_command :: "string list"
  pw_firewalld_command :: "string list"
  pw_rule_count :: nat

definition preview_assignment :: "Uuid \<Rightarrow> PreviewResponse dbm" where
  "preview_assignment i =
     bind (rules_for_policy_set i) (\<lambda>rules.
     ret \<lparr> pw_ufw_command = map compile_ufw_command rules,
           pw_firewalld_command = map compile_firewalld_command rules,
           pw_rule_count = length rules \<rparr>)"

section \<open>Facts\<close>

text \<open>The rules of a group in the order the group lists them.\<close>

definition group_rules :: "db \<Rightarrow> Uuid \<Rightarrow> FirewallRule list" where
  "group_rules d g = map rl_rule
     (sort_key (\<lambda>r. (rl_group_order r, fr_priority (rl_rule r)))
       (filter (\<lambda>r. rl_group_id r = g) (db_rules d)))"

lemma list_group_rules_eq: "list_group_rules g = query (\<lambda>d. group_rules d g)"
  by (simp add: list_group_rules_def group_rules_def)

lemma compiled_rules_groups:
  assumes "distinct (set_orders p d)"
  shows "compiled_rules d p = concat (map (group_rules d)
    (map pg_rule_group_id (sort_key pg_set_group_order (filter (\<lambda>x. pg_policy_set_id x = p) (db_psrg d)))))"
proof -
  let ?rows = "filter (\<lambda>x. pg_policy_set_id x = p) (db_psrg d)"
  let ?q = "\<lambda>r. (rl_group_order r, fr_priority (rl_rule r))"
  let ?h = "\<lambda>x. filter (\<lambda>r. rl_group_id r = pg_rule_group_id x) (db_rules d)"
  have "joined_rules d p = join_rows pg_set_group_order ?h ?rows"
    by (simp add: joined_rules_def join_rows_def)
  moreover have "rule_position = (\<lambda>y. (fst y, ?q (snd y)))"
    by (simp add: rule_position_def fun_eq_iff)
  moreover have "distinct (map pg_set_group_order ?rows)"
    using assms by (simp add: set_orders_def)
  ultimately have "sort_key rule_position (joined_rules d p)
      = join_rows pg_set_group_order (\<lambda>x. sort_key ?q (?h x)) (sort_key pg_set_group_order ?rows)"
    using sort_key_join [of pg_set_group_order ?rows ?q ?h] by (simp only:)
  then show ?thesis
    by (simp add: compiled_rules_def join_rows_def group_rules_def map_concat comp_def)
qed

text \<open>The groups of a set are rows with a position.\<close>

interpretation group_order: ordered_rows pg_rule_group_id "\<lambda>x. pg_policy_set_id x = p" pg_set_group_order
    "\<lambda>n x. x \<lparr> pg_set_group_order := n \<rparr>" for p
  by unfold_locales simp_all

abbreviation regrouped ::
  "Uuid \<Rightarrow> Uuid list \<Rightarrow> FirewallPolicySetRuleGroup \<Rightarrow> FirewallPolicySetRuleGroup" where
  "regrouped p gs \<equiv> placed pg_rule_group_id (\<lambda>x. pg_policy_set_id x = p)
     (\<lambda>n x. x \<lparr> pg_set_group_order := n \<rparr>) 0 gs"

lemma set_set_order_loop:
  "foldl (\<lambda>d (n, g). set_set_order p g (as_i32 n) d) d xs
   = d \<lparr> db_psrg := foldl (\<lambda>rows (n, g). update_where (\<lambda>x. pg_policy_set_id x = p \<and> pg_rule_group_id x = g)
       (\<lambda>x. x \<lparr> pg_set_group_order := as_i32 n \<rparr>) rows) (db_psrg d) xs \<rparr>"
  by (induction xs arbitrary: d) (auto simp: set_set_order_def)

lemma reorder_groups_outcome:
  assumes "distinct gs"
  shows "outcome (reorder_groups L now u p gs) d
     (\<lambda>_ d'. db_psrg d' = map (regrouped p gs) (db_psrg d) \<and> db_rules d' = db_rules d)
     (\<lambda>_ d'. d' = d)"
  unfolding reorder_groups_def
  by (intro outcome_bind outcome_write_guard outcome_in_transaction
      outcome_mono [OF reorder_loop] outcome_log_event conjI refl)
    (auto simp: set_set_order_loop group_order.place_loop [OF assms])

lemma regrouped_compiled:
  assumes "db_psrg d' = map (regrouped p gs) (db_psrg d)" and "db_rules d' = db_rules d"
    and "distinct (map pg_rule_group_id (filter (\<lambda>x. pg_policy_set_id x = p) (db_psrg d)))"
    and "distinct gs" and "length gs < 2 ^ 31"
    and "set gs = set (map pg_rule_group_id (filter (\<lambda>x. pg_policy_set_id x = p) (db_psrg d)))"
  shows "compiled_rules d' p = concat (map (group_rules d) gs)"
proof -
  let ?rows = "filter (\<lambda>x. pg_policy_set_id x = p) (db_psrg d')"
  have order: "map pg_rule_group_id (sort_key pg_set_group_order ?rows) = gs"
    unfolding assms(1) using assms(3-6) by (rule group_order.placed_lists)
  have "distinct (map pg_set_group_order ?rows)"
    unfolding assms(1) using assms(3-6) by (rule group_order.placed_orders_distinct)
  then have "distinct (set_orders p d')" by (simp add: set_orders_def)
  then show ?thesis
    using order assms(2) by (simp add: compiled_rules_groups group_rules_def [abs_def])
qed

lemma compiled_rules_other_set:
  assumes "filter (\<lambda>x. pg_policy_set_id x \<noteq> p) (db_psrg d') = filter (\<lambda>x. pg_policy_set_id x \<noteq> p) (db_psrg d)"
    and "db_rules d' = db_rules d" and "q \<noteq> p"
  shows "compiled_rules d' q = compiled_rules d q"
proof -
  have "filter (\<lambda>x. pg_policy_set_id x = q) (db_psrg e)
      = filter (\<lambda>x. pg_policy_set_id x = q) (filter (\<lambda>x. pg_policy_set_id x \<noteq> p) (db_psrg e))" for e
    using assms(3) by (auto intro: filter_cong)
  then have "filter (\<lambda>x. pg_policy_set_id x = q) (db_psrg d') = filter (\<lambda>x. pg_policy_set_id x = q) (db_psrg d)"
    using assms(1) by metis
  then show ?thesis using assms(2) by (simp add: compiled_rules_def joined_rules_def)
qed

section \<open>Properties\<close>

text \<open>C25. A policy set is its groups in order.  Given the identifiers of the set's groups in a new
order, reordering either fails and changes nothing, or from then on the compiled rules of the set
are the rules of the groups, each group's in its own order, one group after the other in the order
given; the compiled rules of every other set are as they were.\<close>

theorem reorder_groups_compiled:
  assumes "distinct (map (\<lambda>x. (pg_policy_set_id x, pg_rule_group_id x)) (db_psrg d))"
    and "distinct gs" and "length gs < 2 ^ 31"
    and "set gs = set (map pg_rule_group_id (filter (\<lambda>x. pg_policy_set_id x = p) (db_psrg d)))"
  shows "let d' = db_after (reorder_groups L now u p gs) (d, fs)
    in case result (reorder_groups L now u p gs) (d, fs) of
         Inl _ \<Rightarrow> d' = d
       | Inr _ \<Rightarrow> compiled_rules d' p = concat (map (group_rules d) gs)
           \<and> (\<forall>q. q \<noteq> p \<longrightarrow> compiled_rules d' q = compiled_rules d q)"
proof (cases "result (reorder_groups L now u p gs) (d, fs)")
  case (Inl e)
  then show ?thesis using outcomeD [OF reorder_groups_outcome [OF assms(2), of L now u p d], of fs] by simp
next
  case (Inr v)
  let ?d = "db_after (reorder_groups L now u p gs) (d, fs)"
  have rows: "db_psrg ?d = map (regrouped p gs) (db_psrg d)" "db_rules ?d = db_rules d"
    using outcomeD [OF reorder_groups_outcome [OF assms(2), of L now u p d], of fs] Inr by auto
  have "distinct (map pg_rule_group_id (filter (\<lambda>x. pg_policy_set_id x = p) (db_psrg d)))"
    using assms(1) by (auto simp: distinct_map inj_on_def)
  then have "compiled_rules ?d p = concat (map (group_rules d) gs)"
    using assms(2-4) by (rule regrouped_compiled [OF rows])
  moreover have "compiled_rules ?d q = compiled_rules d q" if "q \<noteq> p" for q
    using rows that by (intro compiled_rules_other_set) (auto simp: group_order.placed_others)
  ultimately show ?thesis using Inr by simp
qed

definition two_group_db :: db where
  "two_group_db = (policy_db [plain_rule 7 Allow, plain_rule 8 Deny])
     \<lparr> db_rules := [\<lparr> rl_rule = plain_rule 7 Allow, rl_group_id = 30, rl_group_order = 0 \<rparr>,
         \<lparr> rl_rule = plain_rule 8 Deny, rl_group_id = 31, rl_group_order = 0 \<rparr>],
       db_psrg := [\<lparr> pg_policy_set_id = 20, pg_rule_group_id = 30, pg_set_group_order = 0 \<rparr>,
         \<lparr> pg_policy_set_id = 20, pg_rule_group_id = 31, pg_set_group_order = 1 \<rparr>] \<rparr>"

theorem reorder_groups_compiled_witness:
  "compiled_rules (db_after (reorder_groups plain_lib 100 (sample_user Operator) 20 [31, 30]) (two_group_db, [])) 20
     = [plain_rule 8 Deny, plain_rule 7 Allow] \<and> compiled_rules two_group_db 20 = [plain_rule 7 Allow, plain_rule 8 Deny]"
proof -
  have "distinct (map (\<lambda>x. (pg_policy_set_id x, pg_rule_group_id x)) (db_psrg two_group_db))"
    "set [31, 30] = set (map pg_rule_group_id (filter (\<lambda>x. pg_policy_set_id x = 20) (db_psrg two_group_db)))"
    by (auto simp: two_group_db_def)
  moreover have "result (reorder_groups plain_lib 100 (sample_user Operator) 20 [31, 30]) (two_group_db, []) = Inr ()"
    "concat (map (group_rules two_group_db) [31, 30]) = [plain_rule 8 Deny, plain_rule 7 Allow]"
    "compiled_rules two_group_db 20 = [plain_rule 7 Allow, plain_rule 8 Deny]"
    by code_simp+
  ultimately show ?thesis
    using reorder_groups_compiled [of two_group_db "[31, 30]" 20 plain_lib 100 "sample_user Operator" "[]"]
    by (simp add: Let_def)
qed

text \<open>The interface the agent's compiler binds a rule to.\<close>

definition bound_interface :: "FirewallRule \<Rightarrow> string option" where
  "bound_interface r = (if fr_direction r = Out then fr_interface_out r else fr_interface_in r)"

lemma port_range_None: "port_range s e = None \<longleftrightarrow> s = None"
  by (cases "(s, e)" rule: port_range.cases) auto

lemma ufw_dst_port:
  "(case s of None \<Rightarrow> [] | Some port \<Rightarrow>
      (case e of Some end_port \<Rightarrow> if port = end_port then '' port '' @ show_int port
                   else '' port '' @ show_int port @ '':'' @ show_int end_port
       | None \<Rightarrow> '' port '' @ show_int port)) = clause ''port'' (port_range s e)"
  by (simp add: clause_def split: option.split)

lemma ufw_word: "(case a of Allow \<Rightarrow> '' allow'' | Deny \<Rightarrow> '' deny'' | Reject \<Rightarrow> '' reject''
    | Limit \<Rightarrow> '' limit'' | Masquerade \<Rightarrow> '' masquerade'') = ufw_action_word a"
  by (cases a) simp_all

text \<open>What a preview shows.  For a comment without quotes the previewed UFW command of a rule is the
command the agent runs exactly when the rule does not log, is not bound to an interface, names both a
source and a destination and has no source port; the previewed firewalld command never is.\<close>

theorem preview_differs_from_agent:
  assumes "CHR 0x27 \<notin> set (fr_comment r)"
  shows "(compile_ufw_command r = compile_ufw_rule r \<longleftrightarrow>
      \<not> fr_log r \<and> bound_interface r = None \<and> fr_src_cidr r \<noteq> None \<and> fr_dst_cidr r \<noteq> None
      \<and> fr_src_port_start r = None)
    \<and> compile_firewalld_command r \<noteq> compile_firewalld_rule r"
proof (intro conjI iffI)
  have quote: "remove_char (CHR 0x27) (fr_comment r) = fr_comment r"
    using assms by (auto simp: remove_char_def filter_id_conv)
  {
    assume "compile_ufw_command r = compile_ufw_rule r"
    from arg_cong [where f = length, OF this]
    show "\<not> fr_log r" "bound_interface r = None" "fr_src_cidr r \<noteq> None" "fr_dst_cidr r \<noteq> None"
      "fr_src_port_start r = None"
      unfolding compile_ufw_command_def compile_ufw_rule_def ufw_dst_port ufw_word quote
        bound_interface_def [symmetric]
      by (auto simp: clause_def port_range_None unwrap_or_def split: option.split_asm if_split_asm)
  next
    assume "\<not> fr_log r \<and> bound_interface r = None \<and> fr_src_cidr r \<noteq> None \<and> fr_dst_cidr r \<noteq> None
      \<and> fr_src_port_start r = None"
    then show "compile_ufw_command r = compile_ufw_rule r"
      unfolding compile_ufw_command_def compile_ufw_rule_def ufw_dst_port ufw_word quote
        bound_interface_def [symmetric]
      by (auto simp: clause_def port_range_None)
  }
  have "length (compile_firewalld_command r) \<noteq> length (compile_firewalld_rule r)"
    unfolding compile_firewalld_command_def compile_firewalld_rule_def
    by (cases "fr_action r"; cases "fr_src_cidr r") (auto simp: Let_def unwrap_or_def)
  then show "compile_firewalld_command r \<noteq> compile_firewalld_rule r" by metis
qed

theorem preview_differs_from_agent_witness:
  "compile_ufw_command (plain_rule 7 Allow) \<noteq> compile_ufw_rule (plain_rule 7 Allow)
   \<and> compile_ufw_command (plain_rule 7 Deny \<lparr> fr_src_cidr := Some ''10.0.0.0/8'', fr_dst_cidr := Some ''any'' \<rparr>)
     = compile_ufw_rule (plain_rule 7 Deny \<lparr> fr_src_cidr := Some ''10.0.0.0/8'', fr_dst_cidr := Some ''any'' \<rparr>)"
  using preview_differs_from_agent [of "plain_rule 7 Allow"]
    preview_differs_from_agent [of "plain_rule 7 Deny \<lparr> fr_src_cidr := Some ''10.0.0.0/8'', fr_dst_cidr := Some ''any'' \<rparr>"]
  by (simp add: plain_rule_def bound_interface_def)

end
