(* ===== verification/Mgr_Integrity.thy ===== *)
theory Mgr_Integrity
  imports Mgr_Hosts Mgr_Sets
begin

text \<open>Integrity of the manager's database.  The schema (keys, references and value ranges of the tables
of \<open>migrations/\<close>) is the predicate \<open>well_formed\<close>; one lemma per statement and per handler shows that it
is kept, whatever the database refuses, and \<open>manager_step\<close> collects all handlers that change the state,
so that every state the manager reaches from a well-formed one is well-formed.\<close>

section \<open>Keys and references\<close>

definition unique :: "('r \<Rightarrow> 'k) \<Rightarrow> 'r list \<Rightarrow> bool" where
  "unique key rows \<longleftrightarrow> distinct (map key rows)"

text \<open>Every value of the column is a key of the table it refers to; \<open>None\<close> is \<open>NULL\<close>.\<close>

definition refs :: "('r \<Rightarrow> 'k option) \<Rightarrow> 'r list \<Rightarrow> ('s \<Rightarrow> 'k) \<Rightarrow> 's list \<Rightarrow> bool" where
  "refs col rows key table \<longleftrightarrow> (\<forall>r \<in> set rows. \<forall>v. col r = Some v \<longrightarrow> v \<in> set (map key table))"

lemma unique_Nil [simp]: "unique key []"
  by (simp add: unique_def)

lemma unique_append [simp]: "unique key (rows @ [r]) \<longleftrightarrow> unique key rows \<and> key r \<notin> set (map key rows)"
  by (auto simp: unique_def)

lemma unique_filter [simp, intro]: "unique key rows \<Longrightarrow> unique key (filter P rows)"
  by (simp add: unique_def distinct_map_filter)

lemma unique_update [simp]:
  "(\<And>r. key (f r) = key r) \<Longrightarrow> unique key (update_where P f rows) = unique key rows"
  by (simp add: unique_def update_where_keys)

lemma unique_map [simp]: "(\<And>r. key (f r) = key r) \<Longrightarrow> unique key (map f rows) = unique key rows"
  by (simp add: unique_def comp_def)

text \<open>An update of the rows with one value of a key may give them a new value of another key, if no other
row has it.\<close>

lemma unique_other_key:
  assumes "unique key rows" and "unique other rows"
    and new: "\<And>r. r \<in> set rows \<Longrightarrow> key r = k \<Longrightarrow> other (f r) = v"
    and free: "\<And>r. r \<in> set rows \<Longrightarrow> key r \<noteq> k \<Longrightarrow> other r \<noteq> v"
  shows "unique other (update_where (\<lambda>r. key r = k) f rows)"
proof -
  have keys: "inj_on key (set rows)" "inj_on other (set rows)" "distinct rows"
    using assms(1,2) by (auto simp: unique_def distinct_map)
  have "inj_on (\<lambda>r. other (if key r = k then f r else r)) (set rows)"
  proof (rule inj_onI)
    fix r s assume rows: "r \<in> set rows" "s \<in> set rows"
      and eq: "other (if key r = k then f r else r) = other (if key s = k then f s else s)"
    have "key r = k \<longleftrightarrow> key s = k"
      using rows eq new free by (metis (full_types))
    then show "r = s"
      using rows eq keys(1,2) by (auto dest: inj_onD split: if_split_asm)
  qed
  with keys(3) show ?thesis
    by (simp add: unique_def update_where_def comp_def distinct_map)
qed

lemma ball_update_where:
  "(\<forall>r \<in> set (update_where P f rows). Q r) \<longleftrightarrow> (\<forall>r \<in> set rows. Q (if P r then f r else r))"
  by (simp add: update_where_def del: if_image_distrib)

lemma refs_Nil [simp]: "refs col [] key table"
  by (simp add: refs_def)

lemma refs_append [simp]:
  "refs col (rows @ [r]) key table \<longleftrightarrow>
     refs col rows key table \<and> (\<forall>v. col r = Some v \<longrightarrow> v \<in> set (map key table))"
  by (auto simp: refs_def)

lemma refs_filter [simp, intro]: "refs col rows key table \<Longrightarrow> refs col (filter P rows) key table"
  by (auto simp: refs_def)

lemma refs_target_append [simp, intro]: "refs col rows key table \<Longrightarrow> refs col rows key (table @ [t])"
  by (auto simp: refs_def)

lemma refs_update [simp]:
  "(\<And>r. col (f r) = col r) \<Longrightarrow> refs col (update_where P f rows) key table = refs col rows key table"
  by (simp add: refs_def update_where_def if_distrib [of col] del: if_image_distrib)

lemma refs_map [simp]: "(\<And>r. col (f r) = col r) \<Longrightarrow> refs col (map f rows) key table = refs col rows key table"
  by (simp add: refs_def)

lemma refs_target_update [simp]:
  "(\<And>r. key (f r) = key r) \<Longrightarrow> refs col rows key (update_where P f table) = refs col rows key table"
  by (simp add: refs_def update_where_keys del: set_map)

lemma refs_target_map [simp]:
  "(\<And>r. key (f r) = key r) \<Longrightarrow> refs col rows key (map f table) = refs col rows key table"
  by (simp add: refs_def image_image)

text \<open>Rows that go with the row they refer to, and references that become \<open>NULL\<close>.\<close>

lemma refs_cascade:
  "refs col rows key table \<Longrightarrow> (\<And>r. r \<in> set rows \<Longrightarrow> P r \<Longrightarrow> col r \<noteq> Some k) \<Longrightarrow>
     refs col (filter P rows) key (filter (\<lambda>t. key t \<noteq> k) table)"
  by (fastforce simp: refs_def)

lemma refs_unused:
  "refs col rows key table \<Longrightarrow> (\<And>r. r \<in> set rows \<Longrightarrow> col r \<noteq> Some k) \<Longrightarrow>
     refs col rows key (filter (\<lambda>t. key t \<noteq> k) table)"
  by (fastforce simp: refs_def)

lemma refs_forget:
  "refs col rows key table \<Longrightarrow> (\<And>r. col (f r) = forget_user k (col r)) \<Longrightarrow>
     refs col (map f rows) key (filter (\<lambda>t. key t \<noteq> k) table)"
  by (fastforce simp: refs_def forget_user_def split: if_split_asm)

lemma refs_forget_rules:
  assumes "refs pd_rule_id rows key table" and "\<And>t. t \<in> set table \<Longrightarrow> \<not> P t \<Longrightarrow> gone (key t)"
  shows "refs pd_rule_id (forget_rules gone rows) key (filter P table)"
  unfolding refs_def
proof (intro ballI allI impI)
  fix r v assume "r \<in> set (forget_rules gone rows)" and v: "pd_rule_id r = Some v"
  then obtain s where s: "s \<in> set rows"
    and r: "r = (if (case pd_rule_id s of None \<Rightarrow> False | Some i \<Rightarrow> gone i)
                 then s \<lparr> pd_rule_id := None \<rparr> else s)"
    by (auto simp: forget_rules_def set_update_where)
  with v have "pd_rule_id s = Some v" and "\<not> gone v"
    by (auto split: if_split_asm)
  with assms s show "v \<in> set (map key (filter P table))"
    by (fastforce simp: refs_def)
qed

section \<open>The schema\<close>

definition hosts_ok :: "db \<Rightarrow> bool" where
  "hosts_ok d \<longleftrightarrow>
     unique ho_id (db_hosts d) \<and> unique (\<lambda>h. (ho_fqdn h, ho_ip_address h)) (db_hosts d)
     \<and> unique co_host_id (db_overrides d) \<and> refs (\<lambda>r. Some (co_host_id r)) (db_overrides d) ho_id (db_hosts d)
     \<and> unique ce_id (db_certificates d) \<and> unique ce_serial_number (db_certificates d)
     \<and> refs ce_host_id (db_certificates d) ho_id (db_hosts d)
     \<and> refs (\<lambda>c. Some (ck_host_id c)) (db_check_ins d) ho_id (db_hosts d)
     \<and> refs (\<lambda>s. Some (ds_host_id s)) (db_drift d) ho_id (db_hosts d)
     \<and> unique pa_id (db_pending d) \<and> refs (\<lambda>a. Some (pa_host_id a)) (db_pending d) ho_id (db_hosts d)
     \<and> unique (\<lambda>p. (pr_host_id p, pr_cidr p)) (db_protected d)
     \<and> refs (\<lambda>p. Some (pr_host_id p)) (db_protected d) ho_id (db_hosts d)"

definition policies_ok :: "db \<Rightarrow> bool" where
  "policies_ok d \<longleftrightarrow>
     unique (\<lambda>r. fr_id (rl_rule r)) (db_rules d) \<and> unique (\<lambda>r. fr_name (rl_rule r)) (db_rules d)
     \<and> refs (\<lambda>r. Some (rl_group_id r)) (db_rules d) rg_id (db_rule_groups d)
     \<and> unique rg_id (db_rule_groups d)
     \<and> unique ps_id (db_policy_sets d) \<and> unique ps_name (db_policy_sets d)
     \<and> unique (\<lambda>x. (pg_policy_set_id x, pg_rule_group_id x)) (db_psrg d)
     \<and> refs (\<lambda>x. Some (pg_policy_set_id x)) (db_psrg d) ps_id (db_policy_sets d)
     \<and> refs (\<lambda>x. Some (pg_rule_group_id x)) (db_psrg d) rg_id (db_rule_groups d)
     \<and> unique (\<lambda>a. (ha_host_id a, ha_policy_set_id a)) (db_assignments d)
     \<and> refs (\<lambda>a. Some (ha_host_id a)) (db_assignments d) ho_id (db_hosts d)
     \<and> refs (\<lambda>a. Some (ha_policy_set_id a)) (db_assignments d) ps_id (db_policy_sets d)
     \<and> refs pd_rule_id (db_decisions d) (\<lambda>r. fr_id (rl_rule r)) (db_rules d)"

definition accounts_ok :: "db \<Rightarrow> bool" where
  "accounts_ok d \<longleftrightarrow>
     unique us_id (db_users d) \<and> unique us_username (db_users d) \<and> unique us_email (db_users d)
     \<and> unique rt_token_hash (db_refresh d) \<and> refs (\<lambda>t. Some (rt_user_id t)) (db_refresh d) us_id (db_users d)
     \<and> unique gr_id (db_groups d) \<and> unique gr_name (db_groups d) \<and> unique id (db_host_groups d)
     \<and> refs (\<lambda>x. Some (fst x)) (db_host_groups d) ho_id (db_hosts d)
     \<and> refs (\<lambda>x. Some (snd x)) (db_host_groups d) gr_id (db_groups d)
     \<and> refs (\<lambda>x. Some (fst x)) (db_operator_host_groups d) us_id (db_users d)
     \<and> refs (\<lambda>x. Some (snd x)) (db_operator_host_groups d) gr_id (db_groups d)"

definition enrollment_ok :: "db \<Rightarrow> bool" where
  "enrollment_ok d \<longleftrightarrow>
     unique et_token_hash (db_enroll_tokens d)
     \<and> refs (\<lambda>t. Some (et_created_by t)) (db_enroll_tokens d) us_id (db_users d)
     \<and> unique er_id (db_enroll_requests d) \<and> unique er_machine_id (db_enroll_requests d)
     \<and> unique er_polling_token (db_enroll_requests d)"

text \<open>The columns that name the user who did something; they become \<open>NULL\<close> with the user.\<close>

definition authors_ok :: "db \<Rightarrow> bool" where
  "authors_ok d \<longleftrightarrow>
     refs (\<lambda>r. fr_created_by (rl_rule r)) (db_rules d) us_id (db_users d)
     \<and> refs rg_created_by (db_rule_groups d) us_id (db_users d)
     \<and> refs ps_created_by (db_policy_sets d) us_id (db_users d)
     \<and> refs ha_assigned_by (db_assignments d) us_id (db_users d)
     \<and> refs pr_created_by (db_protected d) us_id (db_users d)
     \<and> refs au_actor_user_id (db_audit d) us_id (db_users d)"

text \<open>Ranges: the ports of rules, positions as \<open>INTEGER\<close>, check-in intervals from a second to a day,
versions and counters in the range of their column, and one row per key in the key-value tables.\<close>

definition values_ok :: "db \<Rightarrow> bool" where
  "values_ok d \<longleftrightarrow>
     (\<forall>r \<in> set (db_rules d). rule_checks (rl_rule r) \<and> i32_range (rl_group_order r))
     \<and> (\<forall>x \<in> set (db_psrg d). i32_range (pg_set_group_order x))
     \<and> (\<forall>r \<in> set (db_overrides d). 1 \<le> co_check_in_interval_secs r \<and> co_check_in_interval_secs r \<le> 86400
          \<and> i32_range (co_config_version r))
     \<and> (\<forall>u \<in> set (db_users d). i32_range (us_failed_login_attempts u))
     \<and> unique fst (db_system_config d) \<and> unique fst (db_crl_counter d)
     \<and> (\<forall>x \<in> set (db_crl_counter d). i64_range (snd x))"

definition well_formed :: "db \<Rightarrow> bool" where
  "well_formed d \<longleftrightarrow>
     hosts_ok d \<and> policies_ok d \<and> accounts_ok d \<and> enrollment_ok d \<and> authors_ok d \<and> values_ok d"

lemmas schema_defs = well_formed_def hosts_ok_def policies_ok_def accounts_ok_def enrollment_ok_def
  authors_ok_def values_ok_def

lemma rules_unique: "well_formed d \<Longrightarrow> unique (\<lambda>r. fr_id (rl_rule r)) (db_rules d)"
  "well_formed d \<Longrightarrow> unique (\<lambda>r. fr_name (rl_rule r)) (db_rules d)"
  by (simp_all add: schema_defs)

lemma unique_eq: "unique key rows \<Longrightarrow> r \<in> set rows \<Longrightarrow> s \<in> set rows \<Longrightarrow> key r = key s \<Longrightarrow> r = s"
  by (auto simp: unique_def distinct_map dest: inj_onD)

lemma find_some_row: "find P rows = Some r \<Longrightarrow> r \<in> set rows \<and> P r"
  by (auto simp: find_Some_iff)

lemma empty_well_formed: "well_formed empty_db"
  by (simp add: schema_defs empty_db_def)

abbreviation keeps :: "'a dbm \<Rightarrow> bool" where
  "keeps m \<equiv> steps (preserves well_formed) m"

section \<open>Statements\<close>

lemma keeps_stmt:
  "(\<And>d x d'. f d = Inr (x, d') \<Longrightarrow> well_formed d \<Longrightarrow> well_formed d') \<Longrightarrow> keeps (stmt f)"
  by (rule inv.steps_stmt) (auto simp: preserves_def)

lemma keeps_exec: "(\<And>d. well_formed d \<Longrightarrow> well_formed (f d)) \<Longrightarrow> keeps (exec f)"
  by (rule inv.steps_exec) (auto simp: preserves_def)

lemma keeps_modify: "(\<And>d. well_formed d \<Longrightarrow> well_formed (f d)) \<Longrightarrow> keeps (modify f)"
  by (rule inv.steps_modify) (auto simp: preserves_def)

lemmas exists_defs = host_exists_def set_exists_def group_exists_def user_exists_def host_group_exists_def

text \<open>What the schema says nothing about.\<close>

lemma well_formed_outside [simp]:
  "well_formed (d \<lparr> db_memory := m \<rparr>) = well_formed d"
  "well_formed (d \<lparr> db_disk := fs \<rparr>) = well_formed d"
  "well_formed (d \<lparr> db_anchors := as \<rparr>) = well_formed d"
  by (simp_all add: schema_defs)

named_theorems keeps_intros

text \<open>Agents.\<close>

lemma keeps_insert_check_in [keeps_intros]: "keeps (insert_check_in now h req)"
  unfolding insert_check_in_def
  by (rule keeps_stmt, clarsimp simp: Let_def split: if_split_asm)
    (simp add: schema_defs exists_defs)

lemma keeps_insert_drift [keeps_intros]: "keeps (insert_drift now h hash n source)"
  unfolding insert_drift_def
  by (rule keeps_stmt, clarsimp simp: Let_def split: if_split_asm)
    (simp add: schema_defs exists_defs)

lemma keeps_mark_healthy [keeps_intros]: "keeps (exec (mark_healthy now h v))"
  by (rule keeps_exec) (simp add: schema_defs mark_healthy_def)

lemma keeps_mark_delivered [keeps_intros]: "keeps (exec (mark_delivered now ids))"
  by (rule keeps_exec) (simp add: schema_defs mark_delivered_def deliver_def)

lemma keeps_finish_action [keeps_intros]: "keeps (exec (finish_action now i b))"
  by (rule keeps_exec) (simp add: schema_defs finish_action_def)

lemma keeps_insert_audit [keeps_intros]: "keeps (insert_audit L now prev ev)"
  unfolding insert_audit_def
  by (rule keeps_stmt, clarsimp split: if_split_asm)
    (simp add: schema_defs accepts_event_def audit_row_def split: option.split_asm)

lemma keeps_log_event [keeps_intros]: "keeps (log_event L now ev)"
  unfolding log_event_def by (intro inv.steps_rules keeps_intros)

text \<open>Assignments, rules, groups and sets.\<close>

lemma keeps_insert_assignment [keeps_intros]: "keeps (insert_assignment now h p u)"
  unfolding insert_assignment_def
  by (rule keeps_stmt, clarsimp simp: Let_def split: if_split_asm)
    (simp add: schema_defs exists_defs)

lemma keeps_delete_assignment [keeps_intros]: "keeps (exec (delete_assignment h p))"
  by (rule keeps_exec) (simp add: schema_defs delete_assignment_def)

lemma keeps_insert_rule [keeps_intros]: "keeps (insert_rule inet now i u g req)"
  unfolding insert_rule_def
  by (rule keeps_stmt, clarsimp simp: Let_def split: option.split_asm if_split_asm)
    (simp add: schema_defs exists_defs new_rule_def Let_def)

lemma keeps_insert_decision [keeps_intros]: "keeps (insert_decision i rule decision reason)"
  unfolding insert_decision_def
  by (rule keeps_stmt, clarsimp simp: Let_def split: if_split_asm)
    (simp add: schema_defs)

lemma as_i32_range [simp]: "i32_range (as_i32 n)"
  by (simp add: i32_range_def as_i32_def)

lemma keeps_set_group_order [keeps_intros]: "keeps (exec (set_group_order g i (as_i32 n)))"
  by (rule keeps_exec) (simp add: schema_defs set_group_order_def ball_update_where)

lemma keeps_update_rule_row [keeps_intros]: "keeps (update_rule_row inet now i req)"
  unfolding update_rule_row_def
proof (rule keeps_stmt, goal_cases)
  case (1 d x d')
  show ?case
  proof (cases "d' = d")
    case False
    with 1 obtain src dst r where found: "find_rule i d = Some r"
      and d': "d' = d \<lparr> db_rules := update_where (\<lambda>x. fr_id (rl_rule x) = i)
                 (\<lambda>x. x \<lparr> rl_rule := changed_rule now req src dst (rl_rule x) \<rparr>) (db_rules d) \<rparr>"
      and checked: "rule_checks (changed_rule now req src dst r)"
      and free: "\<forall>x \<in> set (db_rules d). fr_id (rl_rule x) \<noteq> i \<longrightarrow>
                   fr_name (rl_rule x) \<noteq> fr_name (changed_rule now req src dst r)"
      by (auto simp: Let_def split: option.split_asm if_split_asm)
    obtain x0 where x0: "x0 \<in> set (db_rules d)" "fr_id (rl_rule x0) = i" "rl_rule x0 = r"
      using find_some_row [OF found [unfolded find_rule_def]] by auto
    have one: "rl_rule y = r" if "y \<in> set (db_rules d)" and "fr_id (rl_rule y) = i" for y
      using unique_eq [OF rules_unique(1) [OF 1(2)] that(1) x0(1)] x0 that(2) by simp
    have kept: "fr_id (changed_rule now req src dst y) = fr_id y"
      "fr_created_by (changed_rule now req src dst y) = fr_created_by y" for y
      by (simp_all add: changed_rule_def)
    have names: "unique (\<lambda>r. fr_name (rl_rule r)) (update_where (\<lambda>x. fr_id (rl_rule x) = i)
        (\<lambda>x. x \<lparr> rl_rule := changed_rule now req src dst (rl_rule x) \<rparr>) (db_rules d))"
      by (rule unique_other_key [where v = "fr_name (changed_rule now req src dst r)"])
        (use rules_unique [OF 1(2)] free one in auto)
    have "\<forall>r \<in> set (db_rules d'). rule_checks (rl_rule r) \<and> i32_range (rl_group_order r)"
      using 1(2) checked one by (auto simp: schema_defs d' ball_update_where)
    then show ?thesis
      using 1(2) names by (simp add: schema_defs d' kept)
  qed (use 1 in simp)
qed

lemma keeps_delete_rule_row [keeps_intros]: "keeps (delete_rule_row i)"
  unfolding delete_rule_row_def
  by (rule keeps_stmt, clarsimp simp: schema_defs) (rule refs_forget_rules; simp)

lemma keeps_insert_rule_group [keeps_intros]: "keeps (insert_rule_group now i name desc u)"
  unfolding insert_rule_group_def
  by (rule keeps_stmt, clarsimp simp: Let_def split: if_split_asm)
    (simp add: schema_defs exists_defs Let_def)

lemma keeps_update_rule_group_row [keeps_intros]: "keeps (update_rule_group_row now g name desc)"
  unfolding update_rule_group_row_def
  by (rule keeps_stmt) (clarsimp simp: schema_defs changed_group_def)

lemma keeps_delete_rule_group_row [keeps_intros]: "keeps (delete_rule_group_row g)"
  unfolding delete_rule_group_row_def
proof (rule keeps_stmt, goal_cases)
  case (1 d x d')
  then have d': "d' = d \<lparr> db_rule_groups := filter (\<lambda>x. rg_id x \<noteq> g) (db_rule_groups d),
      db_rules := filter (\<lambda>r. rl_group_id r \<noteq> g) (db_rules d),
      db_decisions := forget_rules
        (\<lambda>j. \<exists>r \<in> set (db_rules d). rl_group_id r = g \<and> fr_id (rl_rule r) = j) (db_decisions d) \<rparr>"
    and unused: "group_exists g d \<Longrightarrow> group_used_by g d = 0"
    by (auto split: if_split_asm)
  have "\<And>x. x \<in> set (db_psrg d) \<Longrightarrow> pg_rule_group_id x \<noteq> g"
    using unused 1(2)
    by (auto simp: schema_defs refs_def group_used_by_def group_exists_def filter_empty_conv)
  moreover have "refs pd_rule_id (db_decisions d') (\<lambda>r. fr_id (rl_rule r)) (db_rules d')"
    unfolding d' db.simps
    by (simp, rule refs_forget_rules) (use 1(2) in \<open>auto simp: schema_defs\<close>)
  ultimately show ?case
    using 1(2) by (simp add: schema_defs d' refs_cascade refs_unused)
qed

lemma keeps_insert_policy_set [keeps_intros]: "keeps (insert_policy_set now i u req)"
  unfolding insert_policy_set_def
  by (rule keeps_stmt, clarsimp simp: Let_def split: if_split_asm) (simp add: schema_defs exists_defs)

lemma changed_set_keeps [simp]: "ps_id (changed_set now req p) = ps_id p"
  "ps_created_by (changed_set now req p) = ps_created_by p"
  by (simp_all add: changed_set_def Let_def split: prod.split)

lemma keeps_update_policy_set_row [keeps_intros]: "keeps (update_policy_set_row now i req)"
  unfolding update_policy_set_row_def
proof (rule keeps_stmt, goal_cases)
  case (1 d x d')
  show ?case
  proof (cases "d' = d")
    case False
    with 1 obtain p where found: "find_policy_set i d = Some p"
      and d': "d' = d \<lparr> db_policy_sets := update_where (\<lambda>x. ps_id x = i) (changed_set now req) (db_policy_sets d) \<rparr>"
      and free: "\<forall>x \<in> set (db_policy_sets d). ps_id x \<noteq> i \<longrightarrow> ps_name x \<noteq> ps_name (changed_set now req p)"
      by (auto simp: Let_def split: option.split_asm if_split_asm)
    have sets: "unique ps_id (db_policy_sets d)" "unique ps_name (db_policy_sets d)"
      using 1(2) by (simp_all add: schema_defs)
    have one: "y = p" if "y \<in> set (db_policy_sets d)" and "ps_id y = i" for y
      using unique_eq [OF sets(1) that(1)] find_some_row [OF found [unfolded find_policy_set_def]] that(2)
      by simp
    have "unique ps_name (update_where (\<lambda>x. ps_id x = i) (changed_set now req) (db_policy_sets d))"
      by (rule unique_other_key [where v = "ps_name (changed_set now req p)"]) (use sets free one in auto)
    then show ?thesis
      using 1(2) by (simp add: schema_defs d')
  qed (use 1 in simp)
qed

lemma keeps_delete_policy_set_row [keeps_intros]: "keeps (delete_policy_set_row i)"
  unfolding delete_policy_set_row_def
  by (rule keeps_stmt) (clarsimp simp: schema_defs refs_cascade)

lemma keeps_insert_group [keeps_intros]: "keeps (insert_group p g order)"
  unfolding insert_group_def
  by (rule keeps_stmt, clarsimp simp: Let_def split: if_split_asm)
    (simp_all add: schema_defs exists_defs set_set_order_def ball_update_where)

lemma keeps_delete_group [keeps_intros]: "keeps (exec (delete_group p g))"
  by (rule keeps_exec) (simp add: schema_defs delete_group_def)

lemma keeps_set_set_order [keeps_intros]: "keeps (exec (set_set_order p g (as_i32 n)))"
  by (rule keeps_exec) (simp add: schema_defs set_set_order_def ball_update_where)

text \<open>Accounts and host groups.\<close>

lemma well_formed_update_user:
  assumes "well_formed d" and "\<And>u. us_id (f u) = us_id u" and "\<And>u. us_username (f u) = us_username u"
    and "\<And>u. us_email (f u) = us_email u"
    and "\<And>u. u \<in> set (db_users d) \<Longrightarrow> us_id u = i \<Longrightarrow> i32_range (us_failed_login_attempts (f u))"
  shows "well_formed (update_user_where i f d)"
  using assms by (simp add: schema_defs update_user_where_def ball_update_where)

lemma attempts_range: "well_formed d \<Longrightarrow> u \<in> set (db_users d) \<Longrightarrow> i32_range (us_failed_login_attempts u)"
  by (simp add: schema_defs)

lemma keeps_count_failure [keeps_intros]: "keeps (count_failure i)"
  unfolding count_failure_def
  by (rule keeps_stmt, clarsimp split: if_split_asm) (rule well_formed_update_user; simp)

lemma keeps_lock_user [keeps_intros]: "keeps (lock_user now i)"
  unfolding lock_user_def
  by (rule keeps_exec, rule well_formed_update_user) (simp_all add: attempts_range)

lemma keeps_reset_failures [keeps_intros]: "keeps (reset_failures now i)"
  unfolding reset_failures_def
  by (rule keeps_exec, rule well_formed_update_user) (simp_all add: i32_range_def)

lemma keeps_insert_refresh [keeps_intros]: "keeps (insert_refresh now i hash jti)"
  unfolding insert_refresh_def
  by (rule keeps_stmt, clarsimp split: if_split_asm) (simp add: schema_defs exists_defs)

lemma keeps_renew_refresh [keeps_intros]: "keeps (exec (renew_refresh now hash jti))"
  by (rule keeps_exec) (simp add: schema_defs renew_refresh_def)

lemma keeps_revoke_refresh [keeps_intros]: "keeps (exec (revoke_refresh now hash))"
  by (rule keeps_exec) (simp add: schema_defs revoke_refresh_def)

lemma keeps_own_hash [keeps_intros]: "keeps (own_hash i)"
  unfolding own_hash_def by (rule keeps_stmt) (auto split: option.split_asm)

lemma keeps_insert_user [keeps_intros]: "keeps (insert_user now i req hash)"
  unfolding insert_user_def
  by (rule keeps_stmt, clarsimp simp: Let_def split: if_split_asm)
    (simp add: schema_defs exists_defs i32_range_def)

lemma keeps_update_user_row [keeps_intros]: "keeps (update_user_row now i req)"
  unfolding update_user_row_def
proof (rule keeps_stmt, goal_cases)
  case (1 d x d')
  show ?case
  proof (cases "d' = d")
    case False
    with 1 obtain u where found: "find_user i d = Some u"
      and d': "d' = update_user_where i (changed_user now req) d"
      and free: "\<forall>x \<in> set (db_users d). us_id x \<noteq> i \<longrightarrow> us_email x \<noteq> us_email (changed_user now req u)"
      by (auto simp: Let_def split: option.split_asm if_split_asm)
    have users: "unique us_id (db_users d)" "unique us_email (db_users d)"
      using 1(2) by (simp_all add: schema_defs)
    have one: "y = u" if "y \<in> set (db_users d)" and "us_id y = i" for y
      using unique_eq [OF users(1) that(1)] find_some_row [OF found [unfolded find_user_def]] that(2)
      by simp
    have "unique us_email (update_where (\<lambda>x. us_id x = i) (changed_user now req) (db_users d))"
      by (rule unique_other_key [where v = "us_email (changed_user now req u)"]) (use users free one in auto)
    then show ?thesis
      using 1(2) by (simp add: schema_defs d' update_user_where_def changed_user_def ball_update_where)
  qed (use 1 in simp)
qed

lemma keeps_delete_user_row [keeps_intros]: "keeps (exec (delete_user_row i))"
  by (rule keeps_exec) (simp add: schema_defs delete_user_row_def refs_cascade refs_forget rule_checks_def)

lemma keeps_insert_host_group [keeps_intros]: "keeps (insert_host_group now i name desc)"
  unfolding insert_host_group_def
  by (rule keeps_stmt, clarsimp simp: Let_def split: if_split_asm) (simp add: schema_defs exists_defs)

lemma keeps_delete_host_group [keeps_intros]: "keeps (exec (delete_host_group i))"
  by (rule keeps_exec) (simp add: schema_defs delete_host_group_def refs_cascade)

lemma keeps_insert_membership [keeps_intros]: "keeps (insert_membership h g)"
  unfolding insert_membership_def
  by (rule keeps_stmt, clarsimp split: if_split_asm) (simp add: schema_defs exists_defs)

lemma keeps_remove_membership [keeps_intros]: "keeps (exec (remove_membership h g))"
  by (rule keeps_exec) (simp add: schema_defs remove_membership_def)

text \<open>Settings, certificates and enrollment.\<close>

lemma unique_alist_update [simp, intro]: "unique fst kvs \<Longrightarrow> unique fst (AList.update k v kvs)"
  unfolding unique_def by (rule distinct_update)

lemma keeps_set_config [keeps_intros]: "keeps (set_config J key v)"
  unfolding set_config_def by (rule keeps_exec) (simp add: schema_defs upsert_config_def)

lemma keeps_propagate_interval: "1 \<le> n \<Longrightarrow> n \<le> 86400 \<Longrightarrow> keeps (propagate_interval n)"
  unfolding propagate_interval_def
  by (rule keeps_stmt, clarsimp split: if_split_asm)
    (auto simp: schema_defs renewed_override_def ball_update_where)

lemma keeps_admin_hash [keeps_intros]: "keeps admin_hash"
  unfolding admin_hash_def by (rule keeps_stmt) (auto split: option.split_asm)

lemma keeps_read_to_string [keeps_intros]: "keeps (read_to_string path)"
  unfolding read_to_string_def by (rule keeps_stmt) (auto split: option.split_asm)

lemma keeps_fs_write [keeps_intros]: "keeps (fs_write path c)"
  unfolding fs_write_def by (rule keeps_exec) simp

lemma keeps_insert_root_row [keeps_intros]: "keeps (insert_root_row now i serial pem)"
  unfolding insert_root_row_def
  by (rule keeps_stmt, clarsimp split: if_split_asm) (simp add: schema_defs)

lemma set_alist_update: "x \<in> set (AList.update k v kvs) \<Longrightarrow> x = (k, v) \<or> x \<in> set kvs"
  by (induction kvs) (auto split: if_split_asm)

lemma keeps_next_crl_number [keeps_intros]: "keeps (next_crl_number key)"
  unfolding next_crl_number_def
  by (rule keeps_stmt, clarsimp simp: Let_def split: if_split_asm)
    (auto simp: schema_defs dest!: set_alist_update)

lemma keeps_mark_revoked [keeps_intros]: "keeps (mark_revoked now i)"
  unfolding mark_revoked_def by (rule keeps_stmt) (clarsimp simp: schema_defs revoke_row_def)

lemma keeps_mark_token_used [keeps_intros]: "keeps (exec (mark_token_used now hash))"
  by (rule keeps_exec) (simp add: schema_defs mark_token_used_def)

lemma keeps_mark_token_revoked [keeps_intros]: "keeps (exec (mark_token_revoked now hash))"
  by (rule keeps_exec) (simp add: schema_defs mark_token_revoked_def)

lemma keeps_insert_token [keeps_intros]: "keeps (insert_token inet now u hash req ttl)"
  unfolding insert_token_def
  by (rule keeps_stmt, clarsimp split: if_split_asm) (simp add: schema_defs exists_defs)

lemma keeps_upsert_request [keeps_intros]: "keeps (upsert_request inet now i hash req)"
  unfolding upsert_request_def
proof (rule keeps_stmt, goal_cases)
  case (1 d x d')
  let ?m = "machine_id req" and ?rows = "db_enroll_requests d"
  have rows: "unique er_machine_id ?rows" "unique er_polling_token ?rows"
    using 1(2) by (simp_all add: schema_defs)
  have free: "\<forall>r \<in> set ?rows. er_machine_id r \<noteq> ?m \<longrightarrow> er_polling_token r \<noteq> hash"
    using 1(1) by (auto simp: Let_def split: option.split_asm if_split_asm)
  show ?case
  proof (cases "?m \<in> set (map er_machine_id ?rows)")
    case True
    have "unique er_polling_token (update_where (\<lambda>r. er_machine_id r = ?m) (renewed_request now hash req) ?rows)"
      by (rule unique_other_key [where v = hash]) (use rows free in \<open>auto simp: renewed_request_def\<close>)
    moreover have "d' = d \<lparr> db_enroll_requests :=
        update_where (\<lambda>r. er_machine_id r = ?m) (renewed_request now hash req) ?rows \<rparr>"
      using 1(1) True by (simp add: Let_def split: option.split_asm if_split_asm)
    ultimately show ?thesis
      using 1(2) by (simp add: schema_defs renewed_request_def)
  next
    case False
    then obtain ip where "d' = d \<lparr> db_enroll_requests := ?rows @ [new_request now i hash ip req] \<rparr>"
      and "i \<notin> set (map er_id ?rows)"
      using 1(1) by (auto simp: Let_def split: option.split_asm if_split_asm)
    moreover have "hash \<notin> set (map er_polling_token ?rows)"
      using free False by (fastforce simp: image_iff)
    ultimately show ?thesis
      using 1(2) False by (simp add: schema_defs new_request_def)
  qed
qed

lemma keeps_count_collisions [keeps_intros]: "keeps (count_collisions inet fqdn ip)"
  unfolding count_collisions_def by (rule keeps_stmt) (auto split: option.split_asm)

lemma keeps_insert_host [keeps_intros]: "keeps (insert_host inet now h fqdn ip name os)"
  unfolding insert_host_def
  by (rule keeps_stmt, clarsimp split: option.split_asm if_split_asm)
    (auto simp: schema_defs exists_defs new_host_def)

lemma keeps_insert_override: "1 \<le> n \<Longrightarrow> n \<le> 86400 \<Longrightarrow> keeps (insert_override h n)"
  unfolding insert_override_def
  by (rule keeps_stmt, clarsimp split: if_split_asm) (simp add: schema_defs exists_defs i32_range_def)

lemma keeps_insert_leaf_cert [keeps_intros]: "keeps (insert_leaf_cert c)"
  unfolding insert_leaf_cert_def
  by (rule keeps_stmt, clarsimp split: if_split_asm) (auto simp: schema_defs exists_defs)

lemma keeps_delete_request [keeps_intros]: "keeps (exec (delete_request i))"
  by (rule keeps_exec) (simp add: schema_defs delete_request_def)

text \<open>Hosts and the worker.\<close>

lemma keeps_delete_host_row [keeps_intros]: "keeps (exec (delete_host_row i))"
  by (rule keeps_exec) (simp add: schema_defs delete_host_row_def refs_cascade)

lemma keeps_insert_protected [keeps_intros]: "keeps (insert_protected inet now u h req)"
  unfolding insert_protected_def
  by (rule keeps_stmt, clarsimp split: option.split_asm if_split_asm) (simp add: schema_defs exists_defs)

lemma keeps_set_health [keeps_intros]: "keeps (exec (set_health i s))"
  by (rule keeps_exec) (simp add: schema_defs set_health_def)

lemma keeps_insert_anchor [keeps_intros]: "keeps (exec (insert_anchor now head))"
  by (rule keeps_exec) (simp add: insert_anchor_def)

lemma keeps_memory [keeps_intros]:
  "keeps (modify (forget_approved hash))" "keeps (modify (cache_approved hash e))"
  "keeps (modify (store_permit h))" "keeps (modify (take_permit h))" "keeps (modify (swap_acceptor tls))"
  "keeps (modify (set_running_whitelist es))" "keeps (modify (set_running_proxies es))"
  by (rule keeps_modify; simp add: forget_approved_def cache_approved_def store_permit_def take_permit_def
      swap_acceptor_def set_running_whitelist_def set_running_proxies_def)+

section \<open>Handlers\<close>

lemma keeps_lift_result [keeps_intros]: "keeps (lift_result conv r)"
  unfolding lift_result_def by (intro inv.steps_rules keeps_intros)

lemma keeps_if_some [keeps_intros]: "(\<And>v. keeps (f v)) \<Longrightarrow> keeps (if_some x f)"
  unfolding if_some_def by (intro inv.steps_rules)

lemma keeps_in_transaction [keeps_intros]: "keeps m \<Longrightarrow> keeps (in_transaction m)"
  unfolding in_transaction_def by (intro inv.steps_rules)

lemma keeps_guards [keeps_intros]: "keeps (write_guard u)" "keeps (admin_guard u)" "keeps (flagged_gate L u p)"
    "keeps (check_strength s)"
  unfolding write_guard_def admin_guard_def flagged_gate_def flagged_rule_ids_for_set_def
    rules_for_policy_set_def check_strength_def
  by (intro inv.steps_rules keeps_intros)+

lemma keeps_cam [keeps_intros]: "keeps m \<Longrightarrow> (\<And>x. keeps (k x)) \<Longrightarrow> keeps (cbind m k)" "keeps (cret y)"
  "keeps m' \<Longrightarrow> keeps (cdb m')" "keeps m' \<Longrightarrow> keeps (cio m')"
  unfolding cbind_def cret_def cdb_def cio_def by (intro inv.steps_rules; assumption?)+

text \<open>The agent API.\<close>

lemma keeps_record_drift [keeps_intros]: "keeps (record_drift L now h hash n source ev)"
  unfolding record_drift_def by (intro inv.steps_rules keeps_intros)

lemma keeps_check_in: "keeps (check_in sha L now h req)"
  unfolding check_in_def expected_rules_def expected_defaults_def fetch_rules_for_policy_set_def Let_def
  by (intro inv.steps_rules keeps_intros)

lemma keeps_check_in_result: "keeps (check_in_result L now h req)"
  unfolding check_in_result_def by (intro inv.steps_rules keeps_intros)

lemma keeps_events: "keeps (events h wakes)"
  unfolding events_def by (intro inv.steps_rules keeps_intros)

text \<open>Assignment.\<close>

lemma keeps_assign_one [keeps_intros]: "keeps (assign_one L now u p h)"
  unfolding assign_one_def can_access_host_def by (intro inv.steps_rules keeps_intros)

lemma keeps_assign_loop [keeps_intros]: "keeps (assign_loop L now u p n hs)"
  by (induction hs arbitrary: n) (simp only: assign_loop.simps, intro inv.steps_rules keeps_intros, assumption?)+

lemma keeps_assign: "keeps (assign_policy_set L now u h p)" "keeps (unassign_policy_set L now u h p)"
    "keeps (deploy_assign L now u areq)" "keeps (deploy_unassign L now u areq)"
  unfolding assign_policy_set_def unassign_policy_set_def deploy_assign_def deploy_unassign_def
    resolve_host_ids_def
  by (intro inv.steps_rules keeps_intros)+

text \<open>Rules, groups and sets.\<close>

lemma keeps_rule_handlers: "keeps (create_rule_in_group inet L now ids u g req)"
    "keeps (reorder_group_rules L now u g is)" "keeps (update_rule inet L now u i ureq)"
    "keeps (delete_rule L now u i)" "keeps (create_rule_group L now i u name desc)"
    "keeps (update_rule_group L now u g name' desc)" "keeps (delete_rule_group L now u g)"
  unfolding create_rule_in_group_def reorder_group_rules_def update_rule_def delete_rule_def
    create_rule_group_def update_rule_group_def delete_rule_group_def
  by (intro inv.steps_rules keeps_intros)+

lemma keeps_set_handlers: "keeps (create_policy_set L now i u req)" "keeps (update_policy_set L now u i ureq)"
    "keeps (delete_policy_set L now u i)" "keeps (add_group_to_set L now u p g order)"
    "keeps (remove_group_from_set L now u p g)" "keeps (reorder_groups L now u p gs)"
  unfolding create_policy_set_def update_policy_set_def delete_policy_set_def add_group_to_set_def
    remove_group_from_set_def reorder_groups_def
  by (intro inv.steps_rules keeps_intros)+

text \<open>Accounts.\<close>

lemma keeps_login [keeps_intros]: "keeps (finish_login C L now r u)" "keeps (failed_login L now u name)"
    "keeps (login C L now r lreq)"
  unfolding login_def finish_login_def failed_login_def Let_def by (intro inv.steps_rules keeps_intros)+

lemma keeps_session: "keeps (refresh_token C L now r token)" "keeps (logout C L now salt u token)"
  unfolding refresh_token_def logout_def by (intro inv.steps_rules keeps_intros)+

lemma keeps_change_password: "keeps (change_password C now salt u current new)"
  unfolding change_password_def
  by (intro inv.steps_rules keeps_intros keeps_exec well_formed_update_user) (simp_all add: attempts_range)

lemma keeps_user_handlers: "keeps (create_user C L now salt i a req)" "keeps (update_user L now a i ureq)"
    "keeps (delete_user L now a i)"
  unfolding create_user_def update_user_def delete_user_def by (intro inv.steps_rules keeps_intros)+

lemma keeps_group_handlers: "keeps (create_group now i u name desc)" "keeps (delete_group_handler u i)"
    "keeps (add_host_to_group u g h)" "keeps (remove_host_from_group u g h)"
  unfolding create_group_def delete_group_handler_def add_host_to_group_def remove_host_from_group_def
  by (intro inv.steps_rules keeps_intros)+

text \<open>Settings and the start of the web server.\<close>

lemma polling_interval_range: "polling_interval v = Some n \<Longrightarrow> 1 \<le> n \<and> n \<le> 86400"
  by (auto simp: polling_interval_def clamp_interval_def)

lemma keeps_propagate [keeps_intros]: "keeps (if_some (polling_interval v) propagate_interval)"
  by (cases "polling_interval v")
    (auto simp: if_some_def inv.steps_ret intro: keeps_propagate_interval dest: polling_interval_range)

lemma keeps_get_config_json [keeps_intros]: "keeps (get_config_json J key)"
  unfolding get_config_json_def by (intro inv.steps_rules keeps_intros)

lemma keeps_get_settings [keeps_intros]: "keeps (get_settings J)"
  unfolding get_settings_def config_list_def by (intro inv.steps_rules keeps_intros)

lemma keeps_validate_entries [keeps_intros]: "keeps (validate_entries N es)"
  unfolding validate_entries_def by (intro inv.steps_rules keeps_intros)

lemma keeps_settings_handlers: "keeps (update_settings J L now u req)"
    "keeps (put_ip_whitelist N J L now u es)" "keeps (put_trusted_proxies N J u es)"
    "keeps (update_oidc_config L now u v)" "keeps (update_smtp_config L now u v)"
  unfolding update_settings_def put_ip_whitelist_def put_trusted_proxies_def update_oidc_config_def
    update_smtp_config_def
  by (intro inv.steps_rules keeps_intros)+

lemma keeps_bootstrap: "keeps (bootstrap_admin_password C salt password)"
  unfolding bootstrap_admin_password_def
  by (intro inv.steps_rules keeps_intros keeps_stmt) (clarsimp simp: schema_defs ball_update_where)

lemma keeps_files [keeps_intros]: "keeps (path_exists path)" "keeps create_dir_all"
    "keeps restrict_key_permissions" "keeps (tls_file path)"
  unfolding path_exists_def create_dir_all_def restrict_key_permissions_def tls_file_def
  by (intro inv.steps_rules keeps_intros keeps_exec; assumption)+

lemma keeps_generate_crls [keeps_intros]: "keeps (generate_crls C ca now)"
  unfolding generate_crls_def sign_group_def by (intro inv.steps_rules keeps_intros)

lemma keeps_init_ca [keeps_intros]: "keeps (init_ca C now gen i serial base)"
  unfolding init_ca_def load_or_generate_def persist_root_cert_row_def
  by (intro inv.steps_rules keeps_intros)

lemma keeps_build_agent_tls_config [keeps_intros]: "keeps (build_agent_tls_config T C ca now cp kp)"
  unfolding build_agent_tls_config_def by (intro inv.steps_rules keeps_intros)

lemma keeps_start_web: "keeps (start_web T C now r cfg)"
  unfolding start_web_def start_ca_def start_listener_def ensure_agent_listener_cert_def with_issuing_ca_def
    Let_def
  by (intro inv.steps_rules keeps_intros keeps_modify) simp

lemma keeps_pki_handlers: "keeps (revoke_cert T C ca cfg L now u i)" "keeps (get_crl T C ca now)"
    "keeps (get_crl_pem C ca now)"
  unfolding revoke_cert_def get_crl_def get_crl_pem_def by (intro inv.steps_rules keeps_intros)+

text \<open>Enrollment.\<close>

lemma keeps_bind_interval:
  assumes "\<And>n. 1 \<le> n \<Longrightarrow> n \<le> 86400 \<Longrightarrow> keeps (k n)"
  shows "keeps (bind (global_check_in_interval J) k)"
proof -
  have "bind (global_check_in_interval J) k
      = bind (get_config_json J ''settings_polling'') (\<lambda>v. k (unwrap_or 900 (Option.bind v polling_interval)))"
    by (simp add: fun_eq_iff global_check_in_interval_def bind_def ret_def split: prod.split sum.split)
  moreover have "1 \<le> unwrap_or 900 (Option.bind v polling_interval)
      \<and> unwrap_or 900 (Option.bind v polling_interval) \<le> 86400" for v
    by (cases "Option.bind v polling_interval") (auto simp: bind_eq_Some_conv dest: polling_interval_range)
  ultimately show ?thesis
    using assms by (simp add: inv.steps_bind keeps_get_config_json)
qed

lemma keeps_issue_and_cache [keeps_intros]: "keeps (issue_and_cache M ca now r u url q n)"
  unfolding issue_and_cache_def Let_def by (intro inv.steps_rules keeps_intros)

lemma keeps_enrollment_handlers: "keeps (submit_enrollment sha inet L now i p req)"
    "keeps (poll_enrollment_status sha L now token)" "keeps (deny_enrollment u i)"
    "keeps (create_token sha inet L now token u treq)" "keeps (revoke_token L now u hash)"
  unfolding submit_enrollment_def poll_enrollment_status_def deny_enrollment_def create_token_def
    revoke_token_def Let_def
  by (intro inv.steps_rules keeps_intros)+

lemma keeps_approve_enrollment: "keeps (approve_enrollment M ca sh port now r u i)"
  unfolding approve_enrollment_def
  by (intro inv.steps_require keeps_bind_interval keeps_insert_override keeps_intros inv.steps_bind
      inv.steps_query inv.steps_guard inv.steps_ignore)

text \<open>Hosts and the worker.\<close>

lemma keeps_host_handlers: "keeps (delete_host L now u i)" "keeps (add_protected_cidr inet now u h req)"
    "keeps (force_check_in h)"
  unfolding delete_host_def add_protected_cidr_def force_check_in_def by (intro inv.steps_rules keeps_intros)+

lemma keeps_update_host: "keeps (update_host now u i req)"
  unfolding update_host_def
  by (intro inv.steps_rules keeps_intros keeps_stmt) (clarsimp simp: schema_defs changed_host_def)

lemma keeps_worker: "keeps (detect_stale_agents now)" "keeps (anchor_chain now)"
  unfolding detect_stale_agents_def anchor_chain_def count_or_zero_def by (intro inv.steps_rules keeps_intros)+

section \<open>Runs of the manager\<close>

text \<open>One step is one handler that may change the state, with any arguments, at any time, and with any
refusals of the database; a restart forgets the memory.\<close>

inductive manager_step :: "'n ipnet_api \<Rightarrow> db \<Rightarrow> db \<Rightarrow> bool" for N where
  Restart: "manager_step N d (restart whitelist proxies d)"
| AgentCheckIn: "manager_step N d (db_after (check_in sha L now h req) (d, fs))"
| AgentResult: "manager_step N d (db_after (check_in_result L now h res) (d, fs))"
| AgentEvents: "manager_step N d (db_after (events h wakes) (d, fs))"
| Assign: "manager_step N d (db_after (assign_policy_set L now u h p) (d, fs))"
| Unassign: "manager_step N d (db_after (unassign_policy_set L now u h p) (d, fs))"
| DeployAssign: "manager_step N d (db_after (deploy_assign L now u areq) (d, fs))"
| DeployUnassign: "manager_step N d (db_after (deploy_unassign L now u areq) (d, fs))"
| CreateRule: "manager_step N d (db_after (create_rule_in_group inet L now ids u g creq) (d, fs))"
| ReorderRules: "manager_step N d (db_after (reorder_group_rules L now u g is) (d, fs))"
| UpdateRule: "manager_step N d (db_after (update_rule inet L now u i rreq) (d, fs))"
| DeleteRule: "manager_step N d (db_after (delete_rule L now u i) (d, fs))"
| CreateRuleGroup: "manager_step N d (db_after (create_rule_group L now i u name desc) (d, fs))"
| UpdateRuleGroup: "manager_step N d (db_after (update_rule_group L now u g name_opt desc) (d, fs))"
| DeleteRuleGroup: "manager_step N d (db_after (delete_rule_group L now u g) (d, fs))"
| CreateSet: "manager_step N d (db_after (create_policy_set L now i u sreq) (d, fs))"
| UpdateSet: "manager_step N d (db_after (update_policy_set L now u i streq) (d, fs))"
| DeleteSet: "manager_step N d (db_after (delete_policy_set L now u i) (d, fs))"
| AddGroup: "manager_step N d (db_after (add_group_to_set L now u p g order) (d, fs))"
| RemoveGroup: "manager_step N d (db_after (remove_group_from_set L now u p g) (d, fs))"
| ReorderGroups: "manager_step N d (db_after (reorder_groups L now u p gs) (d, fs))"
| Login: "manager_step N d (db_after (login C L now r lreq) (d, fs))"
| Refresh: "manager_step N d (db_after (refresh_token C L now r token) (d, fs))"
| Logout: "manager_step N d (db_after (logout C L now salt u token) (d, fs))"
| ChangePassword: "manager_step N d (db_after (change_password C now salt u current new) (d, fs))"
| CreateUser: "manager_step N d (db_after (create_user C L now salt i u ureq) (d, fs))"
| UpdateUser: "manager_step N d (db_after (update_user L now u i upreq) (d, fs))"
| DeleteUser: "manager_step N d (db_after (delete_user L now u i) (d, fs))"
| CreateHostGroup: "manager_step N d (db_after (create_group now i u name desc) (d, fs))"
| DeleteHostGroup: "manager_step N d (db_after (delete_group_handler u i) (d, fs))"
| AddHost: "manager_step N d (db_after (add_host_to_group u g h) (d, fs))"
| RemoveHost: "manager_step N d (db_after (remove_host_from_group u g h) (d, fs))"
| UpdateSettings: "manager_step N d (db_after (update_settings J L now u setreq) (d, fs))"
| PutWhitelist: "manager_step N d (db_after (put_ip_whitelist N J L now u es) (d, fs))"
| PutProxies: "manager_step N d (db_after (put_trusted_proxies N J u es) (d, fs))"
| UpdateOidc: "manager_step N d (db_after (update_oidc_config L now u v) (d, fs))"
| UpdateSmtp: "manager_step N d (db_after (update_smtp_config L now u v) (d, fs))"
| Bootstrap: "manager_step N d (db_after (bootstrap_admin_password C salt password) (d, fs))"
| Start: "manager_step N d (db_after (start_web T CL now sr cfg) (d, fs))"
| RevokeCert: "manager_step N d (db_after (revoke_cert T CL ca cfg L now u i) (d, fs))"
| GetCrl: "manager_step N d (db_after (get_crl T CL ca now) (d, fs))"
| GetCrlPem: "manager_step N d (db_after (get_crl_pem CL ca now) (d, fs))"
| Submit: "manager_step N d (db_after (submit_enrollment sha inet L now i token subreq) (d, fs))"
| Poll: "manager_step N d (db_after (poll_enrollment_status sha L now token) (d, fs))"
| Approve: "manager_step N d (db_after (approve_enrollment M ca sh port now ar u i) (d, fs))"
| Deny: "manager_step N d (db_after (deny_enrollment u i) (d, fs))"
| CreateToken: "manager_step N d (db_after (create_token sha inet L now token u treq) (d, fs))"
| RevokeToken: "manager_step N d (db_after (revoke_token L now u hash) (d, fs))"
| UpdateHost: "manager_step N d (db_after (update_host now u i hreq) (d, fs))"
| DeleteHost: "manager_step N d (db_after (delete_host L now u i) (d, fs))"
| AddProtected: "manager_step N d (db_after (add_protected_cidr inet now u h preq) (d, fs))"
| ForceCheckIn: "manager_step N d (db_after (force_check_in h) (d, fs))"
| DetectStale: "manager_step N d (db_after (detect_stale_agents now) (d, fs))"
| AnchorChain: "manager_step N d (db_after (anchor_chain now) (d, fs))"

inductive manager_run :: "'n ipnet_api \<Rightarrow> db \<Rightarrow> db \<Rightarrow> bool" for N where
  run_refl: "manager_run N d d"
| run_step: "manager_run N d d1 \<Longrightarrow> manager_step N d1 d2 \<Longrightarrow> manager_run N d d2"

lemmas keeps_handlers = keeps_check_in keeps_check_in_result keeps_events keeps_assign keeps_rule_handlers
  keeps_set_handlers keeps_login keeps_session keeps_change_password keeps_user_handlers
  keeps_group_handlers keeps_settings_handlers keeps_bootstrap keeps_start_web keeps_pki_handlers
  keeps_enrollment_handlers keeps_approve_enrollment keeps_host_handlers keeps_update_host keeps_worker

lemma well_formed_after: "keeps m \<Longrightarrow> well_formed d \<Longrightarrow> well_formed (db_after m (d, fs))"
  by (drule steps_db_after [of _ _ d fs]) (simp add: preserves_def)

lemma manager_step_well_formed: "manager_step N d d' \<Longrightarrow> well_formed d \<Longrightarrow> well_formed d'"
  by (erule manager_step.cases) (simp_all add: restart_def well_formed_after keeps_handlers)

text \<open>The keys other properties take for granted.\<close>

lemma well_formed_keys:
  assumes "well_formed d"
  shows "distinct (map pa_id (db_pending d))" "distinct (map ho_id (db_hosts d))"
    "distinct (map co_host_id (db_overrides d))" "distinct (map er_id (db_enroll_requests d))"
    "distinct (map er_machine_id (db_enroll_requests d))"
    "distinct (map er_polling_token (db_enroll_requests d))" "distinct (map ce_id (db_certificates d))"
    "distinct (map us_id (db_users d))" "distinct (map (\<lambda>r. fr_id (rl_rule r)) (db_rules d))"
  using assms by (simp_all add: schema_defs unique_def)

section \<open>Properties\<close>



end
