(* ===== verification/Mgr_Secrets.thy ===== *)
theory Mgr_Secrets
  imports Mgr_Ca
begin

text \<open>The remaining helpers of \<open>fw-core\<close>: the key files and the encryption of \<open>crypto.rs\<close>, with its use
in \<open>fw-web/src/secret_key.rs\<close>, and the request identifiers of \<open>request_id.rs\<close>.  AES-256-GCM
(\<open>aes-gcm\<close>), the header values of \<open>http\<close> and the values drawn at random are parameters; a panic is
\<open>None\<close>.\<close>

section \<open>Key files\<close>

definition SECRET_ENCRYPTION_KEY_PATH :: string where
  "SECRET_ENCRYPTION_KEY_PATH = ''/etc/firewall-manager/keys/secret-encryption.key''"

text \<open>\<open>map_err(|e| AppError::Internal(...))\<close> on an operation of the file system; \<open>io\<close> is the text of its
error.\<close>

definition or_internal :: "string \<Rightarrow> 'a dbm \<Rightarrow> 'a dbm" where
  "or_internal msg m = bind (tried m) (\<lambda>r. case r of Inl _ \<Rightarrow> throw (Internal msg) | Inr x \<Rightarrow> ret x)"

text \<open>\<open>Path::parent\<close> as text: what precedes the last separator.  The paths of the sources do not end
with one.\<close>

definition parent_dir :: "string \<Rightarrow> string option" where
  "parent_dir path =
     (if path = [] then None
      else if CHR ''/'' \<notin> set path then Some []
      else if path = ''/'' then None
      else case rev (tl (dropWhile (\<lambda>c. c \<noteq> CHR ''/'') (rev path))) of
             [] \<Rightarrow> Some ''/''
           | p \<Rightarrow> Some p)"

definition load_or_create_key :: "string \<Rightarrow> string \<Rightarrow> string \<Rightarrow> string dbm" where
  "load_or_create_key io random path =
     bind (path_exists path) (\<lambda>found.
     if found
     then bind (or_internal (''read key '' @ path @ '': '' @ io) (read_to_string path)) (\<lambda>data.
          if length data = 32 then ret data
          else throw (Internal (''key '' @ path @ '' is not 32 bytes'')))
     else bind (case parent_dir path of
                  None \<Rightarrow> ret ()
                | Some parent \<Rightarrow> or_internal (''mkdir '' @ parent @ '': '' @ io) create_dir_all) (\<lambda>_.
          bind (or_internal (''write key '' @ path @ '': '' @ io) (fs_write path random)) (\<lambda>_.
          bind (or_internal (''chmod '' @ path @ '': '' @ io) (exec (\<lambda>d. d))) (\<lambda>_.
          ret random))))"

definition load_or_create_secret_key :: "string \<Rightarrow> string \<Rightarrow> string dbm" where
  "load_or_create_secret_key io random = load_or_create_key io random SECRET_ENCRYPTION_KEY_PATH"

section \<open>Encryption\<close>

record aead =
  gcm_encrypt :: "string \<Rightarrow> string \<Rightarrow> string \<Rightarrow> string + string"
  gcm_decrypt :: "string \<Rightarrow> string \<Rightarrow> string \<Rightarrow> string + string"

definition encrypt :: "aead \<Rightarrow> string \<Rightarrow> string \<Rightarrow> string \<Rightarrow> AppError + string \<times> string" where
  "encrypt A nonce key plaintext =
     (case gcm_encrypt A key nonce plaintext of
        Inl e \<Rightarrow> Inl (Internal (''encrypt: '' @ e))
      | Inr ciphertext \<Rightarrow> Inr (ciphertext, nonce))"

text \<open>\<open>Nonce::from_slice\<close> panics unless it is given twelve bytes.\<close>

definition decrypt :: "aead \<Rightarrow> string \<Rightarrow> string \<Rightarrow> string \<Rightarrow> (AppError + string) option" where
  "decrypt A key ciphertext nonce =
     (if length nonce \<noteq> 12 then None
      else Some (map_sum (\<lambda>e. Internal (''decrypt: '' @ e)) id (gcm_decrypt A key nonce ciphertext)))"

section \<open>Request identifiers\<close>

type_synonym headers = "(string \<times> string) list"

text \<open>What \<open>http\<close> does between text and header values.\<close>

record header_values =
  hv_to_str :: "string \<Rightarrow> string option"
  hv_parse :: "string \<Rightarrow> string option"

text \<open>\<open>HeaderMap::get\<close> gives the first value of a name, \<open>HeaderMap::insert\<close> replaces all of them.\<close>

definition header_insert :: "string \<Rightarrow> string \<Rightarrow> headers \<Rightarrow> headers" where
  "header_insert name v hs = filter (\<lambda>h. fst h \<noteq> name) hs @ [(name, v)]"

text \<open>The handlers behind the middleware are given the identifier beside the request headers; \<open>ulid\<close> is the
identifier \<open>generate_request_id\<close> draws.\<close>

definition request_id_middleware ::
    "header_values \<Rightarrow> string \<Rightarrow> (string \<Rightarrow> headers \<Rightarrow> headers) \<Rightarrow> headers \<Rightarrow> headers option" where
  "request_id_middleware H ulid next_run req =
     (let request_id = (case Option.bind (map_of req ''x-request-id'') (hv_to_str H) of
                          None \<Rightarrow> ulid | Some s \<Rightarrow> s);
          response = next_run request_id req
      in case hv_parse H request_id of
           None \<Rightarrow> None
         | Some v \<Rightarrow> Some (header_insert ''x-request-id'' v response))"

section \<open>Lemmas\<close>

lemma outcome_or_internal [outcome_intros]:
  "outcome m d Q (\<lambda>_. E (Internal msg)) \<Longrightarrow> outcome (or_internal msg m) d Q E"
  unfolding or_internal_def
  by (intro outcome_bind outcome_tried, erule outcome_mono) (auto intro!: outcome_ret outcome_throw)

lemma run_or_internal [run_simps]:
  "or_internal msg m s = (case m s of (Inl _, s') \<Rightarrow> (Inl (Internal msg), s') | (Inr x, s') \<Rightarrow> (Inr x, s'))"
  by (cases s) (auto simp: or_internal_def bind_def tried_def run_simps split: prod.splits sum.splits)

lemma load_or_create_key_disk:
  assumes "length random = 32"
  shows "outcome (load_or_create_key io random path) d
    (\<lambda>key d'. length key = 32 \<and> map_of (db_disk d') path = Some key
       \<and> (\<forall>p. p \<noteq> path \<longrightarrow> map_of (db_disk d') p = map_of (db_disk d) p)) (\<lambda>_ _. True)"
  unfolding load_or_create_key_def path_exists_def read_to_string_def fs_write_def create_dir_all_def
  by (intro outcome_intros outcome_stmt)
    (use assms in \<open>auto simp: update_conv' intro!: outcome_intros outcome_stmt
      split: option.splits if_split_asm\<close>)

text \<open>A key is drawn once: after a start that got one, every later start gets the same key and changes
nothing, when nothing is refused.\<close>

theorem key_survives_restart:
  assumes "result (load_or_create_key io random path) (d, fs) = Inr key" and "length random = 32"
  shows "load_or_create_key io random' path (db_after (load_or_create_key io random path) (d, fs), [])
    = (Inr key, db_after (load_or_create_key io random path) (d, fs), [])"
  using outcome_ok [OF load_or_create_key_disk [OF assms(2)] assms(1)]
  by (simp add: load_or_create_key_def path_exists_def read_to_string_def run_simps)

text \<open>A key file of the wrong length is refused and kept.\<close>

theorem short_key_refused:
  assumes "map_of (db_disk d) path = Some data" and "length data \<noteq> 32"
  shows "load_or_create_key io random path (d, []) = (Inl (Internal (''key '' @ path @ '' is not 32 bytes'')), d, [])"
  using assms by (simp add: load_or_create_key_def path_exists_def read_to_string_def run_simps)

text \<open>What was encrypted decrypts to the plain text, with the nonce that was stored beside it.\<close>

theorem decrypt_encrypt:
  assumes "encrypt A nonce key plaintext = Inr (c, n)" and "length nonce = 12"
    and "\<And>c. gcm_encrypt A key nonce plaintext = Inr c \<Longrightarrow> gcm_decrypt A key nonce c = Inr plaintext"
  shows "decrypt A key c n = Some (Inr plaintext)"
  using assms by (auto simp: encrypt_def decrypt_def split: sum.split_asm)

text \<open>The middleware does not panic, and the response names the identifier the handlers saw: that of the
request if it is readable text, else the drawn one.\<close>

theorem request_id_answered:
  assumes "\<And>v s. hv_to_str H v = Some s \<Longrightarrow> hv_parse H s = Some s" and "hv_parse H ulid = Some ulid"
  shows "\<exists>res i. request_id_middleware H ulid next_run req = Some res
    \<and> map_of res ''x-request-id'' = Some i
    \<and> (\<forall>name. name \<noteq> ''x-request-id'' \<longrightarrow> map_of res name = map_of (next_run i req) name)
    \<and> i = (case Option.bind (map_of req ''x-request-id'') (hv_to_str H) of None \<Rightarrow> ulid | Some s \<Rightarrow> s)"
proof -
  have first: "map_of (header_insert n v hs) n = Some v" for n v hs
    by (induction hs) (auto simp: header_insert_def)
  have other: "map_of (header_insert n v hs) m = map_of hs m" if "m \<noteq> n" for n v hs m
    using that by (induction hs) (auto simp: header_insert_def)
  have "hv_parse H (case Option.bind (map_of req ''x-request-id'') (hv_to_str H) of None \<Rightarrow> ulid | Some s \<Rightarrow> s)
      = Some (case Option.bind (map_of req ''x-request-id'') (hv_to_str H) of None \<Rightarrow> ulid | Some s \<Rightarrow> s)"
    using assms(2) by (auto simp: bind_eq_Some_conv dest: assms(1) split: option.split)
  then show ?thesis by (simp add: request_id_middleware_def Let_def first other)
qed

end
