(* ===== verification/Spec2Isabelle.thy ===== *)
theory Spec2Isabelle
  imports Agent_Enroll Mgr_Integrity Mgr_Secrets
begin

text \<open>A verification development of a firewall manager for Linux hosts.

\<^bold>\<open>The program.\<close>  A manager (\<open>fw-web\<close>, with the libraries \<open>fw-core\<close>, \<open>fw-auth\<close>, \<open>fw-ca\<close> and the background
process \<open>fw-worker\<close>) keeps the firewall policy of a fleet in a database.  On every host an agent
(\<open>fw-agent\<close>) enrolls once, is given a client certificate, and from then on pulls: it checks in at an
interval over mutual TLS, reports the hash of what it has stored, receives the compiled rules, applies
them with UFW or firewalld, executes pending actions and reports results.  The manager never connects to
an agent; an event stream the agent keeps open only asks it to check in early.

\<^bold>\<open>Conventions.\<close>  A \<open>String\<close> is the list of its bytes, a \<open>Result\<close> a sum with the error on the left, an \<open>i32\<close>
an integer whose range is stated where it matters, a \<open>Uuid\<close> a word of 128 bits, a time the number of
nanoseconds since the epoch.  The time of a request, random values and generated identifiers are
arguments.  The agent acts on a machine whose every answer is a function of what was done to it before
(\<open>host_env\<close>), so the theorems hold for every behaviour of the operating system and of the firewall tools.
A handler of the manager is a function on the state \<open>mstate\<close>: the database, and a list that says
which of the coming statements are refused, so that every \<open>?\<close> and every ignored result is a branch.

\<^bold>\<open>Shared theories.\<close>
\<^item> \<open>Rust_Prelude\<close>: the standard library as the sources use it (text, integers, results), shared lemmas.
\<^item> \<open>Net_Addr\<close>: \<open>IpAddr\<close> with its parser and printer; the interface of the crate \<open>ipnet\<close> as the record
  \<open>ipnet_api\<close> with the locale \<open>ipnet_laws\<close>, interpreted by \<open>cidr_api\<close>; the overlap test is exact.
\<^item> \<open>Fw_Models\<close>: \<open>fw-core/src/models.rs\<close> and the messages between agent and manager.
\<^item> \<open>Fw_Policy\<close>: \<open>fw-core/src/policy.rs\<close> and \<open>fw-agent/src/protected_cidrs.rs\<close>; the protected-CIDR check
  decides what it means to, and manager and agent agree on it.

\<^bold>\<open>The agent\<close> (\<open>fw-agent/src\<close>).
\<^item> \<open>Agent_Host\<close>: the machine and the functions of \<open>backend/mod.rs\<close> that start processes.
\<^item> \<open>Agent_Backend\<close>: \<open>backend/mod.rs\<close>.  The trait \<open>FirewallBackend\<close> is the record \<open>backend\<close>, its contract the
  locale \<open>firewall_backend\<close>, interpreted for UFW and firewalld.  The allow rule to the manager
  always comes first; the reset is bounded and removes only files the tool named.
\<^item> \<open>Agent_State\<close>: \<open>config.rs\<close>, \<open>safe_mode.rs\<close>, \<open>replay_cache.rs\<close> and the stored hash of \<open>drift.rs\<close>.
\<^item> \<open>Agent_Pull\<close>: \<open>pull_loop.rs\<close>, the whole cycle, and \<open>agent_run\<close>, any sequence of cycles against any
  manager.  Stored rules always pass the protected-CIDR check, refused rulesets change nothing, actions are
  not executed twice, a cycle with nothing new only reads.
\<^item> \<open>Agent_Enroll\<close>: \<open>enrollment.rs\<close>, the daemon of \<open>main.rs\<close>, the comparison of \<open>drift.rs\<close>, and the event
  stream of \<open>pull_client.rs\<close>.  Enrollment ends, an enrolled daemon starts, and notifications do not depend
  on how the stream is cut.

\<^bold>\<open>The manager.\<close>
\<^item> \<open>Mgr_Db\<close>: the tables of \<open>migrations/\<close>, the memory and the files of the server, and the combinators handlers
  are written with.  \<open>steps R m\<close> says that \<open>m\<close> relates the databases before and after by \<open>R\<close> whatever is
  refused; the locale \<open>db_relation\<close> carries its rules, interpreted as \<open>inv\<close> (an invariant is kept) and as
  \<open>frame\<close> (a part is left alone).  \<open>outcome\<close> is the calculus for results on every branch.
\<^item> \<open>Mgr_Audit\<close> (\<open>fw-core/src/audit.rs\<close>): the hash chain, kept by appending; verification finds changed rows.
\<^item> \<open>Mgr_Policy\<close>: the compiled rules of a policy set, in \<open>policy.rs\<close> and in \<open>agent_api.rs\<close>.
\<^item> \<open>Mgr_Rbac\<close> (\<open>fw-auth/src\<close>): tokens, roles, whitelist and proxies, the authentication layers.
\<^item> \<open>Mgr_Agent_Api\<close> (\<open>routes/agent_api.rs\<close>): check-in, results and policy; the check-in refines its
  specification \<open>check_in_reply\<close> and hands out every action once.
\<^item> \<open>Mgr_Assign\<close> (\<open>routes/hosts.rs\<close>, \<open>deployment.rs\<close>): the gates on assigning a set.
\<^item> \<open>Mgr_Order\<close>: rows that carry their position, the locale \<open>ordered_rows\<close>, interpreted for the rules of a group in
  \<open>Mgr_Rules\<close> (\<open>rules.rs\<close>, \<open>rule_groups.rs\<close>) and for the groups of a set in \<open>Mgr_Sets\<close> (\<open>policy_sets.rs\<close>).
\<^item> \<open>Mgr_Accounts\<close> (\<open>auth.rs\<close>, \<open>users.rs\<close>, \<open>groups.rs\<close>): login and its lockout, tokens, users.
\<^item> \<open>Mgr_Settings\<close> (\<open>settings.rs\<close>, parts of \<open>main.rs\<close> and \<open>lib.rs\<close>): settings and what a restart makes of them.
\<^item> \<open>Mgr_Ca\<close> (\<open>fw-ca/src\<close>): the authority; which sub-CA it accepts, what its revocation lists name.
\<^item> \<open>Mgr_Pki\<close> (\<open>agent_cert.rs\<close>, \<open>agent_listener.rs\<close>, \<open>mtls\<close>, \<open>certificates.rs\<close>, \<open>ca.rs\<close>, \<open>pki.rs\<close>): the agent
  listener; a revocation is in force when its handler returns.
\<^item> \<open>Mgr_Enrollment\<close> (\<open>routes/enrollment.rs\<close>): tokens, requests, approval and the single delivery.
\<^item> \<open>Mgr_Hosts\<close> (\<open>hosts.rs\<close>, \<open>health.rs\<close>, \<open>drift.rs\<close>, the event stream of \<open>agent_api.rs\<close>, \<open>fw-worker\<close>).
\<^item> \<open>Mgr_Secrets\<close> (\<open>crypto.rs\<close>, \<open>request_id.rs\<close>, \<open>secret_key.rs\<close>): key files, encryption, request identifiers.
\<^item> \<open>Mgr_Integrity\<close>: the schema as the predicate \<open>well_formed\<close>, and \<open>manager_step\<close>, the step relation of all
  handlers that change the database; every reachable database is well-formed.

\<^bold>\<open>This theory\<close> joins the two sides: an agent that has applied its policy is in step with the manager, a
host joins from the first poll to the stored certificate, and a forced check-in reaches the agent.

\<^bold>\<open>Termination and bounds.\<close>  No definition has fuel.  The polling loop recurses on the attempts that
are left of the 1440 of the source, the frames of the event stream on the length of the
buffer, everything else on the structure of its data.  The retries of a UFW reset are bounded by the source;
nine resets is the bound proved.  The unending loops (the daemon, the server) are sequences of steps,
\<open>agent_run\<close> and \<open>manager_run\<close>.

\<^bold>\<open>Parameters.\<close>  Code that is not part of the sources is an argument: \<open>ipnet\<close>, \<open>url\<close> and the resolver, SHA-256,
Argon2, token signatures, \<open>rcgen\<close>, \<open>x509-parser\<close>, \<open>rustls\<close>, \<open>reqwest\<close>, \<open>serde_json\<close>, \<open>aes-gcm\<close>, the
collation and the casts of the database.  What a theorem needs of them is a hypothesis of it, and its
witness gives concrete functions that satisfy it.

\<^bold>\<open>Findings.\<close>  Where the code does not do what it means to, a theorem states what it does: a failed UFW reset is
reported as a success, a restart strands a host whose approval was not yet fetched, refreshing a token
never succeeds.  Further ones are plain theorems beside the component.

\<^bold>\<open>Not modelled.\<close>  The route tables, sockets and the TLS set-up of the web server (calls into \<open>axum\<close> and
\<open>rustls\<close> whose meaning is that of the crates); rate limits (a crate); the TLS handshake and the transport of HTTP; the
command line and the printed status report of the agent; the timers and the heartbeat file of the
worker; \<open>config.rs\<close>, \<open>db.rs\<close> and migrations of the manager (generated deserialisation and calls into \<open>sqlx\<close>:
their values are arguments); view types of \<open>models.rs\<close> that only name columns of a query; the handlers
of the second factor, which return a constant; \<open>migrate-secrets\<close>, which prints a message.  Concurrency of
handlers is not modelled: a handler runs as one step of \<open>manager_step\<close>, between refusals at any of
its statements, and no two of them overlap.\<close>

section \<open>An applied policy is in step\<close>

text \<open>The agent hashes the rules it stored, the manager those it has assigned.\<close>

lemma hash_parts_agree: "rule_hash_parts (dto_to_rule now (rule_to_dto (rule_row_of r))) = row_hash_parts (rule_row_of r)"
  by (simp add: rule_hash_parts_def dto_to_rule_def rule_to_dto_def rule_row_of_def row_hash_parts_def)

lemma stored_rules_hash:
  assumes "load_last_good a = Some (map (dto_to_rule now) (map (\<lambda>r. rule_to_dto (rule_row_of r)) (assigned_rules h d)))"
    and "assigned_policy_set h d \<noteq> None"
  shows "reported_rules_hash env a = assigned_hash (he_sha256 env) h d"
  using assms
  by (auto simp: reported_rules_hash_def assigned_hash_def assigned_rules_def rows_hash_def hash_parts_agree comp_def)

lemma apply_stores_rules:
  assumes "apply_rules_from_dto env N B now dtos protected ctx a = (Inr hash, a')"
    and "\<And>tr. he_write env tr last_good_path = Written"
  shows "load_last_good a' = Some (map (dto_to_rule now) dtos)"
  using assms
  by (auto simp: apply_rules_from_dto_def apply_rules_def save_last_good_def write_file_def load_last_good_def Let_def
      split: sum.split_asm if_split_asm prod.split_asm)

lemma db_drift_kept [simp]: "db_drift (mark_healthy t h v d) = db_drift d"
  "db_drift (mark_delivered t ids d) = db_drift d"
  by (simp_all add: mark_healthy_def mark_delivered_def)

lemma check_in_without_drift:
  assumes "ci_rules_hash req = assigned_hash sha h d" and "\<not> ci_local_drift req"
  shows "outcome (check_in sha L t h req) d (\<lambda>_ d'. db_drift d' = db_drift d) (\<lambda>_ d'. db_drift d' = db_drift d)"
  unfolding check_in_def insert_check_in_def
  by (intro outcome_intros outcome_stmt)
    (use assms in \<open>auto simp: assigned_hash_def policy_tables_cong [OF policy_tables_simps(1)]
      split: if_split_asm option.split_asm\<close>)

text \<open>C6. An agent that has applied the policy it was given is in step with the manager.  Take an answered
check-in of a host with an assigned policy set, and an agent that applied the rules of the answer
without an error and could store them.  As long as the assigned rules stay the same, every later
check-in of this agent that is answered is told that nothing has changed; and if the live firewall is
the one it applied, no check-in of it records a drift, whatever the database refuses.\<close>

theorem applied_policy_in_step:
  assumes "result (check_in (he_sha256 env) L t h req) (d, fs) = Inr r" and "assigned_policy_set h d \<noteq> None"
    and "apply_rules_from_dto env N B now (cr_rules r) protected ctx a0 = (Inr hash, a1)"
    and "\<And>tr. he_write env tr last_good_path = Written" and "load_last_good a = load_last_good a1"
    and "assigned_policy_set h d' \<noteq> None" and "assigned_rules h d' = assigned_rules h d"
  shows "let req' = check_in_request env B live os a
    in (case result (check_in (he_sha256 env) L' t' h req') (d', fs') of
          Inl _ \<Rightarrow> True
        | Inr r' \<Rightarrow> \<not> cr_rules_changed r' \<and> cr_rules r' = cr_rules r)
     \<and> (local_drift live a
        \<or> db_drift (db_after (check_in (he_sha256 env) L' t' h req') (d', fs')) = db_drift d')"
proof -
  let ?req = "check_in_request env B live os a"
  have r: "cr_rules r = map (\<lambda>r. rule_to_dto (rule_row_of r)) (assigned_rules h d)"
    using outcome_ok [OF check_in_outcome assms(1)] by (simp add: check_in_reply_def)
  have "load_last_good a = Some (map (dto_to_rule now) (map (\<lambda>r. rule_to_dto (rule_row_of r)) (assigned_rules h d')))"
    using apply_stores_rules [OF assms(3,4)] by (simp add: assms(5,7) r)
  from stored_rules_hash [OF this assms(6)]
  have hash: "ci_rules_hash ?req = assigned_hash (he_sha256 env) h d'"
    by (simp add: check_in_request_def)
  have "case result (check_in (he_sha256 env) L' t' h ?req) (d', fs') of
          Inl _ \<Rightarrow> True
        | Inr r' \<Rightarrow> \<not> cr_rules_changed r' \<and> cr_rules r' = cr_rules r"
    using outcomeD [OF check_in_outcome, of "he_sha256 env" L' t' h ?req d' fs'] hash
    by (auto simp: check_in_reply_def r assms(7) split: sum.split)
  moreover have "db_drift (db_after (check_in (he_sha256 env) L' t' h ?req) (d', fs')) = db_drift d'"
    if "\<not> local_drift live a"
    by (rule outcome_any, rule check_in_without_drift) (use hash that in \<open>simp_all add: check_in_request_def\<close>)
  ultimately show ?thesis by (auto simp: Let_def)
qed

definition in_step_db :: db where
  "in_step_db = (policy_db [plain_rule 7 Allow]) \<lparr> db_assignments :=
     [\<lparr> ha_host_id = 1, ha_policy_set_id = 20, ha_assigned_by = None, ha_assigned_at = 0 \<rparr>] \<rparr>"

definition in_step_apply :: "(string + string) \<times> agent" where
  "in_step_apply =
     apply_rules_from_dto calm_env cidr_api (ufw_backend calm_env) 0
       (map (\<lambda>r. rule_to_dto (rule_row_of r)) (assigned_rules 1 in_step_db)) [] sample_ctx fresh_agent"

theorem applied_policy_in_step_witness:
  "map_sum (\<lambda>_. ()) cr_rules_changed (result (check_in (he_sha256 calm_env) plain_lib 200 1
       (check_in_request calm_env (ufw_backend calm_env) [] [] (snd in_step_apply))) (in_step_db, []))
     = Inr False
   \<and> db_drift (db_after (check_in (he_sha256 calm_env) plain_lib 200 1
       (check_in_request calm_env (ufw_backend calm_env) [] [] (snd in_step_apply))) (in_step_db, [])) = []"
proof -
  let ?req = "check_in_request calm_env (ufw_backend calm_env) [] [] (snd in_step_apply)"
  have host: "host_exists 1 in_step_db" by code_simp
  have ran: "result (check_in (he_sha256 calm_env) plain_lib t 1 req) (in_step_db, [])
      = Inr (check_in_reply (he_sha256 calm_env) t 1 req in_step_db)" for t req
    using check_in_run [OF host] by (simp add: result_def)
  have set: "assigned_policy_set 1 in_step_db \<noteq> None" by code_simp
  obtain hash where "fst in_step_apply = Inr hash"
  proof -
    have "is_ok (fst in_step_apply)" by code_simp
    then show ?thesis using that by (auto simp: is_ok_def split: sum.split_asm)
  qed
  then have applied: "apply_rules_from_dto calm_env cidr_api (ufw_backend calm_env) 0
      (cr_rules (check_in_reply (he_sha256 calm_env) 100 1 (sample_check_in ''x'') in_step_db)) [] sample_ctx
      fresh_agent = (Inr hash, snd in_step_apply)"
    by (simp add: in_step_apply_def check_in_reply_def prod_eq_iff)
  have written: "\<And>tr. he_write calm_env tr last_good_path = Written" by (simp add: calm_env_def)
  have "\<not> local_drift [] (snd in_step_apply)" by code_simp
  moreover have "db_drift in_step_db = []" by code_simp
  ultimately show ?thesis
    using applied_policy_in_step [OF ran set applied written refl set refl,
        where live = "[]" and os = "[]" and L' = plain_lib and t' = 200 and fs' = "[]"] ran [of 200 ?req]
    by (simp add: Let_def)
qed

section \<open>A host joins\<close>

text \<open>What the agent reads of the manager's answer to a poll: the fields of the bundle have the same
names on both sides, an error carries its status.\<close>

definition bundle_read :: "PkiBundle \<Rightarrow> BundlePki" where
  "bundle_read b =
     \<lparr> bk_ca_chain = pk_ca_chain b, bk_server_cert = pk_server_cert b, bk_crl_pem = pk_crl_pem b,
       bk_pull_config = map_option (\<lambda>p.
         \<lparr> bp_check_in_interval_secs = pb_check_in_interval_secs p, bp_push_enabled = pb_push_enabled p,
           bp_config_version = pb_config_version p, bp_manager_agent_url = pb_manager_agent_url p \<rparr>)
         (pk_pull_config b) \<rparr>"

definition poll_reply :: "AppError + EnrollmentStatusResponse \<Rightarrow> StatusReply http_reply" where
  "poll_reply r =
     (case r of
        Inr s \<Rightarrow> HttpReply 200 None (Some \<lparr> sy_status = sr_status s,
           sy_pki_bundle = map_option bundle_read (sr_pki_bundle s), sy_host_id = sr_host_id s \<rparr>)
      | Inl e \<Rightarrow> HttpReply (fst (AppError_status e)) None None)"

lemma poll_step_pending:
  assumes "x \<in> set (db_enroll_requests d)" and "er_polling_token x = sha p" and "t < er_expires_at x"
    and "map_of (mm_approved (db_memory d)) (sha p) = None"
  shows "poll_step (poll_reply (result (poll_enrollment_status sha L t p) (d, []))) = KeepPolling"
proof -
  have "pending_request t (sha p) d \<noteq> None"
    using assms(1-3) by (auto simp: pending_request_def find_None_iff)
  with assms(4) show ?thesis
    by (auto simp: poll_enrollment_status_def Let_def run_simps result_def recall_def poll_reply_def
        poll_step_def is_success_def split: option.split)
qed

text \<open>A machine that stores what it is given.\<close>

definition stores :: "enroll_env \<Rightarrow> bool" where
  "stores E \<longleftrightarrow> (\<forall>tr path. he_write (en_host E) tr path = Written \<and> en_mkdir E tr path \<and> en_chmod E tr path)"

lemma complete_stores:
  assumes "stores E" and "pull_settings E (bk_pull_config b)
      (cfg_pull (unwrap_or default_agent_config (af_config (es_files st)))) = Inr pl"
  shows "\<exists>st'. complete E manager_url fqdn key b host_id st = (Inr (), st')"
  using assms
  by (simp add: stores_def complete_def write_pki_bundle_def save_config_def sbind_def make_dir_def put_file_def
      set_mode_def put_config_def stry_def sret_def Let_def split: option.split)

lemma find_first: "1 \<le> k \<Longrightarrow> k \<le> n \<Longrightarrow> P k \<Longrightarrow> (\<And>j. 1 \<le> j \<Longrightarrow> j < k \<Longrightarrow> \<not> P j) \<Longrightarrow> find P [1..<Suc n] = Some k"
  by (auto simp: find_Some_iff simp del: upt_Suc intro!: exI [of _ "k - 1"])

text \<open>C7. Enrollment works end to end.  Let the agent poll the manager, whose database at each poll is
given: the request is pending until, before one of the polls, an administrator approves it.  Then
the agent stops polling at that poll, and on a machine that stores what it is given it ends with
the certificate the authority signed for this host, its own key, the authority's chain, the identifier
under which the manager registered the host, and the check-in interval of the fleet.\<close>

theorem enrollment_end_to_end:
  assumes "is_admin (auth_role u)" and "q \<in> set (db_enroll_requests d)" and "distinct (map er_id (db_enroll_requests d))"
    and "approvable M ca now r q cert d" and "er_polling_token q = sha p"
    and "\<forall>j. 1 \<le> j \<and> j < k \<longrightarrow> map_of (mm_approved (db_memory (ds j))) (sha p) = None
           \<and> (\<exists>x \<in> set (db_enroll_requests (ds j)). er_polling_token x = sha p \<and> time j < er_expires_at x)"
    and "ds k = db_after (approve_enrollment M ca sh port now r u (er_id q)) (d, [])" and "1 \<le> k" and "k \<le> 1440"
    and "\<forall>j. en_poll E j url = poll_reply (result (poll_enrollment_status sha (ml_audit M) (time j) p) (ds j, []))"
    and "stores E"
    and "normalize_manager_url_to_ip (en_url_parse E) (en_resolve E) (agent_url sh port) = Inr agent_api"
  shows "\<exists>st' cfg. poll_loop E manager_url fqdn key url 1 st = (Inr (), st') \<and> es_polls st' = es_polls st + k
    \<and> host_exists (ad_host_id r) (ds k)
    \<and> es_disk st' (cert_dir @ ''/server.pem'') = Some (sc_cert_pem cert)
    \<and> es_disk st' (cert_dir @ ''/server.key.pem'') = Some key
    \<and> es_disk st' (cert_dir @ ''/ca.pem'') = Some (join [CHR 0x0A] (sc_ca_chain cert))
    \<and> af_config (es_files st') = Some cfg \<and> cfg_host_id cfg = Some (al_uuid_str (ml_audit M) (ad_host_id r))
    \<and> pull_manager_agent_url (cfg_pull cfg) = agent_api
    \<and> pull_check_in_interval_secs (cfg_pull cfg) = fleet_interval (ml_json M) d"
proof -
  let ?b = "approved_bundle cert (fleet_interval (ml_json M) d) (agent_url sh port)"
  let ?id = "al_uuid_str (ml_audit M) (ad_host_id r)"
  from succeedsD [OF approve_succeeds [OF assms(1-4), of sh port]]
  have host: "host_exists (ad_host_id r) (ds k)"
    and "mm_approved (db_memory (ds k)) = AList.update (sha p) \<lparr> ap_pki_bundle = ?b,
           ap_host_id = ad_host_id r, ap_created_at = now \<rparr> (mm_approved (db_memory d))"
    by (auto simp: assms(5,7))
  then have "map_of (mm_approved (db_memory (ds k))) (sha p)
      = Some \<lparr> ap_pki_bundle = ?b, ap_host_id = ad_host_id r, ap_created_at = now \<rparr>"
    by (simp add: update_conv)
  from poll_approved [where sha = sha, OF this]
  have verdict: "poll_step (en_poll E k url) = Approved (bundle_read ?b) (Some ?id)"
    by (simp add: assms(10) result_def poll_reply_def poll_step_def is_success_def)
  have "\<not> settled E url j" if "1 \<le> j" "j < k" for j
    using poll_step_pending [where sha = sha] assms(6) that by (fastforce simp: settled_def assms(10))
  then have "find (settled E url) [1..<Suc 1440] = Some k"
    using assms(8,9) verdict by (intro find_first) (auto simp: settled_def)
  then have loop: "poll_loop E manager_url fqdn key url 1 st
      = complete E manager_url fqdn key (bundle_read ?b) (Some ?id) (polled k st)"
    by (simp add: poll_loop_find verdict poll_outcome_def del: upt_Suc)
  have pull: "pull_settings E (bk_pull_config (bundle_read ?b)) base
      = Inr \<lparr> pull_check_in_interval_secs = fleet_interval (ml_json M) d, pull_manager_agent_url = agent_api,
              pull_config_version = 1 \<rparr>" for base
    using assms(12) by (simp add: pull_settings_def bundle_read_def approved_bundle_def)
  obtain st' where run: "complete E manager_url fqdn key (bundle_read ?b) (Some ?id) (polled k st) = (Inr (), st')"
    using complete_stores [OF assms(11) pull] by blast
  then obtain st1 where w: "write_pki_bundle E (bundle_read ?b) key (polled k st) = (Inr (), st1)"
      and c: "save_config E manager_url fqdn (bk_pull_config (bundle_read ?b)) (Some ?id) st1 = (Inr (), st')"
    by (auto simp: complete_def sbind_Inr)
  have stored: "es_disk st' = es_disk st1" "es_polls st' = es_polls st1"
    "\<exists>cfg. af_config (es_files st') = Some cfg \<and> cfg_host_id cfg = Some ?id
       \<and> pull_manager_agent_url (cfg_pull cfg) = agent_api
       \<and> pull_check_in_interval_secs (cfg_pull cfg) = fleet_interval (ml_json M) d"
    using save_config_Inr [OF c] by (auto simp: pull saved_config_def)
  from loop run host write_pki_bundle_Inr [OF w] stored show ?thesis
    by (auto simp: bundle_read_def approved_bundle_def polled_def)
qed

definition joining_agent :: enroll_env where
  "joining_agent = sample_enroll \<lparr> en_poll := \<lambda>j _. poll_reply (result (poll_enrollment_status (\<lambda>s. s) plain_lib
     (60 * int j) ''poll'') (if j = 1 then request_db
       else db_after (approve_enrollment sample_mgr_lib root_ca ''mgr'' 8443 100 host_draws (admin_at None) 3)
              (request_db, []), [])) \<rparr>"

theorem enrollment_end_to_end_witness:
  "\<exists>st' cfg. poll_loop joining_agent ''https://mgr'' ''h.example'' ''key'' ''status'' 1 blank_machine = (Inr (), st')
     \<and> es_polls st' = 2 \<and> es_disk st' (cert_dir @ ''/server.pem'') = Some ''9''
     \<and> af_config (es_files st') = Some cfg \<and> cfg_host_id cfg = Some ''9''
     \<and> pull_check_in_interval_secs (cfg_pull cfg) = 900"
proof -
  let ?d1 = "db_after (approve_enrollment sample_mgr_lib root_ca ''mgr'' 8443 100 host_draws (admin_at None) 3)
    (request_db, [])"
  let ?ds = "\<lambda>j::nat. if j = 1 then request_db else ?d1"
  have lib: "ml_audit sample_mgr_lib = plain_lib" by (simp add: sample_mgr_lib_def)
  have fields: "er_id waiting_request = 3" "ad_host_id host_draws = 9" "al_uuid_str plain_lib 9 = ''9''"
    "sc_cert_pem sample_cert = ''9''" "fleet_interval (ml_json sample_mgr_lib) request_db = 900"
    "es_polls blank_machine = 0"
    by code_simp+
  have pending: "\<forall>j. 1 \<le> j \<and> j < 2 \<longrightarrow> map_of (mm_approved (db_memory (?ds j))) ((\<lambda>s. s) ''poll'') = None
      \<and> (\<exists>x \<in> set (db_enroll_requests (?ds j)). er_polling_token x = (\<lambda>s. s) ''poll'' \<and> 60 * int j < er_expires_at x)"
    by (auto simp: less_2_cases_iff request_db_def waiting_request_def new_request_def empty_db_def empty_memory_def
        secs_def)
  have polls: "\<forall>j. en_poll joining_agent j ''status''
      = poll_reply (result (poll_enrollment_status (\<lambda>s. s) (ml_audit sample_mgr_lib) (60 * int j) ''poll'') (?ds j, []))"
    by (simp add: joining_agent_def lib)
  have stores: "stores joining_agent"
    by (simp add: stores_def joining_agent_def sample_enroll_def calm_env_def)
  have url: "normalize_manager_url_to_ip (en_url_parse joining_agent) (en_resolve joining_agent)
      (agent_url ''mgr'' 8443) = Inr ''https://10.0.0.5:8443''"
    by code_simp
  have approved: "?ds 2 = db_after (approve_enrollment sample_mgr_lib root_ca ''mgr'' 8443 100 host_draws
      (admin_at None) (er_id waiting_request)) (request_db, [])"
    by (simp add: fields)
  have k: "1 \<le> (2 :: nat)" "2 \<le> (1440 :: nat)" by simp_all
  from enrollment_end_to_end [where ds = ?ds and k = 2 and time = "\<lambda>j. 60 * int j" and sha = "\<lambda>s. s" and p = "''poll''",
      OF request_db_facts(1-3,5,6) pending approved k polls stores url, where manager_url = "''https://mgr''"
      and fqdn = "''h.example''" and key = "''key''" and st = blank_machine]
  show ?thesis by (auto simp: fields lib)
qed

section \<open>A forced check-in\<close>

text \<open>An event as it is sent: its name and its data, each on a line of its own.\<close>

lemma event_frame:
  assumes "n = ''check-in'' \<and> x = ''now'' \<or> n = ''timeout'' \<and> x = ''hold-expired''"
  shows "plain_frame (''event: '' @ n @ [CHR 0x0A] @ ''data: '' @ x)"
    "parse_sse_event (''event: '' @ n @ [CHR 0x0A] @ ''data: '' @ x) = Some n"
  using assms by (auto, code_simp+)

lemma events_loop_names:
  "set (events_loop ws) \<subseteq> {(''check-in'', ''now''), (''timeout'', ''hold-expired'')}"
  by (induction ws rule: events_loop.induct) auto

lemma force_check_in_permit:
  "result (force_check_in h) (d, fs) = Inr () \<Longrightarrow>
     h \<in> set (mm_notify (db_memory (db_after (force_check_in h) (d, fs))))"
  by (rule outcome_ok [of _ d "\<lambda>_ d'. h \<in> set (mm_notify (db_memory d'))" "\<lambda>_ _. True"], unfold force_check_in_def)
    (intro outcome_intros; simp add: store_permit_def)+

lemma events_with_permit:
  assumes "h \<in> set (mm_notify (db_memory d))"
  shows "\<exists>hold. result (events h wakes) (d, fs) = Inr (hold, (''check-in'', ''now'') # events_loop wakes)"
proof -
  have "outcome (events h wakes) d (\<lambda>r _. snd r = (''check-in'', ''now'') # events_loop wakes) (\<lambda>_ _. False)"
    unfolding events_def Let_def by (intro outcome_intros) (use assms in auto)
  from outcomeD [OF this, of fs] show ?thesis by (auto split: sum.splits)
qed



end
